(* ===== verification/Prelude.thy ===== *)
theory Prelude
  imports Main
begin

text \<open>
  The vocabulary shared by every component of the CredBridge model.

  An \<open>async\<close> method of the API is a program: a function of an environment (the code that is
  not part of the repository: network services, the clock, configuration) and a state (the
  database, the trace of external calls) to a result and the new state. A \<open>throw\<close> is the
  left summand of the result; the state reached so far is kept, as it is in the program, where
  nothing undoes an \<open>await\<close> that has already completed.

  The second half is a small calculus for statements of the form "whatever this method does, and
  however it ends, the state before and the state after are related by \<open>R\<close>", for a reflexive
  and transitive \<open>R\<close>: the locale \<open>kept_relation\<close>. Every component interprets it.
\<close>

named_theorems keeps \<open>rules that decompose a statement about a whole method into its steps\<close>
named_theorems keeps_db \<open>the generic rules for writes to a table\<close>
named_theorems run_simps \<open>equations that run a program on a given environment and state\<close>

section \<open>Programs with state and exceptions\<close>

type_synonym ('r, 's, 'x, 'a) prog = "'r \<Rightarrow> 's \<Rightarrow> ('x + 'a) \<times> 's"

definition retM :: "'a \<Rightarrow> ('r, 's, 'x, 'a) prog" where
  "retM a = (\<lambda>E w. (Inr a, w))"

definition throwM :: "'x \<Rightarrow> ('r, 's, 'x, 'a) prog" where
  "throwM e = (\<lambda>E w. (Inl e, w))"

definition bindM :: "('r, 's, 'x, 'a) prog \<Rightarrow> ('a \<Rightarrow> ('r, 's, 'x, 'b) prog) \<Rightarrow> ('r, 's, 'x, 'b) prog"
  where
  "bindM m f = (\<lambda>E w. case m E w of (Inl e, w') \<Rightarrow> (Inl e, w') | (Inr a, w') \<Rightarrow> f a E w')"

text \<open>\<open>try { m } catch (e) { h e }\<close>\<close>

definition catchM :: "('r, 's, 'x, 'a) prog \<Rightarrow> ('x \<Rightarrow> ('r, 's, 'x, 'a) prog) \<Rightarrow> ('r, 's, 'x, 'a) prog"
  where
  "catchM m h = (\<lambda>E w. case m E w of (Inl e, w') \<Rightarrow> h e E w' | (Inr a, w') \<Rightarrow> (Inr a, w'))"

text \<open>\<open>if (c) throw e;\<close>\<close>

definition throwIf :: "bool \<Rightarrow> 'x \<Rightarrow> ('r, 's, 'x, unit) prog" where
  "throwIf c e = (if c then throwM e else retM ())"

text \<open>\<open>if (!v) throw e;\<close> on a value that may be absent; the value is used afterwards\<close>

definition someOr :: "'a option \<Rightarrow> 'x \<Rightarrow> ('r, 's, 'x, 'a) prog" where
  "someOr v e = (case v of None \<Rightarrow> throwM e | Some a \<Rightarrow> retM a)"

definition getsM :: "('s \<Rightarrow> 'a) \<Rightarrow> ('r, 's, 'x, 'a) prog" where
  "getsM f = (\<lambda>E w. (Inr (f w), w))"

definition asksM :: "('r \<Rightarrow> 'a) \<Rightarrow> ('r, 's, 'x, 'a) prog" where
  "asksM f = (\<lambda>E w. (Inr (f E), w))"

definition modifyM :: "('s \<Rightarrow> 's) \<Rightarrow> ('r, 's, 'x, unit) prog" where
  "modifyM f = (\<lambda>E w. (Inr (), f w))"

lemmas prog_defs [run_simps] =
  retM_def throwM_def bindM_def catchM_def throwIf_def someOr_def getsM_def asksM_def modifyM_def

lemma bindM_ret [simp]: "bindM (retM a) f = f a"
  by (simp add: bindM_def retM_def)

lemma bindM_throw [simp]: "bindM (throwM e) f = throwM e"
  by (simp add: bindM_def throwM_def)

lemma bindM_ret_right [simp]: "bindM m retM = m"
  by (auto simp: bindM_def retM_def fun_eq_iff split: prod.splits sum.splits)

lemma bindM_assoc: "bindM (bindM m f) g = bindM m (\<lambda>a. bindM (f a) g)"
  by (auto simp: bindM_def fun_eq_iff split: prod.splits sum.splits)

lemma bindM_gets [simp]: "bindM (getsM f) g E w = g (f w) E w"
  by (simp add: bindM_def getsM_def)

lemma bindM_asks [simp]: "bindM (asksM f) g E w = g (f E) E w"
  by (simp add: bindM_def asksM_def)

lemma bindM_throwIf [simp]: "bindM (throwIf c e) f E w = (if c then (Inl e, w) else f () E w)"
  by (simp add: bindM_def throwIf_def throwM_def retM_def)

lemma bindM_someOr [simp]:
  "bindM (someOr v e) f E w = (case v of None \<Rightarrow> (Inl e, w) | Some a \<Rightarrow> f a E w)"
  by (simp add: bindM_def someOr_def throwM_def retM_def split: option.split)

lemma bindM_modify [simp]: "bindM (modifyM g) f E w = f () E (g w)"
  by (simp add: bindM_def modifyM_def)

lemma retM_run [simp]: "retM a E w = (Inr a, w)"
  by (simp add: retM_def)

lemma throwM_run [simp]: "throwM e E w = (Inl e, w)"
  by (simp add: throwM_def)

lemma bindM_run_Inr: "m E w = (Inr a, v) \<Longrightarrow> bindM m f E w = f a E v"
  by (simp add: bindM_def)

lemma bindM_run_Inl: "m E w = (Inl e, v) \<Longrightarrow> bindM m f E w = (Inl e, v)"
  by (simp add: bindM_def)

lemma bindM_InrE:
  assumes "bindM m f E w = (Inr b, w')"
  obtains a v where "m E w = (Inr a, v)" and "f a E v = (Inr b, w')"
  using assms by (auto simp: bindM_def split: prod.splits sum.splits)

lemma throwIf_InrD: "throwIf c e E w = (Inr u, w') \<Longrightarrow> \<not> c \<and> w' = w"
  by (auto simp: throwIf_def throwM_def retM_def split: if_splits)

lemma someOr_InrD: "someOr v e E w = (Inr a, w') \<Longrightarrow> v = Some a \<and> w' = w"
  by (auto simp: someOr_def throwM_def retM_def split: option.splits)

section \<open>Relations every run respects\<close>

text \<open>\<open>keepsR R m\<close>: however \<open>m\<close> ends, the states before and after are related by \<open>R\<close>.\<close>

definition keepsR :: "('s \<Rightarrow> 's \<Rightarrow> bool) \<Rightarrow> ('r, 's, 'x, 'a) prog \<Rightarrow> bool" where
  "keepsR R m \<longleftrightarrow> (\<forall>E w. R w (snd (m E w)))"

text \<open>\<open>same g\<close>: the component \<open>g\<close> of the state is not written.\<close>

definition same :: "('s \<Rightarrow> 'b) \<Rightarrow> 's \<Rightarrow> 's \<Rightarrow> bool" where
  "same g w w' \<longleftrightarrow> g w' = g w"

lemma keepsRI: "(\<And>E w. R w (snd (m E w))) \<Longrightarrow> keepsR R m"
  by (simp add: keepsR_def)

lemma keepsRD: "keepsR R m \<Longrightarrow> m E w = (r, w') \<Longrightarrow> R w w'"
  unfolding keepsR_def by (metis snd_conv)

lemma keepsR_run: "keepsR R m \<Longrightarrow> R w (snd (m E w))"
  by (simp add: keepsR_def)

lemma sameD: "keepsR (same g) m \<Longrightarrow> g (snd (m E w)) = g w"
  by (simp add: keepsR_def same_def)

lemma sameD': "keepsR (same g) m \<Longrightarrow> m E w = (r, w') \<Longrightarrow> g w' = g w"
  by (metis sameD snd_conv)

lemma keepsR_mono: "keepsR R m \<Longrightarrow> (\<And>w w'. R w w' \<Longrightarrow> S w w') \<Longrightarrow> keepsR S m"
  by (simp add: keepsR_def)

locale kept_relation =
  fixes R :: "'s \<Rightarrow> 's \<Rightarrow> bool"
  assumes kept_refl: "R w w"
    and kept_trans: "R u v \<Longrightarrow> R v w \<Longrightarrow> R u w"
begin

lemma keepsR_ret [keeps]: "keepsR R (retM a)"
  by (simp add: keepsR_def retM_def kept_refl)

lemma keepsR_throw [keeps]: "keepsR R (throwM e)"
  by (simp add: keepsR_def throwM_def kept_refl)

lemma keepsR_bind [keeps]:
  assumes "keepsR R m" and "\<And>a. keepsR R (f a)"
  shows "keepsR R (bindM m f)"
proof (rule keepsRI)
  fix E w
  show "R w (snd (bindM m f E w))"
  proof (cases "m E w")
    case (Pair r v)
    with assms(1) have "R w v" by (metis keepsRD)
    moreover have "R v (snd (f a E v))" for a
      using assms(2) by (rule keepsR_run)
    ultimately show ?thesis
      using Pair by (auto simp: bindM_def split: sum.splits intro: kept_trans)
  qed
qed

text \<open>The same with a fact \<open>Q\<close> about every value the first program returns.\<close>

lemma keepsR_bind_post:
  assumes "keepsR R m" and "\<And>E w a w'. m E w = (Inr a, w') \<Longrightarrow> Q a"
    and "\<And>a. Q a \<Longrightarrow> keepsR R (f a)"
  shows "keepsR R (bindM m f)"
proof (rule keepsRI)
  fix E w
  show "R w (snd (bindM m f E w))"
  proof (cases "m E w")
    case (Pair r v)
    with assms(1) have "R w v" by (metis keepsRD)
    moreover have "R v (snd (f a E v))" if "r = Inr a" for a
      using that Pair assms(2,3) keepsR_run by metis
    ultimately show ?thesis
      using Pair by (auto simp: bindM_def split: sum.splits intro: kept_trans)
  qed
qed

lemma keepsR_catch [keeps]:
  assumes "keepsR R m" and "\<And>e. keepsR R (h e)"
  shows "keepsR R (catchM m h)"
proof (rule keepsRI)
  fix E w
  show "R w (snd (catchM m h E w))"
  proof (cases "m E w")
    case (Pair r v)
    with assms(1) have "R w v" by (metis keepsRD)
    moreover have "R v (snd (h e E v))" for e
      using assms(2) by (rule keepsR_run)
    ultimately show ?thesis
      using Pair by (auto simp: catchM_def split: sum.splits intro: kept_trans)
  qed
qed

lemma keepsR_throwIf [keeps]: "keepsR R (throwIf c e)"
  by (simp add: throwIf_def keepsR_ret keepsR_throw)

lemma keepsR_someOr [keeps]: "keepsR R (someOr v e)"
  by (simp add: someOr_def keepsR_ret keepsR_throw split: option.split)

lemma keepsR_gets [keeps]: "keepsR R (getsM f)"
  by (simp add: keepsR_def getsM_def kept_refl)

lemma keepsR_asks [keeps]: "keepsR R (asksM f)"
  by (simp add: keepsR_def asksM_def kept_refl)

lemma keepsR_modify: "(\<And>w. R w (f w)) \<Longrightarrow> keepsR R (modifyM f)"
  by (simp add: keepsR_def modifyM_def)

lemma keepsR_if [keeps]: "keepsR R m \<Longrightarrow> keepsR R n \<Longrightarrow> keepsR R (if c then m else n)"
  by simp

lemma keepsR_option [keeps]:
  "keepsR R m \<Longrightarrow> (\<And>a. keepsR R (f a)) \<Longrightarrow> keepsR R (case v of None \<Rightarrow> m | Some a \<Rightarrow> f a)"
  by (simp split: option.split)

lemma keepsR_sum [keeps]:
  "(\<And>a. keepsR R (f a)) \<Longrightarrow> (\<And>b. keepsR R (g b)) \<Longrightarrow>
   keepsR R (case v of Inl a \<Rightarrow> f a | Inr b \<Rightarrow> g b)"
  by (simp split: sum.split)

lemma keepsR_prod [keeps]:
  "(\<And>a b. keepsR R (f a b)) \<Longrightarrow> keepsR R (case v of (a, b) \<Rightarrow> f a b)"
  by (simp split: prod.split)

lemma keepsR_let [keeps]: "(\<And>a. keepsR R (f a)) \<Longrightarrow> keepsR R (let a = v in f a)"
  by simp

end

interpretation same: kept_relation "same g" for g
  by unfold_locales (auto simp: same_def)

section \<open>Nullish and truthy values\<close>

text \<open>
  JavaScript's \<open>a ?? b\<close> falls back only when \<open>a\<close> is null or undefined; \<open>a || b\<close> and
  \<open>!a\<close> also treat the empty string as absent. Null and undefined are one value, \<open>None\<close>.
\<close>

definition nullish :: "'a option \<Rightarrow> 'a option \<Rightarrow> 'a option" where
  "nullish a b = (case a of None \<Rightarrow> b | Some x \<Rightarrow> Some x)"

definition falsy :: "string option \<Rightarrow> bool" where
  "falsy a \<longleftrightarrow> (case a of None \<Rightarrow> True | Some s \<Rightarrow> s = '''')"

definition orElse :: "string option \<Rightarrow> string option \<Rightarrow> string option" where
  "orElse a b = (if falsy a then b else a)"

lemma falsy_simps [simp]: "falsy None" "falsy (Some s) \<longleftrightarrow> s = ''''"
  by (simp_all add: falsy_def)

lemma nullish_simps [simp]: "nullish None b = b" "nullish (Some x) b = Some x"
  by (simp_all add: nullish_def)

lemma not_falsyE: "\<not> falsy a \<Longrightarrow> (\<And>s. a = Some s \<Longrightarrow> s \<noteq> '''' \<Longrightarrow> P) \<Longrightarrow> P"
  by (cases a) auto

section \<open>Tables\<close>

text \<open>
  A table is the list of its rows in insertion order. \<open>find_row\<close> reads the row with a given
  key, \<open>upd_row\<close> rewrites it in place.
\<close>

definition find_row :: "('row \<Rightarrow> 'k) \<Rightarrow> 'k \<Rightarrow> 'row list \<Rightarrow> 'row option" where
  "find_row key k t = find (\<lambda>r. key r = k) t"

definition upd_row :: "('row \<Rightarrow> 'k) \<Rightarrow> 'k \<Rightarrow> ('row \<Rightarrow> 'row) \<Rightarrow> 'row list \<Rightarrow> 'row list" where
  "upd_row key k f t = map (\<lambda>r. if key r = k then f r else r) t"

lemma find_row_Nil [simp]: "find_row key k [] = None"
  by (simp add: find_row_def)

lemma find_row_Cons: "find_row key k (r # t) = (if key r = k then Some r else find_row key k t)"
  by (simp add: find_row_def)

lemma find_row_SomeD: "find_row key k t = Some r \<Longrightarrow> r \<in> set t \<and> key r = k"
  by (auto simp: find_row_def find_Some_iff)

lemma find_row_None_iff: "find_row key k t = None \<longleftrightarrow> k \<notin> key ` set t"
  by (auto simp: find_row_def find_None_iff)

lemma find_row_append:
  "find_row key k (t @ u) = (case find_row key k t of None \<Rightarrow> find_row key k u | Some r \<Rightarrow> Some r)"
  by (induction t) (simp_all add: find_row_Cons)

lemma find_row_distinct:
  "distinct (map key t) \<Longrightarrow> r \<in> set t \<Longrightarrow> find_row key (key r) t = Some r"
  by (induction t) (auto simp: find_row_Cons image_iff)

lemma map_key_upd_row:
  assumes "\<And>r. g (f r) = g r"
  shows "map g (upd_row key k f t) = map g t"
  using assms by (simp add: upd_row_def)

lemma find_row_upd_row:
  assumes "\<And>r. key (f r) = key r"
  shows "find_row key k (upd_row key j f t) =
    (if j = k then map_option f (find_row key k t) else find_row key k t)"
  using assms by (induction t) (auto simp: find_row_Cons upd_row_def)

lemma set_upd_row: "set (upd_row key k f t) = (\<lambda>r. if key r = k then f r else r) ` set t"
  by (simp add: upd_row_def)

lemma upd_row_missing: "find_row key k t = None \<Longrightarrow> upd_row key k f t = t"
  by (induction t) (auto simp: find_row_Cons upd_row_def split: if_splits)

lemma length_upd_row [simp]: "length (upd_row key k f t) = length t"
  by (simp add: upd_row_def)

lemma distinct_upd_row:
  "(\<And>r. key (f r) = key r) \<Longrightarrow> distinct (map key (upd_row key' k f t)) = distinct (map key t)"
  by (simp add: map_key_upd_row)

text \<open>With distinct keys, a filter that fixes the key selects the row with this key or nothing.\<close>

lemma filter_key:
  assumes "distinct (map key t)" and "find_row key k t = Some r"
  shows "filter (\<lambda>x. key x = k \<and> P x) t = (if P r then [r] else [])"
proof -
  from assms(2) have r: "r \<in> set t" "key r = k" by (auto dest: find_row_SomeD)
  have "filter (\<lambda>x. key x = k) t = [r]"
    using assms(1) r by (induction t) (auto simp: filter_empty_conv rev_image_eqI)
  then have "filter P (filter (\<lambda>x. key x = k) t) = (if P r then [r] else [])" by simp
  then show ?thesis by (simp add: conj_commute)
qed

lemma map_key_upd:
  assumes "distinct (map key t)" and "find_row key k t = Some r"
  shows "map (\<lambda>x. if key x = k \<and> P x then f x else x) t = (if P r then upd_row key k f t else t)"
proof -
  have "x = r" if "x \<in> set t" "key x = k" for x
    using find_row_distinct [OF assms(1) that(1)] that(2) assms(2) by simp
  then show ?thesis
    by (auto simp: upd_row_def intro!: map_idI)
qed

end
