(* ===== verification/JsNumber.thy ===== *)
theory JsNumber
  imports Complex_Main "HOL-Library.Log_Nat"
begin

text \<open>
  The numbers of the program are IEEE-754 doubles. A finite double is its rational value, and
  every arithmetic operation rounds the exact result to the nearest double, ties to even
  (\<open>fl\<close>): 53 bits of significand, exponents down to the subnormal range. Results of
  \<open>2 powi 1024\<close> and more (infinity) and NaN do not occur for the amounts the program handles
  and are not represented; negative zero is identified with zero.

  \<open>toFixed\<close>, \<open>Math.round\<close> and \<open>Number(string)\<close> follow ECMAScript. The lemmas bound the
  rounding error of one operation and give the round trip \<open>Number(x.toFixed(d))\<close>.
\<close>

section \<open>Rounding to a double\<close>

definition ilog2 :: "rat \<Rightarrow> int" where
  "ilog2 x = (let (n, d) = quotient_of x; k = bitlen n - bitlen d
              in if 2 powi k \<le> x then k else k - 1)"

definition round_even :: "rat \<Rightarrow> int" where
  "round_even x = (let f = \<lfloor>x\<rfloor>; r = x - of_int f
     in if r < 1 / 2 then f else if 1 / 2 < r then f + 1 else if even f then f else f + 1)"

definition ulp :: "rat \<Rightarrow> rat" where
  "ulp x = 2 powi (max (ilog2 \<bar>x\<bar>) (- 1022) - 52)"

definition fl :: "rat \<Rightarrow> rat" where
  "fl x = (if x = 0 then 0 else of_int (round_even (x / ulp x)) * ulp x)"

definition js_add :: "rat \<Rightarrow> rat \<Rightarrow> rat" where
  "js_add x y = fl (x + y)"

definition js_sub :: "rat \<Rightarrow> rat \<Rightarrow> rat" where
  "js_sub x y = fl (x - y)"

definition js_mul :: "rat \<Rightarrow> rat \<Rightarrow> rat" where
  "js_mul x y = fl (x * y)"

definition js_div :: "rat \<Rightarrow> rat \<Rightarrow> rat" where
  "js_div x y = fl (x / y)"

text \<open>\<open>Math.round\<close>: the nearest integer, ties towards plus infinity.\<close>

definition math_round :: "rat \<Rightarrow> int" where
  "math_round x = \<lfloor>x + 1 / 2\<rfloor>"

section \<open>Decimal strings\<close>

definition digit_char :: "int \<Rightarrow> char" where
  "digit_char d = char_of (48 + d)"

definition digit_val :: "char \<Rightarrow> int" where
  "digit_val c = of_char c - 48"

definition is_digit :: "char \<Rightarrow> bool" where
  "is_digit c \<longleftrightarrow> 48 \<le> (of_char c :: int) \<and> (of_char c :: int) \<le> 57"

text \<open>The decimal digits of a non-negative integer, and the value of a string of digits.\<close>

function show_digits :: "int \<Rightarrow> string" where
  "show_digits n =
     (if n < 10 then [digit_char n] else show_digits (n div 10) @ [digit_char (n mod 10)])"
  by pat_completeness auto
termination
  by (relation "measure nat") auto

declare show_digits.simps [simp del]

definition read_digits :: "string \<Rightarrow> int" where
  "read_digits s = foldl (\<lambda>a c. 10 * a + digit_val c) 0 s"

definition show_int :: "int \<Rightarrow> string" where
  "show_int i = (if i < 0 then ''-'' @ show_digits (- i) else show_digits i)"

text \<open>The non-negative integer \<open>n\<close> printed with \<open>f\<close> digits after the point.\<close>

definition point_string :: "nat \<Rightarrow> int \<Rightarrow> string" where
  "point_string f n =
     (let s = show_digits n; z = replicate (Suc f - length s) (CHR ''0'') @ s; k = length z - f
      in if f = 0 then z else take k z @ ''.'' @ drop k z)"

text \<open>
  \<open>Number::toString\<close> of a number of 21 or more integer digits: the least number of significant
  digits that still denotes the same double, in exponent notation.
\<close>

definition shortest_digits :: "rat \<Rightarrow> int \<Rightarrow> nat \<Rightarrow> int" where
  "shortest_digits x e k = \<lfloor>x / 10 powi (e + 1 - int k) + 1 / 2\<rfloor>"

definition exp_string :: "rat \<Rightarrow> string" where
  "exp_string x =
     (let e = int (length (show_digits \<lfloor>x\<rfloor>)) - 1;
          ok = (\<lambda>k. fl (of_int (shortest_digits x e k) * 10 powi (e + 1 - int k)) = x);
          k = (case find ok [1..<18] of None \<Rightarrow> 17 | Some k \<Rightarrow> k);
          s = show_digits (shortest_digits x e k)
      in take 1 s @ (if k = 1 then [] else ''.'' @ drop 1 s) @ ''e+'' @ show_int e)"

definition fixed_int :: "nat \<Rightarrow> rat \<Rightarrow> int" where
  "fixed_int f x = \<lfloor>x * 10 ^ f + 1 / 2\<rfloor>"

definition toFixed :: "nat \<Rightarrow> rat \<Rightarrow> string" where
  "toFixed f x = (let m = (if 10 ^ 21 \<le> \<bar>x\<bar> then exp_string \<bar>x\<bar> else point_string f (fixed_int f \<bar>x\<bar>))
     in if x < 0 then ''-'' @ m else m)"

text \<open>
  \<open>Number(s)\<close> on the decimal literals that \<open>toFixed\<close> produces: an optional sign, digits, an
  optional fraction, an optional exponent \<open>e+n\<close>. \<open>None\<close> is NaN.
\<close>

definition read_decimal :: "string \<Rightarrow> rat option" where
  "read_decimal s =
     (let m = takeWhile (\<lambda>c. c \<noteq> CHR ''e'') s; x = dropWhile (\<lambda>c. c \<noteq> CHR ''e'') s;
          i = takeWhile (\<lambda>c. c \<noteq> CHR ''.'') m; f = drop (Suc (length i)) m;
          p = (if x = [] then Some 0
               else if take 2 x = ''e+'' \<and> drop 2 x \<noteq> [] \<and> list_all is_digit (drop 2 x)
               then Some (nat (read_digits (drop 2 x))) else None)
      in if i \<noteq> [] \<and> list_all is_digit i \<and> list_all is_digit f
         then map_option (\<lambda>q. of_int (read_digits (i @ f)) / 10 ^ length f * 10 ^ q) p else None)"

definition js_number :: "string \<Rightarrow> rat option" where
  "js_number s = (case s of
       [] \<Rightarrow> Some 0
     | c # t \<Rightarrow> if c = CHR ''-'' then map_option (\<lambda>q. - fl q) (read_decimal t)
                else map_option fl (read_decimal s))"

text \<open>
  \<open>parseInt(s, 10)\<close>: leading blanks and an optional sign, then the longest run of digits;
  \<open>None\<close> is NaN.
\<close>

definition is_blank :: "char \<Rightarrow> bool" where
  "is_blank c \<longleftrightarrow> (of_char c :: nat) \<in> {9, 10, 11, 12, 13, 32, 160}"

definition parse_int :: "string \<Rightarrow> int option" where
  "parse_int s =
     (let t = dropWhile is_blank s; neg = (t \<noteq> [] \<and> hd t = CHR ''-'');
          u = (if t \<noteq> [] \<and> (hd t = CHR ''-'' \<or> hd t = CHR ''+'') then tl t else t);
          d = takeWhile is_digit u
      in if d = [] then None else Some (if neg then - read_digits d else read_digits d))"

section \<open>Rounding error and round trips\<close>

lemma ilog2_bounds:
  assumes "0 < x"
  shows "2 powi ilog2 x \<le> x" and "x < 2 powi (ilog2 x + 1)"
proof -
  obtain n d where q: "quotient_of x = (n, d)" by fastforce
  then have d: "0 < d" and x: "x = of_int n / of_int d"
    by (auto dest: quotient_of_denom_pos quotient_of_div)
  with assms have n: "0 < n" by (simp add: zero_less_divide_iff)
  define a b where "a = bitlen n" and "b = bitlen d"
  have a1: "1 \<le> a" and b1: "1 \<le> b"
    using n d by (auto simp: a_def b_def bitlen_alt_def)
  have pw: "(2::rat) powi k = of_int (2 ^ nat k)" if "0 \<le> k" for k
    using that by (simp add: power_int_def)
  have nl: "2 powi (a - 1) \<le> (of_int n :: rat)" and nu: "(of_int n :: rat) < 2 powi a"
    using bitlen_bounds [OF n] a1 by (auto simp: a_def pw simp flip: of_int_less_iff)
  have dl: "2 powi (b - 1) \<le> (of_int d :: rat)" and du: "(of_int d :: rat) < 2 powi b"
    using bitlen_bounds [OF d] b1 by (auto simp: b_def pw simp flip: of_int_less_iff)
  have dpos: "(0::rat) < of_int d" using d by simp
  have lo: "2 powi (a - b - 1) \<le> x"
  proof -
    have "2 powi (a - b - 1) * (of_int d :: rat) \<le> 2 powi (a - b - 1) * 2 powi b"
      using du by (intro mult_left_mono) auto
    also have "\<dots> = 2 powi (a - 1)"
      by (simp flip: power_int_add)
    also note nl
    finally show ?thesis using dpos by (simp add: x pos_le_divide_eq)
  qed
  have hi: "x < 2 powi (a - b + 1)"
  proof -
    have "(of_int n :: rat) < 2 powi (a - b + 1) * 2 powi (b - 1)"
      using nu by (simp flip: power_int_add)
    also have "\<dots> \<le> 2 powi (a - b + 1) * of_int d"
      using dl by (intro mult_left_mono) auto
    finally show ?thesis using dpos by (simp add: x pos_divide_less_eq)
  qed
  have il: "ilog2 x = (if 2 powi (a - b) \<le> x then a - b else a - b - 1)"
    by (simp add: ilog2_def q a_def b_def)
  show "2 powi ilog2 x \<le> x" using lo by (simp add: il)
  show "x < 2 powi (ilog2 x + 1)" using hi by (auto simp: il)
qed

lemma round_even_close: "\<bar>of_int (round_even x) - x\<bar> \<le> 1 / 2"
  using floor_correct [of x] unfolding round_even_def Let_def by (auto simp: abs_le_iff)

lemma round_even_int [simp]: "round_even (of_int n) = n"
  by (simp add: round_even_def)

lemma ulp_pos: "0 < ulp x"
  by (simp add: ulp_def)

lemma fl_abs_error: "\<bar>fl x - x\<bar> \<le> ulp x / 2"
proof (cases "x = 0")
  case False
  have "fl x - x = (of_int (round_even (x / ulp x)) - x / ulp x) * ulp x"
    using False ulp_pos [of x] by (simp add: fl_def left_diff_distrib)
  then have "\<bar>fl x - x\<bar> = \<bar>of_int (round_even (x / ulp x)) - x / ulp x\<bar> * ulp x"
    using ulp_pos [of x] by (simp add: abs_mult)
  also have "\<dots> \<le> 1 / 2 * ulp x"
    using ulp_pos [of x] round_even_close by (intro mult_right_mono) auto
  finally show ?thesis by simp
qed (simp add: fl_def ulp_def)

lemma ulp_le:
  assumes "2 powi (- 1022) \<le> \<bar>x\<bar>"
  shows "ulp x \<le> \<bar>x\<bar> / 2 ^ 52"
proof -
  have x: "0 < \<bar>x\<bar>"
    using assms by (rule less_le_trans [rotated]) simp
  have "- 1022 < ilog2 \<bar>x\<bar> + 1"
  proof (rule ccontr)
    assume "\<not> ?thesis"
    then have "(2::rat) powi (ilog2 \<bar>x\<bar> + 1) \<le> 2 powi (- 1022)"
      by (intro power_int_increasing) auto
    with ilog2_bounds(2) [OF x] assms show False by simp
  qed
  then have "ulp x = 2 powi ilog2 \<bar>x\<bar> / 2 ^ 52"
    by (simp add: ulp_def max_def power_int_diff)
  then show ?thesis
    using ilog2_bounds(1) [OF x] by (simp add: divide_right_mono)
qed

theorem fl_rel_error:
  assumes "2 powi (- 1022) \<le> \<bar>x\<bar>"
  shows "\<bar>fl x - x\<bar> \<le> \<bar>x\<bar> / 2 ^ 53"
  using fl_abs_error [of x] ulp_le [OF assms] by simp

lemma fl_error_pos:
  assumes "1 / 10 ^ 12 \<le> x"
  shows "\<bar>fl x - x\<bar> \<le> x / 2 ^ 53"
proof -
  have "(2::rat) powi (- 1022) \<le> 1 / 10 ^ 12"
    by (simp add: power_int_minus field_simps)
  moreover have "0 \<le> x"
    using assms by (rule order_trans [rotated]) simp
  ultimately show ?thesis
    using assms fl_rel_error [of x] by (metis abs_of_nonneg order_trans)
qed

lemma fl_0 [simp]: "fl 0 = 0"
  by (simp add: fl_def)

lemma digit_val_char: "0 \<le> d \<Longrightarrow> d < 10 \<Longrightarrow> digit_val (digit_char d) = d"
  by (simp add: digit_val_def digit_char_def)

lemma is_digit_char: "0 \<le> d \<Longrightarrow> d < 10 \<Longrightarrow> is_digit (digit_char d)"
  by (simp add: is_digit_def digit_char_def)

lemma read_digits_append:
  "read_digits (s @ t) = foldl (\<lambda>a c. 10 * a + digit_val c) (read_digits s) t"
  by (simp add: read_digits_def)

lemma show_digits_digits: "0 \<le> n \<Longrightarrow> list_all is_digit (show_digits n)"
  by (induction n rule: show_digits.induct)
    (subst show_digits.simps, auto simp: is_digit_char)

lemma show_digits_nonempty [simp]: "show_digits n \<noteq> []"
  by (subst show_digits.simps) simp

theorem read_show_digits: "0 \<le> n \<Longrightarrow> read_digits (show_digits n) = n"
proof (induction n rule: show_digits.induct)
  case (1 n)
  then show ?case
    by (subst show_digits.simps)
      (auto simp: read_digits_append digit_val_char read_digits_def)
qed

lemma read_digits_zeros: "read_digits (replicate k (CHR ''0'') @ s) = read_digits s"
  by (induction k) (simp_all add: read_digits_def digit_val_def)

lemma is_digit_neq:
  assumes "is_digit c"
  shows "c \<noteq> CHR ''.''" and "c \<noteq> CHR ''-''" and "c \<noteq> CHR ''e''"
  using assms by (auto simp: is_digit_def)

lemma takeWhile_neq_append:
  "x \<notin> set s \<Longrightarrow> takeWhile (\<lambda>c. c \<noteq> x) (s @ x # t) = s"
  by (induction s) auto

lemma read_decimal_point:
  assumes "list_all is_digit i" and "i \<noteq> []" and "list_all is_digit f"
  shows "read_decimal (i @ ''.'' @ f) = Some (of_int (read_digits (i @ f)) / 10 ^ length f)"
proof -
  have e: "c \<noteq> CHR ''e''" if "c \<in> set (i @ ''.'' @ f)" for c
    using that assms by (auto simp: list_all_iff dest: is_digit_neq)
  have d: "CHR ''.'' \<notin> set i"
    using assms(1) by (auto simp: list_all_iff dest: is_digit_neq)
  have m: "takeWhile (\<lambda>c. c \<noteq> CHR ''e'') (i @ ''.'' @ f) = i @ ''.'' @ f"
    and x: "dropWhile (\<lambda>c. c \<noteq> CHR ''e'') (i @ ''.'' @ f) = []"
    using e by (auto simp: takeWhile_eq_all_conv dropWhile_eq_Nil_conv)
  show ?thesis
    unfolding read_decimal_def Let_def m x using assms takeWhile_neq_append [OF d, of f] by simp
qed

lemma point_string_read:
  assumes "0 \<le> n" and "0 < f"
  shows "read_decimal (point_string f n) = Some (of_int n / 10 ^ f)"
    and "\<exists>c t. point_string f n = c # t \<and> is_digit c"
proof -
  define z where "z = replicate (Suc f - length (show_digits n)) (CHR ''0'') @ show_digits n"
  define k where "k = length z - f"
  have zl: "Suc f \<le> length z" by (simp add: z_def)
  have zd: "list_all is_digit z"
    using show_digits_digits [OF assms(1)] by (auto simp: z_def list_all_iff is_digit_def)
  have zv: "read_digits z = n"
    using assms(1) by (simp add: z_def read_digits_zeros read_show_digits)
  have p: "point_string f n = take k z @ ''.'' @ drop k z"
    using assms(2) by (simp add: point_string_def z_def k_def Let_def)
  have td: "list_all is_digit (take k z)" and dd: "list_all is_digit (drop k z)"
    using zd by (auto simp: list_all_iff dest: in_set_takeD in_set_dropD)
  have tn: "take k z \<noteq> []" and dl: "length (drop k z) = f"
    using zl by (auto simp: k_def)
  show "read_decimal (point_string f n) = Some (of_int n / 10 ^ f)"
    using read_decimal_point [OF td tn dd] dl by (simp add: p zv)
  show "\<exists>c t. point_string f n = c # t \<and> is_digit c"
    using td tn by (cases "take k z") (auto simp: p)
qed

theorem js_number_toFixed:
  assumes "0 \<le> x" and "x < 10 ^ 21" and "0 < f"
  shows "js_number (toFixed f x) = Some (fl (of_int (fixed_int f x) / 10 ^ f))"
proof -
  have n: "0 \<le> fixed_int f x"
    using assms(1) by (simp add: fixed_int_def)
  have t: "toFixed f x = point_string f (fixed_int f x)"
    using assms by (simp add: toFixed_def)
  obtain c s where c: "point_string f (fixed_int f x) = c # s" "is_digit c"
    using point_string_read(2) [OF n assms(3)] by blast
  then show ?thesis
    using point_string_read(1) [OF n assms(3)] is_digit_neq(2) [OF c(2)]
    by (simp add: js_number_def t)
qed

lemma fixed_int_close: "\<bar>of_int (fixed_int f x) - x * 10 ^ f\<bar> \<le> 1 / 2"
  using floor_correct [of "x * 10 ^ f + 1 / 2"] unfolding fixed_int_def abs_le_iff by linarith

lemma math_round_eqI: "\<bar>x - of_int n\<bar> < 1 / 2 \<Longrightarrow> math_round x = n"
  unfolding math_round_def abs_less_iff by (rule floor_unique) linarith+

text \<open>
  A decimal amount of \<open>c\<close> units of \<open>1/s\<close> (centavos: \<open>s = 100\<close>) is held as the nearest
  double; multiplying it by \<open>s * t\<close> and rounding gives exactly \<open>c * t\<close>, as long as the
  product is below \<open>2 ^ 50\<close>.
\<close>

theorem scale_exact:
  assumes "0 \<le> c" and "c * t < 2 ^ 50" and "0 < t" and "0 < s" and "s \<le> 10 ^ 9"
  shows "math_round (js_mul (fl (of_int c / of_int s)) (of_int (s * t))) = c * t"
proof (cases "c = 0")
  case False
  with assms(1) have c: "1 \<le> c" by simp
  let ?q = "of_int c / of_int s :: rat" and ?k = "of_int (s * t) :: rat"
  have s: "(0::rat) < of_int s" and t: "(1::rat) \<le> of_int t" and cr: "(1::rat) \<le> of_int c"
    using assms c by simp_all
  have sr: "(of_int s :: rat) \<le> 10 ^ 9" using assms(5) by (simp flip: of_int_le_iff)
  have q: "1 / 10 ^ 9 \<le> ?q"
    using s sr cr by (simp add: field_simps)
  have e1: "\<bar>fl ?q - ?q\<bar> \<le> ?q / 2 ^ 53"
    by (intro fl_error_pos order_trans [OF _ q]) simp
  define N p where "N = (of_int (c * t) :: rat)" and "p = fl ?q * ?k"
  have N50: "N < 2 ^ 50"
    using assms(2) unfolding N_def by (metis of_int_less_iff of_int_numeral of_int_power)
  have qk: "?q * ?k = N" and N: "1 \<le> N"
    using s t cr mult_mono [OF cr t] by (simp_all add: N_def)
  have k: "0 \<le> ?k" using s t by simp
  have "p - N = (fl ?q - ?q) * ?k"
    by (simp add: p_def left_diff_distrib flip: qk)
  then have "\<bar>p - N\<bar> = \<bar>fl ?q - ?q\<bar> * ?k"
    by (metis abs_mult abs_of_nonneg k)
  also have "\<dots> \<le> ?q / 2 ^ 53 * ?k"
    using e1 k by (rule mult_right_mono)
  also have "\<dots> = N / 2 ^ 53" by (simp flip: qk)
  finally have e2: "\<bar>p - N\<bar> \<le> N / 2 ^ 53" .
  then have b1: "p - N \<le> N / 9007199254740992" and b2: "N - p \<le> N / 9007199254740992"
    by (simp_all only: abs_le_iff) simp_all
  from b2 N have p1: "1 / 2 \<le> p" by linarith
  from b1 N have p2: "p \<le> 2 * N" by linarith
  have "\<bar>fl p - p\<bar> \<le> p / 9007199254740992"
    using fl_error_pos [of p] p1 by simp
  then have "\<bar>fl p - N\<bar> < 1 / 2"
    using b1 b2 p2 N50 unfolding abs_le_iff abs_less_iff by (intro conjI; simp; linarith)
  then show ?thesis by (auto simp: js_mul_def p_def N_def intro!: math_round_eqI)
qed (simp add: js_mul_def math_round_eqI)

end
