(* ===== verification/JsText.thy ===== *)
theory JsText
  imports JsNumber "HOL-Library.Word"
begin

text \<open>
  The string and byte operations of JavaScript and Node that the API uses: trimming and case
  mapping, \<open>Buffer.from(s, 'hex')\<close>, \<open>JSON.stringify\<close> of a flat object of strings and nulls,
  \<open>Date.prototype.toISOString\<close>. Strings are lists of ASCII characters; blanks and letters
  outside ASCII are not distinguished. The main lemma is that the JSON text of a flat object
  determines every field of it.
\<close>

section \<open>Strings\<close>

definition trim :: "string \<Rightarrow> string" where
  "trim s = rev (dropWhile is_blank (rev (dropWhile is_blank s)))"

definition lower_char :: "char \<Rightarrow> char" where
  "lower_char c = (let n = of_char c :: int in
     if (65 \<le> n \<and> n \<le> 90) \<or> (192 \<le> n \<and> n \<le> 222 \<and> n \<noteq> 215) then char_of (n + 32) else c)"

definition toLowerCase :: "string \<Rightarrow> string" where
  "toLowerCase s = map lower_char s"

definition starts_with :: "string \<Rightarrow> string \<Rightarrow> bool" where
  "starts_with p s \<longleftrightarrow> take (length p) s = p"

fun includes_str :: "string \<Rightarrow> string \<Rightarrow> bool" where
  "includes_str p [] = (p = [])"
| "includes_str p (c # s) = (starts_with p (c # s) \<or> includes_str p s)"

definition padEnd :: "nat \<Rightarrow> char \<Rightarrow> string \<Rightarrow> string" where
  "padEnd n c s = s @ replicate (n - length s) c"

text \<open>\<open>s.replace(/^0x/, '')\<close>\<close>

definition strip0x :: "string \<Rightarrow> string" where
  "strip0x s = (if starts_with ''0x'' s then drop 2 s else s)"

section \<open>Hexadecimal bytes\<close>

type_synonym byte = "8 word"

definition hex_digit :: "int \<Rightarrow> char" where
  "hex_digit d = (if d < 10 then char_of (48 + d) else char_of (87 + d))"

definition is_hex :: "char \<Rightarrow> bool" where
  "is_hex c \<longleftrightarrow> (let n = of_char c :: int
     in 48 \<le> n \<and> n \<le> 57 \<or> 65 \<le> n \<and> n \<le> 70 \<or> 97 \<le> n \<and> n \<le> 102)"

definition hex_val :: "char \<Rightarrow> int" where
  "hex_val c = (let n = of_char c :: int in if n \<le> 57 then n - 48 else if n \<le> 70 then n - 55 else n - 87)"

text \<open>
  \<open>Buffer.from(s, 'hex')\<close> decodes pairs of hexadecimal digits and stops silently at the first
  pair that is not one.
\<close>

fun from_hex :: "string \<Rightarrow> byte list" where
  "from_hex (a # b # s) =
     (if is_hex a \<and> is_hex b then word_of_int (16 * hex_val a + hex_val b) # from_hex s else [])"
| "from_hex _ = []"

fun to_hex :: "byte list \<Rightarrow> string" where
  "to_hex [] = []"
| "to_hex (b # bs) = hex_digit (uint b div 16) # hex_digit (uint b mod 16) # to_hex bs"

section \<open>JSON text of a flat object\<close>

definition json_esc :: "char \<Rightarrow> string" where
  "json_esc c = (let n = of_char c :: int in
     if n = 34 then [CHR 0x5C, CHR 0x22] else if n = 92 then [CHR 0x5C, CHR 0x5C]
     else if n = 8 then [CHR 0x5C, CHR ''b''] else if n = 9 then [CHR 0x5C, CHR ''t'']
     else if n = 10 then [CHR 0x5C, CHR ''n''] else if n = 12 then [CHR 0x5C, CHR ''f'']
     else if n = 13 then [CHR 0x5C, CHR ''r'']
     else if n < 32 then [CHR 0x5C, CHR ''u'', CHR ''0'', CHR ''0'', hex_digit (n div 16), hex_digit (n mod 16)]
     else [c])"

definition json_quote :: "string \<Rightarrow> string" where
  "json_quote s = CHR 0x22 # concat (map json_esc s) @ [CHR 0x22]"

definition json_value :: "string option \<Rightarrow> string" where
  "json_value v = (case v of None \<Rightarrow> ''null'' | Some s \<Rightarrow> json_quote s)"

fun json_members :: "(string \<times> string option) list \<Rightarrow> string" where
  "json_members [] = []"
| "json_members [(k, v)] = json_quote k @ '':'' @ json_value v"
| "json_members ((k, v) # m) = json_quote k @ '':'' @ json_value v @ '','' @ json_members m"

definition json_object :: "(string \<times> string option) list \<Rightarrow> string" where
  "json_object m = ''{'' @ json_members m @ ''}''"

section \<open>Dates\<close>

text \<open>
  A \<open>Date\<close> is its time value in milliseconds since 1970-01-01T00:00:00Z. \<open>civil\<close> gives year,
  month and day of a day number in the proleptic Gregorian calendar.
\<close>

definition civil :: "int \<Rightarrow> int \<times> int \<times> int" where
  "civil days =
     (let z = days + 719468; era = z div 146097; doe = z mod 146097;
          yoe = (doe - doe div 1460 + doe div 36524 - doe div 146096) div 365;
          doy = doe - (365 * yoe + yoe div 4 - yoe div 100);
          mp = (5 * doy + 2) div 153;
          d = doy - (153 * mp + 2) div 5 + 1;
          m = (if mp < 10 then mp + 3 else mp - 9)
      in (yoe + era * 400 + (if m \<le> 2 then 1 else 0), m, d))"

definition pad_left :: "nat \<Rightarrow> int \<Rightarrow> string" where
  "pad_left k n = (let s = show_digits n in replicate (k - length s) (CHR ''0'') @ s)"

definition year_string :: "int \<Rightarrow> string" where
  "year_string y = (if 0 \<le> y \<and> y \<le> 9999 then pad_left 4 y
     else if y < 0 then ''-'' @ pad_left 6 (- y) else ''+'' @ pad_left 6 y)"

definition toISOString :: "int \<Rightarrow> string" where
  "toISOString t =
     (let day = t div 86400000; ms = t mod 86400000; (y, m, d) = civil day
      in year_string y @ ''-'' @ pad_left 2 m @ ''-'' @ pad_left 2 d @ ''T''
         @ pad_left 2 (ms div 3600000) @ '':'' @ pad_left 2 (ms div 60000 mod 60) @ '':''
         @ pad_left 2 (ms div 1000 mod 60) @ ''.'' @ pad_left 3 (ms mod 1000) @ ''Z'')"

section \<open>Hexadecimal round trip\<close>

lemma hex_digit_ok:
  assumes "0 \<le> d" and "d < 16"
  shows "is_hex (hex_digit d)" and "hex_val (hex_digit d) = d"
  using assms by (auto simp: is_hex_def hex_val_def hex_digit_def Let_def)

lemma from_to_hex: "from_hex (to_hex bs) = bs"
proof (induction bs)
  case (Cons b bs)
  have b: "0 \<le> uint b" "uint b < 256"
    using uint_bounded [of b] by simp_all
  have "0 \<le> uint b div 16" "uint b div 16 < 16"
    using b by (simp_all add: pos_imp_zdiv_nonneg_iff)
  then show ?case
    using Cons.IH b by (simp add: hex_digit_ok mult_div_mod_eq del: of_int_add of_int_mult)
qed simp

lemma length_from_hex:
  assumes "list_all is_hex s" and "even (length s)"
  shows "length (from_hex s) = length s div 2"
  using assms by (induction s rule: from_hex.induct) auto

section \<open>JSON text determines the fields\<close>

text \<open>Reading back one escaped character is the inverse of escaping it.\<close>

definition json_unesc :: "string \<Rightarrow> (char \<times> string) option" where
  "json_unesc s = (case s of
       [] \<Rightarrow> None
     | c # t \<Rightarrow> if c \<noteq> CHR 0x5C then Some (c, t) else (case t of
         [] \<Rightarrow> None
       | d # u \<Rightarrow> if d = CHR ''b'' then Some (CHR 0x08, u) else if d = CHR ''t'' then Some (CHR 0x09, u)
           else if d = CHR ''n'' then Some (CHR 0x0A, u) else if d = CHR ''f'' then Some (CHR 0x0C, u)
           else if d = CHR ''r'' then Some (CHR 0x0D, u)
           else if d = CHR ''u'' then
             Some (char_of (16 * hex_val (u ! 2) + hex_val (u ! 3)), drop 4 u)
           else Some (d, u)))"

lemma of_char_eqD: "(of_char c :: int) = n \<Longrightarrow> c = char_of n"
  by auto

lemma json_unesc_esc: "json_unesc (json_esc c @ x) = Some (c, x)"
proof -
  consider "(of_char c :: int) \<in> {34, 92, 8, 9, 10, 12, 13}"
    | "(of_char c :: int) \<notin> {34, 92, 8, 9, 10, 12, 13}" "(of_char c :: int) < 32"
    | "(of_char c :: int) \<notin> {34, 92, 8, 9, 10, 12, 13}" "\<not> (of_char c :: int) < 32"
    by blast
  then show ?thesis
  proof cases
    case 1
    then show ?thesis
      by (auto simp: json_esc_def json_unesc_def char_of_def dest!: of_char_eqD)
  next
    case 2
    have n: "0 \<le> (of_char c :: int)" by (metis of_nat_of_char of_nat_0_le_iff)
    from 2 n show ?thesis
      by (simp add: json_esc_def json_unesc_def Let_def hex_digit_ok mult_div_mod_eq)
  next
    case 3
    moreover from this have "c \<noteq> CHR 0x5C" by auto
    ultimately show ?thesis
      by (simp add: json_esc_def json_unesc_def Let_def)
  qed
qed

lemma json_esc_prefix_free:
  assumes "json_esc c @ x = json_esc d @ y"
  shows "c = d \<and> x = y"
  using arg_cong [OF assms, of json_unesc] by (simp add: json_unesc_esc)

lemma json_esc_head: "\<exists>d t. json_esc c = d # t \<and> d \<noteq> CHR 0x22"
  by (auto simp: json_esc_def Let_def)

lemma json_body_inj:
  "concat (map json_esc s) @ CHR 0x22 # x = concat (map json_esc t) @ CHR 0x22 # y \<Longrightarrow>
   s = t \<and> x = y"
proof (induction s arbitrary: t)
  case Nil
  then show ?case
    using json_esc_head [of "hd t"] by (cases t) auto
next
  case (Cons c s)
  show ?case
  proof (cases t)
    case Nil
    with Cons.prems show ?thesis using json_esc_head [of c] by auto
  next
    case (Cons d u)
    with Cons.prems have "json_esc c @ (concat (map json_esc s) @ CHR 0x22 # x)
        = json_esc d @ (concat (map json_esc u) @ CHR 0x22 # y)" by simp
    from json_esc_prefix_free [OF this] Cons.IH [of u] Cons show ?thesis by auto
  qed
qed

lemma json_quote_inj:
  assumes "json_quote s @ x = json_quote t @ y"
  shows "s = t \<and> x = y"
proof -
  from assms have "concat (map json_esc s) @ CHR 0x22 # x = concat (map json_esc t) @ CHR 0x22 # y"
    by (simp add: json_quote_def)
  then show ?thesis by (rule json_body_inj)
qed

lemma json_value_inj:
  assumes "json_value v @ x = json_value u @ y"
  shows "v = u \<and> x = y"
proof (cases v)
  case None
  with assms show ?thesis by (cases u) (simp_all add: json_value_def json_quote_def)
next
  case (Some s)
  with assms obtain t where u: "u = Some t" by (cases u) (simp_all add: json_value_def json_quote_def)
  with assms Some have "json_quote s @ x = json_quote t @ y" by (simp add: json_value_def)
  then show ?thesis using Some u json_quote_inj by blast
qed

text \<open>Two flat objects with the same keys and the same text have the same fields.\<close>

lemma json_members_inj:
  "map fst m = map fst n \<Longrightarrow> json_members m @ x = json_members n @ y \<Longrightarrow> m = n \<and> x = y"
proof (induction m arbitrary: n rule: json_members.induct)
  case 1
  then show ?case by simp
next
  case (2 k v)
  then obtain u where "n = [(k, u)]" by (cases n) auto
  with "2.prems" show ?case by (auto dest!: json_quote_inj json_value_inj)
next
  case (3 k v p m)
  then obtain u q n' where n: "n = (k, u) # q # n'" by (cases n; cases "tl n") auto
  obtain k2 v2 where q: "q = (k2, v2)" by fastforce
  from "3.prems"(2) n q have "json_value v @ '','' @ json_members (p # m) @ x
      = json_value u @ '','' @ json_members (q # n') @ y"
    by (cases p) (auto dest!: json_quote_inj)
  from json_value_inj [OF this] "3.IH" [of "q # n'"] "3.prems"(1) n show ?case by auto
qed

lemma json_object_inj: "map fst m = map fst n \<Longrightarrow> json_object m = json_object n \<Longrightarrow> m = n"
  using json_members_inj [of m n "''}''" "''}''"] by (simp add: json_object_def)

lemma to_hex_hex: "list_all is_hex (to_hex bs)"
proof (induction bs)
  case (Cons b bs)
  have "0 \<le> uint b" "uint b < 256" using uint_bounded [of b] by simp_all
  then have "0 \<le> uint b div 16" "uint b div 16 < 16" by (simp_all add: pos_imp_zdiv_nonneg_iff)
  then show ?case using Cons by (simp add: hex_digit_ok(1))
qed simp

lemma length_to_hex: "length (to_hex bs) = 2 * length bs"
  by (induction bs) simp_all

end
