(* ===== verification/Schema.thy ===== *)
theory Schema
  imports Prelude JsText
begin

text \<open>
  The state of the API and its environment.

  \<open>world\<close> holds the tables declared in \<open>apps/api/prisma/schema.prisma\<close> (one list of rows per
  model, one record field per column; a column \<open>c\<close> of the model \<open>Receivable\<close> is
  \<open>rcv_c\<close>), the clock, and the trace of the calls made to services outside the repository.
  The column \<open>updatedAt\<close>, which no code reads, is left out.

  \<open>env\<close> holds what the repository does not contain, as parameters: configuration, clock delays,
  fresh identifiers, cryptography, the Stellar SDK with its RPC and Horizon servers, the Pix
  microservice. The answer of a service is a function of the trace so far, so any sequence of
  answers, successes and failures in any order, is an instance.

  The reads and writes of the Prisma client are read off the schema: \<open>create\<close> takes a fresh
  identifier and fails with code P2002 when a \<open>@unique\<close> column clashes and with P2003 when a
  \<open>@relation\<close> has no target; \<open>update\<close> of an absent row fails with P2025.
\<close>

section \<open>Enumerations of the shared types\<close>

datatype receivable_status =
    RPending | RValidated | RTokenized | RAssignmentPending | RActive | RSettled | RDefaulted | RRejected

datatype receivable_type = RTInvoice | RTDuplicate | RTContract

text \<open>The column also takes \<open>settled\<close>, which the type does not have and the seed writes.\<close>

datatype settlement_status = SPending | SCompleted | SFailed | SSettled

datatype settlement_method = MPix | MTed | MStellar

datatype document_type = DInvoice | DContract | DDuplicate | DKyc

datatype investment_status = IActive | ISettled | IDefaulted

datatype financial_operation =
    OpReceivableTokenize | OpReceivableAssignment | OpPmeWithdrawal
  | OpInvestorDeposit | OpInvestmentPurchase | OpInvestorWithdrawal

datatype transaction_status =
    TPending | TApproved | TRejected | TPendingPayment | TPaymentSubmitted | TProcessing
  | TCompleted | TFailed | TExpired

datatype collection_status = CPendingPayment | CPaid

text \<open>JSON values, for audit metadata, webhook payloads and the bodies of HTTP calls.\<close>

datatype json =
    JNull | JBool bool | JNum rat | JStr string | JObj "(string \<times> json) list"

definition jopt :: "string option \<Rightarrow> json" where
  "jopt v = (case v of None \<Rightarrow> JNull | Some s \<Rightarrow> JStr s)"

section \<open>Exceptions\<close>

datatype finauth_code =
    wallet_required | authorization_required | authorization_expired | authorization_invalid
  | authorization_already_used | authorization_operation_mismatch | authorization_resource_mismatch

text \<open>
  The exceptions of Nest by class and message (accents dropped), the known request errors of
  Prisma by code, any other \<open>Error\<close> by message.
\<close>

datatype exn =
    NotFoundException string
  | ConflictException string
  | BadRequestException string
  | UnauthorizedException string
  | ForbiddenException string
  | FinancialAuthorizationException finauth_code string
  | PrismaError string
  | JsError string

section \<open>Rows\<close>

record user =
  usr_id :: string
  usr_email :: string
  usr_passwordHash :: "string option"
  usr_googleId :: "string option"
  usr_provider :: string
  usr_role :: "string option"
  usr_name :: "string option"
  usr_stellarWalletId :: "string option"
  usr_passkeyId :: "string option"
  usr_passkeyPublicKey :: "string option"
  usr_walletType :: "string option"
  usr_walletStatus :: "string option"
  usr_privyUserId :: "string option"
  usr_privyStellarWalletAddress :: "string option"
  usr_privyWalletStatus :: "string option"
  usr_phone :: "string option"
  usr_address :: "string option"
  usr_companyName :: "string option"
  usr_cnpj :: "string option"
  usr_monthlyRevenue :: "rat option"
  usr_sector :: "string option"
  usr_investorType :: "string option"
  usr_riskProfile :: "string option"
  usr_operationalLimit :: "rat option"
  usr_createdAt :: int

record receivable =
  rcv_id :: string
  rcv_userId :: string
  rcv_value :: rat
  rcv_type :: receivable_type
  rcv_status :: receivable_status
  rcv_debtorName :: string
  rcv_debtorDocument :: string
  rcv_documentHash :: "string option"
  rcv_txHash :: "string option"
  rcv_paymentTxHash :: "string option"
  rcv_dueDate :: int
  rcv_createdAt :: int

record document =
  doc_id :: string
  doc_receivableId :: string
  doc_url :: string
  doc_hash :: string
  doc_type :: document_type
  doc_createdAt :: int

record settlement =
  stl_id :: string
  stl_receivableId :: string
  stl_amount :: rat
  stl_method :: settlement_method
  stl_status :: settlement_status
  stl_txHash :: "string option"
  stl_stellarTxHash :: "string option"
  stl_settledAt :: "int option"
  stl_createdAt :: int

record finauth_payload =
  pl_domain :: string
  pl_version :: string
  pl_network :: string
  pl_operation :: financial_operation
  pl_userId :: string
  pl_walletId :: string
  pl_resourceId :: "string option"
  pl_amount :: "string option"
  pl_destination :: "string option"
  pl_nonce :: string
  pl_expiresAt :: string

record finauth =
  fa_id :: string
  fa_userId :: string
  fa_walletId :: string
  fa_operation :: financial_operation
  fa_resourceId :: "string option"
  fa_amount :: "string option"
  fa_destination :: "string option"
  fa_nonce :: string
  fa_payloadHash :: string
  fa_payload :: finauth_payload
  fa_signature :: "json option"
  fa_expiresAt :: int
  fa_verifiedAt :: "int option"
  fa_consumedAt :: "int option"
  fa_createdAt :: int

record audit_log =
  aud_id :: string
  aud_event :: string
  aud_entityId :: string
  aud_entityType :: string
  aud_userId :: string
  aud_txHash :: "string option"
  aud_metadata :: json
  aud_createdAt :: int

record investment =
  inv_id :: string
  inv_investorUserId :: string
  inv_receivableId :: string
  inv_amountPaid :: rat
  inv_faceValue :: rat
  inv_discountRate :: rat
  inv_status :: investment_status
  inv_pixTxId :: "string option"
  inv_paymentTxHash :: "string option"
  inv_nftTransferTxHash :: "string option"
  inv_paidAt :: int
  inv_createdAt :: int

record ptransaction =
  ptx_id :: string
  ptx_userId :: string
  ptx_type :: string
  ptx_amount :: rat
  ptx_status :: transaction_status
  ptx_pixKey :: "string option"
  ptx_txHash :: "string option"
  ptx_approvedBy :: "string option"
  ptx_pixOrderId :: "string option"
  ptx_pixIdentifier :: "string option"
  ptx_pixTxid :: "string option"
  ptx_pixPaymentId :: "string option"
  ptx_pixTransactionId :: "string option"
  ptx_pixEndToEndId :: "string option"
  ptx_pixQrCodePayload :: "string option"
  ptx_pixQrCodeLocation :: "string option"
  ptx_pixQrCodeBase64 :: "string option"
  ptx_pixExpiresAt :: "int option"
  ptx_pixConfirmedAt :: "int option"
  ptx_pixFailureReason :: "string option"
  ptx_pixMetadata :: "json option"
  ptx_createdAt :: int

record pix_event =
  evt_id :: string
  evt_eventId :: string
  evt_pixOrderId :: string
  evt_externalId :: string
  evt_identifier :: string
  evt_type :: string
  evt_status :: string
  evt_amount :: rat
  evt_payload :: json
  evt_processedAt :: int

record collection =
  col_id :: string
  col_receivableId :: string
  col_pixOrderId :: "string option"
  col_identifier :: "string option"
  col_amount :: rat
  col_dueDate :: int
  col_status :: collection_status
  col_txHash :: "string option"
  col_endToEndId :: "string option"
  col_pixQrCodePayload :: "string option"
  col_pixQrCodeLocation :: "string option"
  col_pixQrCodeBase64 :: "string option"
  col_paidAt :: "int option"
  col_createdAt :: int

end
