(* ===== verification/World.thy ===== *)
theory World
  imports Schema
begin

text \<open>
  Stellar transactions as the API builds them, the calls to services outside the repository, the
  environment and the world, and the operations of the Prisma client on the tables of the world.
  The locales \<open>clock_relation\<close> and \<open>world_relation\<close> are the contracts the relations between
  worlds meet: reflexive, transitive and blind to the clock and the identifier supply, the second
  also to the trace of calls.
\<close>

section \<open>Stellar values\<close>

text \<open>Arguments of contract calls, as \<open>nativeToScVal\<close> and \<open>scvBytes\<close> make them.\<close>

datatype scval =
    ScString string | ScAddress string | ScI128 int | ScU64 int | ScU32 int | ScBytes "byte list"

text \<open>What \<open>scValToNative\<close> gives back.\<close>

datatype native = NInt int | NStr string | NBool bool | NRec "(string \<times> native) list"

datatype stellar_op =
    ContractCall string string "scval list"
  | Payment string string string
  | CreateAccount string string
  | ChangeTrust string

text \<open>A key pair from a secret string or from a raw seed.\<close>

datatype keypair = FromSecret string | FromSeed "byte list"

text \<open>
  A transaction as the SDK builds it: source account, operation, memo, timeout, fee; assembled
  with the result of its simulation; signed by a key pair or carrying a foreign signature; wrapped
  in a fee bump. \<open>Decoded\<close> is what \<open>TransactionBuilder.fromXDR\<close> reads from a client's text.
\<close>

datatype stellar_tx =
    Built string stellar_op "string option" int string
  | Assembled stellar_tx
  | Signed stellar_tx keypair
  | WithSignature stellar_tx string "byte list"
  | FeeBump keypair string stellar_tx
  | Decoded string

datatype sim_result = SimSuccess "native option" | SimFailure string

record horizon_error =
  he_detail :: "string option"
  he_message :: "string option"
  he_codes :: "string option"

section \<open>Calls to the outside\<close>

datatype ext_call =
    HorizonLoadAccount string
  | HorizonSubmit stellar_tx
  | HorizonLedgers
  | RpcGetAccount string
  | RpcSimulate stellar_tx
  | RpcSend stellar_tx
  | RpcGetTransaction string
  | PixPost string json
  | PixGet string
  | BcryptHash string
  | BcryptCompare string string
  | GoogleVerify string
  | PrivyVerifyAccess string
  | PrivyVerifyIdentity string
  | PrivyGetUser string

record google_payload =
  gp_sub :: "string option"
  gp_email :: "string option"
  gp_email_verified :: bool
  gp_name :: "string option"

datatype linked_account =
    EmailAccount string
  | GoogleOauthAccount string
  | WalletAccount string string string
  | OtherAccount string

section \<open>Environment and world\<close>

record env =
  e_conf :: "string \<Rightarrow> string option"
  e_delay :: "nat \<Rightarrow> nat"
  e_uuid :: "nat \<Rightarrow> string"
  e_dateParse :: "string \<Rightarrow> int option"
  e_sha256 :: "string \<Rightarrow> byte list"
  e_hmac :: "string \<Rightarrow> string \<Rightarrow> byte list"
  e_publicKey :: "keypair \<Rightarrow> string"
  e_publicKeyError :: "string \<Rightarrow> string option"
  e_verifySig :: "string \<Rightarrow> byte list \<Rightarrow> byte list \<Rightarrow> bool"
  e_toXDR :: "stellar_tx \<Rightarrow> string"
  e_buildError :: "stellar_tx \<Rightarrow> string option"
  e_txHash :: "stellar_tx \<Rightarrow> byte list"
  e_loadAccount :: "ext_call list \<Rightarrow> string \<Rightarrow> string + (string \<times> string) list"
  e_horizonSubmit :: "ext_call list \<Rightarrow> stellar_tx \<Rightarrow> horizon_error + string"
  e_ledgers :: "ext_call list \<Rightarrow> string + int option"
  e_getAccount :: "ext_call list \<Rightarrow> string \<Rightarrow> string + unit"
  e_simulate :: "ext_call list \<Rightarrow> stellar_tx \<Rightarrow> string + sim_result"
  e_send :: "ext_call list \<Rightarrow> stellar_tx \<Rightarrow> string + (string \<times> string \<times> string)"
  e_getTx :: "ext_call list \<Rightarrow> string \<Rightarrow> string + string"
  e_pixPost :: "ext_call list \<Rightarrow> string \<Rightarrow> json \<Rightarrow> string + (string \<Rightarrow> json option)"
  e_pixGet :: "ext_call list \<Rightarrow> string \<Rightarrow> string + (string \<Rightarrow> json option)"
  e_bcryptHash :: "ext_call list \<Rightarrow> string \<Rightarrow> string + string"
  e_bcryptCompare :: "ext_call list \<Rightarrow> string \<Rightarrow> string \<Rightarrow> string + bool"
  e_jwtSign :: "string \<Rightarrow> string \<Rightarrow> string option \<Rightarrow> string"
  e_googleVerify :: "ext_call list \<Rightarrow> string \<Rightarrow> string + google_payload option"
  e_privyAccess :: "ext_call list \<Rightarrow> string \<Rightarrow> string + string option"
  e_privyIdentity :: "ext_call list \<Rightarrow> string \<Rightarrow> string + string option"
  e_privyUser :: "ext_call list \<Rightarrow> string \<Rightarrow> string + linked_account list"

record world =
  users :: "user list"
  receivables :: "receivable list"
  documents :: "document list"
  settlements :: "settlement list"
  finauths :: "finauth list"
  auditLogs :: "audit_log list"
  investments :: "investment list"
  ptransactions :: "ptransaction list"
  pixEvents :: "pix_event list"
  collections :: "collection list"
  w_now :: int
  w_ticks :: nat
  w_ids :: nat
  w_trace :: "ext_call list"

type_synonym 'a api = "(env, world, exn, 'a) prog"

section \<open>Clock and external calls\<close>

text \<open>\<open>Date.now()\<close> and \<open>new Date()\<close>: some time passes, then the clock is read.\<close>

definition nowM :: "int api" where
  "nowM = (\<lambda>E w. let t = w_now w + int (e_delay E (w_ticks w))
     in (Inr t, w\<lparr>w_now := t, w_ticks := Suc (w_ticks w)\<rparr>))"

text \<open>\<open>await new Promise(r => setTimeout(r, ms))\<close>: at least \<open>ms\<close> milliseconds pass.\<close>

definition sleepM :: "nat \<Rightarrow> unit api" where
  "sleepM ms = (\<lambda>E w. (Inr (), w\<lparr>w_now := w_now w + int ms + int (e_delay E (w_ticks w)),
     w_ticks := Suc (w_ticks w)\<rparr>))"

definition uuidM :: "string api" where
  "uuidM = (\<lambda>E w. (Inr (e_uuid E (w_ids w)), w\<lparr>w_ids := Suc (w_ids w)\<rparr>))"

definition callW :: "ext_call \<Rightarrow> env \<Rightarrow> world \<Rightarrow> world" where
  "callW c E w = w\<lparr>w_now := w_now w + int (e_delay E (w_ticks w)), w_ticks := Suc (w_ticks w),
     w_trace := w_trace w @ [c]\<rparr>"

text \<open>A call to a service: it enters the trace, time passes, an error is a plain \<open>Error\<close>.\<close>

definition callM :: "ext_call \<Rightarrow> (env \<Rightarrow> ext_call list \<Rightarrow> string + 'a) \<Rightarrow> 'a api" where
  "callM c f = (\<lambda>E w. case f E (w_trace w) of
       Inl m \<Rightarrow> (Inl (JsError m), callW c E w)
     | Inr a \<Rightarrow> (Inr a, callW c E w))"

definition confM :: "string \<Rightarrow> string option api" where
  "confM k = asksM (\<lambda>E. e_conf E k)"

section \<open>Operations of the Prisma client\<close>

definition findFirstM :: "(world \<Rightarrow> 'row list) \<Rightarrow> ('row \<Rightarrow> bool) \<Rightarrow> 'row option api" where
  "findFirstM tab p = getsM (\<lambda>w. find p (tab w))"

definition findUniqueM :: "(world \<Rightarrow> 'row list) \<Rightarrow> ('row \<Rightarrow> 'k) \<Rightarrow> 'k \<Rightarrow> 'row option api" where
  "findUniqueM tab key k = getsM (\<lambda>w. find_row key k (tab w))"

definition findManyM :: "(world \<Rightarrow> 'row list) \<Rightarrow> ('row \<Rightarrow> bool) \<Rightarrow> 'row list api" where
  "findManyM tab p = getsM (\<lambda>w. filter p (tab w))"

text \<open>\<open>orderBy: desc\<close> and \<open>asc\<close> on a column of integers.\<close>

definition order_desc :: "('row \<Rightarrow> int) \<Rightarrow> 'row list \<Rightarrow> 'row list" where
  "order_desc f t = sort_key (\<lambda>r. - f r) t"

definition order_asc :: "('row \<Rightarrow> int) \<Rightarrow> 'row list \<Rightarrow> 'row list" where
  "order_asc f t = sort_key f t"

text \<open>A clash of a \<open>@unique\<close> column, which may be null, with another row.\<close>

definition clash :: "('row \<Rightarrow> string) \<Rightarrow> ('row \<Rightarrow> string option) \<Rightarrow> 'row list \<Rightarrow> 'row \<Rightarrow> bool" where
  "clash key g t r \<longleftrightarrow> g r \<noteq> None \<and> list_ex (\<lambda>x. key x \<noteq> key r \<and> g x = g r) t"

definition createM :: "(world \<Rightarrow> 'row list) \<Rightarrow> (('row list \<Rightarrow> 'row list) \<Rightarrow> world \<Rightarrow> world) \<Rightarrow>
    ('row \<Rightarrow> string) \<Rightarrow> (world \<Rightarrow> 'row \<Rightarrow> string option) \<Rightarrow> (string \<Rightarrow> int \<Rightarrow> 'row) \<Rightarrow> 'row api" where
  "createM tab upd key chk mk = bindM uuidM (\<lambda>i E w.
     let r = mk i (w_now w) in
     if key r \<in> key ` set (tab w) then (Inl (PrismaError ''P2002''), w)
     else case chk w r of
       Some code \<Rightarrow> (Inl (PrismaError code), w)
     | None \<Rightarrow> (Inr r, upd (\<lambda>t. t @ [r]) w))"

definition updateM :: "(world \<Rightarrow> 'row list) \<Rightarrow> (('row list \<Rightarrow> 'row list) \<Rightarrow> world \<Rightarrow> world) \<Rightarrow>
    ('row \<Rightarrow> string) \<Rightarrow> (world \<Rightarrow> 'row \<Rightarrow> string option) \<Rightarrow> string \<Rightarrow> ('row \<Rightarrow> 'row) \<Rightarrow> 'row api" where
  "updateM tab upd key chk k f = (\<lambda>E w. case find_row key k (tab w) of
       None \<Rightarrow> (Inl (PrismaError ''P2025''), w)
     | Some r \<Rightarrow> (case chk w (f r) of
         Some code \<Rightarrow> (Inl (PrismaError code), w)
       | None \<Rightarrow> (Inr (f r), upd (upd_row key k f) w)))"

text \<open>\<open>updateMany\<close>: the number of rows the filter selects, each rewritten, in one step.\<close>

definition updateManyM :: "(world \<Rightarrow> 'row list) \<Rightarrow> (('row list \<Rightarrow> 'row list) \<Rightarrow> world \<Rightarrow> world) \<Rightarrow>
    ('row \<Rightarrow> bool) \<Rightarrow> ('row \<Rightarrow> 'row) \<Rightarrow> nat api" where
  "updateManyM tab upd p f = (\<lambda>E w.
     (Inr (length (filter p (tab w))), upd (map (\<lambda>r. if p r then f r else r)) w))"

text \<open>The constraints of each model: \<open>@unique\<close> columns first, then \<open>@relation\<close> targets.\<close>

definition has_user :: "world \<Rightarrow> string \<Rightarrow> bool" where
  "has_user w i \<longleftrightarrow> find_row usr_id i (users w) \<noteq> None"

definition has_receivable :: "world \<Rightarrow> string \<Rightarrow> bool" where
  "has_receivable w i \<longleftrightarrow> find_row rcv_id i (receivables w) \<noteq> None"

definition no_chk :: "world \<Rightarrow> 'row \<Rightarrow> string option" where
  "no_chk w r = None"

definition fk :: "bool \<Rightarrow> string option" where
  "fk ok = (if ok then None else Some ''P2003'')"

definition chk_user :: "world \<Rightarrow> user \<Rightarrow> string option" where
  "chk_user w r =
     (if clash usr_id (\<lambda>u. Some (usr_email u)) (users w) r \<or> clash usr_id usr_googleId (users w) r
         \<or> clash usr_id usr_privyUserId (users w) r
         \<or> clash usr_id usr_privyStellarWalletAddress (users w) r \<or> clash usr_id usr_cnpj (users w) r
      then Some ''P2002'' else None)"

definition chk_receivable :: "world \<Rightarrow> receivable \<Rightarrow> string option" where
  "chk_receivable w r = fk (has_user w (rcv_userId r))"

definition chk_document :: "world \<Rightarrow> document \<Rightarrow> string option" where
  "chk_document w r = fk (has_receivable w (doc_receivableId r))"

definition chk_settlement :: "world \<Rightarrow> settlement \<Rightarrow> string option" where
  "chk_settlement w r = fk (has_receivable w (stl_receivableId r))"

definition chk_finauth :: "world \<Rightarrow> finauth \<Rightarrow> string option" where
  "chk_finauth w r =
     (if clash fa_id (\<lambda>a. Some (fa_nonce a)) (finauths w) r
         \<or> clash fa_id (\<lambda>a. Some (fa_payloadHash a)) (finauths w) r then Some ''P2002''
      else fk (has_user w (fa_userId r)))"

definition chk_auditLog :: "world \<Rightarrow> audit_log \<Rightarrow> string option" where
  "chk_auditLog w r = fk (has_user w (aud_userId r))"

definition chk_investment :: "world \<Rightarrow> investment \<Rightarrow> string option" where
  "chk_investment w r =
     (if clash inv_id (\<lambda>i. Some (inv_receivableId i)) (investments w) r then Some ''P2002''
      else fk (has_receivable w (inv_receivableId r) \<and> has_user w (inv_investorUserId r)))"

definition chk_transaction :: "world \<Rightarrow> ptransaction \<Rightarrow> string option" where
  "chk_transaction w r =
     (if clash ptx_id ptx_pixOrderId (ptransactions w) r
         \<or> clash ptx_id ptx_pixIdentifier (ptransactions w) r then Some ''P2002''
      else fk (has_user w (ptx_userId r)))"

definition chk_pixEvent :: "world \<Rightarrow> pix_event \<Rightarrow> string option" where
  "chk_pixEvent w r =
     (if clash evt_id (\<lambda>e. Some (evt_eventId e)) (pixEvents w) r then Some ''P2002'' else None)"

definition chk_collection :: "world \<Rightarrow> collection \<Rightarrow> string option" where
  "chk_collection w r =
     (if clash col_id col_pixOrderId (collections w) r
         \<or> clash col_id col_identifier (collections w) r then Some ''P2002'' else None)"

text \<open>
  \<open>prisma.$transaction(async (tx) => ...)\<close>: an exception undoes every write to the tables; the
  clock, the identifier supply and the trace of calls go on.
\<close>

definition transactionM :: "'a api \<Rightarrow> 'a api" where
  "transactionM m = (\<lambda>E w. case m E w of
       (Inl e, w') \<Rightarrow> (Inl e, w\<lparr>w_now := w_now w', w_ticks := w_ticks w', w_ids := w_ids w',
                                 w_trace := w_trace w'\<rparr>)
     | (Inr a, w') \<Rightarrow> (Inr a, w'))"

lemmas db_defs = findFirstM_def findUniqueM_def findManyM_def createM_def updateM_def

section \<open>Running reads and clock\<close>

definition tick :: "env \<Rightarrow> world \<Rightarrow> world" where
  "tick E w = w\<lparr>w_now := w_now w + int (e_delay E (w_ticks w)), w_ticks := Suc (w_ticks w)\<rparr>"

lemma tick_simps [simp]:
  "users (tick E w) = users w" "receivables (tick E w) = receivables w"
  "documents (tick E w) = documents w" "settlements (tick E w) = settlements w"
  "finauths (tick E w) = finauths w" "auditLogs (tick E w) = auditLogs w"
  "investments (tick E w) = investments w" "ptransactions (tick E w) = ptransactions w"
  "pixEvents (tick E w) = pixEvents w" "collections (tick E w) = collections w"
  "w_ids (tick E w) = w_ids w" "w_trace (tick E w) = w_trace w"
  by (simp_all add: tick_def)

lemma tick_now: "w_now w \<le> w_now (tick E w)"
  by (simp add: tick_def)

lemma nowM_run [simp]: "nowM E w = (Inr (w_now (tick E w)), tick E w)"
  by (simp add: nowM_def tick_def Let_def)

lemma bindM_now [simp]: "bindM nowM f E w = f (w_now (tick E w)) E (tick E w)"
  by (simp add: bindM_def)

lemma bindM_uuid [simp]: "bindM uuidM f E w = f (e_uuid E (w_ids w)) E (w\<lparr>w_ids := Suc (w_ids w)\<rparr>)"
  by (simp add: bindM_def uuidM_def)

lemma bindM_conf [simp]: "bindM (confM k) f E w = f (e_conf E k) E w"
  by (simp add: bindM_def confM_def asksM_def)

lemma bindM_findUnique [simp]: "bindM (findUniqueM tab key k) f E w = f (find_row key k (tab w)) E w"
  by (simp add: findUniqueM_def)

lemma bindM_findFirst [simp]: "bindM (findFirstM tab p) f E w = f (find p (tab w)) E w"
  by (simp add: findFirstM_def)

lemma bindM_findMany [simp]: "bindM (findManyM tab p) f E w = f (filter p (tab w)) E w"
  by (simp add: findManyM_def)

lemma bindM_updateMany [simp]:
  "bindM (updateManyM tab upd p g) f E w =
   f (length (filter p (tab w))) E (upd (map (\<lambda>r. if p r then g r else r)) w)"
  by (simp add: updateManyM_def bindM_def)

section \<open>Relations blind to clock and trace\<close>

locale clock_relation = kept_relation R for R :: "world \<Rightarrow> world \<Rightarrow> bool" +
  assumes blind_clock: "R w (w\<lparr>w_now := t, w_ticks := n, w_ids := i\<rparr>)"
begin

lemma blind_now: "R w (w\<lparr>w_now := t, w_ticks := n\<rparr>)"
  using blind_clock [of w, where t = t and n = n and i = "w_ids w"] by simp

lemma blind_ids: "R w (w\<lparr>w_ids := i\<rparr>)"
  using blind_clock [of w, where t = "w_now w" and n = "w_ticks w" and i = i] by simp

lemma keepsR_now [keeps]: "keepsR R nowM"
  by (rule keepsRI) (simp add: nowM_def Let_def blind_now)

lemma keepsR_sleep [keeps]: "keepsR R (sleepM ms)"
  by (rule keepsRI) (simp add: sleepM_def blind_now)

lemma keepsR_uuid [keeps]: "keepsR R uuidM"
  by (rule keepsRI) (simp add: uuidM_def blind_ids)

lemma keepsR_conf [keeps]: "keepsR R (confM k)"
  by (simp add: confM_def keepsR_asks)

lemma keepsR_findFirst [keeps]: "keepsR R (findFirstM tab p)"
  by (simp add: findFirstM_def keepsR_gets)

lemma keepsR_findUnique [keeps]: "keepsR R (findUniqueM tab key k)"
  by (simp add: findUniqueM_def keepsR_gets)

lemma keepsR_findMany [keeps]: "keepsR R (findManyM tab p)"
  by (simp add: findManyM_def keepsR_gets)

lemma keepsR_create [keeps_db]:
  assumes "\<And>w r. key r \<notin> key ` set (tab w) \<Longrightarrow> chk w r = None \<Longrightarrow> R w (upd (\<lambda>t. t @ [r]) w)"
  shows "keepsR R (createM tab upd key chk mk)"
  unfolding createM_def
  by (rule keepsR_bind [OF keepsR_uuid], rule keepsRI)
    (simp add: Let_def kept_refl assms split: option.split)

lemma keepsR_create_made:
  assumes "\<And>w i t. key (mk i t) \<notin> key ` set (tab w) \<Longrightarrow> chk w (mk i t) = None \<Longrightarrow>
    R w (upd (\<lambda>x. x @ [mk i t]) w)"
  shows "keepsR R (createM tab upd key chk mk)"
  unfolding createM_def
  by (rule keepsR_bind [OF keepsR_uuid], rule keepsRI)
    (simp add: Let_def kept_refl assms split: option.split)

lemma keepsR_update [keeps_db]:
  assumes "\<And>w r. find_row key k (tab w) = Some r \<Longrightarrow> chk w (f r) = None \<Longrightarrow>
    R w (upd (upd_row key k f) w)"
  shows "keepsR R (updateM tab upd key chk k f)"
  by (rule keepsRI) (simp add: updateM_def kept_refl assms split: option.split)

lemma keepsR_updateMany [keeps_db]:
  assumes "\<And>w. R w (upd (map (\<lambda>r. if p r then f r else r)) w)"
  shows "keepsR R (updateManyM tab upd p f)"
  by (rule keepsRI) (simp add: updateManyM_def assms)

end

locale world_relation = clock_relation +
  assumes blind_trace: "R w (w\<lparr>w_trace := c\<rparr>)"
begin

lemma blind: "R w (w\<lparr>w_now := t, w_ticks := n, w_ids := i, w_trace := c\<rparr>)"
  using kept_trans [OF blind_clock blind_trace] by simp

lemma blind_call: "R w (callW c E w)"
  using kept_trans [OF blind_now blind_trace] by (simp add: callW_def)

lemma keepsR_call [keeps]: "keepsR R (callM c f)"
  by (rule keepsRI) (simp add: callM_def blind_call split: sum.split)

lemma keepsR_transaction [keeps]:
  assumes "keepsR R m"
  shows "keepsR R (transactionM m)"
  by (rule keepsRI) (auto simp: transactionM_def blind split: prod.split sum.split
      intro: keepsRD [OF assms])

end

text \<open>Each table on its own is such a component of the world.\<close>

interpretation same_users: world_relation "same users"
  by unfold_locales (simp_all add: same_def)

interpretation same_receivables: world_relation "same receivables"
  by unfold_locales (simp_all add: same_def)

interpretation same_documents: world_relation "same documents"
  by unfold_locales (simp_all add: same_def)

interpretation same_settlements: world_relation "same settlements"
  by unfold_locales (simp_all add: same_def)

interpretation same_finauths: world_relation "same finauths"
  by unfold_locales (simp_all add: same_def)

interpretation same_auditLogs: world_relation "same auditLogs"
  by unfold_locales (simp_all add: same_def)

interpretation same_investments: world_relation "same investments"
  by unfold_locales (simp_all add: same_def)

interpretation same_ptransactions: world_relation "same ptransactions"
  by unfold_locales (simp_all add: same_def)

interpretation same_pixEvents: world_relation "same pixEvents"
  by unfold_locales (simp_all add: same_def)

interpretation same_collections: world_relation "same collections"
  by unfold_locales (simp_all add: same_def)

text \<open>An operation on the tables makes no call.\<close>

interpretation same_trace: clock_relation "same w_trace"
  by unfold_locales (simp add: same_def)

section \<open>Tables and their columns\<close>

text \<open>
  The contract between a model of the schema and the code that reads and writes it: the table is
  a component of the world, and a row is found again under its key. The lemmas say what the
  table holds after \<open>create\<close> and \<open>update\<close>, on every branch.
\<close>

locale db_table =
  fixes tab :: "world \<Rightarrow> 'row list"
    and upd :: "('row list \<Rightarrow> 'row list) \<Rightarrow> world \<Rightarrow> world"
    and key :: "'row \<Rightarrow> string"
  assumes tab_upd: "tab (upd f w) = f (tab w)"
    and tab_ids: "tab (w\<lparr>w_ids := i\<rparr>) = tab w"
begin

lemma tab_create_Inr:
  assumes "createM tab upd key chk mk E w = (Inr r, w')"
  shows "tab w' = tab w @ [r]" and "key r \<notin> key ` set (tab w)"
    and "r = mk (e_uuid E (w_ids w)) (w_now w)"
    and "w' = upd (\<lambda>t. t @ [r]) (w\<lparr>w_ids := Suc (w_ids w)\<rparr>)"
  using assms
  by (auto simp: createM_def bindM_def uuidM_def Let_def tab_upd tab_ids
      split: if_splits option.splits)

lemma tab_create_Inl:
  assumes "createM tab upd key chk mk E w = (Inl e, w')"
  shows "tab w' = tab w" and "w' = w\<lparr>w_ids := Suc (w_ids w)\<rparr>"
  using assms
  by (auto simp: createM_def bindM_def uuidM_def Let_def tab_ids split: if_splits option.splits)

lemma tab_update_Inr:
  assumes "updateM tab upd key chk k f E w = (Inr r, w')"
  obtains r0 where "find_row key k (tab w) = Some r0" and "r = f r0"
    and "w' = upd (upd_row key k f) w" and "tab w' = upd_row key k f (tab w)"
    and "chk w r = None"
  using assms by (auto simp: updateM_def tab_upd split: option.splits)

lemma tab_update_Inl:
  assumes "updateM tab upd key chk k f E w = (Inl e, w')"
  shows "w' = w"
  using assms by (auto simp: updateM_def split: option.splits)

lemma tab_update_run:
  assumes "find_row key k (tab w) = Some r" and "chk w (f r) = None"
  shows "updateM tab upd key chk k f E w = (Inr (f r), upd (upd_row key k f) w)"
  using assms by (simp add: updateM_def)

end

interpretation tusers: db_table users users_update usr_id
  by unfold_locales simp_all

interpretation treceivables: db_table receivables receivables_update rcv_id
  by unfold_locales simp_all

interpretation tdocuments: db_table documents documents_update doc_id
  by unfold_locales simp_all

interpretation tsettlements: db_table settlements settlements_update stl_id
  by unfold_locales simp_all

interpretation tfinauths: db_table finauths finauths_update fa_id
  by unfold_locales simp_all

interpretation tauditLogs: db_table auditLogs auditLogs_update aud_id
  by unfold_locales simp_all

interpretation tinvestments: db_table investments investments_update inv_id
  by unfold_locales simp_all

interpretation tptransactions: db_table ptransactions ptransactions_update ptx_id
  by unfold_locales simp_all

interpretation tpixEvents: db_table pixEvents pixEvents_update evt_id
  by unfold_locales simp_all

interpretation tcollections: db_table collections collections_update col_id
  by unfold_locales simp_all

lemma createM_world:
  "createM tab upd key chk mk E w = (Inr r, w') \<Longrightarrow> w' = upd (\<lambda>t. t @ [r]) (w\<lparr>w_ids := Suc (w_ids w)\<rparr>)
    \<and> r = mk (e_uuid E (w_ids w)) (w_now w)"
  by (auto simp: createM_def Let_def split: if_splits option.splits)

end
