(* ===== verification/Evolution.thy ===== *)
theory Evolution
  imports World
begin

text \<open>
  What no operation of the API ever does to the database: delete a row, or rewrite a column that
  identifies it. \<open>evolves w w'\<close> says that every table of \<open>w'\<close> continues the table of \<open>w\<close>:
  the old rows are still there, in place, each related to what it was by the relation of its
  model. Audit log, webhook events, documents and settlements are append-only; an authorization
  once consumed keeps its time of consumption, and only a verified one becomes consumed; a user who has a Privy wallet keeps having one.

  \<open>db_ok\<close> collects the constraints the schema declares: keys and \<open>@unique\<close> columns do not
  repeat, every \<open>@relation\<close> has its target. \<open>sound_step\<close> is the relation every operation is
  shown to respect: the database evolves, and its constraints stay true.
\<close>

definition grows :: "('row \<Rightarrow> 'row \<Rightarrow> bool) \<Rightarrow> 'row list \<Rightarrow> 'row list \<Rightarrow> bool" where
  "grows P t u \<longleftrightarrow> length t \<le> length u \<and> (\<forall>i < length t. P (t ! i) (u ! i))"

definition user_evo :: "user \<Rightarrow> user \<Rightarrow> bool" where
  "user_evo u v \<longleftrightarrow> usr_id v = usr_id u \<and> usr_email v = usr_email u \<and> usr_createdAt v = usr_createdAt u
     \<and> (falsy (usr_privyStellarWalletAddress v) \<longrightarrow> falsy (usr_privyStellarWalletAddress u))"

definition receivable_evo :: "receivable \<Rightarrow> receivable \<Rightarrow> bool" where
  "receivable_evo r s \<longleftrightarrow> rcv_id s = rcv_id r \<and> rcv_userId s = rcv_userId r \<and> rcv_value s = rcv_value r
     \<and> rcv_type s = rcv_type r \<and> rcv_debtorName s = rcv_debtorName r
     \<and> rcv_debtorDocument s = rcv_debtorDocument r \<and> rcv_dueDate s = rcv_dueDate r
     \<and> rcv_createdAt s = rcv_createdAt r \<and> (rcv_txHash s = None \<longrightarrow> rcv_txHash r = None)"

definition finauth_evo :: "finauth \<Rightarrow> finauth \<Rightarrow> bool" where
  "finauth_evo a b \<longleftrightarrow> fa_id b = fa_id a \<and> fa_userId b = fa_userId a \<and> fa_walletId b = fa_walletId a
     \<and> fa_operation b = fa_operation a \<and> fa_resourceId b = fa_resourceId a \<and> fa_amount b = fa_amount a
     \<and> fa_destination b = fa_destination a \<and> fa_nonce b = fa_nonce a
     \<and> fa_payloadHash b = fa_payloadHash a \<and> fa_payload b = fa_payload a
     \<and> fa_expiresAt b = fa_expiresAt a \<and> fa_createdAt b = fa_createdAt a
     \<and> (fa_verifiedAt b = None \<longrightarrow> fa_verifiedAt a = None)
     \<and> (fa_consumedAt a \<noteq> None \<longrightarrow> fa_consumedAt b = fa_consumedAt a)
     \<and> (fa_consumedAt b \<noteq> None \<longrightarrow> fa_consumedAt a \<noteq> None \<or> fa_verifiedAt b \<noteq> None)"

definition investment_evo :: "investment \<Rightarrow> investment \<Rightarrow> bool" where
  "investment_evo i j \<longleftrightarrow> inv_id j = inv_id i \<and> inv_investorUserId j = inv_investorUserId i
     \<and> inv_receivableId j = inv_receivableId i \<and> inv_amountPaid j = inv_amountPaid i
     \<and> inv_faceValue j = inv_faceValue i \<and> inv_discountRate j = inv_discountRate i
     \<and> inv_status j = inv_status i \<and> inv_pixTxId j = inv_pixTxId i \<and> inv_paidAt j = inv_paidAt i
     \<and> inv_createdAt j = inv_createdAt i"

definition ptransaction_evo :: "ptransaction \<Rightarrow> ptransaction \<Rightarrow> bool" where
  "ptransaction_evo t u \<longleftrightarrow> ptx_id u = ptx_id t \<and> ptx_userId u = ptx_userId t \<and> ptx_type u = ptx_type t
     \<and> ptx_amount u = ptx_amount t \<and> ptx_pixKey u = ptx_pixKey t \<and> ptx_createdAt u = ptx_createdAt t"

definition collection_evo :: "collection \<Rightarrow> collection \<Rightarrow> bool" where
  "collection_evo c d \<longleftrightarrow> col_id d = col_id c \<and> col_receivableId d = col_receivableId c
     \<and> col_amount d = col_amount c \<and> col_dueDate d = col_dueDate c \<and> col_createdAt d = col_createdAt c
     \<and> (col_status c = CPaid \<longrightarrow> col_status d = CPaid)"

definition evolves :: "world \<Rightarrow> world \<Rightarrow> bool" where
  "evolves w v \<longleftrightarrow>
     grows user_evo (users w) (users v)
   \<and> grows receivable_evo (receivables w) (receivables v)
   \<and> grows (=) (documents w) (documents v)
   \<and> grows (=) (settlements w) (settlements v)
   \<and> grows finauth_evo (finauths w) (finauths v)
   \<and> grows (=) (auditLogs w) (auditLogs v)
   \<and> grows investment_evo (investments w) (investments v)
   \<and> grows ptransaction_evo (ptransactions w) (ptransactions v)
   \<and> grows (=) (pixEvents w) (pixEvents v)
   \<and> grows collection_evo (collections w) (collections v)"

definition uniq :: "('row \<Rightarrow> string) \<Rightarrow> ('row \<Rightarrow> string option) \<Rightarrow> 'row list \<Rightarrow> bool" where
  "uniq key g t \<longleftrightarrow> (\<forall>x \<in> set t. \<forall>y \<in> set t. g x \<noteq> None \<longrightarrow> g x = g y \<longrightarrow> key x = key y)"

definition keys_ok :: "world \<Rightarrow> bool" where
  "keys_ok w \<longleftrightarrow> distinct (map usr_id (users w)) \<and> distinct (map rcv_id (receivables w))
     \<and> distinct (map doc_id (documents w)) \<and> distinct (map stl_id (settlements w))
     \<and> distinct (map aud_id (auditLogs w))
     \<and> distinct (map fa_id (finauths w)) \<and> distinct (map inv_id (investments w))
     \<and> distinct (map ptx_id (ptransactions w)) \<and> distinct (map evt_id (pixEvents w))
     \<and> distinct (map col_id (collections w))"

definition unique_ok :: "world \<Rightarrow> bool" where
  "unique_ok w \<longleftrightarrow> uniq usr_id (\<lambda>u. Some (usr_email u)) (users w) \<and> uniq usr_id usr_googleId (users w)
     \<and> uniq usr_id usr_privyUserId (users w) \<and> uniq usr_id usr_privyStellarWalletAddress (users w)
     \<and> uniq usr_id usr_cnpj (users w)
     \<and> uniq fa_id (\<lambda>a. Some (fa_nonce a)) (finauths w)
     \<and> uniq fa_id (\<lambda>a. Some (fa_payloadHash a)) (finauths w)
     \<and> uniq inv_id (\<lambda>i. Some (inv_receivableId i)) (investments w)
     \<and> uniq ptx_id ptx_pixOrderId (ptransactions w) \<and> uniq ptx_id ptx_pixIdentifier (ptransactions w)
     \<and> uniq evt_id (\<lambda>e. Some (evt_eventId e)) (pixEvents w)
     \<and> uniq col_id col_pixOrderId (collections w) \<and> uniq col_id col_identifier (collections w)"

definition refs_ok :: "world \<Rightarrow> bool" where
  "refs_ok w \<longleftrightarrow> rcv_userId ` set (receivables w) \<subseteq> usr_id ` set (users w)
     \<and> doc_receivableId ` set (documents w) \<subseteq> rcv_id ` set (receivables w)
     \<and> stl_receivableId ` set (settlements w) \<subseteq> rcv_id ` set (receivables w)
     \<and> fa_userId ` set (finauths w) \<subseteq> usr_id ` set (users w)
     \<and> aud_userId ` set (auditLogs w) \<subseteq> usr_id ` set (users w)
     \<and> inv_receivableId ` set (investments w) \<subseteq> rcv_id ` set (receivables w)
     \<and> inv_investorUserId ` set (investments w) \<subseteq> usr_id ` set (users w)
     \<and> ptx_userId ` set (ptransactions w) \<subseteq> usr_id ` set (users w)"

definition db_ok :: "world \<Rightarrow> bool" where
  "db_ok w \<longleftrightarrow> keys_ok w \<and> unique_ok w \<and> refs_ok w"

text \<open>
  Rules of the business that no column constraint states. The columns of an authorization are
  the fields of the payload that was signed. Who has a verified authorization has a Privy wallet.
  Nobody invests in a receivable of his own, and the face value of an investment is the
  receivable's value. A transaction is a deposit or a withdrawal.
\<close>

definition payload_ok :: "finauth \<Rightarrow> bool" where
  "payload_ok a \<longleftrightarrow> pl_userId (fa_payload a) = fa_userId a \<and> pl_walletId (fa_payload a) = fa_walletId a
     \<and> pl_operation (fa_payload a) = fa_operation a \<and> pl_resourceId (fa_payload a) = fa_resourceId a
     \<and> pl_amount (fa_payload a) = fa_amount a \<and> pl_destination (fa_payload a) = fa_destination a
     \<and> pl_nonce (fa_payload a) = fa_nonce a \<and> pl_expiresAt (fa_payload a) = toISOString (fa_expiresAt a)"

definition has_privy :: "user list \<Rightarrow> string \<Rightarrow> bool" where
  "has_privy us i \<longleftrightarrow> (\<exists>u \<in> set us. usr_id u = i \<and> \<not> falsy (usr_privyStellarWalletAddress u))"

definition invest_ok :: "receivable list \<Rightarrow> investment \<Rightarrow> bool" where
  "invest_ok rs i \<longleftrightarrow> (\<exists>r \<in> set rs. rcv_id r = inv_receivableId i \<and> rcv_userId r \<noteq> inv_investorUserId i
     \<and> inv_faceValue i = rcv_value r)"

definition typed_ptx :: "ptransaction \<Rightarrow> bool" where
  "typed_ptx t \<longleftrightarrow> ptx_type t = ''DEPOSIT'' \<or> ptx_type t = ''WITHDRAWAL''"

definition biz_ok :: "world \<Rightarrow> bool" where
  "biz_ok w \<longleftrightarrow> (\<forall>a \<in> set (finauths w). payload_ok a \<and> (fa_verifiedAt a \<noteq> None \<longrightarrow> has_privy (users w) (fa_userId a)))
     \<and> (\<forall>i \<in> set (investments w). invest_ok (receivables w) i)
     \<and> (\<forall>t \<in> set (ptransactions w). typed_ptx t)"

definition sound_step :: "world \<Rightarrow> world \<Rightarrow> bool" where
  "sound_step w v \<longleftrightarrow> evolves w v \<and> (db_ok w \<longrightarrow> db_ok v) \<and> (db_ok w \<longrightarrow> biz_ok w \<longrightarrow> biz_ok v)"

lemmas evo_defs = user_evo_def receivable_evo_def finauth_evo_def investment_evo_def
  ptransaction_evo_def collection_evo_def

section \<open>Growing tables\<close>

lemma grows_refl: "reflp P \<Longrightarrow> grows P t t"
  by (simp add: grows_def reflpD)

lemma grows_trans: "transp P \<Longrightarrow> grows P t u \<Longrightarrow> grows P u v \<Longrightarrow> grows P t v"
  unfolding grows_def by (metis order_less_le_trans order_trans transpD)

lemma grows_append: "reflp P \<Longrightarrow> grows P t (t @ [r])"
  by (simp add: grows_def nth_append reflpD)

lemma grows_upd_row: "reflp P \<Longrightarrow> (\<And>r. P r (f r)) \<Longrightarrow> grows P t (upd_row key k f t)"
  by (simp add: grows_def upd_row_def reflpD)

lemma grows_updateMany:
  "reflp P \<Longrightarrow> (\<And>r. p r \<Longrightarrow> P r (f r)) \<Longrightarrow> grows P t (map (\<lambda>r. if p r then f r else r) t)"
  by (simp add: grows_def reflpD)

lemma grows_eq_prefix: "grows (=) t u \<longleftrightarrow> take (length t) u = t"
  unfolding grows_def by (auto simp: list_eq_iff_nth_eq min_def)

lemma grows_member:
  assumes "grows P t u" and "r \<in> set t"
  obtains s where "s \<in> set u" and "P r s"
  using assms by (auto simp: grows_def in_set_conv_nth) (metis nth_mem order_less_le_trans)

text \<open>A row found by its key is found again, in its evolved form.\<close>

lemma grows_find_row:
  assumes "grows P t u" and "\<And>r s. P r s \<Longrightarrow> key s = key r" and "find_row key k t = Some r"
  shows "\<exists>s. find_row key k u = Some s \<and> P r s"
  using assms
proof (induction t arbitrary: u)
  case Nil
  then show ?case by simp
next
  case (Cons x t)
  from Cons.prems(1) obtain y u' where u: "u = y # u'" and xy: "P x y"
    by (cases u) (auto simp: grows_def)
  have g: "grows P t u'" using Cons.prems(1) by (auto simp: grows_def u)
  show ?case
  proof (cases "key x = k")
    case True
    with Cons.prems(2,3) xy u show ?thesis by (auto simp: find_row_Cons)
  next
    case False
    with Cons.prems(2,3) xy u Cons.IH [OF g] show ?thesis by (auto simp: find_row_Cons)
  qed
qed

lemma evo_refl:
  "reflp user_evo" "reflp receivable_evo" "reflp finauth_evo" "reflp investment_evo"
  "reflp ptransaction_evo" "reflp collection_evo" "reflp ((=) :: 'r \<Rightarrow> 'r \<Rightarrow> bool)"
  by (auto simp: reflp_def evo_defs)

lemma evo_trans:
  "transp user_evo" "transp receivable_evo" "transp finauth_evo" "transp investment_evo"
  "transp ptransaction_evo" "transp collection_evo" "transp ((=) :: 'r \<Rightarrow> 'r \<Rightarrow> bool)"
  by (auto simp: transp_def evo_defs)

section \<open>The relation on worlds\<close>

interpretation evo: world_relation evolves
proof
  show "evolves w w" for w
    by (simp add: evolves_def evo_refl grows_refl)
  show "evolves u w" if "evolves u v" and "evolves v w" for u v w
    using that unfolding evolves_def
    by (elim conjE) (intro conjI; erule (1) grows_trans [rotated]; rule evo_trans)
  show "evolves w (w\<lparr>w_now := t, w_ticks := n, w_ids := i\<rparr>)" for w t n i
    by (simp add: evolves_def evo_refl grows_refl)
  show "evolves w (w\<lparr>w_trace := c\<rparr>)" for w c
    by (simp add: evolves_def evo_refl grows_refl)
qed

interpretation step: world_relation sound_step
proof
  show "sound_step w w" for w
    by (simp add: sound_step_def evo.kept_refl)
  show "sound_step u w" if "sound_step u v" and "sound_step v w" for u v w
    using that evo.kept_trans [of u v w] by (auto simp: sound_step_def)
  show "sound_step w (w\<lparr>w_now := t, w_ticks := n, w_ids := i\<rparr>)" for w t n i
    using evo.blind_clock [of w]
    by (simp add: sound_step_def db_ok_def keys_ok_def unique_ok_def refs_ok_def biz_ok_def)
  show "sound_step w (w\<lparr>w_trace := c\<rparr>)" for w c
    using evo.blind_trace [of w]
    by (simp add: sound_step_def db_ok_def keys_ok_def unique_ok_def refs_ok_def biz_ok_def)
qed

section \<open>Constraints under writes\<close>

lemma uniqI:
  "(\<And>x y. x \<in> set t \<Longrightarrow> y \<in> set t \<Longrightarrow> g x \<noteq> None \<Longrightarrow> g x = g y \<Longrightarrow> key x = key y) \<Longrightarrow> uniq key g t"
  unfolding uniq_def by blast

lemma uniqD:
  "uniq key g t \<Longrightarrow> x \<in> set t \<Longrightarrow> y \<in> set t \<Longrightarrow> g x \<noteq> None \<Longrightarrow> g x = g y \<Longrightarrow> key x = key y"
  unfolding uniq_def by blast

lemma not_clashD: "\<not> clash key g t r \<Longrightarrow> x \<in> set t \<Longrightarrow> g r \<noteq> None \<Longrightarrow> g x = g r \<Longrightarrow> key x = key r"
  unfolding clash_def list_ex_iff by blast

lemma uniq_append:
  assumes "uniq key g t" and "\<not> clash key g t r"
  shows "uniq key g (t @ [r])"
proof (rule uniqI)
  fix x y
  assume "x \<in> set (t @ [r])" "y \<in> set (t @ [r])" and g: "g x \<noteq> None" "g x = g y"
  then consider "x \<in> set t" "y \<in> set t" | "x \<in> set t" "y = r" | "x = r" "y \<in> set t" | "x = r" "y = r"
    by auto
  then show "key x = key y"
  proof cases
    case 1
    then show ?thesis using uniqD [OF assms(1)] g by blast
  next
    case 2
    with g have "g r \<noteq> None" "g x = g r" by simp_all
    then show ?thesis using not_clashD [OF assms(2) 2(1)] 2(2) by simp
  next
    case 3
    with g have "g r \<noteq> None" "g y = g r" by simp_all
    then show ?thesis using not_clashD [OF assms(2) 3(2)] 3(1) by simp
  qed simp
qed

lemma uniq_map:
  assumes "uniq key g t" and "\<And>x. x \<in> set t \<Longrightarrow> key (h x) = key x"
    and "\<And>x y. x \<in> set t \<Longrightarrow> y \<in> set t \<Longrightarrow> g (h x) \<noteq> g x \<Longrightarrow> g (h x) \<noteq> None \<Longrightarrow> g (h y) = g (h x) \<Longrightarrow>
      key y = key x"
  shows "uniq key g (map h t)"
proof (rule uniqI)
  fix x' y'
  assume "x' \<in> set (map h t)" "y' \<in> set (map h t)" and g: "g x' \<noteq> None" "g x' = g y'"
  then obtain x y where xy: "x \<in> set t" "y \<in> set t" "x' = h x" "y' = h y" by auto
  have "key x = key y"
  proof (cases "g (h x) = g x \<and> g (h y) = g y")
    case True
    with g xy show ?thesis using uniqD [OF assms(1) xy(1,2)] by simp
  next
    case False
    then consider "g (h x) \<noteq> g x" | "g (h y) \<noteq> g y" by blast
    then show ?thesis
    proof cases
      case 1
      then have "key y = key x" by (rule assms(3) [OF xy(1,2)]) (use g xy(3,4) in simp_all)
      then show ?thesis by (rule sym)
    next
      case 2
      then show ?thesis by (rule assms(3) [OF xy(2,1)]) (use g xy(3,4) in simp_all)
    qed
  qed
  with xy assms(2) show "key x' = key y'" by simp
qed

lemma uniq_upd_row:
  assumes "uniq key g t" and "distinct (map key t)" and "find_row key k t = Some r"
    and "\<not> clash key g t (f r)" and "\<And>r. key (f r) = key r"
  shows "uniq key g (upd_row key k f t)"
  unfolding upd_row_def
proof (rule uniq_map [OF assms(1)])
  fix x y
  let ?h = "\<lambda>r. if key r = k then f r else r"
  assume x: "x \<in> set t" and y: "y \<in> set t" and gx: "g (?h x) \<noteq> g x" "g (?h x) \<noteq> None"
    and e: "g (?h y) = g (?h x)"
  from gx(1) have kx: "key x = k" by (auto split: if_splits)
  have xr: "x = r"
    using find_row_distinct [OF assms(2) x] assms(3) kx by simp
  show "key y = key x"
  proof (cases "key y = k")
    case False
    with e kx xr gx have "g y = g (f r)" "g (f r) \<noteq> None" by simp_all
    from not_clashD [OF assms(4) y this(2,1)] show ?thesis using assms(5) xr by simp
  qed (use kx in simp)
qed (use assms(5) in simp)

lemma uniq_map_same:
  assumes "uniq key g t" and "\<And>r. key (h r) = key r" and "\<And>r. g (h r) = g r"
  shows "uniq key g (map h t)"
  by (rule uniq_map [OF assms(1)]) (simp_all add: assms(2,3))

lemma uniq_upd_row_same:
  assumes "uniq key g t" and "\<And>r. key (f r) = key r" and "\<And>r. g (f r) = g r"
  shows "uniq key g (upd_row key k f t)"
  unfolding upd_row_def by (rule uniq_map_same [OF assms(1)]) (simp_all add: assms(2,3))

lemma image_upd_row:
  assumes "\<And>r. g (f r) = g r"
  shows "g ` set (upd_row key k f t) = g ` set t"
  using map_key_upd_row [of g f key k t, OF assms] by (metis set_map)

lemma has_user_iff: "has_user w i \<longleftrightarrow> i \<in> usr_id ` set (users w)"
  by (simp add: has_user_def find_row_None_iff)

lemma has_receivable_iff: "has_receivable w i \<longleftrightarrow> i \<in> rcv_id ` set (receivables w)"
  by (simp add: has_receivable_def find_row_None_iff)

lemma fk_None [simp]: "fk b = None \<longleftrightarrow> b"
  by (simp add: fk_def)

lemmas db_ok_defs = db_ok_def keys_ok_def unique_ok_def refs_ok_def

lemmas chk_defs = chk_user_def chk_receivable_def chk_document_def chk_settlement_def chk_finauth_def
  chk_auditLog_def chk_investment_def chk_transaction_def chk_pixEvent_def chk_collection_def

lemmas grow_rules = grows_refl grows_append grows_upd_row evo_refl

text \<open>The rules of the business survive every write that adds no verified row and no investment.\<close>

lemma has_privy_mono:
  assumes "grows user_evo us vs" and "has_privy us i"
  shows "has_privy vs i"
proof -
  from assms(2) obtain u where "u \<in> set us" "usr_id u = i" "\<not> falsy (usr_privyStellarWalletAddress u)"
    by (auto simp: has_privy_def)
  with assms(1) show ?thesis
    by (auto simp: has_privy_def user_evo_def elim!: grows_member)
qed

lemma invest_ok_mono:
  assumes "grows receivable_evo rs ss" and "invest_ok rs i"
  shows "invest_ok ss i"
proof -
  from assms(2) obtain r where "r \<in> set rs" "rcv_id r = inv_receivableId i"
    "rcv_userId r \<noteq> inv_investorUserId i" "inv_faceValue i = rcv_value r"
    by (auto simp: invest_ok_def)
  with assms(1) obtain s where "s \<in> set ss" "receivable_evo r s" by (elim grows_member)
  then show ?thesis
    using \<open>rcv_id r = _\<close> \<open>rcv_userId r \<noteq> _\<close> \<open>inv_faceValue i = _\<close>
    unfolding invest_ok_def by (intro bexI [of _ s]) (auto simp: receivable_evo_def)
qed

lemma biz_ok_keep:
  assumes "biz_ok w" and "grows user_evo (users w) (users v)"
    and "grows receivable_evo (receivables w) (receivables v)"
    and "\<And>a. a \<in> set (finauths v) \<Longrightarrow> payload_ok a \<and> fa_verifiedAt a = None
      \<or> (\<exists>b \<in> set (finauths w). finauth_evo b a \<and> (fa_verifiedAt a \<noteq> None \<longrightarrow> fa_verifiedAt b \<noteq> None))"
    and "\<And>i. i \<in> set (investments v) \<Longrightarrow> \<exists>j \<in> set (investments w). investment_evo j i"
    and "ptransactions v = ptransactions w"
  shows "biz_ok v"
  unfolding biz_ok_def
proof (intro conjI ballI)
  fix a assume "a \<in> set (finauths v)"
  from assms(4) [OF this] consider "payload_ok a" "fa_verifiedAt a = None"
    | b where "b \<in> set (finauths w)" "finauth_evo b a" "fa_verifiedAt a \<noteq> None \<longrightarrow> fa_verifiedAt b \<noteq> None"
    by fast
  then show "payload_ok a" and "fa_verifiedAt a \<noteq> None \<longrightarrow> has_privy (users v) (fa_userId a)"
    using assms(1) has_privy_mono [OF assms(2)]
    by (cases; force simp: biz_ok_def payload_ok_def finauth_evo_def)+
next
  fix i assume "i \<in> set (investments v)"
  with assms(5) obtain j where "j \<in> set (investments w)" "investment_evo j i" by blast
  then show "invest_ok (receivables v) i"
    using assms(1) invest_ok_mono [OF assms(3)]
    by (fastforce simp: biz_ok_def invest_ok_def investment_evo_def)
next
  fix t assume "t \<in> set (ptransactions v)"
  then show "typed_ptx t" using assms(1,6) by (simp add: biz_ok_def)
qed

lemma evo_refl1 [simp]: "user_evo u u" "receivable_evo r r" "finauth_evo a a" "investment_evo i i"
  by (simp_all add: evo_defs)

lemma biz_ok_other [simp]:
  "biz_ok (documents_update f1 w) = biz_ok w" "biz_ok (settlements_update f2 w) = biz_ok w"
  "biz_ok (auditLogs_update f3 w) = biz_ok w"
  "biz_ok (pixEvents_update f5 w) = biz_ok w" "biz_ok (collections_update f6 w) = biz_ok w"
  "biz_ok (w\<lparr>w_ids := i\<rparr>) = biz_ok w"
  by (simp_all add: biz_ok_def)

lemma biz_ok_transactions:
  "biz_ok w \<Longrightarrow> (\<And>t. t \<in> set (f (ptransactions w)) \<Longrightarrow> typed_ptx t) \<Longrightarrow> biz_ok (ptransactions_update f w)"
  by (simp add: biz_ok_def)

lemma biz_ok_users:
  "biz_ok w \<Longrightarrow> grows user_evo (users w) (f (users w)) \<Longrightarrow> biz_ok (users_update f w)"
  by (rule biz_ok_keep) (auto simp: grow_rules intro!: bexI evo_refl1)

lemma biz_ok_receivables:
  "biz_ok w \<Longrightarrow> grows receivable_evo (receivables w) (f (receivables w)) \<Longrightarrow> biz_ok (receivables_update f w)"
  by (rule biz_ok_keep) (auto simp: grow_rules intro!: bexI evo_refl1)

lemma biz_ok_finauths:
  assumes "biz_ok w" and "\<And>a. a \<in> set (f (finauths w)) \<Longrightarrow> payload_ok a \<and> fa_verifiedAt a = None
      \<or> (\<exists>b \<in> set (finauths w). finauth_evo b a \<and> (fa_verifiedAt a \<noteq> None \<longrightarrow> fa_verifiedAt b \<noteq> None))"
  shows "biz_ok (finauths_update f w)"
proof (rule biz_ok_keep [OF assms(1)])
  show "payload_ok a \<and> fa_verifiedAt a = None
      \<or> (\<exists>b \<in> set (finauths w). finauth_evo b a \<and> (fa_verifiedAt a \<noteq> None \<longrightarrow> fa_verifiedAt b \<noteq> None))"
    if "a \<in> set (finauths (finauths_update f w))" for a
    using that by (intro assms(2)) simp
  show "\<exists>j \<in> set (investments w). investment_evo j i"
    if "i \<in> set (investments (finauths_update f w))" for i
    using that by (intro bexI [of _ i]) simp_all
qed (simp_all add: grow_rules)

lemma biz_ok_investments:
  assumes "biz_ok w"
    and "\<And>i. i \<in> set (f (investments w)) \<Longrightarrow> \<exists>j \<in> set (investments w). investment_evo j i"
  shows "biz_ok (investments_update f w)"
proof (rule biz_ok_keep [OF assms(1)])
  show "\<exists>j \<in> set (investments w). investment_evo j i"
    if "i \<in> set (investments (investments_update f w))" for i
    using that by (intro assms(2)) simp
  show "payload_ok a \<and> fa_verifiedAt a = None
      \<or> (\<exists>b \<in> set (finauths w). finauth_evo b a \<and> (fa_verifiedAt a \<noteq> None \<longrightarrow> fa_verifiedAt b \<noteq> None))"
    if "a \<in> set (finauths (investments_update f w))" for a
    using that by (intro disjI2 bexI [of _ a]) simp_all
qed (simp_all add: grow_rules)

section \<open>Every write is a sound step\<close>

lemma step_create_user [keeps]: "keepsR sound_step (createM users users_update usr_id chk_user mk)"
proof (rule step.keepsR_create)
  fix w r
  assume "usr_id r \<notin> usr_id ` set (users w)" "chk_user w r = None"
  then show "sound_step w (users_update (\<lambda>t. t @ [r]) w)"
    by (simp add: sound_step_def evolves_def grow_rules db_ok_defs chk_user_def uniq_append
        subset_insertI2 biz_ok_users split: if_splits)
qed

lemma step_create_receivable [keeps]:
  "keepsR sound_step (createM receivables receivables_update rcv_id chk_receivable mk)"
  by (rule step.keepsR_create)
    (simp add: sound_step_def evolves_def grow_rules db_ok_defs chk_receivable_def has_user_iff
      subset_insertI2 biz_ok_receivables)

lemma step_create_document [keeps]:
  "keepsR sound_step (createM documents documents_update doc_id chk_document mk)"
  by (rule step.keepsR_create)
    (simp add: sound_step_def evolves_def grow_rules db_ok_defs chk_document_def has_receivable_iff)

lemma step_create_settlement [keeps]:
  "keepsR sound_step (createM settlements settlements_update stl_id chk_settlement mk)"
  by (rule step.keepsR_create)
    (simp add: sound_step_def evolves_def grow_rules db_ok_defs chk_settlement_def has_receivable_iff)

lemma step_create_finauth [keeps]:
  assumes "\<And>i t. payload_ok (mk i t) \<and> fa_verifiedAt (mk i t) = None"
  shows "keepsR sound_step (createM finauths finauths_update fa_id chk_finauth mk)"
proof (rule step.keepsR_create_made)
  fix w i t
  assume "fa_id (mk i t) \<notin> fa_id ` set (finauths w)" "chk_finauth w (mk i t) = None"
  then show "sound_step w (finauths_update (\<lambda>x. x @ [mk i t]) w)"
    using assms by (auto simp: sound_step_def evolves_def grow_rules db_ok_defs chk_finauth_def
        has_user_iff uniq_append intro!: biz_ok_finauths bexI split: if_splits)
qed

lemma step_create_auditLog [keeps]:
  "keepsR sound_step (createM auditLogs auditLogs_update aud_id chk_auditLog mk)"
  by (rule step.keepsR_create)
    (simp add: sound_step_def evolves_def grow_rules db_ok_defs chk_auditLog_def has_user_iff)

lemma step_create_investment:
  assumes "createM investments investments_update inv_id chk_investment mk E w = (x, v)"
    and "\<And>i t. invest_ok (receivables w) (mk i t)"
  shows "sound_step w v"
proof (cases x)
  case (Inl e)
  with assms(1) show ?thesis using tinvestments.tab_create_Inl(2) step.blind_ids by fastforce
next
  case (Inr r)
  let ?w = "w\<lparr>w_ids := Suc (w_ids w)\<rparr>"
  have c: "inv_id r \<notin> inv_id ` set (investments ?w)" "chk_investment ?w r = None"
    "v = investments_update (\<lambda>t. t @ [r]) ?w" "r = mk (e_uuid E (w_ids w)) (w_now w)"
    using assms(1) Inr by (auto simp: createM_def Let_def split: if_splits option.splits)
  have "biz_ok ?w \<longrightarrow> biz_ok v"
    using c(3,4) assms(2) by (auto simp: biz_ok_def)
  then have "sound_step ?w v"
    using c by (auto simp: sound_step_def evolves_def grow_rules db_ok_defs chk_investment_def
        has_user_iff has_receivable_iff uniq_append split: if_splits)
  then show ?thesis using step.blind_ids step.kept_trans by blast
qed

lemma step_create_transaction [keeps]:
  assumes "\<And>i t. typed_ptx (mk i t)"
  shows "keepsR sound_step (createM ptransactions ptransactions_update ptx_id chk_transaction mk)"
  by (rule step.keepsR_create_made)
    (auto simp: sound_step_def evolves_def grow_rules db_ok_defs chk_transaction_def has_user_iff
      uniq_append biz_ok_def assms split: if_splits)

lemma step_create_pixEvent [keeps]:
  "keepsR sound_step (createM pixEvents pixEvents_update evt_id chk_pixEvent mk)"
  by (rule step.keepsR_create)
    (simp add: sound_step_def evolves_def grow_rules db_ok_defs chk_pixEvent_def uniq_append
      split: if_splits)

lemma step_create_collection [keeps]:
  "keepsR sound_step (createM collections collections_update col_id chk_collection mk)"
  by (rule step.keepsR_create)
    (simp add: sound_step_def evolves_def grow_rules db_ok_defs chk_collection_def uniq_append
      split: if_splits)

lemma step_update_user [keeps]:
  assumes "\<And>u. user_evo u (f u)"
  shows "keepsR sound_step (updateM users users_update usr_id chk_user k f)"
proof (rule step.keepsR_update)
  fix w r
  assume a: "find_row usr_id k (users w) = Some r" "chk_user w (f r) = None"
  have f: "usr_id (f u) = usr_id u" for u using assms [of u] by (simp add: user_evo_def)
  show "sound_step w (users_update (upd_row usr_id k f) w)"
    using a f by (simp add: sound_step_def evolves_def grow_rules assms db_ok_defs chk_user_def
        uniq_upd_row [where r = r] distinct_upd_row image_upd_row biz_ok_users split: if_splits)
qed

lemma step_update_receivable [keeps]:
  assumes "\<And>r. receivable_evo r (f r)"
  shows "keepsR sound_step (updateM receivables receivables_update rcv_id no_chk k f)"
proof (rule step.keepsR_update)
  fix w r
  have f: "rcv_id (f u) = rcv_id u" "rcv_userId (f u) = rcv_userId u" for u
    using assms [of u] by (simp_all add: receivable_evo_def)
  show "sound_step w (receivables_update (upd_row rcv_id k f) w)"
    using f by (simp add: sound_step_def evolves_def grow_rules assms db_ok_defs
        distinct_upd_row image_upd_row biz_ok_receivables)
qed

lemma finauth_row_sound:
  assumes "\<And>a. finauth_evo a (f a)"
  shows "evolves w (finauths_update (upd_row fa_id k f) w)"
    and "db_ok w \<Longrightarrow> db_ok (finauths_update (upd_row fa_id k f) w)"
proof -
  have f: "fa_id (f u) = fa_id u" "fa_userId (f u) = fa_userId u" "fa_nonce (f u) = fa_nonce u"
    "fa_payloadHash (f u) = fa_payloadHash u" for u
    using assms [of u] by (simp_all add: finauth_evo_def)
  show "evolves w (finauths_update (upd_row fa_id k f) w)"
    by (simp add: evolves_def grow_rules assms)
  show "db_ok w \<Longrightarrow> db_ok (finauths_update (upd_row fa_id k f) w)"
    using f by (simp add: db_ok_defs distinct_upd_row image_upd_row uniq_upd_row_same)
qed

text \<open>Marking a row as verified is sound for a user who has a Privy wallet.\<close>

lemma step_verified:
  assumes "\<And>a. finauth_evo a (f a)" and "find_row fa_id k (finauths w) = Some a"
    and "has_privy (users w) (fa_userId a)"
  shows "sound_step w (finauths_update (upd_row fa_id k f) w)"
proof -
  have "biz_ok (finauths_update (upd_row fa_id k f) w)" if ok: "db_ok w" "biz_ok w"
  proof -
    have d: "distinct (map fa_id (finauths w))" using ok(1) by (simp add: db_ok_defs)
    have "payload_ok c \<and> (fa_verifiedAt c \<noteq> None \<longrightarrow> has_privy (users w) (fa_userId c))"
      if "c \<in> set (upd_row fa_id k f (finauths w))" for c
    proof -
      from that obtain b where b: "b \<in> set (finauths w)" "c = (if fa_id b = k then f b else b)"
        by (auto simp: set_upd_row)
      have "b = a" if "fa_id b = k"
        using find_row_distinct [OF d b(1)] that assms(2) by simp
      then show ?thesis
        using b ok(2) assms(1) [of b] assms(3) by (auto simp: biz_ok_def payload_ok_def finauth_evo_def)
    qed
    then show ?thesis using ok(2) by (simp add: biz_ok_def)
  qed
  then show ?thesis using finauth_row_sound [OF assms(1)] by (simp add: sound_step_def)
qed

lemma step_updateMany_finauth [keeps]:
  assumes "\<And>a. p a \<Longrightarrow> finauth_evo a (f a) \<and> fa_verifiedAt (f a) = fa_verifiedAt a"
  shows "keepsR sound_step (updateManyM finauths finauths_update p f)"
proof (rule step.keepsR_updateMany)
  fix w
  let ?h = "\<lambda>r. if p r then f r else r"
  have f: "fa_id (?h u) = fa_id u" "fa_userId (?h u) = fa_userId u" "fa_nonce (?h u) = fa_nonce u"
    "fa_payloadHash (?h u) = fa_payloadHash u" for u
    using assms [of u] by (simp_all add: finauth_evo_def)
  have m: "map fa_id (map ?h t) = map fa_id t" "map fa_userId (map ?h t) = map fa_userId t" for t
    using f(1,2) by simp_all
  have n: "fa_userId ` set (map ?h t) = fa_userId ` set t" for t
    using m(2) [of t] by (metis set_map)
  have u: "uniq fa_id (\<lambda>a. Some (fa_nonce a)) (map ?h t)" if "uniq fa_id (\<lambda>a. Some (fa_nonce a)) t" for t
    by (rule uniq_map_same [OF that]) (use f in simp_all)
  have v: "uniq fa_id (\<lambda>a. Some (fa_payloadHash a)) (map ?h t)"
    if "uniq fa_id (\<lambda>a. Some (fa_payloadHash a)) t" for t
    by (rule uniq_map_same [OF that]) (use f in simp_all)
  have b: "biz_ok (finauths_update (map ?h) w)" if "biz_ok w"
    by (rule biz_ok_finauths [OF that]) (use assms in \<open>fastforce\<close>)
  show "sound_step w (finauths_update (map ?h) w)"
    using b u v n m(1) [of "finauths w"] assms
    by (simp add: sound_step_def evolves_def grow_rules db_ok_defs grows_updateMany del: map_map set_map)
qed

lemma step_update_investment [keeps]:
  assumes "\<And>i. investment_evo i (f i)"
  shows "keepsR sound_step (updateM investments investments_update inv_id no_chk k f)"
proof (rule step.keepsR_update)
  fix w r
  have f: "inv_id (f u) = inv_id u" "inv_receivableId (f u) = inv_receivableId u"
    "inv_investorUserId (f u) = inv_investorUserId u" for u
    using assms [of u] by (simp_all add: investment_evo_def)
  have b: "biz_ok (investments_update (upd_row inv_id k f) w)" if "biz_ok w"
  proof (rule biz_ok_investments [OF that])
    fix i assume "i \<in> set (upd_row inv_id k f (investments w))"
    then obtain j where "j \<in> set (investments w)" "i = f j \<or> i = j"
      by (auto simp: set_upd_row split: if_splits)
    then show "\<exists>j \<in> set (investments w). investment_evo j i"
      using assms by (intro bexI [of _ j]) auto
  qed
  show "sound_step w (investments_update (upd_row inv_id k f) w)"
    using f b by (simp add: sound_step_def evolves_def grow_rules assms db_ok_defs
        distinct_upd_row image_upd_row uniq_upd_row_same)
qed

lemma step_update_transaction [keeps]:
  assumes "\<And>t. ptransaction_evo t (f t)"
  shows "keepsR sound_step (updateM ptransactions ptransactions_update ptx_id chk_transaction k f)"
proof (rule step.keepsR_update)
  fix w r
  assume a: "find_row ptx_id k (ptransactions w) = Some r" "chk_transaction w (f r) = None"
  have f: "ptx_id (f u) = ptx_id u" "ptx_userId (f u) = ptx_userId u" "typed_ptx (f u) = typed_ptx u" for u
    using assms [of u] by (simp_all add: ptransaction_evo_def typed_ptx_def)
  have b: "biz_ok (ptransactions_update (upd_row ptx_id k f) w)" if "biz_ok w"
    using that f(3) by (intro biz_ok_transactions) (auto simp: biz_ok_def set_upd_row split: if_splits)
  show "sound_step w (ptransactions_update (upd_row ptx_id k f) w)"
    using a f b by (simp add: sound_step_def evolves_def grow_rules assms db_ok_defs chk_transaction_def
        uniq_upd_row [where r = r] distinct_upd_row image_upd_row split: if_splits)
qed

lemma step_update_collection [keeps]:
  assumes "\<And>c. collection_evo c (f c)"
  shows "keepsR sound_step (updateM collections collections_update col_id chk_collection k f)"
proof (rule step.keepsR_update)
  fix w r
  assume a: "find_row col_id k (collections w) = Some r" "chk_collection w (f r) = None"
  have f: "col_id (f u) = col_id u" for u
    using assms [of u] by (simp add: collection_evo_def)
  show "sound_step w (collections_update (upd_row col_id k f) w)"
    using a f by (simp add: sound_step_def evolves_def grow_rules assms db_ok_defs chk_collection_def
        uniq_upd_row [where r = r] distinct_upd_row split: if_splits)
qed

section \<open>One row\<close>

text \<open>What \<open>evolves\<close> says of one row.\<close>

lemma evolves_user:
  assumes "evolves w v" and "find_row usr_id k (users w) = Some u"
  obtains u' where "find_row usr_id k (users v) = Some u'" and "user_evo u u'"
  using assms grows_find_row [of user_evo "users w" "users v" usr_id k u]
  by (auto simp: evolves_def user_evo_def)

lemma evolves_receivable:
  assumes "evolves w v" and "find_row rcv_id k (receivables w) = Some r"
  obtains r' where "find_row rcv_id k (receivables v) = Some r'" and "receivable_evo r r'"
  using assms grows_find_row [of receivable_evo "receivables w" "receivables v" rcv_id k r]
  by (auto simp: evolves_def receivable_evo_def)

lemma evolves_finauth:
  assumes "evolves w v" and "find_row fa_id k (finauths w) = Some a"
  obtains a' where "find_row fa_id k (finauths v) = Some a'" and "finauth_evo a a'"
  using assms grows_find_row [of finauth_evo "finauths w" "finauths v" fa_id k a]
  by (auto simp: evolves_def finauth_evo_def)

lemma evolves_pixEvent:
  "evolves w v \<Longrightarrow> e \<in> set (pixEvents w) \<Longrightarrow> e \<in> set (pixEvents v)"
  by (auto simp: evolves_def elim: grows_member)

lemma evolves_audit: "evolves w v \<Longrightarrow> take (length (auditLogs w)) (auditLogs v) = auditLogs w"
  by (simp add: evolves_def grows_eq_prefix)

end
