(* ===== verification/AuditTrail.thy ===== *)
theory AuditTrail
  imports Evolution
begin

text \<open>
  \<open>modules/audit\<close>: the audit service and its controller. An entry is a row of \<open>AuditLog\<close>; the
  user it names must exist. Other modules write the table directly with the same columns.
\<close>

record audit_input =
  ai_event :: string
  ai_entityId :: string
  ai_entityType :: string
  ai_userId :: string
  ai_txHash :: "string option"
  ai_metadata :: "(string \<times> json) list option"

definition auditCreate :: "audit_input \<Rightarrow> audit_log api" where
  "auditCreate x = createM auditLogs auditLogs_update aud_id chk_auditLog (\<lambda>i t.
     \<lparr>aud_id = i, aud_event = ai_event x, aud_entityId = ai_entityId x,
      aud_entityType = ai_entityType x, aud_userId = ai_userId x, aud_txHash = ai_txHash x,
      aud_metadata = (case ai_metadata x of None \<Rightarrow> JNull | Some m \<Rightarrow> JObj m),
      aud_createdAt = t\<rparr>)"

definition auditLog :: "audit_input \<Rightarrow> unit api" where
  "auditLog x = bindM (auditCreate x) (\<lambda>_. retM ())"

text \<open>An entry with metadata, without and with a transaction hash.\<close>

definition audit_entry :: "string \<Rightarrow> string \<Rightarrow> string \<Rightarrow> string \<Rightarrow> (string \<times> json) list \<Rightarrow> audit_input" where
  "audit_entry ev i ty u m = \<lparr>ai_event = ev, ai_entityId = i, ai_entityType = ty, ai_userId = u,
     ai_txHash = None, ai_metadata = Some m\<rparr>"

definition audit_entry_tx :: "string \<Rightarrow> string \<Rightarrow> string \<Rightarrow> string \<Rightarrow> string \<Rightarrow> (string \<times> json) list \<Rightarrow> audit_input"
  where
  "audit_entry_tx ev i ty u h m = (audit_entry ev i ty u m)\<lparr>ai_txHash := Some h\<rparr>"

definition audit_findByEntity :: "string \<Rightarrow> audit_log list api" where
  "audit_findByEntity i = bindM (findManyM auditLogs (\<lambda>l. aud_entityId l = i))
     (\<lambda>ls. retM (order_desc aud_createdAt ls))"

definition audit_findByUser :: "string \<Rightarrow> nat \<Rightarrow> audit_log list api" where
  "audit_findByUser u limit = bindM (findManyM auditLogs (\<lambda>l. aud_userId l = u))
     (\<lambda>ls. retM (take limit (order_desc aud_createdAt ls)))"

definition audit_find :: "string \<Rightarrow> string option \<Rightarrow> audit_log list api" where
  "audit_find userId entityId =
     (if falsy entityId then audit_findByUser userId 20 else audit_findByEntity (the entityId))"

section \<open>Frames\<close>

lemma auditCreate_step [keeps]: "keepsR sound_step (auditCreate x)"
  unfolding auditCreate_def by (intro keeps)

lemma auditCreate_frames [keeps]:
  "keepsR (same users) (auditCreate x)" "keepsR (same receivables) (auditCreate x)"
  "keepsR (same documents) (auditCreate x)" "keepsR (same settlements) (auditCreate x)"
  "keepsR (same finauths) (auditCreate x)" "keepsR (same investments) (auditCreate x)"
  "keepsR (same ptransactions) (auditCreate x)" "keepsR (same pixEvents) (auditCreate x)"
  "keepsR (same collections) (auditCreate x)" "keepsR (same w_trace) (auditCreate x)"
  unfolding auditCreate_def by (intro keeps keeps_db; simp add: same_def)+

lemma auditLog_step [keeps]: "keepsR sound_step (auditLog x)"
  unfolding auditLog_def by (intro keeps)

lemma auditLog_frames [keeps]:
  "keepsR (same users) (auditLog x)" "keepsR (same receivables) (auditLog x)"
  "keepsR (same documents) (auditLog x)" "keepsR (same settlements) (auditLog x)"
  "keepsR (same finauths) (auditLog x)" "keepsR (same investments) (auditLog x)"
  "keepsR (same ptransactions) (auditLog x)" "keepsR (same pixEvents) (auditLog x)"
  "keepsR (same collections) (auditLog x)" "keepsR (same w_trace) (auditLog x)"
  unfolding auditLog_def by (intro keeps)+

text \<open>A successful entry is the one row appended to the log, attributed to an existing user.\<close>

lemma auditLog_Inr:
  assumes "auditLog x E w = (Inr u, w')"
  obtains l where "auditLogs w' = auditLogs w @ [l]" and "aud_event l = ai_event x"
    and "aud_entityId l = ai_entityId x" and "aud_userId l = ai_userId x"
    and "aud_txHash l = ai_txHash x" and "has_user w (ai_userId x)"
proof -
  from assms obtain l where l: "auditCreate x E w = (Inr l, w')"
    unfolding auditLog_def by (elim bindM_InrE) (simp add: retM_def)
  note c = tauditLogs.tab_create_Inr [OF l [unfolded auditCreate_def]]
  have "has_user w (ai_userId x)"
    using l by (auto simp: auditCreate_def createM_def bindM_def uuidM_def Let_def chk_auditLog_def
        fk_def has_user_def split: if_splits)
  then show thesis
    using c(1,3) that by simp
qed

lemma auditLog_run:
  assumes "has_user w (ai_userId x)" and "e_uuid E (w_ids w) \<notin> aud_id ` set (auditLogs w)"
  shows "\<exists>w'. auditLog x E w = (Inr (), w')"
  using assms by (simp add: auditLog_def auditCreate_def createM_def bindM_def uuidM_def retM_def Let_def
      chk_auditLog_def fk_def has_user_def)

lemma auditLog_world:
  "auditLog x E w = (Inr u, w') \<Longrightarrow>
   \<exists>l. w' = auditLogs_update (\<lambda>t. t @ [l]) (w\<lparr>w_ids := Suc (w_ids w)\<rparr>) \<and> aud_id l = e_uuid E (w_ids w)"
  by (fastforce simp: auditLog_def auditCreate_def elim!: bindM_InrE dest!: createM_world)

end
