(* ===== verification/FinancialAuthorizations.thy ===== *)
theory FinancialAuthorizations
  imports AuditTrail
begin

text \<open>
  \<open>modules/financial-authorizations\<close>: a user obtains a challenge for one financial operation,
  signs its hash with the Privy wallet, and the operation consumes the verified authorization.
\<close>

section \<open>Types and constants\<close>

definition FINANCIAL_AUTH_DOMAIN :: string where
  "FINANCIAL_AUTH_DOMAIN = ''credbridge.finance.authorization''"

definition FINANCIAL_AUTH_VERSION :: string where
  "FINANCIAL_AUTH_VERSION = ''1''"

definition AUTH_TTL_MS :: int where
  "AUTH_TTL_MS = 5 * 60 * 1000"

fun op_string :: "financial_operation \<Rightarrow> string" where
  "op_string OpReceivableTokenize = ''receivable.tokenize''"
| "op_string OpReceivableAssignment = ''receivable.assignment''"
| "op_string OpPmeWithdrawal = ''pme.withdrawal''"
| "op_string OpInvestorDeposit = ''investor.deposit''"
| "op_string OpInvestmentPurchase = ''investment.purchase''"
| "op_string OpInvestorWithdrawal = ''investor.withdrawal''"

definition DIRECT_AUTH_OPERATIONS :: "financial_operation list" where
  "DIRECT_AUTH_OPERATIONS =
     [OpReceivableAssignment, OpPmeWithdrawal, OpInvestorDeposit, OpInvestmentPurchase, OpInvestorWithdrawal]"

record challenge_dto =
  ch_operation :: financial_operation
  ch_resourceId :: "string option"
  ch_amount :: "string option"
  ch_destination :: "string option"

definition maxLength :: "nat \<Rightarrow> string option \<Rightarrow> bool" where
  "maxLength n v \<longleftrightarrow> (case v of None \<Rightarrow> True | Some s \<Rightarrow> length s \<le> n)"

text \<open>The class-validator decorators of \<open>CreateFinancialAuthorizationChallengeDto\<close>.\<close>

definition valid_challenge_dto :: "challenge_dto \<Rightarrow> bool" where
  "valid_challenge_dto d \<longleftrightarrow>
     maxLength 80 (ch_resourceId d) \<and> maxLength 64 (ch_amount d) \<and> maxLength 160 (ch_destination d)"

record verify_dto =
  vf_authorizationId :: string
  vf_payloadHash :: string
  vf_assertion :: "(string \<times> json) list"

record consumption =
  cs_authorizationId :: string
  cs_userId :: string
  cs_operation :: financial_operation
  cs_resourceId :: "string option"
  cs_amount :: "string option"
  cs_destination :: "string option"

record challenge_response =
  cr_authorizationId :: string
  cr_payload :: finauth_payload
  cr_payloadHash :: string
  cr_expiresAt :: string

definition fa_error :: "finauth_code \<Rightarrow> string \<Rightarrow> exn" where
  "fa_error c m = FinancialAuthorizationException c m"

definition requiresDirectAuthorization :: "financial_operation \<Rightarrow> bool" where
  "requiresDirectAuthorization op \<longleftrightarrow> op \<in> set DIRECT_AUTH_OPERATIONS"

section \<open>Payload and signature\<close>

text \<open>The members of the payload object in the order the code lists them.\<close>

definition payload_members :: "finauth_payload \<Rightarrow> (string \<times> string option) list" where
  "payload_members p =
     [(''domain'', Some (pl_domain p)), (''version'', Some (pl_version p)),
      (''network'', Some (pl_network p)), (''operation'', Some (op_string (pl_operation p))),
      (''userId'', Some (pl_userId p)), (''walletId'', Some (pl_walletId p)),
      (''resourceId'', pl_resourceId p), (''amount'', pl_amount p),
      (''destination'', pl_destination p), (''nonce'', Some (pl_nonce p)),
      (''expiresAt'', Some (pl_expiresAt p))]"

definition payload_text :: "finauth_payload \<Rightarrow> string" where
  "payload_text p = json_object (payload_members p)"

definition hashPayload :: "env \<Rightarrow> finauth_payload \<Rightarrow> string" where
  "hashPayload E p = to_hex (e_sha256 E (payload_text p))"

definition isNonEmptyString :: "json option \<Rightarrow> bool" where
  "isNonEmptyString v \<longleftrightarrow> (case v of Some (JStr s) \<Rightarrow> s \<noteq> [] | _ \<Rightarrow> False)"

definition invalid_signature :: exn where
  "invalid_signature = fa_error authorization_invalid ''Privy signature is invalid''"

definition readPrivyRawHashSignature :: "(string \<times> json) list \<Rightarrow> string \<Rightarrow> exn + string" where
  "readPrivyRawHashSignature assertion walletId =
     (if map_of assertion ''type'' \<noteq> Some (JStr ''privy_raw_hash'')
         \<or> map_of assertion ''address'' \<noteq> Some (JStr walletId)
         \<or> \<not> isNonEmptyString (map_of assertion ''signature'') then Inl invalid_signature
      else case map_of assertion ''signature'' of
        Some (JStr s) \<Rightarrow> Inr (if starts_with ''0x'' s then drop 2 s else s)
      | _ \<Rightarrow> Inl invalid_signature)"

definition readHexBytes :: "string \<Rightarrow> nat \<Rightarrow> exn + byte list" where
  "readHexBytes v n =
     (if \<not> (v \<noteq> [] \<and> list_all is_hex v) \<or> length v \<noteq> n * 2 then Inl invalid_signature
      else Inr (from_hex v))"

definition verifyPrivyRawHashSignature ::
    "string option \<Rightarrow> string \<Rightarrow> (string \<times> json) list \<Rightarrow> string \<Rightarrow> unit api" where
  "verifyPrivyRawHashSignature privyAddress walletId assertion expectedHash = (\<lambda>E w.
     if falsy privyAddress \<or> privyAddress \<noteq> Some walletId then (Inl invalid_signature, w)
     else case readPrivyRawHashSignature assertion walletId of
       Inl e \<Rightarrow> (Inl e, w)
     | Inr signature \<Rightarrow> (case readHexBytes expectedHash 32 of
         Inl e \<Rightarrow> (Inl e, w)
       | Inr hashBytes \<Rightarrow> (case readHexBytes signature 64 of
           Inl e \<Rightarrow> (Inl e, w)
         | Inr sigBytes \<Rightarrow>
             if e_publicKeyError E walletId = None \<and> e_verifySig E walletId hashBytes sigBytes then (Inr (), w)
             else (Inl (fa_error authorization_invalid ''Privy signature verification failed''), w))))"

section \<open>Operations\<close>

definition fa_metadata :: "finauth \<Rightarrow> (string \<times> json) list" where
  "fa_metadata a =
     [(''operation'', JStr (op_string (fa_operation a))), (''resourceId'', jopt (fa_resourceId a)),
      (''amount'', jopt (fa_amount a)), (''destination'', jopt (fa_destination a)),
      (''walletId'', JStr (fa_walletId a)), (''payloadHash'', JStr (fa_payloadHash a))]"

definition fa_create :: "string \<Rightarrow> finauth_payload \<Rightarrow> string \<Rightarrow> int \<Rightarrow> finauth api" where
  "fa_create userId p h expiresAt = createM finauths finauths_update fa_id chk_finauth (\<lambda>i t.
     \<lparr>fa_id = i, fa_userId = userId, fa_walletId = pl_walletId p, fa_operation = pl_operation p,
      fa_resourceId = pl_resourceId p, fa_amount = pl_amount p, fa_destination = pl_destination p,
      fa_nonce = pl_nonce p, fa_payloadHash = h, fa_payload = p, fa_signature = None,
      fa_expiresAt = expiresAt, fa_verifiedAt = None, fa_consumedAt = None, fa_createdAt = t\<rparr>)"

definition challenge_payload :: "string option \<Rightarrow> string \<Rightarrow> int \<Rightarrow> string \<Rightarrow> string \<Rightarrow> challenge_dto \<Rightarrow> finauth_payload" where
  "challenge_payload network nonce expiresAt userId walletId dto =
     \<lparr>pl_domain = FINANCIAL_AUTH_DOMAIN, pl_version = FINANCIAL_AUTH_VERSION,
      pl_network = (case network of None \<Rightarrow> ''testnet'' | Some n \<Rightarrow> n),
      pl_operation = ch_operation dto, pl_userId = userId, pl_walletId = walletId,
      pl_resourceId = ch_resourceId dto, pl_amount = ch_amount dto,
      pl_destination = ch_destination dto, pl_nonce = nonce,
      pl_expiresAt = toISOString expiresAt\<rparr>"

lemma challenge_payload_sel [simp]:
  "pl_operation (challenge_payload n k t u a d) = ch_operation d" "pl_userId (challenge_payload n k t u a d) = u"
  "pl_walletId (challenge_payload n k t u a d) = a" "pl_resourceId (challenge_payload n k t u a d) = ch_resourceId d"
  "pl_amount (challenge_payload n k t u a d) = ch_amount d" "pl_destination (challenge_payload n k t u a d) = ch_destination d"
  "pl_nonce (challenge_payload n k t u a d) = k" "pl_expiresAt (challenge_payload n k t u a d) = toISOString t"
  by (simp_all add: challenge_payload_def)

definition createChallenge_for :: "string \<Rightarrow> challenge_dto \<Rightarrow> string \<Rightarrow> challenge_response api" where
  "createChallenge_for userId dto walletId =
     bindM nowM (\<lambda>now.
     let expiresAt = now + AUTH_TTL_MS in
     bindM (confM ''STELLAR_NETWORK'') (\<lambda>network.
     bindM uuidM (\<lambda>nonce.
     let payload = challenge_payload network nonce expiresAt userId walletId dto in
     bindM (asksM (\<lambda>E. hashPayload E payload)) (\<lambda>payloadHash.
     bindM (fa_create userId payload payloadHash expiresAt) (\<lambda>authorization.
     bindM (auditLog (audit_entry ''financial_authorization.challenge_created'' (fa_id authorization)
              ''financial_authorization'' userId (fa_metadata authorization))) (\<lambda>_.
     retM \<lparr>cr_authorizationId = fa_id authorization, cr_payload = payload,
           cr_payloadHash = payloadHash, cr_expiresAt = pl_expiresAt payload\<rparr>))))))"

definition createChallenge :: "string \<Rightarrow> challenge_dto \<Rightarrow> challenge_response api" where
  "createChallenge userId dto =
     bindM (findUniqueM users usr_id userId) (\<lambda>user.
     let wallet = Option.bind user usr_privyStellarWalletAddress;
         status = Option.bind user usr_privyWalletStatus in
     bindM (if falsy wallet \<or> status \<noteq> Some ''ready''
            then bindM (auditLog (audit_entry ''wallet.setup_required'' userId ''user'' userId
                          [(''operation'', JStr (op_string (ch_operation dto))),
                           (''resourceId'', jopt (ch_resourceId dto))]))
                   (\<lambda>_. throwM (fa_error wallet_required
                      ''Privy Stellar wallet is required before this financial action''))
            else retM (the wallet)) (createChallenge_for userId dto))"

definition fa_setVerified :: "json \<Rightarrow> int \<Rightarrow> finauth \<Rightarrow> finauth" where
  "fa_setVerified sig t a = a\<lparr>fa_signature := Some sig, fa_verifiedAt := Some t\<rparr>"

definition verify_commit :: "string \<Rightarrow> finauth \<Rightarrow> verify_dto \<Rightarrow> (string \<times> bool) api" where
  "verify_commit userId a dto =
     bindM nowM (\<lambda>t.
     bindM (updateM finauths finauths_update fa_id no_chk (fa_id a)
              (fa_setVerified (JObj (vf_assertion dto)) t)) (\<lambda>updated.
     bindM (auditLog (audit_entry ''financial_authorization.verified'' (fa_id updated)
              ''financial_authorization'' userId (fa_metadata updated))) (\<lambda>_.
     retM (fa_id updated, True))))"

definition verify :: "string \<Rightarrow> verify_dto \<Rightarrow> (string \<times> bool) api" where
  "verify userId dto =
     bindM (findUniqueM finauths fa_id (vf_authorizationId dto)) (\<lambda>found.
     bindM (someOr (case found of Some a \<Rightarrow> if fa_userId a \<noteq> userId then None else Some a | None \<Rightarrow> None)
              (fa_error authorization_invalid ''Authorization not found'')) (\<lambda>a.
     bindM (findUniqueM users usr_id (fa_userId a)) (\<lambda>user.
     bindM (throwIf (fa_consumedAt a \<noteq> None)
              (fa_error authorization_already_used ''Authorization was already consumed'')) (\<lambda>_.
     bindM nowM (\<lambda>now.
     bindM (throwIf (fa_expiresAt a < now)
              (fa_error authorization_expired ''Authorization expired'')) (\<lambda>_.
     bindM (throwIf (fa_payloadHash a \<noteq> vf_payloadHash dto)
              (fa_error authorization_invalid ''Authorization payload hash mismatch'')) (\<lambda>_.
     bindM (verifyPrivyRawHashSignature (Option.bind user usr_privyStellarWalletAddress)
              (fa_walletId a) (vf_assertion dto) (fa_payloadHash a)) (\<lambda>_.
     verify_commit userId a dto))))))))"

text \<open>
  \<open>consume\<close> reads and checks the row, then rewrites it with a single conditional \<open>updateMany\<close>.
  Between the two another request may run, so they are two definitions.
\<close>

definition consume_check :: "consumption \<Rightarrow> finauth api" where
  "consume_check inp =
     bindM (findUniqueM finauths fa_id (cs_authorizationId inp)) (\<lambda>found.
     bindM (someOr (case found of Some a \<Rightarrow> if fa_userId a \<noteq> cs_userId inp then None else Some a
                                | None \<Rightarrow> None)
              (fa_error authorization_required ''Authorization required'')) (\<lambda>a.
     bindM (throwIf (fa_verifiedAt a = None)
              (fa_error authorization_required ''Authorization must be verified before use'')) (\<lambda>_.
     bindM (throwIf (fa_consumedAt a \<noteq> None)
              (fa_error authorization_already_used ''Authorization was already consumed'')) (\<lambda>_.
     bindM nowM (\<lambda>now.
     bindM (throwIf (fa_expiresAt a < now)
              (fa_error authorization_expired ''Authorization expired'')) (\<lambda>_.
     bindM (throwIf (fa_operation a \<noteq> cs_operation inp)
              (fa_error authorization_operation_mismatch ''Authorization operation mismatch'')) (\<lambda>_.
     bindM (throwIf (fa_resourceId a \<noteq> cs_resourceId inp)
              (fa_error authorization_resource_mismatch ''Authorization resource mismatch'')) (\<lambda>_.
     bindM (throwIf (fa_amount a \<noteq> cs_amount inp)
              (fa_error authorization_resource_mismatch ''Authorization amount mismatch'')) (\<lambda>_.
     bindM (throwIf (fa_destination a \<noteq> cs_destination inp)
              (fa_error authorization_resource_mismatch ''Authorization destination mismatch'')) (\<lambda>_.
     retM a))))))))))"

text \<open>The \<open>where\<close> clause of the conditional update, at time \<open>now\<close>.\<close>

definition consumable :: "consumption \<Rightarrow> string \<Rightarrow> int \<Rightarrow> finauth \<Rightarrow> bool" where
  "consumable inp i now a \<longleftrightarrow> fa_id a = i \<and> fa_userId a = cs_userId inp
     \<and> fa_operation a = cs_operation inp \<and> fa_resourceId a = cs_resourceId inp
     \<and> fa_amount a = cs_amount inp \<and> fa_destination a = cs_destination inp
     \<and> fa_verifiedAt a \<noteq> None \<and> fa_consumedAt a = None \<and> now < fa_expiresAt a"

definition fa_setConsumed :: "int \<Rightarrow> finauth \<Rightarrow> finauth" where
  "fa_setConsumed t a = a\<lparr>fa_consumedAt := Some t\<rparr>"

definition consume_commit :: "consumption \<Rightarrow> finauth \<Rightarrow> unit api" where
  "consume_commit inp a =
     bindM nowM (\<lambda>now.
     bindM nowM (\<lambda>t.
     bindM (updateManyM finauths finauths_update (consumable inp (fa_id a) now) (fa_setConsumed t)) (\<lambda>count.
     bindM (throwIf (count \<noteq> 1)
              (fa_error authorization_already_used ''Authorization was already consumed'')) (\<lambda>_.
     auditLog (audit_entry ''financial_authorization.consumed'' (fa_id a) ''financial_authorization''
       (cs_userId inp) (fa_metadata a))))))"

definition consume :: "consumption \<Rightarrow> unit api" where
  "consume inp = bindM (consume_check inp) (consume_commit inp)"

text \<open>The controller: both routes act for the authenticated user.\<close>

definition fa_controller_createChallenge :: "string \<Rightarrow> challenge_dto \<Rightarrow> challenge_response api" where
  "fa_controller_createChallenge reqUserId body = createChallenge reqUserId body"

definition fa_controller_verify :: "string \<Rightarrow> verify_dto \<Rightarrow> (string \<times> bool) api" where
  "fa_controller_verify reqUserId body = verify reqUserId body"

section \<open>Frames\<close>

lemma verifySig_pure: "snd (verifyPrivyRawHashSignature a i s h E w) = w"
  by (simp add: verifyPrivyRawHashSignature_def split: sum.split)

lemma verifySig_keeps [keeps]:
  "keepsR sound_step (verifyPrivyRawHashSignature a i s h)"
  "keepsR (same g) (verifyPrivyRawHashSignature a i s h)"
  by (simp_all add: keepsR_def verifySig_pure step.kept_refl same_def)

lemma fa_create_step [keeps]:
  "pl_userId p = u \<Longrightarrow> pl_expiresAt p = toISOString t \<Longrightarrow> keepsR sound_step (fa_create u p h t)"
  unfolding fa_create_def by (intro keeps) (simp add: payload_ok_def)

lemma createChallenge_step [keeps]: "keepsR sound_step (createChallenge u dto)"
  unfolding createChallenge_def createChallenge_for_def Let_def by (intro keeps) simp_all

lemma fa_setVerified_evo: "finauth_evo a (fa_setVerified s t a)"
  by (simp add: finauth_evo_def fa_setVerified_def)

lemma verify_commit_step:
  assumes "find_row fa_id (fa_id a) (finauths w) = Some a" and "has_privy (users w) (fa_userId a)"
  shows "sound_step w (snd (verify_commit u a dto E w))"
proof -
  let ?f = "fa_setVerified (JObj (vf_assertion dto)) (w_now (tick E w))"
  let ?v = "finauths_update (upd_row fa_id (fa_id a) ?f) (tick E w)"
  have u: "updateM finauths finauths_update fa_id no_chk (fa_id a) ?f E (tick E w) = (Inr (?f a), ?v)"
    using assms(1) by (simp add: updateM_def no_chk_def)
  have "sound_step w (tick E w)"
    using keepsR_run [OF step.keepsR_now, of w E] by simp
  moreover have "sound_step (tick E w) ?v"
    using assms by (intro step_verified [where a = a]) (simp_all add: fa_setVerified_evo)
  moreover have "snd (verify_commit u a dto E w) = snd (auditLog (audit_entry
      ''financial_authorization.verified'' (fa_id (?f a)) ''financial_authorization'' u (fa_metadata (?f a))) E ?v)"
    by (simp add: verify_commit_def bindM_def u split: prod.split sum.split)
  moreover have "sound_step ?v (snd (auditLog (audit_entry
      ''financial_authorization.verified'' (fa_id (?f a)) ''financial_authorization'' u (fa_metadata (?f a))) E ?v))"
    by (rule keepsR_run [OF auditLog_step])
  ultimately show ?thesis
    using step.kept_trans by metis
qed

lemma verify_step [keeps]: "keepsR sound_step (verify u dto)"
proof (rule keepsRI)
  fix E and w :: world
  let ?p = "\<lambda>a. Option.bind (find_row usr_id (fa_userId a) (users w)) usr_privyStellarWalletAddress"
  have t: "sound_step w (tick E w)"
    using keepsR_run [OF step.keepsR_now, of w E] by simp
  have "sound_step (tick E w) (snd (bindM (verifyPrivyRawHashSignature (?p a) i s h) (\<lambda>_. verify_commit u a dto) E (tick E w)))"
    if "find_row fa_id (vf_authorizationId dto) (finauths w) = Some a" for a i s h
  proof (cases "verifyPrivyRawHashSignature (?p a) i s h E (tick E w)")
    case (Pair r v)
    then have v: "v = tick E w" using verifySig_pure by (metis snd_conv)
    show ?thesis
    proof (cases r)
      case Inl
      with Pair v show ?thesis by (simp add: bindM_def step.kept_refl)
    next
      case (Inr x)
      with Pair have "\<not> falsy (?p a)" by (auto simp: verifyPrivyRawHashSignature_def split: if_splits)
      then have "has_privy (users w) (fa_userId a)"
        by (fastforce simp: has_privy_def bind_eq_Some_conv elim!: not_falsyE dest!: find_row_SomeD)
      moreover have "find_row fa_id (fa_id a) (finauths w) = Some a"
        using that by (metis find_row_SomeD)
      ultimately show ?thesis
        using Pair Inr v verify_commit_step [of a "tick E w"] by (simp add: bindM_def)
    qed
  qed
  then show "sound_step w (snd (verify u dto E w))"
    using t step.kept_trans by (auto simp: verify_def step.kept_refl split: option.splits)
qed

lemma consume_check_step [keeps]: "keepsR sound_step (consume_check inp)"
  unfolding consume_check_def by (intro keeps)

lemma consume_commit_step [keeps]: "keepsR sound_step (consume_commit inp a)"
  unfolding consume_commit_def
  by (intro keeps) (simp add: finauth_evo_def fa_setConsumed_def consumable_def)

lemma consume_step [keeps]: "keepsR sound_step (consume inp)"
  unfolding consume_def by (intro keeps)

section \<open>What consuming an authorization means\<close>

text \<open>The authorization binds the consumer to one user, operation, resource, amount, destination.\<close>

definition authorizes :: "consumption \<Rightarrow> finauth \<Rightarrow> bool" where
  "authorizes inp a \<longleftrightarrow> fa_userId a = cs_userId inp \<and> fa_operation a = cs_operation inp
     \<and> fa_resourceId a = cs_resourceId inp \<and> fa_amount a = cs_amount inp
     \<and> fa_destination a = cs_destination inp"

lemma consumable_iff: "consumable inp i now a \<longleftrightarrow> fa_id a = i \<and>
    (authorizes inp a \<and> fa_verifiedAt a \<noteq> None \<and> fa_consumedAt a = None \<and> now < fa_expiresAt a)"
  by (auto simp: consumable_def authorizes_def)

lemma consume_check_iff:
  "consume_check inp E w = (Inr a, v) \<longleftrightarrow>
     find_row fa_id (cs_authorizationId inp) (finauths w) = Some a \<and> authorizes inp a
     \<and> fa_verifiedAt a \<noteq> None \<and> fa_consumedAt a = None \<and> v = tick E w \<and> w_now v \<le> fa_expiresAt a"
  by (auto simp: consume_check_def authorizes_def split: option.splits if_splits)

text \<open>The commit, run on a database whose keys are distinct.\<close>

lemma finauths_update_cong: "f (finauths w) = g (finauths w) \<Longrightarrow> finauths_update f w = finauths_update g w"
  by (cases w) simp

lemma consume_commit_eq:
  assumes "distinct (map fa_id (finauths w))" and "find_row fa_id (fa_id a) (finauths w) = Some b"
  shows "consume_commit inp a E w =
    (let v = tick E w; u = tick E v in
     if consumable inp (fa_id a) (w_now v) b
     then auditLog (audit_entry ''financial_authorization.consumed'' (fa_id a)
            ''financial_authorization'' (cs_userId inp) (fa_metadata a)) E
            (finauths_update (upd_row fa_id (fa_id a) (fa_setConsumed (w_now u))) u)
     else (Inl (fa_error authorization_already_used ''Authorization was already consumed''), u))"
proof -
  let ?v = "tick E w" let ?u = "tick E ?v"
  let ?p = "consumable inp (fa_id a) (w_now ?v)"
  have b: "fa_id b = fa_id a" using assms(2) by (auto dest: find_row_SomeD)
  have len: "length (filter ?p (finauths w)) = (if ?p b then 1 else 0)"
    using filter_key [OF assms, of "\<lambda>x. authorizes inp x \<and> fa_verifiedAt x \<noteq> None
        \<and> fa_consumedAt x = None \<and> w_now ?v < fa_expiresAt x"] b
    by (simp add: consumable_iff [abs_def])
  have upd: "map (\<lambda>r. if ?p r then f r else r) (finauths w) =
      (if ?p b then upd_row fa_id (fa_id a) f (finauths w) else finauths w)" for f
    using map_key_upd [OF assms, of "\<lambda>x. authorizes inp x \<and> fa_verifiedAt x \<noteq> None
        \<and> fa_consumedAt x = None \<and> w_now ?v < fa_expiresAt x" f] b
    by (simp add: consumable_iff [abs_def])
  have "finauths_update (map (\<lambda>r. if ?p r then f r else r)) ?u =
      finauths_update (\<lambda>t. if ?p b then upd_row fa_id (fa_id a) f t else t) ?u" for f
    by (rule finauths_update_cong) (simp add: upd)
  then show ?thesis
    by (simp add: consume_commit_def len Let_def)
qed

lemma consume_commit_InrD:
  assumes "consume_commit inp a E w = (Inr (), w')"
  shows "\<exists>b. b \<in> set (finauths w) \<and> fa_id b = fa_id a \<and> fa_consumedAt b = None"
proof -
  let ?p = "consumable inp (fa_id a) (w_now (tick E w))"
  from assms have "length (filter ?p (finauths w)) = 1"
    by (auto simp: consume_commit_def split: if_splits)
  then obtain b where "filter ?p (finauths w) = [b]"
    by (auto simp: length_Suc_conv)
  then have "b \<in> set (filter ?p (finauths w))" by simp
  then show ?thesis by (auto simp: consumable_def)
qed

text \<open>A consumption that passed its check and reached the commit, whatever ran in between.\<close>

lemma consumed_blocks_commit:
  assumes "consume_commit inp a E w = (Inr (), w')" and "db_ok w" and "evolves w' v"
    and "fa_id a' = fa_id a" and "db_ok v"
  shows "\<exists>u. consume_commit inp' a' E' v =
    (Inl (fa_error authorization_already_used ''Authorization was already consumed''), u)"
proof -
  obtain b where b: "b \<in> set (finauths w)" "fa_id b = fa_id a"
    using consume_commit_InrD [OF assms(1)] by blast
  have d: "distinct (map fa_id (finauths w))" "distinct (map fa_id (finauths v))"
    using assms(2,5) by (simp_all add: db_ok_defs)
  have f: "find_row fa_id (fa_id a) (finauths w) = Some b"
    using find_row_distinct [OF d(1) b(1)] b(2) by simp
  let ?t = "w_now (tick E (tick E w))"
  from assms(1) have "consumable inp (fa_id a) (w_now (tick E w)) b"
    and log: "auditLog (audit_entry ''financial_authorization.consumed'' (fa_id a)
            ''financial_authorization'' (cs_userId inp) (fa_metadata a)) E
            (finauths_update (upd_row fa_id (fa_id a) (fa_setConsumed ?t)) (tick E (tick E w))) = (Inr (), w')"
    unfolding consume_commit_eq [OF d(1) f] by (simp_all add: Let_def split: if_splits)
  from sameD' [OF auditLog_frames(5), OF log]
  have "finauths w' = upd_row fa_id (fa_id a) (fa_setConsumed ?t) (finauths w)" by simp
  then have "find_row fa_id (fa_id a) (finauths w') = Some (fa_setConsumed ?t b)"
    using f by (simp add: find_row_upd_row fa_setConsumed_def)
  from evolves_finauth [OF assms(3) this] obtain c
    where c: "find_row fa_id (fa_id a) (finauths v) = Some c" and "finauth_evo (fa_setConsumed ?t b) c"
    by blast
  then have "fa_consumedAt c \<noteq> None" by (simp add: finauth_evo_def fa_setConsumed_def)
  then have "\<not> consumable inp' (fa_id a') (w_now (tick E' v)) c" by (simp add: consumable_def)
  then show ?thesis
    using consume_commit_eq [OF d(2), of a' c inp' E'] c assms(4) by (simp add: Let_def)
qed

lemma consume_InrD:
  assumes "consume inp E w = (Inr (), w')" and "db_ok w"
  shows "\<exists>a t l. find_row fa_id (cs_authorizationId inp) (finauths w) = Some a
     \<and> authorizes inp a \<and> fa_verifiedAt a \<noteq> None \<and> fa_consumedAt a = None
     \<and> w_now w \<le> t \<and> t < fa_expiresAt a
     \<and> (\<exists>t' \<ge> t. finauths w' = upd_row fa_id (cs_authorizationId inp) (fa_setConsumed t') (finauths w))
     \<and> auditLogs w' = auditLogs w @ [l] \<and> aud_event l = ''financial_authorization.consumed''
     \<and> aud_entityId l = cs_authorizationId inp \<and> aud_userId l = cs_userId inp"
proof -
  from assms(1) obtain a v where c: "consume_check inp E w = (Inr a, v)"
    and m: "consume_commit inp a E v = (Inr (), w')"
    unfolding consume_def by (elim bindM_InrE)
  have a: "find_row fa_id (cs_authorizationId inp) (finauths w) = Some a" "authorizes inp a"
      "fa_verifiedAt a \<noteq> None" "fa_consumedAt a = None" and v: "v = tick E w"
    using c by (simp_all add: consume_check_iff)
  have i: "fa_id a = cs_authorizationId inp" using a(1) by (auto dest: find_row_SomeD)
  have d: "distinct (map fa_id (finauths v))" "find_row fa_id (fa_id a) (finauths v) = Some a"
    using assms(2) a(1) i by (simp_all add: db_ok_defs v)
  let ?t = "w_now (tick E v)" let ?t' = "w_now (tick E (tick E v))"
  from m have "consumable inp (fa_id a) ?t a"
    and log: "auditLog (audit_entry ''financial_authorization.consumed'' (fa_id a)
            ''financial_authorization'' (cs_userId inp) (fa_metadata a)) E
            (finauths_update (upd_row fa_id (fa_id a) (fa_setConsumed ?t')) (tick E (tick E v))) = (Inr (), w')"
    unfolding consume_commit_eq [OF d] by (simp_all add: Let_def split: if_splits)
  moreover from sameD' [OF auditLog_frames(5), OF log]
  have "finauths w' = upd_row fa_id (fa_id a) (fa_setConsumed ?t') (finauths w)" by (simp add: v)
  moreover have "w_now w \<le> ?t" "?t \<le> ?t'"
    using tick_now [of w E] tick_now [of "tick E w" E] tick_now [of "tick E v" E] by (simp_all add: v)
  moreover from auditLog_Inr [OF log] obtain l where "auditLogs w' = auditLogs w @ [l]"
    "aud_event l = ''financial_authorization.consumed''" "aud_entityId l = fa_id a" "aud_userId l = cs_userId inp"
    by (auto simp: audit_entry_def v)
  ultimately show ?thesis
    using a i by (auto simp: consumable_def)
qed

lemma readHexBytes_Inr: "readHexBytes v n = Inr bs \<Longrightarrow> bs = from_hex v \<and> length bs = n"
  by (auto simp: readHexBytes_def length_from_hex split: if_splits)

lemma verifySig_Inr:
  assumes "verifyPrivyRawHashSignature p i s h E w = (Inr u, w')"
  shows "p = Some i \<and> i \<noteq> [] \<and> w' = w \<and> map_of s ''address'' = Some (JStr i)
    \<and> (\<exists>sig. map_of s ''signature'' = Some (JStr sig) \<and> length (from_hex h) = 32
        \<and> length (from_hex (strip0x sig)) = 64
        \<and> e_verifySig E i (from_hex h) (from_hex (strip0x sig)))"
  using assms
  by (auto simp: verifyPrivyRawHashSignature_def readPrivyRawHashSignature_def strip0x_def
      split: if_splits sum.splits option.splits json.splits dest!: readHexBytes_Inr)

lemma verify_commit_Inr:
  assumes "verify_commit userId a dto E w = (Inr r, w')"
  shows "r = (fa_id a, True) \<and> (\<exists>t. finauths w' =
    upd_row fa_id (fa_id a) (fa_setVerified (JObj (vf_assertion dto)) t) (finauths w))"
proof -
  let ?f = "fa_setVerified (JObj (vf_assertion dto)) (w_now (tick E w))"
  from assms obtain b v u where
    b: "updateM finauths finauths_update fa_id no_chk (fa_id a) ?f E (tick E w) = (Inr b, v)"
    and l: "auditLog (audit_entry ''financial_authorization.verified'' (fa_id b)
       ''financial_authorization'' userId (fa_metadata b)) E v = (Inr u, w')" and r: "r = (fa_id b, True)"
    unfolding verify_commit_def by (auto elim!: bindM_InrE)
  from b have "fa_id b = fa_id a" "finauths v = upd_row fa_id (fa_id a) ?f (finauths w)"
    by (auto elim!: tfinauths.tab_update_Inr dest!: find_row_SomeD simp: fa_setVerified_def)
  with sameD' [OF auditLog_frames(5), OF l] r show ?thesis by auto
qed

lemma consumed_refused:
  assumes "consume inp E w = (Inr (), w')" and "db_ok w" and "evolves w' v"
    and "cs_authorizationId inp' = cs_authorizationId inp"
  shows "\<exists>e. fst (consume inp' E' v) = Inl e"
proof (rule ccontr)
  assume no: "\<nexists>e. fst (consume inp' E' v) = Inl e"
  then obtain u where "consume inp' E' v = (Inr (), u)"
    by (cases "consume inp' E' v"; cases "fst (consume inp' E' v)") auto
  then obtain b x where "consume_check inp' E' v = (Inr b, x)"
    unfolding consume_def by (elim bindM_InrE)
  then have b: "find_row fa_id (cs_authorizationId inp) (finauths v) = Some b" "fa_consumedAt b = None"
    using assms(4) by (simp_all add: consume_check_iff)
  from consume_InrD [OF assms(1,2)] obtain a t where
    "find_row fa_id (cs_authorizationId inp) (finauths w') = Some (fa_setConsumed t a)"
    by (auto simp: find_row_upd_row fa_setConsumed_def)
  from evolves_finauth [OF assms(3) this] b show False
    by (auto simp: finauth_evo_def fa_setConsumed_def)
qed

section \<open>Properties\<close>

text \<open>A successful \<open>consume\<close> found the authorization under its identifier, of the same user,
  operation, resource, amount and destination, verified, not consumed and not expired; it sets the
  time of consumption of this row, changes no other authorization, and appends one audit entry.\<close>

theorem consume_success:
  assumes "consume inp E w = (Inr (), w')" and "db_ok w"
  shows "\<exists>a t l. find_row fa_id (cs_authorizationId inp) (finauths w) = Some a
     \<and> authorizes inp a \<and> fa_verifiedAt a \<noteq> None \<and> fa_consumedAt a = None
     \<and> w_now w \<le> t \<and> t < fa_expiresAt a
     \<and> (\<exists>t' \<ge> t. finauths w' = upd_row fa_id (cs_authorizationId inp) (fa_setConsumed t') (finauths w))
     \<and> auditLogs w' = auditLogs w @ [l] \<and> aud_event l = ''financial_authorization.consumed''
     \<and> aud_entityId l = cs_authorizationId inp \<and> aud_userId l = cs_userId inp"
  by (rule consume_InrD [OF assms])

text \<open>\<open>consume\<close> succeeds whenever the authorization matches, is verified, not consumed and
  does not expire before the conditional update, and the identifier of the audit entry is new.\<close>

theorem consume_succeeds:
  assumes "db_ok w" and "find_row fa_id (cs_authorizationId inp) (finauths w) = Some a"
    and "authorizes inp a" and "fa_verifiedAt a \<noteq> None" and "fa_consumedAt a = None"
    and "w_now (tick E (tick E w)) < fa_expiresAt a"
    and "e_uuid E (w_ids w) \<notin> aud_id ` set (auditLogs w)"
  shows "\<exists>w'. consume inp E w = (Inr (), w')"
proof -
  have i: "fa_id a = cs_authorizationId inp" using assms(2) by (auto dest: find_row_SomeD)
  have "w_now (tick E w) \<le> fa_expiresAt a"
    using assms(6) tick_now [of "tick E w" E] by simp
  then have c: "consume_check inp E w = (Inr a, tick E w)"
    using assms by (simp add: consume_check_iff)
  have d: "distinct (map fa_id (finauths (tick E w)))"
    "find_row fa_id (fa_id a) (finauths (tick E w)) = Some a"
    using assms(1,2) i by (simp_all add: db_ok_defs)
  have "fa_userId ` set (finauths w) \<subseteq> usr_id ` set (users w)"
    using assms(1) by (simp add: db_ok_defs)
  moreover have "a \<in> set (finauths w)" "fa_userId a = cs_userId inp"
    using assms(2,3) by (auto dest: find_row_SomeD simp: authorizes_def)
  ultimately have u: "cs_userId inp \<in> usr_id ` set (users w)" by (metis image_eqI subsetD)
  have "consumable inp (fa_id a) (w_now (tick E (tick E w))) a"
    using assms(3-6) by (simp add: consumable_iff)
  moreover have "consume inp E w = consume_commit inp a E (tick E w)"
    by (simp add: consume_def bindM_def c)
  ultimately show ?thesis
    using u assms(7) by (simp add: consume_commit_eq [OF d] Let_def auditLog_run has_user_iff audit_entry_def)
qed

text \<open>An authorization is used at most once, also by concurrent requests. When one request
  has committed its consumption, every request that commits on the same authorization later, even
  one whose checks passed before, with the database free to evolve in between, is refused as
  already used.\<close>

theorem consume_once:
  assumes "consume_commit inp a E w = (Inr (), w')" and "db_ok w" and "evolves w' v" and "db_ok v"
    and "fa_id a' = fa_id a"
  shows "fst (consume_commit inp' a' E' v) =
    Inl (fa_error authorization_already_used ''Authorization was already consumed'')"
  using consumed_blocks_commit [OF assms(1-3,5,4), of inp' E'] by auto

lemma verify_InrD:
  assumes "verify userId dto E w = (Inr r, w')"
  shows "\<exists>a u sig t. find_row fa_id (vf_authorizationId dto) (finauths w) = Some a
     \<and> fa_userId a = userId \<and> fa_consumedAt a = None \<and> w_now w \<le> fa_expiresAt a
     \<and> fa_payloadHash a = vf_payloadHash dto
     \<and> find_row usr_id userId (users w) = Some u \<and> usr_privyStellarWalletAddress u = Some (fa_walletId a)
     \<and> map_of (vf_assertion dto) ''address'' = Some (JStr (fa_walletId a))
     \<and> map_of (vf_assertion dto) ''signature'' = Some (JStr sig)
     \<and> length (from_hex (fa_payloadHash a)) = 32 \<and> length (from_hex (strip0x sig)) = 64
     \<and> e_verifySig E (fa_walletId a) (from_hex (fa_payloadHash a)) (from_hex (strip0x sig))
     \<and> finauths w' = upd_row fa_id (fa_id a) (fa_setVerified (JObj (vf_assertion dto)) t) (finauths w)
     \<and> r = (vf_authorizationId dto, True)"
proof -
  from assms obtain a where f: "find_row fa_id (vf_authorizationId dto) (finauths w) = Some a"
    and a: "fa_userId a = userId" "fa_consumedAt a = None" "w_now (tick E w) \<le> fa_expiresAt a"
      "fa_payloadHash a = vf_payloadHash dto"
    and rest: "bindM (verifyPrivyRawHashSignature
        (Option.bind (find_row usr_id userId (users w)) usr_privyStellarWalletAddress)
        (fa_walletId a) (vf_assertion dto) (fa_payloadHash a)) (\<lambda>_.
       verify_commit userId a dto) E (tick E w) = (Inr r, w')"
    by (auto simp: verify_def split: option.splits if_splits)
  from rest verifySig_Inr obtain sig where p: "Option.bind (find_row usr_id userId (users w))
      usr_privyStellarWalletAddress = Some (fa_walletId a)" and "fa_walletId a \<noteq> []"
    and "map_of (vf_assertion dto) ''address'' = Some (JStr (fa_walletId a))"
      "map_of (vf_assertion dto) ''signature'' = Some (JStr sig)"
      "length (from_hex (fa_payloadHash a)) = 32" "length (from_hex (strip0x sig)) = 64"
      "e_verifySig E (fa_walletId a) (from_hex (fa_payloadHash a)) (from_hex (strip0x sig))"
    and c: "verify_commit userId a dto E (tick E w) = (Inr r, w')"
    by (elim bindM_InrE) blast
  moreover from p obtain u where "find_row usr_id userId (users w) = Some u"
    "usr_privyStellarWalletAddress u = Some (fa_walletId a)"
    by (auto simp: bind_eq_Some_conv)
  moreover from f have "fa_id a = vf_authorizationId dto" by (auto dest: find_row_SomeD)
  ultimately show ?thesis
    using f a tick_now [of w E] verify_commit_Inr [OF c] by fastforce
qed

text \<open>C18: \<open>verify\<close> succeeds only for the owner of an authorization that is neither consumed nor
  expired, whose wallet is the Privy wallet the user has now, with the payload hash the client
  names, and only when the assertion carries a 64-byte signature of the 32-byte hash that checks
  under this wallet; then this row, and no other, is marked verified.\<close>

theorem verify_success:
  assumes "verify userId dto E w = (Inr r, w')"
  shows "\<exists>a u sig t. find_row fa_id (vf_authorizationId dto) (finauths w) = Some a
     \<and> fa_userId a = userId \<and> fa_consumedAt a = None \<and> w_now w \<le> fa_expiresAt a
     \<and> fa_payloadHash a = vf_payloadHash dto
     \<and> find_row usr_id userId (users w) = Some u \<and> usr_privyStellarWalletAddress u = Some (fa_walletId a)
     \<and> map_of (vf_assertion dto) ''address'' = Some (JStr (fa_walletId a))
     \<and> map_of (vf_assertion dto) ''signature'' = Some (JStr sig)
     \<and> length (from_hex (fa_payloadHash a)) = 32 \<and> length (from_hex (strip0x sig)) = 64
     \<and> e_verifySig E (fa_walletId a) (from_hex (fa_payloadHash a)) (from_hex (strip0x sig))
     \<and> finauths w' = upd_row fa_id (fa_id a) (fa_setVerified (JObj (vf_assertion dto)) t) (finauths w)
     \<and> r = (vf_authorizationId dto, True)"
  by (rule verify_InrD [OF assms])

text \<open>C25: The text that is hashed and signed determines every field of the payload: two payloads
  with the same text are equal, so one signature cannot be reused for another user, wallet,
  operation, resource, amount, destination, nonce or expiry.\<close>

theorem payload_text_inj:
  assumes "payload_text p = payload_text q"
  shows "p = q"
proof -
  have "payload_members p = payload_members q"
    by (rule json_object_inj) (use assms in \<open>simp_all add: payload_text_def payload_members_def\<close>)
  moreover have "op_string x = op_string y \<Longrightarrow> x = y" for x y
    by (cases x; cases y) simp_all
  ultimately show ?thesis
    by (cases p; cases q) (simp add: payload_members_def)
qed

lemma fa_create_Inr:
  assumes "fa_create userId p h t E w = (Inr a, w')"
  shows "finauths w' = finauths w @ [a] \<and> fa_payload a = p \<and> fa_payloadHash a = h \<and> fa_userId a = userId
    \<and> fa_walletId a = pl_walletId p \<and> fa_operation a = pl_operation p \<and> fa_resourceId a = pl_resourceId p
    \<and> fa_amount a = pl_amount p \<and> fa_destination a = pl_destination p \<and> fa_nonce a = pl_nonce p
    \<and> fa_expiresAt a = t \<and> fa_verifiedAt a = None \<and> fa_consumedAt a = None"
  using tfinauths.tab_create_Inr [OF assms [unfolded fa_create_def]] by simp

lemma createChallenge_for_Inr:
  assumes "createChallenge_for userId dto wallet E w = (Inr r, w')"
  shows "\<exists>a. finauths w' = finauths w @ [a] \<and> fa_id a = cr_authorizationId r
     \<and> fa_payload a = cr_payload r \<and> fa_payloadHash a = hashPayload E (cr_payload r)
     \<and> cr_payloadHash r = fa_payloadHash a \<and> fa_walletId a = wallet
     \<and> fa_userId a = userId \<and> fa_operation a = ch_operation dto \<and> fa_resourceId a = ch_resourceId dto
     \<and> fa_amount a = ch_amount dto \<and> fa_destination a = ch_destination dto
     \<and> fa_expiresAt a = w_now (tick E w) + 300000 \<and> fa_verifiedAt a = None \<and> fa_consumedAt a = None
     \<and> pl_userId (fa_payload a) = userId \<and> pl_walletId (fa_payload a) = fa_walletId a
     \<and> pl_operation (fa_payload a) = fa_operation a \<and> pl_resourceId (fa_payload a) = fa_resourceId a
     \<and> pl_amount (fa_payload a) = fa_amount a \<and> pl_destination (fa_payload a) = fa_destination a
     \<and> pl_nonce (fa_payload a) = fa_nonce a \<and> pl_expiresAt (fa_payload a) = toISOString (fa_expiresAt a)"
  using assms unfolding createChallenge_for_def Let_def
  by (auto elim!: bindM_InrE dest!: fa_create_Inr sameD' [OF auditLog_frames(5)] simp: AUTH_TTL_MS_def)

lemma challenge_stored:
  assumes "createChallenge userId dto E w = (Inr r, w')"
  shows "\<exists>a. finauths w' = finauths w @ [a] \<and> fa_userId a = userId"
proof -
  from assms obtain wallet where "createChallenge_for userId dto wallet E w = (Inr r, w')"
    by (auto simp: createChallenge_def Let_def elim!: bindM_InrE split: if_splits)
  from createChallenge_for_Inr [OF this] show ?thesis by blast
qed

lemma createChallenge_InrD:
  assumes "createChallenge userId dto E w = (Inr r, w')"
  shows "\<exists>a u. finauths w' = finauths w @ [a] \<and> fa_id a = cr_authorizationId r
     \<and> fa_payload a = cr_payload r \<and> fa_payloadHash a = hashPayload E (cr_payload r)
     \<and> cr_payloadHash r = fa_payloadHash a
     \<and> find_row usr_id userId (users w) = Some u \<and> usr_privyWalletStatus u = Some ''ready''
     \<and> usr_privyStellarWalletAddress u = Some (fa_walletId a)
     \<and> fa_userId a = userId \<and> fa_operation a = ch_operation dto \<and> fa_resourceId a = ch_resourceId dto
     \<and> fa_amount a = ch_amount dto \<and> fa_destination a = ch_destination dto
     \<and> fa_expiresAt a = w_now (tick E w) + 300000 \<and> fa_verifiedAt a = None \<and> fa_consumedAt a = None
     \<and> pl_userId (fa_payload a) = userId \<and> pl_walletId (fa_payload a) = fa_walletId a
     \<and> pl_operation (fa_payload a) = fa_operation a \<and> pl_resourceId (fa_payload a) = fa_resourceId a
     \<and> pl_amount (fa_payload a) = fa_amount a \<and> pl_destination (fa_payload a) = fa_destination a
     \<and> pl_nonce (fa_payload a) = fa_nonce a \<and> pl_expiresAt (fa_payload a) = toISOString (fa_expiresAt a)"
proof -
  let ?u = "find_row usr_id userId (users w)"
  from assms obtain v where ok: "\<not> falsy (Option.bind ?u usr_privyStellarWalletAddress)"
      "Option.bind ?u usr_privyWalletStatus = Some ''ready''"
    and run: "createChallenge_for userId dto (the (Option.bind ?u usr_privyStellarWalletAddress)) E w = (Inr r, w')"
    by (auto simp: createChallenge_def Let_def elim!: bindM_InrE split: if_splits)
  from ok(1) obtain u wallet where u: "?u = Some u" "usr_privyStellarWalletAddress u = Some wallet"
    by (auto elim!: not_falsyE simp: bind_eq_Some_conv)
  with createChallenge_for_Inr [OF run] ok show ?thesis by auto
qed

text \<open>A successful challenge stores exactly one new authorization, unverified and unused, whose
  columns are the fields of the payload the client is asked to sign, whose hash is the hash of this
  payload, whose wallet is the ready Privy wallet of the user, and which expires five minutes after
  the clock was read.\<close>

theorem createChallenge_success:
  assumes "createChallenge userId dto E w = (Inr r, w')"
  shows "\<exists>a u. finauths w' = finauths w @ [a] \<and> fa_id a = cr_authorizationId r
     \<and> fa_payload a = cr_payload r \<and> fa_payloadHash a = hashPayload E (cr_payload r)
     \<and> cr_payloadHash r = fa_payloadHash a
     \<and> find_row usr_id userId (users w) = Some u \<and> usr_privyWalletStatus u = Some ''ready''
     \<and> usr_privyStellarWalletAddress u = Some (fa_walletId a)
     \<and> fa_userId a = userId \<and> fa_operation a = ch_operation dto \<and> fa_resourceId a = ch_resourceId dto
     \<and> fa_amount a = ch_amount dto \<and> fa_destination a = ch_destination dto
     \<and> fa_expiresAt a = w_now (tick E w) + 300000 \<and> fa_verifiedAt a = None \<and> fa_consumedAt a = None
     \<and> pl_userId (fa_payload a) = userId \<and> pl_walletId (fa_payload a) = fa_walletId a
     \<and> pl_operation (fa_payload a) = fa_operation a \<and> pl_resourceId (fa_payload a) = fa_resourceId a
     \<and> pl_amount (fa_payload a) = fa_amount a \<and> pl_destination (fa_payload a) = fa_destination a
     \<and> pl_nonce (fa_payload a) = fa_nonce a \<and> pl_expiresAt (fa_payload a) = toISOString (fa_expiresAt a)"
  by (rule createChallenge_InrD [OF assms])

text \<open>A challenge succeeds for a user with a ready wallet when nonce, hash and identifiers are new.\<close>

lemma not_clash_fresh: "v \<notin> g ` set t \<Longrightarrow> g r = v \<Longrightarrow> \<not> clash key (\<lambda>x. Some (g x)) t r"
  by (auto simp: clash_def list_ex_iff image_iff)

lemma fa_create_runs:
  assumes "e_uuid E (w_ids w) \<notin> fa_id ` set (finauths w)" and "pl_nonce p \<notin> fa_nonce ` set (finauths w)"
    and "h \<notin> fa_payloadHash ` set (finauths w)" and "has_user w u"
  shows "\<exists>a. fa_create u p h t E w = (Inr a, finauths_update (\<lambda>x. x @ [a]) (w\<lparr>w_ids := Suc (w_ids w)\<rparr>))"
  using assms not_clash_fresh [OF assms(2)] not_clash_fresh [OF assms(3)]
  by (simp add: fa_create_def createM_def Let_def chk_finauth_def has_user_def fk_def)

text \<open>The payload that the next challenge of a user with this wallet has.\<close>

definition next_payload :: "env \<Rightarrow> world \<Rightarrow> string \<Rightarrow> string \<Rightarrow> challenge_dto \<Rightarrow> finauth_payload" where
  "next_payload E w userId walletId dto = challenge_payload (e_conf E ''STELLAR_NETWORK'') (e_uuid E (w_ids w))
     (w_now (tick E w) + AUTH_TTL_MS) userId walletId dto"

lemma createChallenge_runs:
  assumes "find_row usr_id userId (users w) = Some u" and "usr_privyStellarWalletAddress u = Some a" and "a \<noteq> []"
    and "usr_privyWalletStatus u = Some ''ready''" and "e_uuid E (w_ids w) \<notin> fa_nonce ` set (finauths w)"
    and "e_uuid E (Suc (w_ids w)) \<notin> fa_id ` set (finauths w)"
    and "e_uuid E (Suc (Suc (w_ids w))) \<notin> aud_id ` set (auditLogs w)"
    and "hashPayload E (next_payload E w userId a dto) \<notin> fa_payloadHash ` set (finauths w)"
  shows "\<exists>r w'. createChallenge userId dto E w = (Inr r, w')"
proof -
  let ?w = "(tick E w)\<lparr>w_ids := Suc (w_ids w)\<rparr>" and ?t = "w_now (tick E w) + AUTH_TTL_MS"
  define p where "p = challenge_payload (e_conf E ''STELLAR_NETWORK'') (e_uuid E (w_ids w)) ?t userId a dto"
  obtain x where x: "fa_create userId p (hashPayload E p) ?t E ?w =
      (Inr x, finauths_update (\<lambda>y. y @ [x]) (?w\<lparr>w_ids := Suc (Suc (w_ids w))\<rparr>))"
    using fa_create_runs [of E ?w p "hashPayload E p" userId ?t] assms(1,5,6,8)
    by (auto simp: p_def next_payload_def has_user_def)
  obtain v where v: "auditLog (audit_entry ''financial_authorization.challenge_created'' (fa_id x)
      ''financial_authorization'' userId (fa_metadata x)) E
      (finauths_update (\<lambda>y. y @ [x]) (?w\<lparr>w_ids := Suc (Suc (w_ids w))\<rparr>)) = (Inr (), v)"
    using auditLog_run [of "finauths_update (\<lambda>y. y @ [x]) (?w\<lparr>w_ids := Suc (Suc (w_ids w))\<rparr>)"
        "audit_entry ''financial_authorization.challenge_created'' (fa_id x) ''financial_authorization'' userId (fa_metadata x)" E]
      assms(1,7) by (auto simp: audit_entry_def has_user_def)
  have "\<exists>r w'. createChallenge_for userId dto a E w = (Inr r, w')"
    using v by (simp add: createChallenge_for_def Let_def p_def [symmetric] bindM_def [of "fa_create _ _ _ _"]
        bindM_def [of "auditLog _"] x)
  then show ?thesis using assms(1-4) by (simp add: createChallenge_def Let_def)
qed

lemma createChallenge_clock:
  assumes "createChallenge u dto E w = (Inr r, w')"
  shows "w_now w' = w_now (tick E w) \<and> w_ticks w' = Suc (w_ticks w) \<and> w_ids w' = w_ids w + 3 \<and> users w' = users w
    \<and> cr_authorizationId r = e_uuid E (w_ids w + 1) \<and> (\<exists>l. auditLogs w' = auditLogs w @ [l] \<and> aud_id l = e_uuid E (w_ids w + 2))"
proof -
  from assms obtain a where "createChallenge_for u dto a E w = (Inr r, w')"
    by (auto simp: createChallenge_def Let_def elim!: bindM_InrE split: if_splits)
  then obtain p h n x v y where f: "fa_create u p h n E ((tick E w)\<lparr>w_ids := Suc (w_ids w)\<rparr>) = (Inr x, v)"
    and l: "auditLog y E v = (Inr (), w')" and r: "cr_authorizationId r = fa_id x"
    unfolding createChallenge_for_def Let_def by (auto elim!: bindM_InrE)
  from createM_world [OF f [unfolded fa_create_def]] auditLog_world [OF l] r show ?thesis
    by (auto simp: tick_def)
qed

lemma createChallenge_payload:
  assumes "createChallenge userId dto E w = (Inr r, w')"
  shows "\<exists>u a. find_row usr_id userId (users w) = Some u \<and> usr_privyStellarWalletAddress u = Some a
    \<and> cr_payload r = next_payload E w userId a dto"
proof -
  let ?u = "find_row usr_id userId (users w)"
  let ?a = "the (Option.bind ?u usr_privyStellarWalletAddress)"
  from assms have ok: "\<not> falsy (Option.bind ?u usr_privyStellarWalletAddress)"
    and run: "createChallenge_for userId dto ?a E w = (Inr r, w')"
    by (auto simp: createChallenge_def Let_def elim!: bindM_InrE split: if_splits)
  have "cr_payload r = next_payload E w userId ?a dto"
    using run unfolding createChallenge_for_def next_payload_def Let_def by (auto elim!: bindM_InrE)
  with ok show ?thesis by (auto elim!: not_falsyE simp: bind_eq_Some_conv)
qed

lemma verify_runs:
  assumes "find_row fa_id (vf_authorizationId dto) (finauths w) = Some a" and "fa_userId a = userId"
    and "find_row usr_id userId (users w) = Some u" and "usr_privyStellarWalletAddress u = Some (fa_walletId a)"
    and "fa_consumedAt a = None" and "w_now (tick E w) \<le> fa_expiresAt a" and "fa_payloadHash a = vf_payloadHash dto"
    and "\<And>v. verifyPrivyRawHashSignature (Some (fa_walletId a)) (fa_walletId a) (vf_assertion dto) (fa_payloadHash a) E v
      = (Inr (), v)"
    and "e_uuid E (w_ids w) \<notin> aud_id ` set (auditLogs w)"
  shows "\<exists>w'. verify userId dto E w = (Inr (vf_authorizationId dto, True), w')"
proof -
  let ?v = "tick E w"
  let ?f = "fa_setVerified (JObj (vf_assertion dto)) (w_now (tick E ?v))"
  let ?x = "finauths_update (upd_row fa_id (fa_id a) ?f) (tick E ?v)"
  have i: "fa_id a = vf_authorizationId dto" using assms(1) by (auto dest: find_row_SomeD)
  have up: "updateM finauths finauths_update fa_id no_chk (fa_id a) ?f E (tick E ?v) = (Inr (?f a), ?x)"
    using assms(1) i by (simp add: updateM_def no_chk_def)
  obtain w' where "auditLog (audit_entry ''financial_authorization.verified'' (fa_id (?f a))
              ''financial_authorization'' userId (fa_metadata (?f a))) E ?x = (Inr (), w')"
    using auditLog_run [of ?x "audit_entry ''financial_authorization.verified'' (fa_id (?f a))
              ''financial_authorization'' userId (fa_metadata (?f a))" E] assms(3,9)
    by (auto simp: audit_entry_def has_user_def)
  then have c: "verify_commit userId a dto E ?v = (Inr (fa_id a, True), w')"
    using up by (simp add: verify_commit_def bindM_def fa_setVerified_def)
  have "verify userId dto E w = bindM (verifyPrivyRawHashSignature (Some (fa_walletId a)) (fa_walletId a)
      (vf_assertion dto) (fa_payloadHash a)) (\<lambda>_. verify_commit userId a dto) E ?v"
    using assms by (simp add: verify_def)
  also have "\<dots> = (Inr (fa_id a, True), w')" using assms(8) c by (simp add: bindM_def)
  finally show ?thesis using i by auto
qed

end
