(* ===== verification/Stellar.thy ===== *)
theory Stellar
  imports Evolution
begin

text \<open>
  \<open>shared/blockchain/stellar.service.ts\<close>, the implementation of \<open>BlockchainService\<close>: contract
  calls, payments, custodial wallets, transactions a client signs, and reads of the pool.

  The SDK, the RPC and Horizon servers are parameters. A transaction is the term of how it was
  built; \<open>e_buildError\<close> is the SDK's refusal of such a term (an amount or an argument out of
  range, a text that is no XDR, a signature that does not belong to the transaction), so every
  place where a builder may throw is a branch. The reads that the code starts in parallel run in
  the order in which it starts them.
\<close>

section \<open>Constants and types\<close>

definition BASE_FEE :: string where "BASE_FEE = ''1000000''"

definition INNER_FEE :: string where "INNER_FEE = ''100000''"

definition TX_TIMEOUT_SECONDS :: int where "TX_TIMEOUT_SECONDS = 30"

definition CLIENT_SIGNED_TX_TIMEOUT_SECONDS :: int where "CLIENT_SIGNED_TX_TIMEOUT_SECONDS = 180"

definition POLL_INTERVAL_MS :: nat where "POLL_INTERVAL_MS = 2000"

definition POLL_DEADLINE_MS :: int where "POLL_DEADLINE_MS = 60000"

definition MINIMUM_TESTNET_XLM_BALANCE :: rat where "MINIMUM_TESTNET_XLM_BALANCE = 1"

definition TESOURO :: string where
  "TESOURO = ''TESOURO:GC3CW7EDYRTWQ635VDIGY6S4ZUF5L6TQ7AA4MWS7LEQDBLUSZXV7UPS4''"

definition native_asset :: string where "native_asset = ''native''"

record tokenize_input =
  tk_key :: string
  tk_value :: rat
  tk_dueDate :: int
  tk_xmlHash :: "string option"
  tk_ownerUserId :: string

record unsigned_tx =
  ut_xdr :: string
  ut_hashToSign :: string
  ut_signerPublicKey :: string

record scaled =
  sc_raw :: string
  sc_value :: rat

record pool_status =
  ps_poolContractId :: string
  ps_brltTokenId :: string
  ps_shareTokenId :: string
  ps_admin :: string
  ps_operator :: string
  ps_paused :: bool
  ps_brltDecimals :: int
  ps_shareDecimals :: int
  ps_nav :: scaled
  ps_cashBalance :: scaled
  ps_totalPrincipal :: scaled
  ps_totalShares :: scaled
  ps_sharePrice :: scaled

record investor_shares =
  is_address :: string
  is_shares :: scaled
  is_estimatedValueBrl :: rat

record wallet_balance =
  wb_address :: string
  wb_tokenId :: string
  wb_balance :: scaled

section \<open>Configuration\<close>

definition js_error :: "string \<Rightarrow> exn" where
  "js_error m = JsError m"

text \<open>The message of an exception, as \<open>(err as Error).message\<close> reads it.\<close>

fun exn_message :: "exn \<Rightarrow> string" where
  "exn_message (NotFoundException m) = m"
| "exn_message (ConflictException m) = m"
| "exn_message (BadRequestException m) = m"
| "exn_message (UnauthorizedException m) = m"
| "exn_message (ForbiddenException m) = m"
| "exn_message (FinancialAuthorizationException c m) = m"
| "exn_message (PrismaError c) = c"
| "exn_message (JsError m) = m"

text \<open>The constructor: server and platform key pair exist only when all three variables are set.\<close>

definition contract_config :: "env \<Rightarrow> (keypair \<times> string) option" where
  "contract_config E =
     (if falsy (e_conf E ''STELLAR_RPC_URL'') \<or> falsy (e_conf E ''STELLAR_SECRET_KEY'')
         \<or> falsy (e_conf E ''STELLAR_NFE_CONTRACT_ID'') then None
      else Some (FromSecret (the (e_conf E ''STELLAR_SECRET_KEY'')), the (e_conf E ''STELLAR_NFE_CONTRACT_ID'')))"

definition isMainnet :: "env \<Rightarrow> bool" where
  "isMainnet E \<longleftrightarrow> e_conf E ''STELLAR_NETWORK'' = Some ''mainnet''"

definition walletSecret :: "env \<Rightarrow> string" where
  "walletSecret E = (case e_conf E ''STELLAR_WALLET_SECRET'' of None \<Rightarrow> [] | Some s \<Rightarrow> s)"

definition requireContractConfig :: "(keypair \<times> string) api" where
  "requireContractConfig = bindM (asksM contract_config) (\<lambda>c. someOr c (js_error
     ''Stellar contract not configured - set STELLAR_RPC_URL, STELLAR_SECRET_KEY, STELLAR_NFE_CONTRACT_ID''))"

text \<open>A variable of the environment that must be set and not empty.\<close>

definition requireConf :: "string \<Rightarrow> string \<Rightarrow> string api" where
  "requireConf k m = bindM (confM k) (\<lambda>v.
     if falsy v then throwM (js_error m) else retM (the v))"

section \<open>Building blocks of the SDK\<close>

definition buildM :: "stellar_tx \<Rightarrow> stellar_tx api" where
  "buildM t = bindM (asksM (\<lambda>E. e_buildError E t)) (\<lambda>e.
     case e of Some m \<Rightarrow> throwM (js_error m) | None \<Rightarrow> retM t)"

definition publicKeyM :: "keypair \<Rightarrow> string api" where
  "publicKeyM k = asksM (\<lambda>E. e_publicKey E k)"

definition loadAccount :: "string \<Rightarrow> (string \<times> string) list api" where
  "loadAccount a = callM (HorizonLoadAccount a) (\<lambda>E t. e_loadAccount E t a)"

definition getAccount :: "string \<Rightarrow> unit api" where
  "getAccount a = callM (RpcGetAccount a) (\<lambda>E t. e_getAccount E t a)"

definition simulateTransaction :: "stellar_tx \<Rightarrow> sim_result api" where
  "simulateTransaction t = callM (RpcSimulate t) (\<lambda>E tr. e_simulate E tr t)"

text \<open>\<open>sendTransaction\<close> gives a status, the hash of the transaction and the text of \<open>errorResult\<close>.\<close>

definition sendTransaction :: "stellar_tx \<Rightarrow> (string \<times> string \<times> string) api" where
  "sendTransaction t = callM (RpcSend t) (\<lambda>E tr. e_send E tr t)"

definition currentLedger :: "int api" where
  "currentLedger = bindM (callM HorizonLedgers e_ledgers) (\<lambda>s.
     retM (case s of None \<Rightarrow> 3000000 | Some n \<Rightarrow> n))"

definition horizon_text :: "string \<Rightarrow> horizon_error \<Rightarrow> string" where
  "horizon_text label e = ''Horizon '' @ label @ '' failed: ''
     @ (case nullish (he_detail e) (he_message e) of None \<Rightarrow> ''unknown'' | Some m \<Rightarrow> m)
     @ '' (codes='' @ (case he_codes e of None \<Rightarrow> ''n/a'' | Some c \<Rightarrow> c) @ '')''"

definition submitWithDetail :: "stellar_tx \<Rightarrow> string \<Rightarrow> string api" where
  "submitWithDetail tx label = callM (HorizonSubmit tx) (\<lambda>E tr.
     case e_horizonSubmit E tr tx of Inl e \<Rightarrow> Inl (horizon_text label e) | Inr h \<Rightarrow> Inr h)"

section \<open>Waiting for a transaction\<close>

text \<open>
  The loop of \<open>waitForConfirmation\<close>. Every round reads the clock, asks the server and sleeps two
  seconds, so it ends: the distance to the deadline shrinks.
\<close>

function confirm_loop :: "string \<Rightarrow> int \<Rightarrow> env \<Rightarrow> world \<Rightarrow> (exn + unit) \<times> world" where
  "confirm_loop hash deadline E w =
     (let v = tick E w in
      if w_now v < deadline then
        (case callM (RpcGetTransaction hash) (\<lambda>E t. e_getTx E t hash) E v of
           (Inl e, u) \<Rightarrow> (Inl e, u)
         | (Inr status, u) \<Rightarrow>
             if status = ''SUCCESS'' then (Inr (), u)
             else if status = ''FAILED'' then (Inl (js_error (''Stellar tx failed on-chain: '' @ hash)), u)
             else confirm_loop hash deadline E (snd (sleepM POLL_INTERVAL_MS E u)))
      else (Inl (js_error (''Stellar tx timed out after 60s: '' @ hash)), v))"
  by pat_completeness auto
termination
proof (relation "measure (\<lambda>(h, d, E, w). nat (d - w_now w))")
  fix h d E w v r u s
  assume v: "v = tick E w" and lt: "w_now v < d"
    and c: "(r, u) = callM (RpcGetTransaction h) (\<lambda>E t. e_getTx E t h) E v"
  have "w_now v \<le> w_now u"
    using c by (auto simp: callM_def callW_def split: sum.splits)
  moreover have "w_now w \<le> w_now v" by (simp add: v tick_now)
  ultimately show "((h, d, E, snd (sleepM POLL_INTERVAL_MS E u)), h, d, E, w)
      \<in> measure (\<lambda>(h, d, E, w). nat (d - w_now w))"
    using lt by (simp add: sleepM_def POLL_INTERVAL_MS_def)
qed simp

declare confirm_loop.simps [simp del]

definition waitForConfirmation :: "string \<Rightarrow> unit api" where
  "waitForConfirmation hash = bindM nowM (\<lambda>t. confirm_loop hash (t + POLL_DEADLINE_MS))"

section \<open>Numbers and bytes\<close>

text \<open>\<open>BigInt(Math.round(amount * 10_000_000))\<close> and \<open>BigInt(Math.round(value * 100))\<close>\<close>

definition toStroops :: "rat \<Rightarrow> int" where
  "toStroops a = math_round (js_mul a 10000000)"

definition toCentavos :: "rat \<Rightarrow> int" where
  "toCentavos a = math_round (js_mul a 100)"

definition unixSeconds :: "int \<Rightarrow> int" where
  "unixSeconds ms = \<lfloor>js_div (of_int ms) 1000\<rfloor>"

definition toBytes32 :: "string option \<Rightarrow> byte list" where
  "toBytes32 h = (if falsy h then replicate 32 0
     else from_hex (take 64 (padEnd 64 (CHR ''0'') (strip0x (the h)))))"

text \<open>\<open>Number(s)\<close> may be NaN, here \<open>None\<close>; \<open>NaN.toFixed(7)\<close> is the text NaN.\<close>

definition toFixedN :: "nat \<Rightarrow> rat option \<Rightarrow> string" where
  "toFixedN k x = (case x of None \<Rightarrow> ''NaN'' | Some v \<Rightarrow> toFixed k v)"

section \<open>Contract calls\<close>

definition invokeContract :: "keypair \<Rightarrow> string \<Rightarrow> string \<Rightarrow> scval list \<Rightarrow> string api" where
  "invokeContract signer contractId method args =
     bindM (publicKeyM signer) (\<lambda>source.
     bindM (loadAccount source) (\<lambda>_.
     bindM (buildM (Built source (ContractCall contractId method args) None TX_TIMEOUT_SECONDS BASE_FEE)) (\<lambda>tx.
     bindM (simulateTransaction tx) (\<lambda>sim.
     case sim of
       SimFailure m \<Rightarrow> throwM (js_error (''Soroban simulation failed ['' @ method @ '']: '' @ m))
     | SimSuccess _ \<Rightarrow>
         bindM (buildM (Assembled tx)) (\<lambda>assembled.
         bindM (sendTransaction (Signed assembled signer)) (\<lambda>(status, hash, errorResult).
         bindM (throwIf (status = ''ERROR'')
                  (js_error (''Stellar RPC rejected tx ['' @ method @ '']: '' @ errorResult))) (\<lambda>_.
         bindM (waitForConfirmation hash) (\<lambda>_.
         retM hash))))))))"

definition registerProof :: "string \<Rightarrow> string api" where
  "registerProof hash = bindM nowM (\<lambda>t. retM (''stellar-proof-'' @ show_int t))"

definition tokenizeNfe :: "tokenize_input \<Rightarrow> string api" where
  "tokenizeNfe d =
     bindM requireContractConfig (\<lambda>(platform, contractId).
     bindM (findUniqueM users usr_id (tk_ownerUserId d)) (\<lambda>user.
     let pme = nullish (Option.bind user usr_privyStellarWalletAddress) (Option.bind user usr_stellarWalletId) in
     bindM (throwIf (falsy pme) (ConflictException
              (''PME '' @ tk_ownerUserId d @ '' has no Stellar wallet - cannot tokenize''))) (\<lambda>_.
     bindM (asksM (\<lambda>E. if falsy (tk_xmlHash d) then e_sha256 E (tk_key d) else toBytes32 (tk_xmlHash d))) (\<lambda>xmlHashBytes.
     bindM (publicKeyM platform) (\<lambda>platformAddress.
     catchM
       (invokeContract platform contractId ''tokenize_nfe''
          [ScString (tk_key d), ScI128 (toCentavos (tk_value d)), ScU64 (unixSeconds (tk_dueDate d)),
           ScBytes xmlHashBytes, ScAddress (the pme), ScAddress platformAddress])
       (\<lambda>e. if includes_str ''Error(Contract, #1)'' (exn_message e)
            then throwM (ConflictException
              ''Esta NF-e ja foi tokenizada on-chain (key ou hash XML ja existe).'')
            else throwM e))))))"

definition transferNftToPlatform :: "string \<Rightarrow> string api" where
  "transferNftToPlatform key =
     bindM requireContractConfig (\<lambda>(platform, contractId).
     bindM (publicKeyM platform) (\<lambda>platformAddress.
     invokeContract platform contractId ''transfer_ownership''
       [ScString key, ScAddress platformAddress, ScAddress platformAddress]))"

definition prepareAssignment :: "string \<Rightarrow> string \<Rightarrow> (string \<times> string) api" where
  "prepareAssignment key pmeAddress =
     bindM requireContractConfig (\<lambda>(platform, contractId).
     bindM (publicKeyM platform) (\<lambda>platformAddress.
     bindM (loadAccount pmeAddress) (\<lambda>_.
     bindM (buildM (Built pmeAddress (ContractCall contractId ''transfer_ownership''
              [ScString key, ScAddress platformAddress]) None TX_TIMEOUT_SECONDS INNER_FEE)) (\<lambda>tx.
     bindM (simulateTransaction tx) (\<lambda>sim.
     case sim of
       SimFailure m \<Rightarrow>
         if includes_str ''Error(Contract, #2)'' m
         then throwM (ConflictException (''Receivable '' @ key @
           '' is marked as tokenized locally, but was not found in the configured Stellar contract. Retokenize it or check STELLAR_NFE_CONTRACT_ID and STELLAR_NETWORK.''))
         else throwM (js_error (''Soroban simulation failed for prepareAssignment: '' @ m))
     | SimSuccess _ \<Rightarrow>
         bindM (buildM (Assembled tx)) (\<lambda>assembled.
         asksM (\<lambda>E. (e_toXDR E assembled, to_hex (e_txHash E assembled)))))))))"

definition submitSignedAssignment :: "string \<Rightarrow> string \<Rightarrow> string \<Rightarrow> string api" where
  "submitSignedAssignment unsignedXdr signatureHex pmeAddress =
     bindM requireContractConfig (\<lambda>(platform, contractId).
     bindM (buildM (Decoded unsignedXdr)) (\<lambda>innerTx.
     let signature = take 64 (from_hex (strip0x signatureHex)) in
     bindM (buildM (WithSignature innerTx pmeAddress signature)) (\<lambda>signedTx.
     bindM (buildM (FeeBump platform BASE_FEE signedTx)) (\<lambda>feeBumpTx.
     bindM (sendTransaction (Signed feeBumpTx platform)) (\<lambda>(status, hash, errorResult).
     bindM (throwIf (status = ''ERROR'') (js_error (''Stellar RPC rejected Fee Bump assignment: '' @ errorResult))) (\<lambda>_.
     bindM (waitForConfirmation hash) (\<lambda>_.
     retM hash)))))))"

section \<open>Payments and custodial wallets\<close>

definition deriveKeypair :: "env \<Rightarrow> string \<Rightarrow> keypair" where
  "deriveKeypair E seedSource = FromSeed (e_hmac E (walletSecret E) seedSource)"

definition native_balance :: "(string \<times> string) list \<Rightarrow> rat option" where
  "native_balance bs = (case find (\<lambda>b. fst b = native_asset) bs of
     None \<Rightarrow> js_number ''0'' | Some b \<Rightarrow> js_number (snd b))"

text \<open>A payment built on the platform's or the investor's account, signed and submitted.\<close>

definition payWith :: "keypair \<Rightarrow> string \<Rightarrow> stellar_op \<Rightarrow> string option \<Rightarrow> string \<Rightarrow> string api" where
  "payWith signer source op memo label =
     bindM (loadAccount source) (\<lambda>_.
     bindM (buildM (Built source op memo TX_TIMEOUT_SECONDS BASE_FEE)) (\<lambda>tx.
     submitWithDetail (Signed tx signer) label))"

definition fundAccountFromPlatform :: "string \<Rightarrow> string \<Rightarrow> string option api" where
  "fundAccountFromPlatform destination startingBalance =
     bindM requireContractConfig (\<lambda>(platform, contractId).
     bindM (publicKeyM platform) (\<lambda>platformAddress.
     let targetBalance = js_number startingBalance in
     bindM (catchM (bindM (loadAccount destination) (\<lambda>bs. retM (Some bs))) (\<lambda>_. retM None)) (\<lambda>account.
     bindM (asksM isMainnet) (\<lambda>mainnet.
     case account of
       Some bs \<Rightarrow>
         let nativeBalance = native_balance bs;
             topUp = (case (targetBalance, nativeBalance) of
                        (Some t, Some n) \<Rightarrow> Some (js_sub t n) | _ \<Rightarrow> None) in
         if mainnet \<or> (case nativeBalance of Some n \<Rightarrow> MINIMUM_TESTNET_XLM_BALANCE \<le> n | None \<Rightarrow> False)
         then retM None
         else if (case topUp of Some x \<Rightarrow> x \<le> 0 | None \<Rightarrow> False) then retM None
         else bindM (payWith platform platformAddress
                (Payment destination native_asset (toFixedN 7 topUp)) None ''fundAccountFromPlatform'')
                (\<lambda>h. retM (Some h))
     | None \<Rightarrow>
         if mainnet
         then throwM (js_error (''Mainnet wallet creation for '' @ destination @ '' requires manual funding''))
         else bindM (payWith platform platformAddress (CreateAccount destination startingBalance) None
                ''fundAccountFromPlatform'') (\<lambda>h. retM (Some h))))))"

definition establishTesourTrustline :: "keypair \<Rightarrow> unit api" where
  "establishTesourTrustline k =
     bindM (publicKeyM k) (\<lambda>publicKey.
     catchM (bindM (payWith k publicKey (ChangeTrust TESOURO) None ''changeTrust:TESOURO'') (\<lambda>_. retM ()))
       (\<lambda>_. retM ()))"

definition createCustodialWallet :: "string \<Rightarrow> string api" where
  "createCustodialWallet googleId =
     bindM (asksM walletSecret) (\<lambda>secret.
     bindM (throwIf (secret = []) (js_error ''STELLAR_WALLET_SECRET not configured'')) (\<lambda>_.
     bindM (asksM (\<lambda>E. deriveKeypair E googleId)) (\<lambda>k.
     bindM (publicKeyM k) (\<lambda>publicKey.
     bindM (catchM (bindM (loadAccount publicKey) (\<lambda>_. retM False))
              (\<lambda>_. catchM (bindM (fundAccountFromPlatform publicKey ''5.0'') (\<lambda>_. retM True))
                     (\<lambda>_. retM False))) (\<lambda>isNew.
     bindM (if isNew then establishTesourTrustline k else retM ()) (\<lambda>_.
     retM publicKey))))))"

definition setStellarWalletId :: "string \<Rightarrow> user \<Rightarrow> user" where
  "setStellarWalletId pk u = u\<lparr>usr_stellarWalletId := Some pk\<rparr>"

definition ensureCustodialWalletForUser :: "string \<Rightarrow> (string \<times> keypair option) api" where
  "ensureCustodialWalletForUser userId =
     bindM (asksM walletSecret) (\<lambda>secret.
     bindM (throwIf (secret = []) (js_error ''STELLAR_WALLET_SECRET not configured'')) (\<lambda>_.
     bindM (findUniqueM users usr_id userId) (\<lambda>found.
     bindM (someOr found (js_error (''User '' @ userId @ '' not found''))) (\<lambda>user.
     if \<not> falsy (usr_privyStellarWalletAddress user)
     then retM (the (usr_privyStellarWalletAddress user), None)
     else
       bindM (asksM (\<lambda>E. deriveKeypair E (case usr_googleId user of None \<Rightarrow> usr_id user | Some g \<Rightarrow> g))) (\<lambda>k.
       bindM (publicKeyM k) (\<lambda>publicKey.
       bindM (throwIf (\<not> falsy (usr_stellarWalletId user) \<and> usr_stellarWalletId user \<noteq> Some publicKey)
                (js_error (''Wallet mismatch for user '' @ userId @ '' - stored ''
                  @ the (usr_stellarWalletId user) @ '' vs derived '' @ publicKey))) (\<lambda>_.
       bindM (catchM (bindM (loadAccount publicKey) (\<lambda>_. retM ()))
                (\<lambda>_. catchM (bindM (fundAccountFromPlatform publicKey ''5.0'') (\<lambda>_. retM ()))
                  (\<lambda>e. throwM (js_error (''Platform funding failed for custodial wallet '' @ publicKey
                          @ '': '' @ exn_message e))))) (\<lambda>_.
       bindM (if falsy (usr_stellarWalletId user)
              then bindM (updateM users users_update usr_id chk_user userId (setStellarWalletId publicKey))
                     (\<lambda>_. retM ())
              else retM ()) (\<lambda>_.
       retM (publicKey, Some k)))))))))) "

definition payPme :: "string \<Rightarrow> rat \<Rightarrow> string \<Rightarrow> string api" where
  "payPme pmeUserId amountBrl memo =
     bindM requireContractConfig (\<lambda>(platform, contractId).
     bindM (ensureCustodialWalletForUser pmeUserId) (\<lambda>(pmeAddress, _).
     bindM (publicKeyM platform) (\<lambda>platformAddress.
     payWith platform platformAddress (Payment pmeAddress TESOURO (toFixed 7 amountBrl))
       (Some (take 28 memo)) ''payPme'')))"

definition transferNftToInvestor :: "string \<Rightarrow> string \<Rightarrow> string api" where
  "transferNftToInvestor key investorUserId =
     bindM requireContractConfig (\<lambda>(platform, contractId).
     bindM (ensureCustodialWalletForUser investorUserId) (\<lambda>(investorAddress, _).
     bindM (publicKeyM platform) (\<lambda>platformAddress.
     invokeContract platform contractId ''transfer_ownership''
       [ScString key, ScAddress investorAddress, ScAddress platformAddress])))"

definition chargeInvestor :: "string \<Rightarrow> rat \<Rightarrow> string \<Rightarrow> string api" where
  "chargeInvestor investorUserId amountBrl memo =
     bindM requireContractConfig (\<lambda>(platform, contractId).
     bindM (ensureCustodialWalletForUser investorUserId) (\<lambda>(investorAddress, investorKeypair).
     bindM (someOr investorKeypair (js_error (''Investor '' @ investorUserId
              @ '' uses a Privy wallet; payment must be signed by Privy''))) (\<lambda>k.
     bindM (publicKeyM platform) (\<lambda>platformAddress.
     payWith k investorAddress (Payment platformAddress TESOURO (toFixed 7 amountBrl))
       (Some (take 28 memo)) ''chargeInvestor''))))"

definition settlePayment :: "string api" where
  "settlePayment = bindM nowM (\<lambda>t. retM (''stellar-settle-'' @ show_int t))"

definition getTransactionStatus :: "string \<Rightarrow> string api" where
  "getTransactionStatus txHash =
     bindM requireContractConfig (\<lambda>_.
     bindM (callM (RpcGetTransaction txHash) (\<lambda>E t. e_getTx E t txHash)) (\<lambda>status.
     retM (if status = ''SUCCESS'' then ''success'' else if status = ''FAILED'' then ''failed'' else ''pending'')))"

section \<open>The pool\<close>

definition poolCredentials :: "(string \<times> keypair) option api" where
  "poolCredentials = bindM (confM ''STELLAR_POOL_CONTRACT_ID'') (\<lambda>pool.
     bindM (asksM contract_config) (\<lambda>c.
     retM (if falsy pool then None else map_option (\<lambda>(k, _). (the pool, k)) c)))"

definition no_custodial_key :: "string \<Rightarrow> exn" where
  "no_custodial_key u = js_error (''Custodial keypair for investor '' @ u @ '' not available to sign transaction'')"

definition depositToPool :: "string \<Rightarrow> rat \<Rightarrow> string api" where
  "depositToPool investorUserId amountBrl =
     bindM (confM ''STELLAR_BRLT_TOKEN_ID'') (\<lambda>brlt.
     bindM poolCredentials (\<lambda>cred.
     case (if falsy brlt then None else cred) of
       None \<Rightarrow> bindM nowM (\<lambda>t. retM (''stellar-mock-pool-deposit-'' @ show_int t))
     | Some (pool, platform) \<Rightarrow>
         bindM (ensureCustodialWalletForUser investorUserId) (\<lambda>(investorAddress, investorKeypair).
         bindM (someOr investorKeypair (no_custodial_key investorUserId)) (\<lambda>k.
         let amountInStroops = toStroops amountBrl in
         bindM (publicKeyM platform) (\<lambda>admin.
         bindM (invokeContract platform (the brlt) ''mint''
                  [ScAddress admin, ScAddress investorAddress, ScI128 amountInStroops]) (\<lambda>_.
         bindM currentLedger (\<lambda>ledger.
         bindM (invokeContract k (the brlt) ''approve''
                  [ScAddress investorAddress, ScAddress pool, ScI128 amountInStroops, ScU32 (ledger + 100000)]) (\<lambda>_.
         invokeContract k pool ''deposit'' [ScAddress investorAddress, ScI128 amountInStroops])))))))) "

definition withdrawFromPool :: "string \<Rightarrow> rat \<Rightarrow> string api" where
  "withdrawFromPool investorUserId shareAmount =
     bindM poolCredentials (\<lambda>cred.
     case cred of
       None \<Rightarrow> bindM nowM (\<lambda>t. retM (''stellar-mock-pool-withdraw-'' @ show_int t))
     | Some (pool, platform) \<Rightarrow>
         bindM (ensureCustodialWalletForUser investorUserId) (\<lambda>(investorAddress, investorKeypair).
         bindM (someOr investorKeypair (no_custodial_key investorUserId)) (\<lambda>k.
         invokeContract k pool ''withdraw'' [ScAddress investorAddress, ScI128 (toStroops shareAmount)])))"

definition settleInvoiceInPool :: "string \<Rightarrow> rat \<Rightarrow> string api" where
  "settleInvoiceInPool invoiceHash advanceAmountBrl =
     bindM poolCredentials (\<lambda>cred.
     case cred of
       None \<Rightarrow> bindM nowM (\<lambda>t. retM (''stellar-mock-pool-settlement-'' @ show_int t))
     | Some (pool, platform) \<Rightarrow>
         bindM (publicKeyM platform) (\<lambda>platformAddress.
         invokeContract platform pool ''settle_invoice_in_pool''
           [ScAddress platformAddress, ScBytes (toBytes32 (Some invoiceHash)),
            ScI128 (toStroops advanceAmountBrl)]))"

definition buyTokenizedInvoiceInPool :: "string \<Rightarrow> string \<Rightarrow> string \<Rightarrow> rat \<Rightarrow> string api" where
  "buyTokenizedInvoiceInPool sellerAddress invoiceKey xmlHash value =
     bindM requireContractConfig (\<lambda>(platform, contractId).
     bindM (requireConf ''STELLAR_POOL_CONTRACT_ID'' ''STELLAR_POOL_CONTRACT_ID not configured'') (\<lambda>pool.
     bindM (publicKeyM platform) (\<lambda>platformAddress.
     invokeContract platform pool ''buy_tokenized_invoice''
       [ScAddress platformAddress, ScAddress sellerAddress, ScBytes (toBytes32 (Some xmlHash)),
        ScI128 (toStroops value), ScI128 (toStroops value), ScI128 100, ScU64 1800000000])))"

definition mintBrlt :: "string \<Rightarrow> rat \<Rightarrow> string api" where
  "mintBrlt toAddress amount =
     bindM requireContractConfig (\<lambda>(platform, contractId).
     bindM (requireConf ''STELLAR_BRLT_TOKEN_ID'' ''STELLAR_BRLT_TOKEN_ID not configured'') (\<lambda>brlt.
     bindM (publicKeyM platform) (\<lambda>admin.
     invokeContract platform brlt ''mint''
       [ScAddress admin, ScAddress toAddress, ScI128 (toStroops amount)])))"

section \<open>Transactions signed by the client\<close>

definition buildAndAssemble :: "string \<Rightarrow> string \<Rightarrow> string \<Rightarrow> scval list \<Rightarrow> unsigned_tx api" where
  "buildAndAssemble address contractId method args =
     bindM (asksM contract_config) (\<lambda>c.
     bindM (throwIf (c = None) (js_error ''Stellar RPC server not configured'')) (\<lambda>_.
     bindM (getAccount address) (\<lambda>_.
     bindM (buildM (Built address (ContractCall contractId method args) None
              CLIENT_SIGNED_TX_TIMEOUT_SECONDS BASE_FEE)) (\<lambda>tx.
     bindM (simulateTransaction tx) (\<lambda>sim.
     case sim of
       SimFailure m \<Rightarrow> throwM (js_error (''Simulation failed for '' @ method @ '': '' @ m))
     | SimSuccess _ \<Rightarrow>
         bindM (buildM (Assembled tx)) (\<lambda>assembled.
         asksM (\<lambda>E. \<lparr>ut_xdr = e_toXDR E assembled, ut_hashToSign = to_hex (e_txHash E assembled),
                     ut_signerPublicKey = address\<rparr>)))))))"

definition buildApproveTx :: "string \<Rightarrow> rat \<Rightarrow> unsigned_tx api" where
  "buildApproveTx investorAddress amountBrl =
     bindM (confM ''STELLAR_POOL_CONTRACT_ID'') (\<lambda>pool.
     bindM (confM ''STELLAR_BRLT_TOKEN_ID'') (\<lambda>brlt.
     bindM (throwIf (falsy pool \<or> falsy brlt)
              (js_error ''STELLAR_POOL_CONTRACT_ID / STELLAR_BRLT_TOKEN_ID not configured'')) (\<lambda>_.
     bindM currentLedger (\<lambda>ledger.
     buildAndAssemble investorAddress (the brlt) ''approve''
       [ScAddress investorAddress, ScAddress (the pool), ScI128 (toStroops amountBrl), ScU32 (ledger + 100000)]))))"

definition buildDepositTx :: "string \<Rightarrow> rat \<Rightarrow> unsigned_tx api" where
  "buildDepositTx investorAddress amountBrl =
     bindM (requireConf ''STELLAR_POOL_CONTRACT_ID'' ''STELLAR_POOL_CONTRACT_ID not configured'') (\<lambda>pool.
     buildAndAssemble investorAddress pool ''deposit''
       [ScAddress investorAddress, ScI128 (toStroops amountBrl)])"

definition buildBurnBrltTx :: "string \<Rightarrow> rat \<Rightarrow> unsigned_tx api" where
  "buildBurnBrltTx userAddress amountBrl =
     bindM (requireConf ''STELLAR_BRLT_TOKEN_ID'' ''STELLAR_BRLT_TOKEN_ID not configured'') (\<lambda>brlt.
     buildAndAssemble userAddress brlt ''burn''
       [ScAddress userAddress, ScI128 (toStroops amountBrl)])"

definition submitSignedTx :: "string \<Rightarrow> string \<Rightarrow> string \<Rightarrow> string api" where
  "submitSignedTx xdr signerPublicKey signatureHex =
     bindM (asksM contract_config) (\<lambda>c.
     bindM (throwIf (c = None) (js_error ''Stellar RPC server not configured'')) (\<lambda>_.
     bindM requireContractConfig (\<lambda>(platform, contractId).
     bindM (buildM (Decoded xdr)) (\<lambda>innerTx.
     bindM (asksM (\<lambda>E. e_publicKeyError E signerPublicKey)) (\<lambda>bad.
     bindM (throwIf (bad \<noteq> None) (js_error (the bad))) (\<lambda>_.
     let signature = from_hex (strip0x signatureHex) in
     bindM (asksM (\<lambda>E. e_verifySig E signerPublicKey (e_txHash E innerTx) signature)) (\<lambda>ok.
     bindM (throwIf (\<not> ok) (js_error ''Signature does not match transaction hash'')) (\<lambda>_.
     bindM (buildM (FeeBump platform BASE_FEE (WithSignature innerTx signerPublicKey signature))) (\<lambda>feeBumpTx.
     bindM (sendTransaction (Signed feeBumpTx platform)) (\<lambda>(status, hash, errorResult).
     bindM (throwIf (status = ''ERROR'') (js_error (''sendTransaction failed: '' @ errorResult))) (\<lambda>_.
     bindM (waitForConfirmation hash) (\<lambda>_.
     retM hash))))))))))))"

section \<open>Reads\<close>

definition simulateRead :: "string \<Rightarrow> string \<Rightarrow> scval list \<Rightarrow> native api" where
  "simulateRead contractId method args =
     bindM requireContractConfig (\<lambda>(platform, _).
     bindM (publicKeyM platform) (\<lambda>source.
     bindM (getAccount source) (\<lambda>_.
     bindM (buildM (Built source (ContractCall contractId method args) None TX_TIMEOUT_SECONDS BASE_FEE)) (\<lambda>tx.
     bindM (simulateTransaction tx) (\<lambda>sim.
     case sim of
       SimFailure m \<Rightarrow> throwM (js_error (''Simulation failed for '' @ method @ '': '' @ m))
     | SimSuccess r \<Rightarrow> someOr r (js_error (''No return value from '' @ method)))))))"

text \<open>The casts of a returned value to the type the code names; another shape is a type error.\<close>

definition native_int :: "native \<Rightarrow> int api" where
  "native_int v = (case v of NInt n \<Rightarrow> retM n | _ \<Rightarrow> throwM (js_error ''TypeError''))"

definition native_field :: "native \<Rightarrow> string \<Rightarrow> native api" where
  "native_field v k = (case v of NRec m \<Rightarrow> someOr (map_of m k) (js_error ''TypeError'')
     | _ \<Rightarrow> throwM (js_error ''TypeError''))"

definition native_str :: "native \<Rightarrow> string api" where
  "native_str v = (case v of NStr s \<Rightarrow> retM s | _ \<Rightarrow> throwM (js_error ''TypeError''))"

definition native_bool :: "native \<Rightarrow> bool api" where
  "native_bool v = (case v of NBool b \<Rightarrow> retM b | _ \<Rightarrow> throwM (js_error ''TypeError''))"

definition scale_value :: "int \<Rightarrow> int \<Rightarrow> rat" where
  "scale_value raw decimals = js_div (fl (of_int raw)) (fl (10 ^ nat decimals))"

definition toScaled :: "int \<Rightarrow> int \<Rightarrow> scaled" where
  "toScaled raw decimals = \<lparr>sc_raw = show_int raw, sc_value = scale_value raw decimals\<rparr>"

definition readField :: "(native \<Rightarrow> 'a api) \<Rightarrow> native \<Rightarrow> string \<Rightarrow> 'a api" where
  "readField f v k = bindM (native_field v k) f"

definition readInt :: "string \<Rightarrow> string \<Rightarrow> scval list \<Rightarrow> int api" where
  "readInt c m args = bindM (simulateRead c m args) native_int"

definition getPoolStatus :: "pool_status api" where
  "getPoolStatus =
     bindM (requireConf ''STELLAR_POOL_CONTRACT_ID'' ''STELLAR_POOL_CONTRACT_ID not configured'') (\<lambda>poolId.
     bindM (simulateRead poolId ''get_pool_state'' []) (\<lambda>state.
     bindM (readField native_str state ''admin'') (\<lambda>admin.
     bindM (readField native_str state ''operator'') (\<lambda>operator.
     bindM (readField native_str state ''asset_address'') (\<lambda>asset.
     bindM (readField native_str state ''share_token_address'') (\<lambda>shareToken.
     bindM (readField native_int state ''total_principal'') (\<lambda>principal.
     bindM (readField native_int state ''total_shares'') (\<lambda>totalShares.
     bindM (readField native_bool state ''paused'') (\<lambda>paused.
     bindM (readInt poolId ''get_nav'' []) (\<lambda>navRaw.
     bindM (readInt poolId ''get_share_price'' []) (\<lambda>sharePriceRaw.
     bindM (readInt asset ''decimals'' []) (\<lambda>brltDecimals.
     bindM (readInt shareToken ''decimals'' []) (\<lambda>shareDecimals.
     retM \<lparr>ps_poolContractId = poolId, ps_brltTokenId = asset, ps_shareTokenId = shareToken,
           ps_admin = admin, ps_operator = operator, ps_paused = paused,
           ps_brltDecimals = brltDecimals, ps_shareDecimals = shareDecimals,
           ps_nav = toScaled navRaw brltDecimals,
           ps_cashBalance = toScaled (navRaw - principal) brltDecimals,
           ps_totalPrincipal = toScaled principal brltDecimals,
           ps_totalShares = toScaled totalShares shareDecimals,
           ps_sharePrice = \<lparr>sc_raw = show_int sharePriceRaw,
             sc_value = js_div (fl (of_int sharePriceRaw)) 1000000000\<rparr>\<rparr>)))))))))))))"

definition getInvestorShares :: "string \<Rightarrow> investor_shares api" where
  "getInvestorShares address =
     bindM (requireConf ''STELLAR_POOL_CONTRACT_ID'' ''STELLAR_POOL_CONTRACT_ID not configured'') (\<lambda>poolId.
     bindM (simulateRead poolId ''get_pool_state'' []) (\<lambda>state.
     bindM (readField native_str state ''share_token_address'') (\<lambda>shareToken.
     bindM (readInt shareToken ''decimals'' []) (\<lambda>shareDecimals.
     bindM (readInt poolId ''get_share_price'' []) (\<lambda>sharePriceRaw.
     bindM (readInt shareToken ''balance'' [ScAddress address]) (\<lambda>balanceRaw.
     let sharesValue = scale_value balanceRaw shareDecimals;
         sharePriceValue = js_div (fl (of_int sharePriceRaw)) 1000000000 in
     retM \<lparr>is_address = address, is_shares = \<lparr>sc_raw = show_int balanceRaw, sc_value = sharesValue\<rparr>,
           is_estimatedValueBrl = js_mul sharesValue sharePriceValue\<rparr>))))))"

definition getBrltBalance :: "string \<Rightarrow> wallet_balance api" where
  "getBrltBalance address =
     bindM (requireConf ''STELLAR_BRLT_TOKEN_ID'' ''STELLAR_BRLT_TOKEN_ID not configured'') (\<lambda>brltId.
     bindM (readInt brltId ''decimals'' []) (\<lambda>decimals.
     bindM (readInt brltId ''balance'' [ScAddress address]) (\<lambda>balanceRaw.
     retM \<lparr>wb_address = address, wb_tokenId = brltId, wb_balance = toScaled balanceRaw decimals\<rparr>)))"

section \<open>What a call to the chain leaves alone\<close>

text \<open>
  The contract of \<open>BlockchainService\<close> toward the database: every table but the users' is
  untouched, and a user is changed only by a sound step.
\<close>

definition roster :: "world \<Rightarrow> (string \<times> string option) list" where
  "roster w = map (\<lambda>u. (usr_id u, usr_role u)) (users w)"

interpretation same_roster: world_relation "same roster"
  by unfold_locales (simp_all add: same_def roster_def)

lemma roster_upd_row:
  assumes "\<And>u. usr_id (f u) = usr_id u \<and> usr_role (f u) = usr_role u"
  shows "roster (users_update (upd_row usr_id k f) w) = roster w"
  using assms by (simp add: roster_def upd_row_def)

definition chain_frame :: "world \<Rightarrow> world \<Rightarrow> bool" where
  "chain_frame w v \<longleftrightarrow> sound_step w v \<and> roster v = roster w \<and> receivables v = receivables w \<and> documents v = documents w
     \<and> settlements v = settlements w \<and> finauths v = finauths w \<and> auditLogs v = auditLogs w
     \<and> investments v = investments w \<and> ptransactions v = ptransactions w \<and> pixEvents v = pixEvents w
     \<and> collections v = collections w"

interpretation chain: world_relation chain_frame
proof
  show "chain_frame w w" for w
    by (simp add: chain_frame_def step.kept_refl)
  show "chain_frame u w" if "chain_frame u v" and "chain_frame v w" for u v w
    using that step.kept_trans [of u v w] by (simp add: chain_frame_def)
  show "chain_frame w (w\<lparr>w_now := t, w_ticks := n, w_ids := i\<rparr>)" for w t n i
    by (simp add: chain_frame_def step.blind_clock roster_def)
  show "chain_frame w (w\<lparr>w_trace := c\<rparr>)" for w c
    by (simp add: chain_frame_def step.blind_trace roster_def)
qed

locale chain_call =
  fixes call :: "'a api"
  assumes framed: "keepsR chain_frame call"
begin

lemma call_step [keeps]: "keepsR sound_step call"
  using framed by (rule keepsR_mono) (simp add: chain_frame_def)

lemma call_frames [keeps]:
  "keepsR (same receivables) call" "keepsR (same documents) call" "keepsR (same settlements) call"
  "keepsR (same finauths) call" "keepsR (same auditLogs) call" "keepsR (same investments) call"
  "keepsR (same ptransactions) call" "keepsR (same pixEvents) call" "keepsR (same collections) call"
  "keepsR (same roster) call"
  using framed by (auto intro: keepsR_mono simp: chain_frame_def same_def)

text \<open>What was read of a receivable before the call is still so after it.\<close>

lemma call_receivable:
  "call E w = (r, w') \<Longrightarrow> find_row rcv_id i (receivables w') = find_row rcv_id i (receivables w)"
  using call_frames(1) sameD' by metis

end

lemma confirm_loop_frame: "chain_frame w (snd (confirm_loop h d E w))"
proof (induction h d E w rule: confirm_loop.induct)
  case (1 h d E w)
  let ?c = "callM (RpcGetTransaction h) (\<lambda>E t. e_getTx E t h)"
  have v: "chain_frame w (tick E w)"
    using chain.keepsR_now by (metis keepsR_run nowM_run snd_conv)
  have u: "chain_frame w (snd (?c E (tick E w)))"
    using v chain.keepsR_call keepsR_run chain.kept_trans by metis
  have s: "chain_frame w (snd (sleepM POLL_INTERVAL_MS E (snd (?c E (tick E w)))))"
    using u chain.keepsR_sleep keepsR_run chain.kept_trans by metis
  show ?case
  proof (cases "?c E (tick E w)")
    case (Pair r x)
    have "chain_frame w (snd (confirm_loop h d E (snd (sleepM POLL_INTERVAL_MS E x))))"
      if "w_now (tick E w) < d" "r = Inr st" "st \<noteq> ''SUCCESS''" "st \<noteq> ''FAILED''" for st
    proof -
      have "chain_frame (snd (sleepM POLL_INTERVAL_MS E x))
          (snd (confirm_loop h d E (snd (sleepM POLL_INTERVAL_MS E x))))"
        using 1 [OF refl that(1) Pair [symmetric] that(2-4)] .
      with s Pair show ?thesis using chain.kept_trans by simp
    qed
    with Pair u v show ?thesis
      by (subst confirm_loop.simps) (auto simp: Let_def split: sum.splits)
  qed
qed

lemma waitForConfirmation_frame [keeps]: "keepsR chain_frame (waitForConfirmation h)"
  unfolding waitForConfirmation_def by (intro keeps) (rule keepsRI, rule confirm_loop_frame)

lemma sim_split [keeps]:
  "(\<And>m. keepsR R (f m)) \<Longrightarrow> (\<And>r. keepsR R (g r)) \<Longrightarrow>
   keepsR R (case s of SimFailure m \<Rightarrow> f m | SimSuccess r \<Rightarrow> g r)"
  by (simp split: sim_result.split)

lemmas sdk_defs = buildM_def publicKeyM_def loadAccount_def getAccount_def simulateTransaction_def
  sendTransaction_def currentLedger_def submitWithDetail_def requireContractConfig_def requireConf_def

lemma sdk_frames [keeps]:
  "keepsR chain_frame (buildM t)" "keepsR chain_frame (publicKeyM k)"
  "keepsR chain_frame (loadAccount a)" "keepsR chain_frame (getAccount a)"
  "keepsR chain_frame (simulateTransaction t)" "keepsR chain_frame (sendTransaction t)"
  "keepsR chain_frame currentLedger" "keepsR chain_frame (submitWithDetail t l)"
  "keepsR chain_frame requireContractConfig" "keepsR chain_frame (requireConf c m)"
  unfolding sdk_defs by (intro keeps)+

lemma invokeContract_frame [keeps]: "keepsR chain_frame (invokeContract k c m a)"
  unfolding invokeContract_def by (intro keeps)

lemma payWith_frame [keeps]: "keepsR chain_frame (payWith k a op m l)"
  unfolding payWith_def by (intro keeps)

lemma fundAccount_frame [keeps]: "keepsR chain_frame (fundAccountFromPlatform d b)"
  unfolding fundAccountFromPlatform_def Let_def by (intro keeps)

lemma establishTesourTrustline_frame [keeps]: "keepsR chain_frame (establishTesourTrustline k)"
  unfolding establishTesourTrustline_def by (intro keeps)

lemma setStellarWalletId_evo: "user_evo u (setStellarWalletId pk u)" "usr_role (setStellarWalletId pk u) = usr_role u"
  by (simp_all add: user_evo_def setStellarWalletId_def)

lemma chain_update_user [keeps]:
  assumes "\<And>u. user_evo u (f u)" and "\<And>u. usr_role (f u) = usr_role u"
  shows "keepsR chain_frame (updateM users users_update usr_id chk_user k f)"
  using keepsR_run [OF step_update_user [OF assms(1)]] assms roster_upd_row [of f]
  by (auto simp: keepsR_def chain_frame_def updateM_def user_evo_def split: option.split)

lemma ensureCustodialWallet_frame [keeps]: "keepsR chain_frame (ensureCustodialWalletForUser u)"
  unfolding ensureCustodialWalletForUser_def by (intro keeps setStellarWalletId_evo)

interpretation registerProof: chain_call "registerProof h" for h
  by unfold_locales (unfold registerProof_def, intro keeps)

interpretation tokenizeNfe: chain_call "tokenizeNfe d" for d
  by unfold_locales (unfold tokenizeNfe_def Let_def, intro keeps)

interpretation transferNftToPlatform: chain_call "transferNftToPlatform k" for k
  by unfold_locales (unfold transferNftToPlatform_def, intro keeps)

interpretation prepareAssignment: chain_call "prepareAssignment k a" for k a
  by unfold_locales (unfold prepareAssignment_def, intro keeps)

interpretation submitSignedAssignment: chain_call "submitSignedAssignment x s a" for x s a
  by unfold_locales (unfold submitSignedAssignment_def Let_def, intro keeps)

interpretation fundAccountFromPlatform: chain_call "fundAccountFromPlatform d b" for d b
  by unfold_locales (intro keeps)

interpretation createCustodialWallet: chain_call "createCustodialWallet g" for g
  by unfold_locales (unfold createCustodialWallet_def, intro keeps)

interpretation payPme: chain_call "payPme u a m" for u a m
  by unfold_locales (unfold payPme_def, intro keeps)

interpretation transferNftToInvestor: chain_call "transferNftToInvestor k u" for k u
  by unfold_locales (unfold transferNftToInvestor_def, intro keeps)

interpretation chargeInvestor: chain_call "chargeInvestor u a m" for u a m
  by unfold_locales (unfold chargeInvestor_def, intro keeps)

interpretation settlePayment: chain_call settlePayment
  by unfold_locales (unfold settlePayment_def, intro keeps)

interpretation getTransactionStatus: chain_call "getTransactionStatus h" for h
  by unfold_locales (unfold getTransactionStatus_def, intro keeps)

lemma poolCredentials_frame [keeps]: "keepsR chain_frame poolCredentials"
  unfolding poolCredentials_def by (intro keeps)

interpretation depositToPool: chain_call "depositToPool u a" for u a
  by unfold_locales (unfold depositToPool_def Let_def, intro keeps)

interpretation withdrawFromPool: chain_call "withdrawFromPool u a" for u a
  by unfold_locales (unfold withdrawFromPool_def, intro keeps)

interpretation settleInvoiceInPool: chain_call "settleInvoiceInPool h a" for h a
  by unfold_locales (unfold settleInvoiceInPool_def, intro keeps)

interpretation buyTokenizedInvoiceInPool: chain_call "buyTokenizedInvoiceInPool s k x v" for s k x v
  by unfold_locales (unfold buyTokenizedInvoiceInPool_def, intro keeps)

interpretation mintBrlt: chain_call "mintBrlt a v" for a v
  by unfold_locales (unfold mintBrlt_def, intro keeps)

lemma buildAndAssemble_frame [keeps]: "keepsR chain_frame (buildAndAssemble a c m xs)"
  unfolding buildAndAssemble_def by (intro keeps)

interpretation buildApproveTx: chain_call "buildApproveTx a v" for a v
  by unfold_locales (unfold buildApproveTx_def, intro keeps)

interpretation buildDepositTx: chain_call "buildDepositTx a v" for a v
  by unfold_locales (unfold buildDepositTx_def, intro keeps)

interpretation buildBurnBrltTx: chain_call "buildBurnBrltTx a v" for a v
  by unfold_locales (unfold buildBurnBrltTx_def, intro keeps)

interpretation submitSignedTx: chain_call "submitSignedTx x p s" for x p s
  by unfold_locales (unfold submitSignedTx_def Let_def, intro keeps)

lemma native_frames [keeps]:
  "keepsR chain_frame (native_int v)" "keepsR chain_frame (native_str v)"
  "keepsR chain_frame (native_bool v)" "keepsR chain_frame (native_field v k)"
  unfolding native_int_def native_str_def native_bool_def native_field_def
  by (cases v; simp; intro keeps)+

lemma simulateRead_frame [keeps]: "keepsR chain_frame (simulateRead c m a)"
  unfolding simulateRead_def by (intro keeps)

lemma readInt_frame [keeps]: "keepsR chain_frame (readInt c m a)"
  unfolding readInt_def by (intro keeps)

interpretation getPoolStatus: chain_call getPoolStatus
  by unfold_locales (unfold getPoolStatus_def readField_def, intro keeps)

interpretation getInvestorShares: chain_call "getInvestorShares a" for a
  by unfold_locales (unfold getInvestorShares_def readField_def Let_def, intro keeps)

interpretation getBrltBalance: chain_call "getBrltBalance a" for a
  by unfold_locales (unfold getBrltBalance_def, intro keeps)

section \<open>The trace of calls\<close>

text \<open>Calls are appended to the trace, none is ever taken back.\<close>

definition trace_ext :: "world \<Rightarrow> world \<Rightarrow> bool" where
  "trace_ext w v \<longleftrightarrow> take (length (w_trace w)) (w_trace v) = w_trace w"

lemma trace_ext_iff: "trace_ext w v \<longleftrightarrow> (\<exists>cs. w_trace v = w_trace w @ cs)"
  unfolding trace_ext_def by (metis append_eq_conv_conj append_take_drop_id)

interpretation trace: clock_relation trace_ext
  by unfold_locales (auto simp: trace_ext_iff)

lemma trace_call [keeps]: "keepsR trace_ext (callM c f)"
  by (rule keepsRI) (auto simp: callM_def callW_def trace_ext_iff split: sum.split)

lemma confirm_loop_trace: "trace_ext w (snd (confirm_loop h d E w))"
proof (induction h d E w rule: confirm_loop.induct)
  case (1 h d E w)
  let ?c = "callM (RpcGetTransaction h) (\<lambda>E t. e_getTx E t h)"
  have u: "trace_ext w (snd (?c E (tick E w)))"
    using keepsR_run [OF trace_call, of "tick E w" "RpcGetTransaction h" "\<lambda>E t. e_getTx E t h" E]
    by (simp add: trace_ext_def)
  show ?case
  proof (cases "?c E (tick E w)")
    case (Pair r x)
    have "trace_ext w (snd (confirm_loop h d E (snd (sleepM POLL_INTERVAL_MS E x))))"
      if "w_now (tick E w) < d" "r = Inr st" "st \<noteq> ''SUCCESS''" "st \<noteq> ''FAILED''" for st
      using 1 [OF refl that(1) Pair [symmetric] that(2-4)] u Pair
        trace.kept_trans [of w x] by (simp add: sleepM_def trace_ext_def)
    with Pair u show ?thesis
      by (subst confirm_loop.simps) (auto simp: Let_def trace.kept_refl trace_ext_def split: sum.splits)
  qed
qed

lemma waitForConfirmation_trace [keeps]: "keepsR trace_ext (waitForConfirmation h)"
  unfolding waitForConfirmation_def by (intro keeps) (rule keepsRI, rule confirm_loop_trace)

lemma sdk_traces [keeps]:
  "keepsR trace_ext (buildM t)" "keepsR trace_ext (publicKeyM k)"
  "keepsR trace_ext (loadAccount a)" "keepsR trace_ext (getAccount a)"
  "keepsR trace_ext (simulateTransaction t)" "keepsR trace_ext (sendTransaction t)"
  "keepsR trace_ext currentLedger" "keepsR trace_ext (submitWithDetail t l)"
  "keepsR trace_ext requireContractConfig" "keepsR trace_ext (requireConf c m)"
  unfolding sdk_defs by (intro keeps)+

lemma invokeContract_trace [keeps]: "keepsR trace_ext (invokeContract k c m a)"
  unfolding invokeContract_def by (intro keeps)

text \<open>A confirmation ends with an answer of success to the last question asked.\<close>

lemma confirm_loop_Inr:
  assumes "confirm_loop h d E w = (Inr (), w')"
  shows "\<exists>pre. w_trace w' = pre @ [RpcGetTransaction h] \<and> e_getTx E pre h = Inr ''SUCCESS''"
  using assms
proof (induction h d E w rule: confirm_loop.induct)
  case (1 h d E w)
  let ?c = "callM (RpcGetTransaction h) (\<lambda>E t. e_getTx E t h)"
  show ?case
  proof (cases "?c E (tick E w)")
    case (Pair r x)
    from "1.prems" Pair have lt: "w_now (tick E w) < d"
      by (subst (asm) confirm_loop.simps) (auto simp: Let_def split: if_splits)
    from "1.prems" Pair lt obtain st where r: "r = Inr st"
      by (subst (asm) confirm_loop.simps) (auto simp: Let_def split: sum.splits)
    have x: "w_trace x = w_trace w @ [RpcGetTransaction h]" "e_getTx E (w_trace w) h = Inr st"
      using Pair r by (auto simp: callM_def callW_def split: sum.splits)
    show ?thesis
    proof (cases "st = ''SUCCESS''")
      case True
      with "1.prems" Pair lt r have "w' = x"
        by (subst (asm) confirm_loop.simps) (simp add: Let_def)
      with x True show ?thesis by auto
    next
      case False
      with "1.prems" Pair lt r have ne: "st \<noteq> ''FAILED''"
        by (subst (asm) confirm_loop.simps) (auto simp: Let_def)
      have "confirm_loop h d E (snd (sleepM POLL_INTERVAL_MS E x)) = (Inr (), w')"
        using "1.prems" Pair lt r False ne by (subst (asm) confirm_loop.simps) (simp add: Let_def)
      from "1.IH" [OF refl lt Pair [symmetric] r False ne this] show ?thesis .
    qed
  qed
qed

lemma waitForConfirmation_Inr:
  assumes "waitForConfirmation h E w = (Inr (), w')"
  shows "\<exists>pre. w_trace w' = pre @ [RpcGetTransaction h] \<and> e_getTx E pre h = Inr ''SUCCESS''"
  using assms unfolding waitForConfirmation_def by (simp add: confirm_loop_Inr)

text \<open>The number of questions is bounded by the time that is left, one for every two seconds.\<close>

lemma confirm_loop_polls:
  "length (w_trace (snd (confirm_loop h d E w))) \<le> length (w_trace w) + nat ((d - w_now w + 1999) div 2000)"
proof (induction h d E w rule: confirm_loop.induct)
  case (1 h d E w)
  let ?c = "callM (RpcGetTransaction h) (\<lambda>E t. e_getTx E t h)"
  show ?case
  proof (cases "w_now (tick E w) < d")
    case False
    then show ?thesis by (subst confirm_loop.simps) (simp add: Let_def)
  next
    case lt: True
    then have now: "w_now w < d" using tick_now [of w E] by simp
    then have one: "Suc (length (w_trace w)) \<le> length (w_trace w) + nat ((d - w_now w + 1999) div 2000)"
      by simp
    show ?thesis
    proof (cases "?c E (tick E w)")
      case (Pair r x)
      have x: "length (w_trace x) = Suc (length (w_trace w))" "w_now w \<le> w_now x"
        using Pair tick_now [of w E] by (auto simp: callM_def callW_def split: sum.splits)
      let ?y = "snd (sleepM POLL_INTERVAL_MS E x)"
      have y: "w_now w + 2000 \<le> w_now ?y" "length (w_trace ?y) = Suc (length (w_trace w))"
        using x by (simp_all add: sleepM_def POLL_INTERVAL_MS_def)
      have "(d - w_now ?y + 1999) div 2000 \<le> (d - w_now w + 1999 - 2000) div 2000"
        using y(1) by (intro zdiv_mono1) simp_all
      also have "\<dots> = (d - w_now w + 1999) div 2000 - 1" by (simp add: div_diff)
      finally have "nat ((d - w_now ?y + 1999) div 2000) + 1 \<le> nat ((d - w_now w + 1999) div 2000)"
        using now by linarith
      then have "length (w_trace (snd (confirm_loop h d E ?y))) \<le> length (w_trace w) + nat ((d - w_now w + 1999) div 2000)"
        if "r = Inr st" "st \<noteq> ''SUCCESS''" "st \<noteq> ''FAILED''" for st
        using "1.IH" [OF refl lt Pair [symmetric] that] y(2) by linarith
      with Pair lt x(1) one show ?thesis
        by (subst confirm_loop.simps) (auto simp: Let_def split: sum.splits)
    qed
  qed
qed
section \<open>Properties\<close>

text \<open>C37: Waiting for a transaction asks the server at most thirty times, whatever the clock and the
  server do, and always returns.\<close>

theorem waitForConfirmation_bounded:
  "length (w_trace (snd (waitForConfirmation h E w))) \<le> length (w_trace w) + 30"
  using confirm_loop_polls [of h "w_now (tick E w) + POLL_DEADLINE_MS" E "tick E w"]
  by (simp add: waitForConfirmation_def POLL_DEADLINE_MS_def)

text \<open>C38: Amounts with two decimal places become stroops and centavos without an error: the double nearest
  to \<open>c / 100\<close>, multiplied by ten million and rounded, is exactly \<open>c\<close> times a hundred thousand, for
  every amount below a hundred and twelve million.\<close>

theorem toStroops_exact:
  assumes "0 \<le> c" and "c * 100000 < 2 ^ 50"
  shows "toStroops (fl (of_int c / 100)) = c * 100000 \<and> toCentavos (fl (of_int c / 100)) = c"
  using scale_exact [of c 100000 100] scale_exact [of c 1 100] assms
  by (simp_all add: toStroops_def toCentavos_def)

lemma from_hex_stop:
  assumes "list_all is_hex p" and "even (length p)"
  shows "from_hex (p @ CHR ''-'' # s) = from_hex p"
  using assms
proof (induction p rule: from_hex.induct)
  case "2_1"
  then show ?case by (cases s) (simp_all add: is_hex_def)
qed simp_all

lemma toBytes32_prefixed: "toBytes32 (Some (''0x'' @ h)) = from_hex (take 64 (padEnd 64 (CHR ''0'') h))"
  by (simp add: toBytes32_def strip0x_def starts_with_def)

text \<open>A hash of sixty-four hexadecimal digits is converted to exactly its thirty-two bytes, and a
  shorter or longer text of hexadecimal digits is padded or cut to thirty-two bytes.\<close>

lemma toBytes32_hex:
  assumes "list_all is_hex h" and "length bs = 32"
  shows "length (toBytes32 (Some (''0x'' @ h))) = 32 \<and> toBytes32 (Some (''0x'' @ to_hex bs)) = bs"
proof (rule conjI)
  let ?p = "take 64 (padEnd 64 (CHR ''0'') h)"
  have "list_all is_hex ?p"
    using assms(1) by (auto simp: padEnd_def list_all_iff is_hex_def dest!: in_set_takeD)
  moreover have "length ?p = 64" by (simp add: padEnd_def)
  ultimately show "length (toBytes32 (Some (''0x'' @ h))) = 32"
    unfolding toBytes32_prefixed using length_from_hex [of ?p] by simp
  show "toBytes32 (Some (''0x'' @ to_hex bs)) = bs"
    unfolding toBytes32_prefixed using assms(2) by (simp add: padEnd_def length_to_hex from_to_hex)
qed

text \<open>The identifier of a receivable is a UUID, not a hash: its first dash ends the conversion, so the
  invoice hash given to the pool when a receivable is settled has four bytes instead of thirty-two.\<close>

theorem toBytes32_uuid:
  assumes "length p = 8" and "list_all is_hex p"
  shows "toBytes32 (Some (p @ ''-'' @ s)) = from_hex p \<and> length (toBytes32 (Some (p @ ''-'' @ s))) = 4"
proof -
  obtain a b q where p: "p = a # b # q" using assms(1) by (cases p; cases "tl p") auto
  have "\<not> starts_with ''0x'' (p @ ''-'' @ s)"
    using assms(2) by (auto simp: p starts_with_def is_hex_def)
  moreover have "take 64 (padEnd 64 (CHR ''0'') (p @ ''-'' @ s)) =
      p @ CHR ''-'' # take 55 (s @ replicate (64 - length (p @ ''-'' @ s)) (CHR ''0''))"
    using assms(1) by (simp add: padEnd_def)
  ultimately have "toBytes32 (Some (p @ ''-'' @ s)) = from_hex p"
    using assms by (simp add: toBytes32_def strip0x_def from_hex_stop)
  then show ?thesis
    using assms by (simp add: length_from_hex)
qed

lemma requireContractConfig_Inr:
  "requireContractConfig E w = (Inr c, v) \<longleftrightarrow> contract_config E = Some c \<and> v = w"
  by (auto simp: requireContractConfig_def someOr_def split: option.splits)

lemma buildM_Inr: "buildM t E w = (Inr x, v) \<longleftrightarrow> e_buildError E t = None \<and> x = t \<and> v = w"
  by (auto simp: buildM_def split: option.splits)

lemma sendTransaction_Inr:
  assumes "sendTransaction t E w = (Inr x, v)"
  shows "w_trace v = w_trace w @ [RpcSend t]" and "e_send E (w_trace w) t = Inr x"
  using assms by (auto simp: sendTransaction_def callM_def callW_def split: sum.splits)

text \<open>What was sent before a confirmation is in the trace before its last question.\<close>

lemma waitForConfirmation_sent:
  assumes "waitForConfirmation h E v = (Inr (), w')" and "w_trace v = tr @ [RpcSend t]"
  shows "\<exists>pre. w_trace w' = pre @ [RpcGetTransaction h] \<and> e_getTx E pre h = Inr ''SUCCESS''
    \<and> RpcSend t \<in> set pre \<and> set tr \<subseteq> set pre"
proof -
  from waitForConfirmation_Inr [OF assms(1)] obtain pre where
    pre: "w_trace w' = pre @ [RpcGetTransaction h]" "e_getTx E pre h = Inr ''SUCCESS''" by blast
  from keepsRD [OF waitForConfirmation_trace, OF assms(1)] obtain cs where
    cs: "w_trace w' = w_trace v @ cs" by (auto simp: trace_ext_iff)
  have "cs \<noteq> []" using cs pre(1) assms(2) by (cases cs) auto
  with cs pre(1) assms(2) have "pre = tr @ [RpcSend t] @ butlast cs"
    by (metis append_assoc butlast_append butlast_snoc snoc_eq_iff_butlast)
  with pre show ?thesis by auto
qed

text \<open>A contract call that returns a hash sent the transaction that was simulated, with exactly the
  contract, method and arguments of the call, from the signer's account and signed by the signer;
  the server did not refuse it, and at the end reported success for this hash.\<close>

theorem invokeContract_confirmed:
  assumes "invokeContract k c m args E w = (Inr h, w')"
  shows "\<exists>tr pre er status.
     (let tx = Built (e_publicKey E k) (ContractCall c m args) None 30 BASE_FEE in
      w_trace w' = pre @ [RpcGetTransaction h] \<and> e_getTx E pre h = Inr ''SUCCESS''
      \<and> RpcSend (Signed (Assembled tx) k) \<in> set pre \<and> RpcSimulate tx \<in> set pre
      \<and> e_send E tr (Signed (Assembled tx) k) = Inr (status, h, er) \<and> status \<noteq> ''ERROR'')"
proof -
  let ?tx = "Built (e_publicKey E k) (ContractCall c m args) None TX_TIMEOUT_SECONDS BASE_FEE"
  from assms obtain r v s u st er where
    sim: "simulateTransaction ?tx E v = (Inr s, u)"
    and send: "sendTransaction (Signed (Assembled ?tx) k) E u = (Inr (st, h, er), r)"
    and st: "st \<noteq> ''ERROR''"
    and wait: "waitForConfirmation h E r = (Inr (), w')"
    unfolding invokeContract_def
    by (fastforce elim!: bindM_InrE dest!: throwIf_InrD simp: buildM_Inr publicKeyM_def asksM_def
        split: sim_result.splits)
  have "RpcSimulate ?tx \<in> set (w_trace u)"
    using sim by (auto simp: simulateTransaction_def callM_def callW_def split: sum.splits)
  with waitForConfirmation_sent [OF wait sendTransaction_Inr(1) [OF send]] st
    sendTransaction_Inr(2) [OF send]
  show ?thesis unfolding Let_def TX_TIMEOUT_SECONDS_def by blast
qed

lemma submitSignedTx_Inr:
  assumes "submitSignedTx xdr pk sig E w = (Inr h, w')"
  shows "\<exists>platform c pre. contract_config E = Some (platform, c)
     \<and> e_verifySig E pk (e_txHash E (Decoded xdr)) (from_hex (strip0x sig))
     \<and> w_trace w' = pre @ [RpcGetTransaction h] \<and> e_getTx E pre h = Inr ''SUCCESS''
     \<and> RpcSend (Signed (FeeBump platform BASE_FEE
          (WithSignature (Decoded xdr) pk (from_hex (strip0x sig)))) platform) \<in> set pre"
proof -
  let ?tx = "\<lambda>p. Signed (FeeBump p BASE_FEE (WithSignature (Decoded xdr) pk (from_hex (strip0x sig)))) p"
  from assms obtain platform c st er v where cfg: "contract_config E = Some (platform, c)"
    and sig: "e_verifySig E pk (e_txHash E (Decoded xdr)) (from_hex (strip0x sig))"
    and send: "sendTransaction (?tx platform) E w = (Inr (st, h, er), v)"
    and wait: "waitForConfirmation h E v = (Inr (), w')"
    unfolding submitSignedTx_def Let_def
    by (auto elim!: bindM_InrE dest!: throwIf_InrD simp: buildM_Inr requireContractConfig_Inr asksM_def) blast
  from waitForConfirmation_sent [OF wait sendTransaction_Inr(1) [OF send]] cfg sig show ?thesis
    by blast
qed

text \<open>A transaction signed by the client is sent only when the signature checks against the hash of
  the very transaction the client hands in, under the given public key; what is sent is this
  transaction in a fee bump signed by the platform, and success is reported only after the server
  confirmed it.\<close>

theorem submitSignedTx_success:
  assumes "submitSignedTx xdr pk sig E w = (Inr h, w')"
  shows "\<exists>platform c pre. contract_config E = Some (platform, c)
     \<and> e_verifySig E pk (e_txHash E (Decoded xdr)) (from_hex (strip0x sig))
     \<and> w_trace w' = pre @ [RpcGetTransaction h] \<and> e_getTx E pre h = Inr ''SUCCESS''
     \<and> RpcSend (Signed (FeeBump platform BASE_FEE
          (WithSignature (Decoded xdr) pk (from_hex (strip0x sig)))) platform) \<in> set pre"
  using assms by (rule submitSignedTx_Inr)

lemma ensureCustodialWallet_privy:
  assumes "find_row usr_id u (users w) = Some user" and "\<not> falsy (usr_privyStellarWalletAddress user)"
    and "walletSecret E \<noteq> []"
  shows "ensureCustodialWalletForUser u E w = (Inr (the (usr_privyStellarWalletAddress user), None), w)"
  using assms by (simp add: ensureCustodialWalletForUser_def)

lemma ensureCustodialWallet_no_secret:
  "walletSecret E = [] \<Longrightarrow> ensureCustodialWalletForUser u E w = (Inl (js_error ''STELLAR_WALLET_SECRET not configured''), w)"
  by (simp add: ensureCustodialWalletForUser_def)

lemma chargeInvestor_privy:
  assumes "find_row usr_id u (users w) = Some user" and "\<not> falsy (usr_privyStellarWalletAddress user)"
  shows "\<exists>m. chargeInvestor u a memo E w = (Inl (JsError m), w)"
proof (cases "contract_config E")
  case None
  then show ?thesis by (simp add: chargeInvestor_def requireContractConfig_def bindM_def someOr_def js_error_def asksM_def)
next
  case (Some c)
  then have c: "requireContractConfig E w = (Inr c, w)" by (simp add: requireContractConfig_Inr)
  show ?thesis
    using ensureCustodialWallet_privy [OF assms] ensureCustodialWallet_no_secret [of E u w]
    by (cases "walletSecret E = []") (simp_all add: chargeInvestor_def bindM_def c someOr_def js_error_def split: prod.splits)
qed

end
