(* ===== verification/Settlements.thy ===== *)
theory Settlements
  imports AuditTrail Stellar
begin

text \<open>
  \<open>modules/settlements\<close>: settlement records, and \<open>settleInvoice\<close>, which settles a receivable in
  the pool, marks it settled and records the settlement.
\<close>

record create_settlement_dto =
  st_receivableId :: string
  st_amount :: rat
  st_method :: settlement_method

definition valid_settlement_dto :: "create_settlement_dto \<Rightarrow> bool" where
  "valid_settlement_dto d \<longleftrightarrow> st_receivableId d \<noteq> [] \<and> 0 < st_amount d"

definition settlements_create :: "create_settlement_dto \<Rightarrow> settlement api" where
  "settlements_create d = createM settlements settlements_update stl_id chk_settlement (\<lambda>i t.
     \<lparr>stl_id = i, stl_receivableId = st_receivableId d, stl_amount = st_amount d,
      stl_method = st_method d, stl_status = SPending, stl_txHash = None, stl_stellarTxHash = None,
      stl_settledAt = None, stl_createdAt = t\<rparr>)"

definition settlements_findAll :: "settlement list api" where
  "settlements_findAll = bindM (findManyM settlements (\<lambda>_. True)) (\<lambda>s. retM (order_desc stl_createdAt s))"

definition settlements_findByReceivable :: "string \<Rightarrow> settlement list api" where
  "settlements_findByReceivable i = findManyM settlements (\<lambda>s. stl_receivableId s = i)"

definition setSettled :: "string \<Rightarrow> receivable \<Rightarrow> receivable" where
  "setSettled h r = r\<lparr>rcv_status := RSettled, rcv_paymentTxHash := Some h\<rparr>"

definition settlement_record :: "string \<Rightarrow> rat \<Rightarrow> string \<Rightarrow> int \<Rightarrow> settlement api" where
  "settlement_record receivableId amount txHash settledAt =
     createM settlements settlements_update stl_id chk_settlement (\<lambda>i t.
       \<lparr>stl_id = i, stl_receivableId = receivableId, stl_amount = amount, stl_method = MPix,
        stl_status = SCompleted, stl_txHash = Some txHash, stl_stellarTxHash = None,
        stl_settledAt = Some settledAt, stl_createdAt = t\<rparr>)"

definition settleInvoice :: "string \<Rightarrow> string option api" where
  "settleInvoice receivableId =
     bindM (findUniqueM receivables rcv_id receivableId) (\<lambda>found.
     bindM (someOr found (NotFoundException (''Receivable '' @ receivableId @ '' not found''))) (\<lambda>receivable.
     if rcv_status receivable = RSettled then retM (rcv_paymentTxHash receivable)
     else
       bindM (settleInvoiceInPool (rcv_id receivable) (rcv_value receivable)) (\<lambda>txHash.
       bindM (updateM receivables receivables_update rcv_id no_chk receivableId (setSettled txHash)) (\<lambda>_.
       bindM nowM (\<lambda>now.
       bindM (settlement_record receivableId (rcv_value receivable) txHash now) (\<lambda>_.
       retM (Some txHash)))))))"

section \<open>Frames\<close>

lemma setSettled_evo: "receivable_evo r (setSettled h r)"
  by (simp add: receivable_evo_def setSettled_def)

lemma settlements_steps [keeps]:
  "keepsR sound_step (settlements_create d)" "keepsR sound_step settlements_findAll"
  "keepsR sound_step (settlements_findByReceivable i)" "keepsR sound_step (settlement_record i a h t)"
  unfolding settlements_create_def settlements_findAll_def settlements_findByReceivable_def
    settlement_record_def by (intro keeps)+

lemma settleInvoice_step [keeps]: "keepsR sound_step (settleInvoice i)"
  unfolding settleInvoice_def by (intro keeps) (rule setSettled_evo)

lemma settleInvoice_frames [keeps]:
  "keepsR (same finauths) (settleInvoice i)" "keepsR (same auditLogs) (settleInvoice i)"
  "keepsR (same investments) (settleInvoice i)" "keepsR (same ptransactions) (settleInvoice i)"
  "keepsR (same pixEvents) (settleInvoice i)" "keepsR (same collections) (settleInvoice i)"
  "keepsR (same documents) (settleInvoice i)"
  unfolding settleInvoice_def settlement_record_def by (intro keeps keeps_db; simp add: same_def)+

section \<open>Properties\<close>

text \<open>Settling an invoice that is settled returns the stored payment hash and does nothing.\<close>

lemma settleInvoice_idempotent:
  assumes "find_row rcv_id i (receivables w) = Some r" and "rcv_status r = RSettled"
  shows "settleInvoice i E w = (Inr (rcv_paymentTxHash r), w)"
  using assms by (simp add: settleInvoice_def)

lemma settleInvoice_Inr:
  assumes "settleInvoice i E w = (Inr h, w')"
    and "find_row rcv_id i (receivables w) = Some r" and "rcv_status r \<noteq> RSettled"
  shows "\<exists>s tx. h = Some tx \<and> receivables w' = upd_row rcv_id i (setSettled tx) (receivables w)
     \<and> settlements w' = settlements w @ [s] \<and> stl_receivableId s = i \<and> stl_amount s = rcv_value r
     \<and> stl_status s = SCompleted \<and> stl_txHash s = Some tx
     \<and> (\<exists>v. settleInvoiceInPool i (rcv_value r) E w = (Inr tx, v))"
proof -
  have i: "rcv_id r = i" using assms(2) by (auto dest: find_row_SomeD)
  from assms obtain tx v q u s where
    p: "settleInvoiceInPool i (rcv_value r) E w = (Inr tx, v)"
    and q: "updateM receivables receivables_update rcv_id no_chk i (setSettled tx) E v = (Inr q, u)"
    and s: "settlement_record i (rcv_value r) tx (w_now (tick E u)) E (tick E u) = (Inr s, w')"
    and h: "h = Some tx"
    unfolding settleInvoice_def by (auto elim!: bindM_InrE simp: i)
  have "receivables v = receivables w" "settlements v = settlements w"
    using sameD' [OF settleInvoiceInPool.call_frames(1), OF p]
      sameD' [OF settleInvoiceInPool.call_frames(3), OF p] by simp_all
  moreover from q have "receivables u = upd_row rcv_id i (setSettled tx) (receivables v)"
    "settlements u = settlements v" by (auto elim!: treceivables.tab_update_Inr)
  moreover note tsettlements.tab_create_Inr [OF s [unfolded settlement_record_def]]
  ultimately show ?thesis using p h by auto
qed

text \<open>A settlement that succeeds ran the pool's settlement of this invoice for its face value, marks
  exactly this receivable settled with the hash of that transaction, and appends one completed
  settlement of the same amount and hash.\<close>

theorem settleInvoice_success:
  assumes "settleInvoice i E w = (Inr h, w')"
    and "find_row rcv_id i (receivables w) = Some r" and "rcv_status r \<noteq> RSettled"
  shows "\<exists>s tx. h = Some tx \<and> receivables w' = upd_row rcv_id i (setSettled tx) (receivables w)
     \<and> settlements w' = settlements w @ [s] \<and> stl_receivableId s = i \<and> stl_amount s = rcv_value r
     \<and> stl_status s = SCompleted \<and> stl_txHash s = Some tx
     \<and> (\<exists>v. settleInvoiceInPool i (rcv_value r) E w = (Inr tx, v))"
  using assms by (rule settleInvoice_Inr)

text \<open>Settling twice is settling once: the second call returns the same hash and leaves the world
  as it is, so no invoice is settled in the pool or recorded twice.\<close>

theorem settleInvoice_twice:
  assumes "settleInvoice i E w = (Inr h, w')"
  shows "settleInvoice i E' w' = (Inr h, w')"
proof -
  from assms obtain r where r: "find_row rcv_id i (receivables w) = Some r"
    by (auto simp: settleInvoice_def split: option.splits)
  show ?thesis
  proof (cases "rcv_status r = RSettled")
    case True
    then have "settleInvoice i E w = (Inr (rcv_paymentTxHash r), w)"
      using r by (simp add: settleInvoice_def)
    with assms r True show ?thesis by (simp add: settleInvoice_def)
  next
    case False
    from settleInvoice_Inr [OF assms r False] obtain tx where h: "h = Some tx"
      and "receivables w' = upd_row rcv_id i (setSettled tx) (receivables w)" by blast
    then have "find_row rcv_id i (receivables w') = Some (setSettled tx r)"
      using r by (simp add: find_row_upd_row setSettled_def)
    then show ?thesis by (simp add: settleInvoice_def setSettled_def h)
  qed
qed

end
