(* ===== verification/PixClient.thy ===== *)
theory PixClient
  imports Stellar "HOL-Library.AList"
begin

text \<open>
  \<open>modules/pix/pix.client.ts\<close>, the HTTP client of the Pix microservice, and
  \<open>modules/pix/pix-signature.ts\<close>, the signature of its callbacks. The microservice is a parameter:
  a request is an entry of the trace, an answer a map from the names of fields to JSON values.
  A field the service leaves out and a field that is null are one value, \<open>None\<close>.
\<close>

section \<open>JSON helpers\<close>

definition jfield :: "(string \<Rightarrow> json option) \<Rightarrow> string \<Rightarrow> string option" where
  "jfield d k = (case d k of Some (JStr s) \<Rightarrow> Some s | _ \<Rightarrow> None)"

definition jnumber :: "(string \<Rightarrow> json option) \<Rightarrow> string \<Rightarrow> rat option" where
  "jnumber d k = (case d k of Some (JNum x) \<Rightarrow> Some x | _ \<Rightarrow> None)"

text \<open>A member whose value is undefined is not part of the text of the object.\<close>

definition jmember :: "string \<Rightarrow> json option \<Rightarrow> (string \<times> json) list" where
  "jmember k v = (case v of None \<Rightarrow> [] | Some x \<Rightarrow> [(k, x)])"

definition jmeta :: "(string \<times> json) list option \<Rightarrow> json option" where
  "jmeta m = map_option JObj m"

text \<open>\<open>{ ...m, ...n }\<close>: a member of \<open>n\<close> replaces the member of \<open>m\<close> of the same name.\<close>

definition spread :: "(string \<times> json) list \<Rightarrow> (string \<times> json) list \<Rightarrow> (string \<times> json) list" where
  "spread m n = fold (\<lambda>(k, v). AList.update k v) n m"

text \<open>\<open>v ? new Date(v) : undefined\<close>; a date that does not parse is refused when it is written.\<close>

definition dateM :: "string option \<Rightarrow> int option api" where
  "dateM v = (if falsy v then retM None
     else bindM (asksM (\<lambda>E. e_dateParse E (the v))) (\<lambda>t.
       bindM (someOr t (JsError ''PrismaClientValidationError'')) (\<lambda>x. retM (Some x))))"

section \<open>Answers\<close>

record pix_order =
  po_pixOrderId :: "string option"
  po_externalId :: "string option"
  po_identifier :: "string option"
  po_type :: "string option"
  po_ownerId :: "string option"
  po_ownerRole :: "string option"
  po_amount :: "rat option"
  po_status :: "string option"
  po_corpxTxid :: "string option"
  po_corpxPaymentId :: "string option"
  po_endToEndId :: "string option"
  po_qrCodePayload :: "string option"
  po_qrCodeLocation :: "string option"
  po_qrCodeBase64 :: "string option"
  po_pixKey :: "string option"
  po_pixKeyType :: "string option"
  po_description :: "string option"
  po_failureReason :: "string option"
  po_expiresAt :: "string option"
  po_confirmedAt :: "string option"
  po_failedAt :: "string option"
  po_createdAt :: "string option"
  po_updatedAt :: "string option"

record collection_order =
  co_collectionOrderId :: "string option"
  co_receivableId :: "string option"
  co_identifier :: "string option"
  co_amount :: "rat option"
  co_status :: "string option"
  co_debtorName :: "string option"
  co_debtorDocument :: "string option"
  co_dueDate :: "string option"
  co_qrCodePayload :: "string option"
  co_qrCodeLocation :: "string option"
  co_qrCodeBase64 :: "string option"
  co_endToEndId :: "string option"
  co_createdAt :: "string option"
  co_paidAt :: "string option"

definition mapOrderResponse :: "(string \<Rightarrow> json option) \<Rightarrow> pix_order" where
  "mapOrderResponse d =
     \<lparr>po_pixOrderId = jfield d ''pix_order_id'', po_externalId = jfield d ''external_id'',
      po_identifier = jfield d ''identifier'', po_type = jfield d ''type'',
      po_ownerId = jfield d ''owner_id'', po_ownerRole = jfield d ''owner_role'',
      po_amount = jnumber d ''amount'', po_status = jfield d ''status'',
      po_corpxTxid = jfield d ''corpx_txid'', po_corpxPaymentId = jfield d ''corpx_payment_id'',
      po_endToEndId = jfield d ''end_to_end_id'', po_qrCodePayload = jfield d ''qr_code_payload'',
      po_qrCodeLocation = jfield d ''qr_code_location'', po_qrCodeBase64 = jfield d ''qr_code_base64'',
      po_pixKey = jfield d ''pix_key'', po_pixKeyType = jfield d ''pix_key_type'',
      po_description = jfield d ''description'', po_failureReason = jfield d ''failure_reason'',
      po_expiresAt = jfield d ''expires_at'', po_confirmedAt = jfield d ''confirmed_at'',
      po_failedAt = jfield d ''failed_at'', po_createdAt = jfield d ''created_at'',
      po_updatedAt = jfield d ''updated_at''\<rparr>"

definition mapCollectionResponse :: "(string \<Rightarrow> json option) \<Rightarrow> collection_order" where
  "mapCollectionResponse d =
     \<lparr>co_collectionOrderId = jfield d ''collection_order_id'', co_receivableId = jfield d ''receivable_id'',
      co_identifier = jfield d ''identifier'', co_amount = jnumber d ''amount'',
      co_status = jfield d ''status'', co_debtorName = jfield d ''debtor_name'',
      co_debtorDocument = jfield d ''debtor_document'', co_dueDate = jfield d ''due_date'',
      co_qrCodePayload = jfield d ''qr_code_payload'', co_qrCodeLocation = jfield d ''qr_code_location'',
      co_qrCodeBase64 = jfield d ''qr_code_base64'', co_endToEndId = jfield d ''end_to_end_id'',
      co_createdAt = jfield d ''created_at'', co_paidAt = jfield d ''paid_at''\<rparr>"

section \<open>Requests\<close>

record deposit_order_dto =
  dd_externalId :: string
  dd_ownerId :: string
  dd_ownerRole :: string
  dd_amount :: rat
  dd_description :: "string option"
  dd_expiresInSeconds :: "json option"
  dd_metadata :: "(string \<times> json) list option"

record withdrawal_order_dto =
  wd_externalId :: string
  wd_ownerId :: string
  wd_ownerRole :: string
  wd_amount :: rat
  wd_pixKey :: string
  wd_pixKeyType :: string
  wd_description :: "string option"
  wd_metadata :: "(string \<times> json) list option"

record collection_order_dto =
  cc_receivableId :: string
  cc_pmeUserId :: string
  cc_debtorName :: string
  cc_debtorDocument :: string
  cc_amount :: rat
  cc_dueDate :: string
  cc_paymentDeadline :: string
  cc_metadata :: "(string \<times> json) list option"

definition pixPost :: "string \<Rightarrow> json \<Rightarrow> (string \<Rightarrow> json option) api" where
  "pixPost path body = callM (PixPost path body) (\<lambda>E t. e_pixPost E t path body)"

definition pixGet :: "string \<Rightarrow> (string \<Rightarrow> json option) api" where
  "pixGet path = callM (PixGet path) (\<lambda>E t. e_pixGet E t path)"

definition createDeposit :: "deposit_order_dto \<Rightarrow> pix_order api" where
  "createDeposit d = bindM (pixPost ''/v1/orders/deposits'' (JObj
     ([(''external_id'', JStr (dd_externalId d)), (''owner_id'', JStr (dd_ownerId d)),
       (''owner_role'', JStr (dd_ownerRole d)), (''amount'', JNum (dd_amount d))]
      @ jmember ''description'' (map_option JStr (dd_description d))
      @ [(''expires_in_seconds'', case dd_expiresInSeconds d of None \<Rightarrow> JNum 1800 | Some v \<Rightarrow> v)]
      @ jmember ''metadata'' (jmeta (dd_metadata d))))) (\<lambda>r. retM (mapOrderResponse r))"

definition createWithdrawal :: "withdrawal_order_dto \<Rightarrow> pix_order api" where
  "createWithdrawal d = bindM (pixPost ''/v1/orders/withdrawals'' (JObj
     ([(''external_id'', JStr (wd_externalId d)), (''owner_id'', JStr (wd_ownerId d)),
       (''owner_role'', JStr (wd_ownerRole d)), (''amount'', JNum (wd_amount d)),
       (''pix_key'', JStr (wd_pixKey d)), (''pix_key_type'', JStr (wd_pixKeyType d))]
      @ jmember ''description'' (map_option JStr (wd_description d))
      @ jmember ''metadata'' (jmeta (wd_metadata d))))) (\<lambda>r. retM (mapOrderResponse r))"

definition getOrderById :: "string \<Rightarrow> pix_order api" where
  "getOrderById i = bindM (pixGet (''/v1/orders/'' @ i)) (\<lambda>r. retM (mapOrderResponse r))"

definition getOrderByExternalId :: "string \<Rightarrow> pix_order api" where
  "getOrderByExternalId i =
     bindM (pixGet (''/v1/orders/by-external-id/'' @ i)) (\<lambda>r. retM (mapOrderResponse r))"

definition cancelOrder :: "string \<Rightarrow> pix_order api" where
  "cancelOrder i = bindM (pixPost (''/v1/orders/'' @ i @ ''/cancel'') JNull) (\<lambda>r. retM (mapOrderResponse r))"

definition refreshOrder :: "string \<Rightarrow> pix_order api" where
  "refreshOrder i = bindM (pixPost (''/v1/orders/'' @ i @ ''/refresh'') JNull) (\<lambda>r. retM (mapOrderResponse r))"

definition createCollection :: "collection_order_dto \<Rightarrow> collection_order api" where
  "createCollection d = bindM (pixPost ''/v1/collections'' (JObj
     ([(''receivable_id'', JStr (cc_receivableId d)), (''pme_user_id'', JStr (cc_pmeUserId d)),
       (''debtor_name'', JStr (cc_debtorName d)), (''debtor_document'', JStr (cc_debtorDocument d)),
       (''amount'', JNum (cc_amount d)), (''due_date'', JStr (cc_dueDate d)),
       (''payment_deadline'', JStr (cc_paymentDeadline d))]
      @ jmember ''metadata'' (jmeta (cc_metadata d))))) (\<lambda>r. retM (mapCollectionResponse r))"

definition getCollection :: "string \<Rightarrow> collection_order api" where
  "getCollection i = bindM (pixGet (''/v1/collections/'' @ i)) (\<lambda>r. retM (mapCollectionResponse r))"

definition cancelCollection :: "string \<Rightarrow> collection_order api" where
  "cancelCollection i =
     bindM (pixPost (''/v1/collections/'' @ i @ ''/cancel'') JNull) (\<lambda>r. retM (mapCollectionResponse r))"

section \<open>Signature of a callback\<close>

text \<open>
  The body is its UTF-8 text. \<open>maxSkew\<close> is \<open>None\<close> for NaN, for which the comparison is false.
\<close>

definition expected_signature :: "env \<Rightarrow> string \<Rightarrow> string \<Rightarrow> string \<Rightarrow> string" where
  "expected_signature E secret timestamp body = ''sha256='' @ to_hex (e_hmac E secret (timestamp @ ''.'' @ body))"

text \<open>
  \<open>crypto.timingSafeEqual\<close> on the UTF-8 bytes of two texts of the same length, the second of which is ASCII:
  a character of the first beyond ASCII takes two bytes, and buffers of different lengths are a \<open>RangeError\<close>.
\<close>

definition timingSafeEqual :: "string \<Rightarrow> string \<Rightarrow> bool api" where
  "timingSafeEqual a b =
     bindM (throwIf (list_ex (\<lambda>c. 128 \<le> (of_char c :: int)) a)
              (JsError ''Input buffers must have the same byte length'')) (\<lambda>_. retM (a = b))"

definition verifyPixCallbackSignature ::
    "string \<Rightarrow> string option \<Rightarrow> string option \<Rightarrow> string \<Rightarrow> rat option \<Rightarrow> bool api" where
  "verifyPixCallbackSignature rawBody signatureHeader timestampHeader secret maxSkew =
     (if falsy signatureHeader \<or> falsy timestampHeader then retM False
      else case parse_int (the timestampHeader) of
        None \<Rightarrow> retM False
      | Some timestampSeconds \<Rightarrow>
          bindM nowM (\<lambda>now.
          if (case maxSkew of None \<Rightarrow> False
              | Some m \<Rightarrow> m < of_int \<bar>unixSeconds now - timestampSeconds\<bar>) then retM False
          else
            bindM (asksM (\<lambda>E. expected_signature E secret (the timestampHeader) rawBody)) (\<lambda>expectedHeader.
            if length (the signatureHeader) \<noteq> length expectedHeader then retM False
            else timingSafeEqual (the signatureHeader) expectedHeader)))"

section \<open>Frames\<close>

text \<open>The client touches no table: every request meets the contract of a call to the outside.\<close>

lemmas pixClient_defs = createDeposit_def createWithdrawal_def getOrderById_def
  getOrderByExternalId_def cancelOrder_def refreshOrder_def createCollection_def getCollection_def
  cancelCollection_def pixPost_def pixGet_def

locale outside_call = chain_call call for call :: "'a api" +
  assumes users_same: "keepsR (same users) call"
begin

lemmas outside_keeps [keeps] = users_same

end

interpretation createDeposit: outside_call "createDeposit d" for d
  by unfold_locales (unfold pixClient_defs, (intro keeps)+)

interpretation createWithdrawal: outside_call "createWithdrawal d" for d
  by unfold_locales (unfold pixClient_defs, (intro keeps)+)

interpretation getOrderById: outside_call "getOrderById i" for i
  by unfold_locales (unfold pixClient_defs, (intro keeps)+)

interpretation getOrderByExternalId: outside_call "getOrderByExternalId i" for i
  by unfold_locales (unfold pixClient_defs, (intro keeps)+)

interpretation cancelOrder: outside_call "cancelOrder i" for i
  by unfold_locales (unfold pixClient_defs, (intro keeps)+)

interpretation refreshOrder: outside_call "refreshOrder i" for i
  by unfold_locales (unfold pixClient_defs, (intro keeps)+)

interpretation createCollection: outside_call "createCollection d" for d
  by unfold_locales (unfold pixClient_defs, (intro keeps)+)

interpretation getCollection: outside_call "getCollection i" for i
  by unfold_locales (unfold pixClient_defs, (intro keeps)+)

interpretation cancelCollection: outside_call "cancelCollection i" for i
  by unfold_locales (unfold pixClient_defs, (intro keeps)+)

interpretation verifyPix: outside_call "verifyPixCallbackSignature b s t k m" for b s t k m
  by unfold_locales (unfold verifyPixCallbackSignature_def timingSafeEqual_def, (intro keeps)+)

interpretation dateM: outside_call "dateM v" for v
  by unfold_locales (unfold dateM_def, (intro keeps)+)

section \<open>Properties\<close>

text \<open>C31: The signature of a callback is accepted only when both headers are there, the timestamp is a
  number within the tolerance of the clock, and the header is exactly the HMAC of timestamp and body
  under the shared secret; so a body or timestamp with another HMAC is refused.\<close>

theorem verifyPixCallbackSignature_sound:
  assumes "verifyPixCallbackSignature body sig ts secret (Some m) E w = (Inr True, w')"
  shows "\<exists>s t n. sig = Some s \<and> ts = Some t \<and> parse_int t = Some n
     \<and> of_int \<bar>unixSeconds (w_now w') - n\<bar> \<le> m
     \<and> s = ''sha256='' @ to_hex (e_hmac E secret (t @ ''.'' @ body))"
  using assms
  by (auto simp: verifyPixCallbackSignature_def timingSafeEqual_def expected_signature_def linorder_not_less
      elim!: not_falsyE split: if_splits option.splits)

end
