(* ===== verification/Pix.thy ===== *)
theory Pix
  imports Settlements PixClient
begin

text \<open>
  \<open>modules/pix\<close>: \<open>pix.service.ts\<close>, which creates Pix orders, processes the callbacks of the
  microservice and triggers mint and settlement on chain, and \<open>pix.controller.ts\<close>.

  The body of a callback has the fields its DTO declares; a body whose type is COLLECTION is read
  as a collection callback, any other as an order callback. The column an update leaves
  \<open>undefined\<close> keeps its value.
\<close>

section \<open>Requests\<close>

record pix_deposit_dto =
  pd_userId :: string
  pd_amount :: rat
  pd_description :: "string option"
  pd_expiresInSeconds :: "rat option"
  pd_metadata :: "(string \<times> json) list"

record pix_withdrawal_dto =
  pw_userId :: string
  pw_amount :: rat
  pw_pixKey :: string
  pw_pixKeyType :: string
  pw_description :: "string option"
  pw_metadata :: "(string \<times> json) list option"

record submit_withdrawal_dto =
  sw_amount :: rat
  sw_pixKey :: string
  sw_pixKeyType :: string
  sw_xdr :: string
  sw_signature :: string

record pix_webhook_dto =
  wh_eventId :: string
  wh_pixOrderId :: string
  wh_externalId :: string
  wh_identifier :: string
  wh_type :: string
  wh_status :: string
  wh_amount :: rat
  wh_txid :: "string option"
  wh_paymentId :: "string option"
  wh_transactionId :: "string option"
  wh_endToEndId :: "string option"
  wh_confirmedAt :: "string option"
  wh_failedAt :: "string option"
  wh_failureReason :: "string option"

record pix_collection_webhook_dto =
  cw_eventId :: string
  cw_collectionOrderId :: string
  cw_receivableId :: string
  cw_identifier :: string
  cw_status :: string
  cw_amount :: rat
  cw_endToEndId :: "string option"
  cw_paidAt :: "string option"

datatype webhook_body = OrderBody pix_webhook_dto | CollectionBody pix_collection_webhook_dto

definition PIX_KEY_TYPES :: "string list" where
  "PIX_KEY_TYPES = [''CPF'', ''CNPJ'', ''EMAIL'', ''PHONE'', ''EVP'']"

definition valid_pix_deposit :: "pix_deposit_dto \<Rightarrow> bool" where
  "valid_pix_deposit d \<longleftrightarrow> pd_userId d \<noteq> [] \<and> fl (1 / 100) \<le> pd_amount d"

definition valid_pix_withdrawal :: "pix_withdrawal_dto \<Rightarrow> bool" where
  "valid_pix_withdrawal d \<longleftrightarrow> pw_userId d \<noteq> [] \<and> fl (1 / 100) \<le> pw_amount d \<and> pw_pixKey d \<noteq> []
     \<and> pw_pixKeyType d \<in> set PIX_KEY_TYPES"

section \<open>Rows\<close>

definition ptx_create :: "string \<Rightarrow> string \<Rightarrow> rat \<Rightarrow> transaction_status \<Rightarrow> string option \<Rightarrow> string option \<Rightarrow>
    ptransaction api" where
  "ptx_create userId ty amount status pixKey txHash =
     createM ptransactions ptransactions_update ptx_id chk_transaction (\<lambda>i t.
       \<lparr>ptx_id = i, ptx_userId = userId, ptx_type = ty, ptx_amount = amount, ptx_status = status,
        ptx_pixKey = pixKey, ptx_txHash = txHash, ptx_approvedBy = None, ptx_pixOrderId = None,
        ptx_pixIdentifier = None, ptx_pixTxid = None, ptx_pixPaymentId = None,
        ptx_pixTransactionId = None, ptx_pixEndToEndId = None, ptx_pixQrCodePayload = None,
        ptx_pixQrCodeLocation = None, ptx_pixQrCodeBase64 = None, ptx_pixExpiresAt = None,
        ptx_pixConfirmedAt = None, ptx_pixFailureReason = None, ptx_pixMetadata = None,
        ptx_createdAt = t\<rparr>)"

definition ptx_update :: "string \<Rightarrow> (ptransaction \<Rightarrow> ptransaction) \<Rightarrow> ptransaction api" where
  "ptx_update i f = updateM ptransactions ptransactions_update ptx_id chk_transaction i f"

definition ptx_setDepositOrder :: "pix_order \<Rightarrow> int option \<Rightarrow> ptransaction \<Rightarrow> ptransaction" where
  "ptx_setDepositOrder o' expires t = t\<lparr>
     ptx_pixOrderId := nullish (po_pixOrderId o') (ptx_pixOrderId t),
     ptx_pixIdentifier := nullish (po_identifier o') (ptx_pixIdentifier t),
     ptx_pixTxid := nullish (po_corpxTxid o') (ptx_pixTxid t),
     ptx_pixQrCodePayload := nullish (po_qrCodePayload o') (ptx_pixQrCodePayload t),
     ptx_pixQrCodeLocation := nullish (po_qrCodeLocation o') (ptx_pixQrCodeLocation t),
     ptx_pixQrCodeBase64 := nullish (po_qrCodeBase64 o') (ptx_pixQrCodeBase64 t),
     ptx_pixExpiresAt := nullish expires (ptx_pixExpiresAt t)\<rparr>"

definition ptx_setWithdrawalOrder :: "pix_order \<Rightarrow> ptransaction \<Rightarrow> ptransaction" where
  "ptx_setWithdrawalOrder o' t = t\<lparr>
     ptx_pixOrderId := nullish (po_pixOrderId o') (ptx_pixOrderId t),
     ptx_pixIdentifier := nullish (po_identifier o') (ptx_pixIdentifier t),
     ptx_pixPaymentId := nullish (po_corpxPaymentId o') (ptx_pixPaymentId t)\<rparr>"

definition ptx_setCallback :: "pix_webhook_dto \<Rightarrow> int option \<Rightarrow> ptransaction \<Rightarrow> ptransaction" where
  "ptx_setCallback d confirmedAt t = t\<lparr>
     ptx_pixEndToEndId := nullish (wh_endToEndId d) (ptx_pixEndToEndId t),
     ptx_pixConfirmedAt := nullish confirmedAt (ptx_pixConfirmedAt t),
     ptx_pixFailureReason := nullish (wh_failureReason d) (ptx_pixFailureReason t),
     ptx_pixPaymentId := nullish (wh_paymentId d) (ptx_pixPaymentId t),
     ptx_pixTransactionId := nullish (wh_transactionId d) (ptx_pixTransactionId t)\<rparr>"

definition ptx_setFailed :: "string \<Rightarrow> ptransaction \<Rightarrow> ptransaction" where
  "ptx_setFailed reason t = t\<lparr>ptx_status := TFailed, ptx_pixFailureReason := Some reason\<rparr>"

definition ptx_setStatus :: "transaction_status \<Rightarrow> ptransaction \<Rightarrow> ptransaction" where
  "ptx_setStatus s t = t\<lparr>ptx_status := s\<rparr>"

definition ptx_setMinted :: "string \<Rightarrow> ptransaction \<Rightarrow> ptransaction" where
  "ptx_setMinted h t = t\<lparr>ptx_status := TApproved, ptx_txHash := Some h\<rparr>"

definition col_update :: "string \<Rightarrow> (collection \<Rightarrow> collection) \<Rightarrow> collection api" where
  "col_update i f = updateM collections collections_update col_id chk_collection i f"

definition col_setOrder :: "collection_order \<Rightarrow> collection \<Rightarrow> collection" where
  "col_setOrder o' c = c\<lparr>
     col_pixOrderId := nullish (co_collectionOrderId o') (col_pixOrderId c),
     col_identifier := nullish (co_identifier o') (col_identifier c),
     col_pixQrCodePayload := nullish (co_qrCodePayload o') (col_pixQrCodePayload c),
     col_pixQrCodeLocation := nullish (co_qrCodeLocation o') (col_pixQrCodeLocation c),
     col_pixQrCodeBase64 := nullish (co_qrCodeBase64 o') (col_pixQrCodeBase64 c)\<rparr>"

definition col_setPaid :: "int \<Rightarrow> string option \<Rightarrow> collection \<Rightarrow> collection" where
  "col_setPaid t e c = c\<lparr>col_status := CPaid, col_paidAt := Some t,
     col_endToEndId := nullish e (col_endToEndId c)\<rparr>"

definition col_setTxHash :: "string \<Rightarrow> collection \<Rightarrow> collection" where
  "col_setTxHash h c = c\<lparr>col_txHash := Some h\<rparr>"

section \<open>Orders\<close>

definition createDepositOrder :: "pix_deposit_dto \<Rightarrow> string \<Rightarrow> (ptransaction \<times> pix_order) api" where
  "createDepositOrder dto operatorId =
     bindM (findUniqueM users usr_id (pd_userId dto)) (\<lambda>investor.
     bindM (throwIf (investor = None) (NotFoundException ''Investidor nao encontrado'')) (\<lambda>_.
     bindM (ptx_create (pd_userId dto) ''DEPOSIT'' (pd_amount dto) TPendingPayment None None) (\<lambda>transaction.
     bindM (auditCreate (audit_entry ''pix.deposit.created'' (ptx_id transaction) ''transaction''
              (if operatorId = ''system'' then pd_userId dto else operatorId)
              [(''amount'', JNum (pd_amount dto)), (''investorId'', JStr (pd_userId dto))])) (\<lambda>_.
     bindM (confM ''PIX_DEPOSIT_EXPIRATION_SECONDS'') (\<lambda>conf.
     let configured = (case js_number (case conf of None \<Rightarrow> ''1800'' | Some s \<Rightarrow> s) of
           None \<Rightarrow> JNull | Some n \<Rightarrow> JNum n) in
     bindM (createDeposit
       \<lparr>dd_externalId = ptx_id transaction, dd_ownerId = pd_userId dto, dd_ownerRole = ''investor'',
        dd_amount = pd_amount dto,
        dd_description = nullish (pd_description dto) (Some ''Aporte CredBridge''),
        dd_expiresInSeconds = Some (case pd_expiresInSeconds dto of None \<Rightarrow> configured | Some n \<Rightarrow> JNum n),
        dd_metadata = Some (spread [(''credbridgeEntityType'', JStr ''transaction''),
          (''credbridgeEntityId'', JStr (ptx_id transaction))] (pd_metadata dto))\<rparr>) (\<lambda>pixOrder.
     bindM (dateM (po_expiresAt pixOrder)) (\<lambda>expires.
     bindM (ptx_update (ptx_id transaction) (ptx_setDepositOrder pixOrder expires)) (\<lambda>updated.
     retM (updated, pixOrder)))))))))"

record collection_request =
  cl_receivableId :: string
  cl_pmeUserId :: string
  cl_debtorName :: string
  cl_debtorDocument :: string
  cl_amount :: rat
  cl_dueDate :: int

definition col_create :: "string \<Rightarrow> rat \<Rightarrow> int \<Rightarrow> collection api" where
  "col_create receivableId amount dueDate =
     createM collections collections_update col_id chk_collection (\<lambda>i t.
       \<lparr>col_id = i, col_receivableId = receivableId, col_pixOrderId = None, col_identifier = None,
        col_amount = amount, col_dueDate = dueDate, col_status = CPendingPayment, col_txHash = None,
        col_endToEndId = None, col_pixQrCodePayload = None, col_pixQrCodeLocation = None,
        col_pixQrCodeBase64 = None, col_paidAt = None, col_createdAt = t\<rparr>)"

definition createCollectionOrder :: "collection_request \<Rightarrow> collection api" where
  "createCollectionOrder dto =
     bindM (col_create (cl_receivableId dto) (cl_amount dto) (cl_dueDate dto)) (\<lambda>collection.
     bindM (auditCreate (audit_entry ''pix.collection.created'' (col_id collection)
              ''receivable_collection'' (cl_pmeUserId dto)
              [(''amount'', JNum (cl_amount dto)), (''receivableId'', JStr (cl_receivableId dto))])) (\<lambda>_.
     bindM (createCollection
       \<lparr>cc_receivableId = cl_receivableId dto, cc_pmeUserId = cl_pmeUserId dto,
        cc_debtorName = cl_debtorName dto, cc_debtorDocument = cl_debtorDocument dto,
        cc_amount = cl_amount dto, cc_dueDate = toISOString (cl_dueDate dto),
        cc_paymentDeadline = toISOString (cl_dueDate dto), cc_metadata = None\<rparr>) (\<lambda>pixCollection.
     col_update (col_id collection) (col_setOrder pixCollection))))"

definition no_wallet :: exn where
  "no_wallet = BadRequestException ''Usuario nao possui carteira Stellar configurada''"

text \<open>\<open>user?.privyStellarWalletAddress ?? user?.stellarWalletId\<close>, which must not be empty.\<close>

definition userAddress :: "string \<Rightarrow> string api" where
  "userAddress userId =
     bindM (findUniqueM users usr_id userId) (\<lambda>user.
     let address = nullish (Option.bind user usr_privyStellarWalletAddress)
                     (Option.bind user usr_stellarWalletId) in
     if falsy address then throwM no_wallet else retM (the address))"

fun isBadRequest :: "exn \<Rightarrow> bool" where
  "isBadRequest (BadRequestException m) = True"
| "isBadRequest _ = False"

definition buildWithdrawalTx :: "string \<Rightarrow> rat \<Rightarrow> unsigned_tx api" where
  "buildWithdrawalTx userId amount =
     bindM (userAddress userId) (\<lambda>address.
     bindM (catchM
       (bindM (getBrltBalance address) (\<lambda>balance.
          throwIf (sc_value (wb_balance balance) < amount) (BadRequestException
            (''Saldo insuficiente em BRLT (disponivel: '' @ toFixed 2 (sc_value (wb_balance balance)) @ '')''))))
       (\<lambda>e. if isBadRequest e then throwM e else retM ())) (\<lambda>_.
     buildBurnBrltTx address amount))"

text \<open>\<open>(dto.metadata?.burnTxHash as string) || null\<close>: a truthy value that is no text is refused.\<close>

definition burnHash :: "(string \<times> json) list option \<Rightarrow> exn + string option" where
  "burnHash m = (case Option.bind m (\<lambda>xs. map_of xs ''burnTxHash'') of
       None \<Rightarrow> Inr None
     | Some JNull \<Rightarrow> Inr None
     | Some (JStr s) \<Rightarrow> Inr (if s = [] then None else Some s)
     | Some (JBool b) \<Rightarrow> if b then Inl (JsError ''PrismaClientValidationError'') else Inr None
     | Some (JNum x) \<Rightarrow> if x \<noteq> 0 then Inl (JsError ''PrismaClientValidationError'') else Inr None
     | Some (JObj _) \<Rightarrow> Inl (JsError ''PrismaClientValidationError''))"

definition createWithdrawalOrder :: "pix_withdrawal_dto \<Rightarrow> string \<Rightarrow> (ptransaction \<times> pix_order) api" where
  "createWithdrawalOrder dto requesterId =
     bindM (findUniqueM users usr_id (pw_userId dto)) (\<lambda>found.
     bindM (someOr found (NotFoundException ''Usuario nao encontrado'')) (\<lambda>user.
     bindM (case burnHash (pw_metadata dto) of Inl e \<Rightarrow> throwM e | Inr h \<Rightarrow> retM h) (\<lambda>h.
     bindM (ptx_create (pw_userId dto) ''WITHDRAWAL'' (pw_amount dto) TProcessing
              (Some (pw_pixKey dto)) h) (\<lambda>transaction.
     bindM (auditCreate (audit_entry ''pix.withdrawal.created'' (ptx_id transaction) ''transaction''
              (if requesterId = ''system'' then pw_userId dto else requesterId)
              [(''amount'', JNum (pw_amount dto)), (''pixKey'', JStr (pw_pixKey dto))])) (\<lambda>_.
     bindM (createWithdrawal
       \<lparr>wd_externalId = ptx_id transaction, wd_ownerId = pw_userId dto,
        wd_ownerRole = (if usr_role user = Some ''pme'' then ''pme'' else ''investor''),
        wd_amount = pw_amount dto, wd_pixKey = pw_pixKey dto, wd_pixKeyType = pw_pixKeyType dto,
        wd_description = nullish (pw_description dto) (Some ''Saque CredBridge''),
        wd_metadata = pw_metadata dto\<rparr>) (\<lambda>pixOrder.
     bindM (ptx_update (ptx_id transaction) (ptx_setWithdrawalOrder pixOrder)) (\<lambda>_.
     retM (transaction, pixOrder))))))))"

definition submitWithdrawal :: "string \<Rightarrow> submit_withdrawal_dto \<Rightarrow> (string \<times> string \<times> string option) api" where
  "submitWithdrawal userId dto =
     bindM (userAddress userId) (\<lambda>address.
     bindM (submitSignedTx (sw_xdr dto) address (sw_signature dto)) (\<lambda>burnTxHash.
     bindM (createWithdrawalOrder
       \<lparr>pw_userId = userId, pw_amount = sw_amount dto, pw_pixKey = sw_pixKey dto,
        pw_pixKeyType = sw_pixKeyType dto, pw_description = Some ''Saque CredBridge via Pix'',
        pw_metadata = Some [(''burnTxHash'', JStr burnTxHash)]\<rparr> userId) (\<lambda>(_, pixOrder).
     retM (''PROCESSING'', burnTxHash, po_pixOrderId pixOrder))))"

section \<open>Reads\<close>

definition getPixOrderForTransaction :: "string \<Rightarrow> string \<Rightarrow> pix_order option api" where
  "getPixOrderForTransaction transactionId userId =
     bindM (findFirstM ptransactions (\<lambda>t. ptx_id t = transactionId \<and> ptx_userId t = userId)) (\<lambda>found.
     bindM (someOr found (NotFoundException ''Transacao nao encontrada'')) (\<lambda>t.
     if falsy (ptx_pixOrderId t) then retM None
     else bindM (getOrderById (the (ptx_pixOrderId t))) (\<lambda>o'. retM (Some o'))))"

definition listUserTransactionsWithPixStatus :: "string \<Rightarrow> ptransaction list api" where
  "listUserTransactionsWithPixStatus userId =
     bindM (findManyM ptransactions (\<lambda>t. ptx_userId t = userId)) (\<lambda>ts. retM (order_desc ptx_createdAt ts))"

definition refreshPixOrder :: "string \<Rightarrow> string \<Rightarrow> pix_order api" where
  "refreshPixOrder transactionId userId =
     bindM (findFirstM ptransactions (\<lambda>t. ptx_id t = transactionId \<and> ptx_userId t = userId)) (\<lambda>found.
     bindM (someOr (Option.bind found (\<lambda>t. if falsy (ptx_pixOrderId t) then None else ptx_pixOrderId t))
              (NotFoundException ''Ordem Pix nao encontrada para esta transacao'')) (\<lambda>i.
     refreshOrder i))"

definition listActiveCollections :: "string \<Rightarrow> string option \<Rightarrow> (collection \<times> string \<times> string) list api" where
  "listActiveCollections userId role =
     bindM (findManyM collections (\<lambda>_. True)) (\<lambda>all.
     let cs = order_desc col_createdAt all in
     bindM (findManyM receivables (\<lambda>r. rcv_id r \<in> set (map col_receivableId cs)
              \<and> (role = Some ''operator'' \<or> rcv_userId r = userId))) (\<lambda>rs.
     retM (List.map_filter (\<lambda>c. map_option (\<lambda>r. (c, rcv_debtorName r, rcv_debtorDocument r))
       (find_row rcv_id (col_receivableId c) rs)) cs)))"

section \<open>Callbacks\<close>

definition event_create :: "string \<Rightarrow> string \<Rightarrow> string \<Rightarrow> string \<Rightarrow> string \<Rightarrow> string \<Rightarrow> rat \<Rightarrow> json \<Rightarrow> pix_event api" where
  "event_create eventId pixOrderId externalId identifier ty status amount payload =
     createM pixEvents pixEvents_update evt_id chk_pixEvent (\<lambda>i t.
       \<lparr>evt_id = i, evt_eventId = eventId, evt_pixOrderId = pixOrderId, evt_externalId = externalId,
        evt_identifier = identifier, evt_type = ty, evt_status = status, evt_amount = amount,
        evt_payload = payload, evt_processedAt = t\<rparr>)"

definition webhook_json :: "pix_webhook_dto \<Rightarrow> json" where
  "webhook_json d = JObj
     ([(''eventId'', JStr (wh_eventId d)), (''pixOrderId'', JStr (wh_pixOrderId d)),
       (''externalId'', JStr (wh_externalId d)), (''identifier'', JStr (wh_identifier d)),
       (''type'', JStr (wh_type d)), (''status'', JStr (wh_status d)), (''amount'', JNum (wh_amount d))]
      @ jmember ''txid'' (map_option JStr (wh_txid d)) @ jmember ''paymentId'' (map_option JStr (wh_paymentId d))
      @ jmember ''transactionId'' (map_option JStr (wh_transactionId d))
      @ jmember ''endToEndId'' (map_option JStr (wh_endToEndId d))
      @ jmember ''confirmedAt'' (map_option JStr (wh_confirmedAt d))
      @ jmember ''failedAt'' (map_option JStr (wh_failedAt d))
      @ jmember ''failureReason'' (map_option JStr (wh_failureReason d)))"

definition collection_json :: "pix_collection_webhook_dto \<Rightarrow> json" where
  "collection_json d = JObj
     ([(''eventId'', JStr (cw_eventId d)), (''type'', JStr ''COLLECTION''),
       (''collectionOrderId'', JStr (cw_collectionOrderId d)), (''receivableId'', JStr (cw_receivableId d)),
       (''identifier'', JStr (cw_identifier d)), (''status'', JStr (cw_status d)),
       (''amount'', JNum (cw_amount d))]
      @ jmember ''endToEndId'' (map_option JStr (cw_endToEndId d))
      @ jmember ''paidAt'' (map_option JStr (cw_paidAt d)))"

text \<open>
  The guard both callbacks share: an event already stored is ignored, the event is stored before
  any effect, and a clash of the unique column means that another request stored it. The result
  says whether the effects are to run.
\<close>

definition admitEvent :: "string \<Rightarrow> pix_event api \<Rightarrow> bool api" where
  "admitEvent eventId store =
     bindM (findUniqueM pixEvents evt_eventId eventId) (\<lambda>alreadyProcessed.
     if alreadyProcessed \<noteq> None then retM False
     else catchM (bindM store (\<lambda>_. retM True))
       (\<lambda>e. if e = PrismaError ''P2002'' then retM False else throwM e))"

fun exn_string :: "exn \<Rightarrow> string" where
  "exn_string (NotFoundException m) = ''NotFoundException: '' @ m"
| "exn_string (ConflictException m) = ''ConflictException: '' @ m"
| "exn_string (BadRequestException m) = ''BadRequestException: '' @ m"
| "exn_string (UnauthorizedException m) = ''UnauthorizedException: '' @ m"
| "exn_string (ForbiddenException m) = ''ForbiddenException: '' @ m"
| "exn_string (FinancialAuthorizationException c m) = ''FinancialAuthorizationException: '' @ m"
| "exn_string (PrismaError c) = ''PrismaClientKnownRequestError: '' @ c"
| "exn_string (JsError m) = ''Error: '' @ m"

definition order_meta :: "pix_webhook_dto \<Rightarrow> (string \<times> json) list" where
  "order_meta d = [(''pixOrderId'', JStr (wh_pixOrderId d))]
     @ jmember ''endToEndId'' (map_option JStr (wh_endToEndId d)) @ [(''amount'', JNum (wh_amount d))]"

definition handleDepositConfirmed :: "ptransaction \<Rightarrow> user option \<Rightarrow> pix_webhook_dto \<Rightarrow> unit api" where
  "handleDepositConfirmed transaction user dto =
     (let walletAddress = nullish (Option.bind user usr_privyStellarWalletAddress)
            (Option.bind user usr_stellarWalletId) in
      if falsy walletAddress
      then bindM (ptx_update (ptx_id transaction)
                    (ptx_setFailed ''Carteira Stellar nao configurada para o investidor'')) (\<lambda>_. retM ())
      else catchM
        (bindM (mintBrlt (the walletAddress) (wh_amount dto)) (\<lambda>txHash.
         bindM (ptx_update (ptx_id transaction) (ptx_setMinted txHash)) (\<lambda>_.
         bindM (auditCreate (audit_entry_tx ''pix.deposit.confirmed'' (ptx_id transaction) ''transaction''
                  (ptx_userId transaction) txHash (order_meta dto))) (\<lambda>_. retM ()))))
        (\<lambda>e. bindM (auditCreate (audit_entry ''pix.deposit.mint_failed'' (ptx_id transaction) ''transaction''
                  (ptx_userId transaction) [(''error'', JStr (exn_string e))])) (\<lambda>_. retM ())))"

definition handleWithdrawalConfirmed :: "ptransaction \<Rightarrow> pix_webhook_dto \<Rightarrow> unit api" where
  "handleWithdrawalConfirmed transaction dto =
     bindM (ptx_update (ptx_id transaction) (ptx_setStatus TCompleted)) (\<lambda>_.
     bindM (auditCreate (audit_entry ''pix.withdrawal.confirmed'' (ptx_id transaction) ''transaction''
              (ptx_userId transaction) (order_meta dto))) (\<lambda>_. retM ()))"

definition handleOrderFailed :: "ptransaction \<Rightarrow> pix_webhook_dto \<Rightarrow> unit api" where
  "handleOrderFailed transaction dto =
     bindM (ptx_update (ptx_id transaction) (ptx_setFailed
              (case wh_failureReason dto of None \<Rightarrow> ''Falha no processamento Pix'' | Some m \<Rightarrow> m))) (\<lambda>_.
     bindM (auditCreate (audit_entry ''pix.order.failed'' (ptx_id transaction) ''transaction''
              (ptx_userId transaction)
              ([(''pixOrderId'', JStr (wh_pixOrderId dto))]
               @ jmember ''failureReason'' (map_option JStr (wh_failureReason dto))
               @ [(''type'', JStr (wh_type dto))]))) (\<lambda>_. retM ()))"

definition handleOrderExpired :: "ptransaction \<Rightarrow> pix_webhook_dto \<Rightarrow> unit api" where
  "handleOrderExpired transaction dto =
     bindM (ptx_update (ptx_id transaction) (ptx_setStatus TExpired)) (\<lambda>_.
     bindM (auditCreate (audit_entry ''pix.deposit.expired'' (ptx_id transaction) ''transaction''
              (ptx_userId transaction) [(''pixOrderId'', JStr (wh_pixOrderId dto))])) (\<lambda>_. retM ()))"

definition orderEffects :: "pix_webhook_dto \<Rightarrow> unit api" where
  "orderEffects dto =
     bindM (findUniqueM ptransactions ptx_id (wh_externalId dto)) (\<lambda>found.
     case found of
       None \<Rightarrow> retM ()
     | Some transaction \<Rightarrow>
         bindM (findUniqueM users usr_id (ptx_userId transaction)) (\<lambda>user.
         bindM (dateM (wh_confirmedAt dto)) (\<lambda>confirmedAt.
         bindM (ptx_update (ptx_id transaction) (ptx_setCallback dto confirmedAt)) (\<lambda>_.
         if wh_status dto = ''CONFIRMED'' \<and> wh_type dto = ''DEPOSIT'' then handleDepositConfirmed transaction user dto
         else if wh_status dto = ''CONFIRMED'' \<and> wh_type dto = ''WITHDRAWAL'' then handleWithdrawalConfirmed transaction dto
         else if wh_status dto = ''FAILED'' then handleOrderFailed transaction dto
         else if wh_status dto = ''EXPIRED'' then handleOrderExpired transaction dto
         else retM ()))))"

definition storeOrderEvent :: "pix_webhook_dto \<Rightarrow> pix_event api" where
  "storeOrderEvent dto = event_create (wh_eventId dto) (wh_pixOrderId dto) (wh_externalId dto)
     (wh_identifier dto) (wh_type dto) (wh_status dto) (wh_amount dto) (webhook_json dto)"

definition processPixOrderCallback :: "pix_webhook_dto \<Rightarrow> unit api" where
  "processPixOrderCallback dto =
     bindM (admitEvent (wh_eventId dto) (storeOrderEvent dto)) (\<lambda>new.
     if new then orderEffects dto else retM ())"

definition collectionEffects :: "pix_collection_webhook_dto \<Rightarrow> unit api" where
  "collectionEffects dto =
     (if cw_status dto \<noteq> ''PAID'' then retM ()
      else
        bindM (findFirstM collections (\<lambda>c. col_identifier c = Some (cw_identifier dto))) (\<lambda>collection.
        bindM (case collection of
                 None \<Rightarrow> retM ()
               | Some c \<Rightarrow>
                   bindM (dateM (cw_paidAt dto)) (\<lambda>paidAt.
                   bindM (case paidAt of None \<Rightarrow> nowM | Some t \<Rightarrow> retM t) (\<lambda>t.
                   bindM (col_update (col_id c) (col_setPaid t (cw_endToEndId dto))) (\<lambda>_. retM ())))) (\<lambda>_.
        bindM (findUniqueM receivables rcv_id (cw_receivableId dto)) (\<lambda>receivable.
        bindM (findFirstM users (\<lambda>_. True)) (\<lambda>fallbackUser.
        let owner = map_option rcv_userId receivable;
            logUserId = (if falsy owner then map_option usr_id fallbackUser else owner) in
        bindM (if falsy logUserId then retM ()
               else bindM (auditCreate (audit_entry ''pix.collection.paid'' (cw_receivableId dto) ''receivable''
                      (the logUserId)
                      ([(''collectionOrderId'', JStr (cw_collectionOrderId dto))]
                       @ jmember ''endToEndId'' (map_option JStr (cw_endToEndId dto))
                       @ [(''amount'', JNum (cw_amount dto))]))) (\<lambda>_. retM ())) (\<lambda>_.
        bindM (settleInvoice (cw_receivableId dto)) (\<lambda>txHash.
        case collection of
          None \<Rightarrow> retM ()
        | Some c \<Rightarrow>
            if falsy txHash then retM ()
            else bindM (col_update (col_id c) (col_setTxHash (the txHash))) (\<lambda>_. retM ()))))))))"

definition storeCollectionEvent :: "pix_collection_webhook_dto \<Rightarrow> pix_event api" where
  "storeCollectionEvent dto = event_create (cw_eventId dto) (cw_collectionOrderId dto) (cw_receivableId dto)
     (cw_identifier dto) ''COLLECTION'' (cw_status dto) (cw_amount dto) (collection_json dto)"

definition processCollectionCallback :: "pix_collection_webhook_dto \<Rightarrow> unit api" where
  "processCollectionCallback dto =
     bindM (admitEvent (cw_eventId dto) (storeCollectionEvent dto)) (\<lambda>new.
     if new then collectionEffects dto else retM ())"

definition retryCollectionOrder :: "string \<Rightarrow> string \<Rightarrow> (collection \<times> string \<times> string) api" where
  "retryCollectionOrder collectionId pmeUserId =
     bindM (findUniqueM collections col_id collectionId) (\<lambda>found.
     bindM (someOr found (NotFoundException ''Cobranca nao encontrada'')) (\<lambda>collection.
     bindM (findUniqueM receivables rcv_id (col_receivableId collection)) (\<lambda>foundR.
     bindM (someOr foundR (NotFoundException ''Recebivel associado nao encontrado'')) (\<lambda>receivable.
     bindM (createCollection
       \<lparr>cc_receivableId = col_receivableId collection, cc_pmeUserId = pmeUserId,
        cc_debtorName = rcv_debtorName receivable, cc_debtorDocument = rcv_debtorDocument receivable,
        cc_amount = col_amount collection, cc_dueDate = toISOString (col_dueDate collection),
        cc_paymentDeadline = toISOString (col_dueDate collection), cc_metadata = None\<rparr>) (\<lambda>pixCollection.
     bindM (col_update (col_id collection) (col_setOrder pixCollection)) (\<lambda>updated.
     retM (updated, rcv_debtorName receivable, rcv_debtorDocument receivable)))))))"

section \<open>Controller\<close>

text \<open>
  The routes \<open>deposits\<close>, \<open>withdrawals\<close> and \<open>orders\<close> have no guard, so \<open>req.user\<close> is undefined and
  the operator is \<open>system\<close>.
\<close>

definition pixController_createDeposit :: "pix_deposit_dto \<Rightarrow> (ptransaction \<times> pix_order) api" where
  "pixController_createDeposit dto = createDepositOrder dto ''system''"

definition pixController_createWithdrawal :: "pix_withdrawal_dto \<Rightarrow> (ptransaction \<times> pix_order) api" where
  "pixController_createWithdrawal dto = createWithdrawalOrder dto ''system''"

definition pixController_listOrders :: "string option \<Rightarrow> ptransaction list api" where
  "pixController_listOrders userId =
     (if falsy userId then throwM (NotFoundException ''userId e obrigatorio'')
      else listUserTransactionsWithPixStatus (the userId))"

definition pixController_getOrder :: "string \<Rightarrow> string option \<Rightarrow> pix_order option api" where
  "pixController_getOrder transactionId userId =
     getPixOrderForTransaction transactionId (case userId of None \<Rightarrow> ''system'' | Some u \<Rightarrow> u)"

definition pixController_refreshOrder :: "string \<Rightarrow> string option \<Rightarrow> pix_order api" where
  "pixController_refreshOrder transactionId userId =
     refreshPixOrder transactionId (case userId of None \<Rightarrow> ''system'' | Some u \<Rightarrow> u)"

record webhook_request =
  wr_rawBody :: "string option"
  wr_signature :: "string option"
  wr_timestamp :: "string option"

definition receivePixWebhook :: "webhook_request \<Rightarrow> webhook_body \<Rightarrow> string api" where
  "receivePixWebhook req body =
     bindM (confM ''PIX_WEBHOOK_SECRET'') (\<lambda>secret.
     bindM (confM ''PIX_WEBHOOK_MAX_SKEW_SECONDS'') (\<lambda>skew.
     let maxSkew = js_number (case skew of None \<Rightarrow> ''300'' | Some s \<Rightarrow> s) in
     bindM (if \<not> falsy secret \<and> \<not> (wr_rawBody req = None)
            then bindM (verifyPixCallbackSignature (the (wr_rawBody req)) (wr_signature req)
                          (wr_timestamp req) (the secret) maxSkew) (\<lambda>isValid.
                   throwIf (\<not> isValid) (UnauthorizedException ''Assinatura do webhook Pix invalida''))
            else retM ()) (\<lambda>_.
     bindM (case body of CollectionBody d \<Rightarrow> processCollectionCallback d
              | OrderBody d \<Rightarrow> processPixOrderCallback d) (\<lambda>_.
     retM ''ok''))))"

text \<open>
  \<open>main.ts\<close> creates the application without the option \<open>rawBody\<close>, so the framework attaches no raw
  body to a request.
\<close>

definition deployed_request :: "string option \<Rightarrow> string option \<Rightarrow> webhook_request" where
  "deployed_request signature timestamp =
     \<lparr>wr_rawBody = None, wr_signature = signature, wr_timestamp = timestamp\<rparr>"

section \<open>Frames\<close>

lemma ptx_evos:
  "ptransaction_evo t (ptx_setDepositOrder o' x t)" "ptransaction_evo t (ptx_setWithdrawalOrder o' t)"
  "ptransaction_evo t (ptx_setCallback d y t)" "ptransaction_evo t (ptx_setFailed m t)"
  "ptransaction_evo t (ptx_setStatus s t)" "ptransaction_evo t (ptx_setMinted h t)"
  by (simp_all add: ptransaction_evo_def ptx_setDepositOrder_def ptx_setWithdrawalOrder_def
      ptx_setCallback_def ptx_setFailed_def ptx_setStatus_def ptx_setMinted_def)

lemma col_evos:
  "collection_evo c (col_setOrder o' c)" "collection_evo c (col_setPaid t e c)"
  "collection_evo c (col_setTxHash h c)"
  by (simp_all add: collection_evo_def col_setOrder_def col_setPaid_def col_setTxHash_def)

lemma pix_row_steps [keeps]:
  "keepsR sound_step (ptx_create u ''DEPOSIT'' a s k h)" "keepsR sound_step (ptx_create u ''WITHDRAWAL'' a s k h)"
  "keepsR sound_step (col_create i a d)" "keepsR sound_step (event_create ei o' x n ty st a p)"
  unfolding ptx_create_def col_create_def event_create_def by (intro keeps; simp add: typed_ptx_def)+

lemma ptx_update_step [keeps]:
  "(\<And>t. ptransaction_evo t (f t)) \<Longrightarrow> keepsR sound_step (ptx_update i f)"
  unfolding ptx_update_def by (rule step_update_transaction)

lemma col_update_step [keeps]:
  "(\<And>c. collection_evo c (f c)) \<Longrightarrow> keepsR sound_step (col_update i f)"
  unfolding col_update_def by (rule step_update_collection)

lemma createDepositOrder_step [keeps]: "keepsR sound_step (createDepositOrder d o')"
  unfolding createDepositOrder_def Let_def by (intro keeps ptx_evos)

lemma createCollectionOrder_step [keeps]: "keepsR sound_step (createCollectionOrder d)"
  unfolding createCollectionOrder_def by (intro keeps col_evos)

lemma userAddress_step [keeps]: "keepsR sound_step (userAddress u)"
  unfolding userAddress_def Let_def by (intro keeps)

lemma buildWithdrawalTx_step [keeps]: "keepsR sound_step (buildWithdrawalTx u a)"
  unfolding buildWithdrawalTx_def by (intro keeps)

lemma createWithdrawalOrder_step [keeps]: "keepsR sound_step (createWithdrawalOrder d r)"
  unfolding createWithdrawalOrder_def by (intro keeps ptx_evos)

lemma submitWithdrawal_step [keeps]: "keepsR sound_step (submitWithdrawal u d)"
  unfolding submitWithdrawal_def by (intro keeps)

lemma pix_read_steps [keeps]:
  "keepsR sound_step (getPixOrderForTransaction t u)" "keepsR sound_step (listUserTransactionsWithPixStatus u)"
  "keepsR sound_step (refreshPixOrder t u)" "keepsR sound_step (listActiveCollections u r)"
  unfolding getPixOrderForTransaction_def listUserTransactionsWithPixStatus_def refreshPixOrder_def
    listActiveCollections_def Let_def by (intro keeps)+

lemma admitEvent_step [keeps]: "keepsR sound_step m \<Longrightarrow> keepsR sound_step (admitEvent i m)"
  unfolding admitEvent_def by (intro keeps)

lemma handlers_step [keeps]:
  "keepsR sound_step (handleDepositConfirmed t u d)" "keepsR sound_step (handleWithdrawalConfirmed t d)"
  "keepsR sound_step (handleOrderFailed t d)" "keepsR sound_step (handleOrderExpired t d)"
  unfolding handleDepositConfirmed_def handleWithdrawalConfirmed_def handleOrderFailed_def
    handleOrderExpired_def Let_def by (intro keeps ptx_evos)+

lemma orderEffects_step [keeps]: "keepsR sound_step (orderEffects d)"
  unfolding orderEffects_def by (intro keeps ptx_evos)

lemma processPixOrderCallback_step [keeps]: "keepsR sound_step (processPixOrderCallback d)"
  unfolding processPixOrderCallback_def storeOrderEvent_def by (intro keeps)

lemma collectionEffects_step [keeps]: "keepsR sound_step (collectionEffects d)"
  unfolding collectionEffects_def Let_def by (intro keeps col_evos)

lemma processCollectionCallback_step [keeps]: "keepsR sound_step (processCollectionCallback d)"
  unfolding processCollectionCallback_def storeCollectionEvent_def by (intro keeps)

lemma retryCollectionOrder_step [keeps]: "keepsR sound_step (retryCollectionOrder c u)"
  unfolding retryCollectionOrder_def by (intro keeps col_evos)

lemma webhook_body_split [keeps]:
  "(\<And>d. keepsR R (f d)) \<Longrightarrow> (\<And>d. keepsR R (g d)) \<Longrightarrow>
   keepsR R (case b of CollectionBody d \<Rightarrow> f d | OrderBody d \<Rightarrow> g d)"
  by (simp split: webhook_body.split)

lemma receivePixWebhook_step [keeps]: "keepsR sound_step (receivePixWebhook r b)"
  unfolding receivePixWebhook_def Let_def by (intro keeps)

section \<open>Properties\<close>

lemma event_stored:
  assumes "find_row evt_eventId i (pixEvents w) \<noteq> None" and "evolves w v"
  shows "find_row evt_eventId i (pixEvents v) \<noteq> None"
proof -
  from assms(1) obtain e where "find_row evt_eventId i (pixEvents w) = Some e" by blast
  moreover have "grows (=) (pixEvents w) (pixEvents v)" using assms(2) by (simp add: evolves_def)
  ultimately show ?thesis using grows_find_row [of "(=)" "pixEvents w" "pixEvents v" evt_eventId i e] by auto
qed

lemma admitEvent_known: "find_row evt_eventId i (pixEvents w) \<noteq> None \<Longrightarrow> admitEvent i m E w = (Inr False, w)"
  by (simp add: admitEvent_def)

text \<open>With a new identifier for the row, an unknown event is stored.\<close>

lemma event_create_new:
  assumes "i \<notin> evt_eventId ` set (pixEvents w)" and "e_uuid E (w_ids w) \<notin> evt_id ` set (pixEvents w)"
  shows "\<exists>v e. event_create i o' x n ty st a p E w = (Inr e, v)
    \<and> pixEvents v = pixEvents w @ [e] \<and> evt_eventId e = i"
proof -
  have "\<not> clash evt_id (\<lambda>e. Some (evt_eventId e)) (pixEvents w) r" if "evt_eventId r = i" for r
    using that assms(1) by (auto simp: clash_def list_ex_iff rev_image_eqI)
  then show ?thesis
    using assms by (simp add: event_create_def createM_def Let_def chk_pixEvent_def)
qed

lemma admitEvent_new:
  assumes "find_row evt_eventId i (pixEvents w) = None" and "e_uuid E (w_ids w) \<notin> evt_id ` set (pixEvents w)"
  shows "\<exists>v e. admitEvent i (event_create i o' x n ty st a p) E w = (Inr True, v)
    \<and> pixEvents v = pixEvents w @ [e] \<and> evt_eventId e = i"
proof -
  have "i \<notin> evt_eventId ` set (pixEvents w)" using assms(1) by (simp add: find_row_None_iff)
  from event_create_new [OF this assms(2)] obtain v e where
    c: "event_create i o' x n ty st a p E w = (Inr e, v)" "pixEvents v = pixEvents w @ [e]" "evt_eventId e = i"
    by blast
  then have "admitEvent i (event_create i o' x n ty st a p) E w = (Inr True, v)"
    using assms(1) by (simp add: admitEvent_def findUniqueM_def getsM_def catchM_def bindM_def c(1))
  with c show ?thesis by blast
qed

lemma callback_stores:
  assumes "e_uuid E (w_ids w) \<notin> evt_id ` set (pixEvents w)"
  shows "find_row evt_eventId (wh_eventId d) (pixEvents (snd (processPixOrderCallback d E w))) \<noteq> None"
proof (cases "find_row evt_eventId (wh_eventId d) (pixEvents w)")
  case None
  from admitEvent_new [OF None assms] obtain v e where
    a: "admitEvent (wh_eventId d) (storeOrderEvent d) E w = (Inr True, v)"
      "pixEvents v = pixEvents w @ [e]" "evt_eventId e = wh_eventId d"
    unfolding storeOrderEvent_def by blast
  have "evolves v (snd (orderEffects d E v))"
    using keepsR_run [OF orderEffects_step] by (auto simp: sound_step_def)
  moreover have "find_row evt_eventId (wh_eventId d) (pixEvents v) \<noteq> None"
    using a(2,3) by (simp add: find_row_append find_row_Cons split: option.split)
  ultimately show ?thesis
    using event_stored by (simp add: processPixOrderCallback_def bindM_def a(1))
next
  case (Some e)
  then show ?thesis by (simp add: processPixOrderCallback_def bindM_def admitEvent_known)
qed

text \<open>C29: The effects of a Pix callback run at most once for an event: after one run, whether it succeeded
  or ended in an exception, and after whatever else happened to the database, a callback with the
  same event identifier is answered without any effect.\<close>

theorem pix_callback_once:
  assumes "e_uuid E (w_ids w) \<notin> evt_id ` set (pixEvents w)"
    and "evolves (snd (processPixOrderCallback d E w)) v" and "wh_eventId d' = wh_eventId d"
  shows "processPixOrderCallback d' E' v = (Inr (), v)"
  using event_stored [OF callback_stores [OF assms(1)] assms(2)] assms(3)
  by (simp add: processPixOrderCallback_def bindM_def admitEvent_known)

text \<open>The application is created without raw bodies, so the webhook route never checks a signature:
  whatever the headers and the secret are, a body is processed as if it were authentic.\<close>

theorem webhook_unchecked:
  "receivePixWebhook (deployed_request sig ts) body E w =
   bindM (case body of CollectionBody d \<Rightarrow> processCollectionCallback d | OrderBody d \<Rightarrow> processPixOrderCallback d)
     (\<lambda>_. retM ''ok'') E w"
  by (simp add: receivePixWebhook_def deployed_request_def Let_def)

text \<open>With a raw body and a configured secret and tolerance, a body is processed only when its signature
  checks; otherwise the route throws and no table changes.\<close>

lemma webhook_checked:
  assumes "e_conf E ''PIX_WEBHOOK_SECRET'' = Some secret" and "secret \<noteq> []"
    and "verifyPixCallbackSignature raw (wr_signature req) (wr_timestamp req) secret
      (js_number (case e_conf E ''PIX_WEBHOOK_MAX_SKEW_SECONDS'' of None \<Rightarrow> ''300'' | Some s \<Rightarrow> s)) E w = (Inr False, w')"
    and "wr_rawBody req = Some raw"
  shows "receivePixWebhook req body E w = (Inl (UnauthorizedException ''Assinatura do webhook Pix invalida''), w')
    \<and> pixEvents w' = pixEvents w \<and> ptransactions w' = ptransactions w \<and> collections w' = collections w
    \<and> settlements w' = settlements w \<and> receivables w' = receivables w"
  using assms sameD' [OF verifyPix.call_frames(8), OF assms(3)] sameD' [OF verifyPix.call_frames(7), OF assms(3)]
    sameD' [OF verifyPix.call_frames(9), OF assms(3)] sameD' [OF verifyPix.call_frames(3), OF assms(3)]
    sameD' [OF verifyPix.call_frames(1), OF assms(3)]
  by (simp add: receivePixWebhook_def Let_def bindM_def [of "if _ then _ else _"] bindM_def [of "verifyPixCallbackSignature _ _ _ _ _"] throwIf_def)

text \<open>An update that keeps the unique columns of a transaction succeeds.\<close>

lemma uniq_no_clash: "uniq key g t \<Longrightarrow> r \<in> set t \<Longrightarrow> key r' = key r \<Longrightarrow> g r' = g r \<Longrightarrow> \<not> clash key g t r'"
  unfolding uniq_def clash_def list_ex_iff by (metis (mono_tags, lifting))

lemma ptx_update_ok:
  assumes "db_ok w" and "find_row ptx_id i (ptransactions w) = Some t"
    and "ptx_id (f t) = ptx_id t" "ptx_userId (f t) = ptx_userId t" "ptx_pixOrderId (f t) = ptx_pixOrderId t"
      "ptx_pixIdentifier (f t) = ptx_pixIdentifier t"
  shows "ptx_update i f E w = (Inr (f t), ptransactions_update (upd_row ptx_id i f) w)"
proof -
  have t: "t \<in> set (ptransactions w)" using assms(2) by (auto dest: find_row_SomeD)
  have u: "uniq ptx_id ptx_pixOrderId (ptransactions w)" "uniq ptx_id ptx_pixIdentifier (ptransactions w)"
    "ptx_userId ` set (ptransactions w) \<subseteq> usr_id ` set (users w)"
    using assms(1) by (simp_all add: db_ok_defs)
  have "has_user w (ptx_userId t)" using u(3) t by (auto simp: has_user_iff)
  then have "chk_transaction w (f t) = None"
    using uniq_no_clash [OF u(1) t assms(3,5)] uniq_no_clash [OF u(2) t assms(3,6)] assms(4)
    by (simp add: chk_transaction_def)
  then show ?thesis using assms(2) by (simp add: ptx_update_def updateM_def)
qed

lemma ptx_has_user:
  "db_ok w \<Longrightarrow> find_row ptx_id i (ptransactions w) = Some t \<Longrightarrow> has_user w (ptx_userId t)"
  by (auto simp: db_ok_defs has_user_iff dest!: find_row_SomeD)

text \<open>A confirmed deposit of an investor with a wallet, when the mint fails, leaves every transaction as it
  is and writes one audit entry about the failure; the exception does not reach the caller.\<close>

theorem deposit_mint_failed:
  assumes "usr_privyStellarWalletAddress u = Some a" and "a \<noteq> []"
    and "mintBrlt a (wh_amount d) E w = (Inl e, v)"
    and "handleDepositConfirmed t (Some u) d E w = (Inr (), w')"
  shows "ptransactions w' = ptransactions w \<and> (\<exists>l. auditLogs w' = auditLogs w @ [l]
    \<and> aud_event l = ''pix.deposit.mint_failed'' \<and> aud_entityId l = ptx_id t)"
proof -
  have v: "ptransactions v = ptransactions w" "auditLogs v = auditLogs w"
    using sameD' [OF mintBrlt.call_frames(7), OF assms(3)] sameD' [OF mintBrlt.call_frames(5), OF assms(3)] by simp_all
  from assms have l: "auditLog (audit_entry ''pix.deposit.mint_failed'' (ptx_id t) ''transaction''
      (ptx_userId t) [(''error'', JStr (exn_string e))]) E v = (Inr (), w')"
    by (simp add: handleDepositConfirmed_def catchM_def bindM_def auditLog_def)
  from auditLog_Inr [OF l] sameD' [OF auditLog_frames(7), OF l] v show ?thesis
    by (auto simp: audit_entry_def)
qed

text \<open>C30: A confirmed deposit mints the amount the callback names to the investor's wallet, marks exactly
  this transaction approved with the hash of the mint, and writes one audit entry. The status of the
  transaction before does not matter: an event for a deposit that is already approved mints again.\<close>

theorem deposit_confirmed:
  assumes "db_ok w" and "find_row ptx_id (ptx_id t) (ptransactions w) = Some t"
    and "usr_privyStellarWalletAddress u = Some a" and "a \<noteq> []"
    and "mintBrlt a (wh_amount d) E w = (Inr h, v)"
    and "e_uuid E (w_ids v) \<notin> aud_id ` set (auditLogs w)"
  shows "\<exists>w' l. handleDepositConfirmed t (Some u) d E w = (Inr (), w')
    \<and> ptransactions w' = upd_row ptx_id (ptx_id t) (ptx_setMinted h) (ptransactions w)
    \<and> auditLogs w' = auditLogs w @ [l] \<and> aud_event l = ''pix.deposit.confirmed'' \<and> aud_txHash l = Some h"
proof -
  have v: "ptransactions v = ptransactions w" "auditLogs v = auditLogs w"
    using sameD' [OF mintBrlt.call_frames(7), OF assms(5)] sameD' [OF mintBrlt.call_frames(5), OF assms(5)] by simp_all
  have "db_ok v" using keepsRD [OF mintBrlt.call_step, OF assms(5)] assms(1) by (simp add: sound_step_def)
  note ok = this
  have f: "find_row ptx_id (ptx_id t) (ptransactions v) = Some t" using assms(2) v(1) by simp
  have u: "ptx_update (ptx_id t) (ptx_setMinted h) E v =
      (Inr (ptx_setMinted h t), ptransactions_update (upd_row ptx_id (ptx_id t) (ptx_setMinted h)) v)"
    by (rule ptx_update_ok [OF ok f]) (simp_all add: ptx_setMinted_def)
  have hu: "has_user v (ptx_userId t)" by (rule ptx_has_user [OF ok f])
  let ?x = "ptransactions_update (upd_row ptx_id (ptx_id t) (ptx_setMinted h)) v"
  let ?i = "audit_entry_tx ''pix.deposit.confirmed'' (ptx_id t) ''transaction'' (ptx_userId t) h (order_meta d)"
  obtain w' where l: "auditLog ?i E ?x = (Inr (), w')"
    using auditLog_run [of ?x ?i E] hu assms(6) v(2)
    by (auto simp: audit_entry_tx_def audit_entry_def has_user_def)
  have "handleDepositConfirmed t (Some u) d E w = (Inr (), w')"
    using assms(3-5) u l by (simp add: handleDepositConfirmed_def catchM_def bindM_def auditLog_def
        split: prod.splits sum.splits)
  with auditLog_Inr [OF l] sameD' [OF auditLog_frames(7), OF l] v show ?thesis
    by (auto simp: audit_entry_tx_def audit_entry_def)
qed

text \<open>When the signed transaction is refused the withdrawal fails with the same error, before any order
  is placed.\<close>

lemma userAddress_Inr: "userAddress u E w = (Inr a, w') \<Longrightarrow> w' = w"
  by (auto simp: userAddress_def Let_def split: if_splits)

lemma withdrawal_burn_refused:
  assumes "userAddress u E w = (Inr a, w1)" and "submitSignedTx (sw_xdr d) a (sw_signature d) E w = (Inl e, w2)"
  shows "submitWithdrawal u d E w = (Inl e, w2) \<and> ptransactions w2 = ptransactions w"
  using assms userAddress_Inr [OF assms(1)] sameD' [OF submitSignedTx.call_frames(7), OF assms(2)]
  by (simp add: submitWithdrawal_def bindM_def)

text \<open>C26: A withdrawal is ordered from the Pix service only after the transaction the user signed was verified
  against the user's own address, sent and confirmed; the order and the transaction row come after it.\<close>

theorem withdrawal_after_burn:
  assumes "submitWithdrawal u d E w = (Inr r, w')"
  shows "\<exists>a h w2 pre x. userAddress u E w = (Inr a, w)
    \<and> submitSignedTx (sw_xdr d) a (sw_signature d) E w = (Inr h, w2) \<and> fst (snd r) = h
    \<and> e_verifySig E a (e_txHash E (Decoded (sw_xdr d))) (from_hex (strip0x (sw_signature d)))
    \<and> w_trace w2 = pre @ [RpcGetTransaction h] \<and> e_getTx E pre h = Inr ''SUCCESS''
    \<and> ptransactions w2 = ptransactions w
    \<and> createWithdrawalOrder \<lparr>pw_userId = u, pw_amount = sw_amount d, pw_pixKey = sw_pixKey d,
        pw_pixKeyType = sw_pixKeyType d, pw_description = Some ''Saque CredBridge via Pix'',
        pw_metadata = Some [(''burnTxHash'', JStr h)]\<rparr> u E w2 = (Inr x, w')"
proof -
  from assms obtain a w1 h w2 x where a: "userAddress u E w = (Inr a, w1)"
    and h: "submitSignedTx (sw_xdr d) a (sw_signature d) E w1 = (Inr h, w2)" "fst (snd r) = h"
    and x: "createWithdrawalOrder \<lparr>pw_userId = u, pw_amount = sw_amount d, pw_pixKey = sw_pixKey d,
        pw_pixKeyType = sw_pixKeyType d, pw_description = Some ''Saque CredBridge via Pix'',
        pw_metadata = Some [(''burnTxHash'', JStr h)]\<rparr> u E w2 = (Inr x, w')"
    unfolding submitWithdrawal_def by (auto elim!: bindM_InrE)
  have "ptransactions w2 = ptransactions w"
    using sameD' [OF submitSignedTx.call_frames(7), OF h(1)] userAddress_Inr [OF a] by simp
  with a h x userAddress_Inr [OF a] submitSignedTx_Inr [OF h(1)] show ?thesis by blast
qed

lemma ptx_create_Inr:
  assumes "ptx_create u ty am st k h E w = (Inr t, w')"
  shows "ptransactions w' = ptransactions w @ [t] \<and> ptx_userId t = u \<and> ptx_type t = ty \<and> ptx_amount t = am
    \<and> ptx_status t = st \<and> ptx_pixKey t = k \<and> ptx_txHash t = h \<and> w_trace w' = w_trace w"
  using tptransactions.tab_create_Inr [OF assms [unfolded ptx_create_def]] by simp

lemma pixPost_Inr: "pixPost p b E w = (Inr r, w') \<Longrightarrow> w_trace w' = w_trace w @ [PixPost p b]"
  by (auto simp: pixPost_def callM_def callW_def split: sum.splits)

lemma createWithdrawal_Inr:
  "createWithdrawal d E w = (Inr r, w') \<Longrightarrow> \<exists>b. w_trace w' = w_trace w @ [PixPost ''/v1/orders/withdrawals'' b]"
  unfolding createWithdrawal_def by (auto elim!: bindM_InrE dest!: pixPost_Inr)

lemma ptx_update_trace: "keepsR (same w_trace) (ptx_update i f)"
  unfolding ptx_update_def by (intro keeps keeps_db; simp add: same_def)

text \<open>C27: The route \<open>POST /pix/withdrawals\<close> knows no caller and asks for no burn: when it succeeds the Pix
  service was asked to pay, no call went to the chain before it, and the hash of the burn in the new row
  is whatever the request's metadata says.\<close>

theorem withdrawal_without_burn:
  assumes "pixController_createWithdrawal d E w = (Inr r, w')"
  shows "\<exists>t h b. w_trace w' = w_trace w @ [PixPost ''/v1/orders/withdrawals'' b]
    \<and> map ptx_id (ptransactions w') = map ptx_id (ptransactions w) @ [ptx_id t]
    \<and> ptx_userId t = pw_userId d \<and> ptx_amount t = pw_amount d \<and> ptx_status t = TProcessing
    \<and> burnHash (pw_metadata d) = Inr h \<and> ptx_txHash t = h \<and> r = (t, snd r)"
proof -
  from assms obtain h t w1 l w2 o' w3 t' where
    h: "burnHash (pw_metadata d) = Inr h"
    and t: "ptx_create (pw_userId d) ''WITHDRAWAL'' (pw_amount d) TProcessing (Some (pw_pixKey d)) h E w = (Inr t, w1)"
    and l: "auditCreate (audit_entry ''pix.withdrawal.created'' (ptx_id t) ''transaction'' (pw_userId d)
              [(''amount'', JNum (pw_amount d)), (''pixKey'', JStr (pw_pixKey d))]) E w1 = (Inr l, w2)"
    and p: "\<exists>x. createWithdrawal x E w2 = (Inr o', w3)"
    and x: "ptx_update (ptx_id t) (ptx_setWithdrawalOrder o') E w3 = (Inr t', w')" and r: "r = (t, o')"
    unfolding pixController_createWithdrawal_def createWithdrawalOrder_def
    by (auto elim!: bindM_InrE split: option.splits sum.splits) blast
  have "ptransactions w3 = ptransactions w1 \<and> (\<exists>b. w_trace w3 = w_trace w1 @ [PixPost ''/v1/orders/withdrawals'' b])"
    using p sameD' [OF auditCreate_frames(7), OF l] sameD' [OF auditCreate_frames(10), OF l]
      sameD' [OF createWithdrawal.call_frames(7)] createWithdrawal_Inr by metis
  moreover have "map ptx_id (ptransactions w') = map ptx_id (ptransactions w3)"
    using x by (auto simp: ptx_update_def elim!: tptransactions.tab_update_Inr
        intro!: map_key_upd_row simp: ptx_setWithdrawalOrder_def)
  moreover note ptx_create_Inr [OF t] sameD' [OF ptx_update_trace, OF x] h r
  ultimately show ?thesis by (intro exI [of _ t] exI [of _ h]) auto
qed

end
