(* ===== verification/Receivables.thy ===== *)
theory Receivables
  imports FinancialAuthorizations Pix
begin

text \<open>
  \<open>modules/receivables\<close>: repository, service and controller of receivables: creation, tokenization
  on chain, assignment to the platform by an authorization or by a transaction the owner signs,
  the listing of the pool.
\<close>

section \<open>Requests and responses\<close>

record create_receivable_dto =
  crd_value :: rat
  crd_type :: receivable_type
  crd_debtorName :: string
  crd_debtorDocument :: string
  crd_dueDate :: string

definition valid_receivable_dto :: "create_receivable_dto \<Rightarrow> bool" where
  "valid_receivable_dto d \<longleftrightarrow> 0 < crd_value d \<and> 1 \<le> length (crd_debtorName d)
     \<and> length (crd_debtorName d) \<le> 200 \<and> 1 \<le> length (crd_debtorDocument d)
     \<and> length (crd_debtorDocument d) \<le> 32"

record receivable_response =
  rr_id :: string
  rr_value :: rat
  rr_type :: receivable_type
  rr_status :: receivable_status
  rr_debtorName :: string
  rr_debtorDocument :: string
  rr_dueDate :: int
  rr_createdAt :: int
  rr_txHash :: "string option"
  rr_paymentTxHash :: "string option"

definition toReceivableResponse :: "receivable \<Rightarrow> receivable_response" where
  "toReceivableResponse r =
     \<lparr>rr_id = rcv_id r, rr_value = rcv_value r, rr_type = rcv_type r, rr_status = rcv_status r,
      rr_debtorName = rcv_debtorName r, rr_debtorDocument = rcv_debtorDocument r,
      rr_dueDate = rcv_dueDate r, rr_createdAt = rcv_createdAt r, rr_txHash = rcv_txHash r,
      rr_paymentTxHash = rcv_paymentTxHash r\<rparr>"

fun type_string :: "receivable_type \<Rightarrow> string" where
  "type_string RTInvoice = ''invoice''"
| "type_string RTDuplicate = ''duplicate''"
| "type_string RTContract = ''contract''"

record pool_stats =
  pst_totalValue :: rat
  pst_activeCount :: nat
  pst_validatedCount :: nat
  pst_poolCount :: nat

section \<open>Repository\<close>

definition rcv_create :: "string \<Rightarrow> create_receivable_dto \<Rightarrow> int \<Rightarrow> receivable api" where
  "rcv_create userId d due = createM receivables receivables_update rcv_id chk_receivable (\<lambda>i t.
     \<lparr>rcv_id = i, rcv_userId = userId, rcv_value = crd_value d, rcv_type = crd_type d,
      rcv_status = RPending, rcv_debtorName = crd_debtorName d,
      rcv_debtorDocument = crd_debtorDocument d, rcv_documentHash = None, rcv_txHash = None,
      rcv_paymentTxHash = None, rcv_dueDate = due, rcv_createdAt = t\<rparr>)"

definition receivablesRepo_create :: "string \<Rightarrow> create_receivable_dto \<Rightarrow> receivable api" where
  "receivablesRepo_create userId d =
     bindM (asksM (\<lambda>E. e_dateParse E (crd_dueDate d))) (\<lambda>due.
     bindM (someOr due (JsError ''PrismaClientValidationError'')) (\<lambda>t.
     rcv_create userId d t))"

definition rcv_update :: "string \<Rightarrow> (receivable \<Rightarrow> receivable) \<Rightarrow> receivable api" where
  "rcv_update i f = updateM receivables receivables_update rcv_id no_chk i f"

definition rcv_setStatus :: "receivable_status \<Rightarrow> receivable \<Rightarrow> receivable" where
  "rcv_setStatus s r = r\<lparr>rcv_status := s\<rparr>"

definition rcv_setTokenized :: "string \<Rightarrow> receivable \<Rightarrow> receivable" where
  "rcv_setTokenized h r = r\<lparr>rcv_status := RTokenized, rcv_txHash := Some h\<rparr>"

definition updateStatus :: "string \<Rightarrow> receivable_status \<Rightarrow> string option \<Rightarrow> receivable api" where
  "updateStatus i s txHash =
     rcv_update i (\<lambda>r. r\<lparr>rcv_status := s, rcv_txHash := orElse txHash (rcv_txHash r)\<rparr>)"

definition setTokenized :: "string \<Rightarrow> string \<Rightarrow> receivable api" where
  "setTokenized i txHash = rcv_update i (rcv_setTokenized txHash)"

definition setAssignmentPending :: "string \<Rightarrow> receivable api" where
  "setAssignmentPending i = rcv_update i (rcv_setStatus RAssignmentPending)"

definition setActive :: "string \<Rightarrow> receivable api" where
  "setActive i = rcv_update i (rcv_setStatus RActive)"

definition setPaymentTxHash :: "string \<Rightarrow> string \<Rightarrow> receivable api" where
  "setPaymentTxHash i h = rcv_update i (\<lambda>r. r\<lparr>rcv_paymentTxHash := Some h\<rparr>)"

definition not_invested :: "world \<Rightarrow> receivable \<Rightarrow> bool" where
  "not_invested w r \<longleftrightarrow> list_all (\<lambda>i. inv_receivableId i \<noteq> rcv_id r) (investments w)"

definition in_pool :: "world \<Rightarrow> receivable \<Rightarrow> bool" where
  "in_pool w r \<longleftrightarrow> rcv_status r = RActive \<and> not_invested w r"

definition receivablesRepo_findAll :: "string \<Rightarrow> receivable list api" where
  "receivablesRepo_findAll userId =
     bindM (findManyM receivables (\<lambda>r. rcv_userId r = userId)) (\<lambda>rs. retM (order_desc rcv_createdAt rs))"

definition receivablesRepo_findPool :: "nat \<Rightarrow> receivable list api" where
  "receivablesRepo_findPool limit =
     getsM (\<lambda>w. take limit (order_asc rcv_dueDate (filter (in_pool w) (receivables w))))"

text \<open>The sum of the values is the database's sum of doubles, here in the order of the rows.\<close>

definition receivablesRepo_getPoolStats :: "pool_stats api" where
  "receivablesRepo_getPoolStats = getsM (\<lambda>w.
     let active = filter (in_pool w) (receivables w);
         validated = filter (\<lambda>r. rcv_status r \<in> {RValidated, RTokenized, RAssignmentPending}
                       \<and> not_invested w r) (receivables w)
     in \<lparr>pst_totalValue = foldl js_add 0 (map rcv_value active), pst_activeCount = length active,
         pst_validatedCount = length validated, pst_poolCount = length active + length validated\<rparr>)"

section \<open>Service\<close>

definition rcv_audit :: "string \<Rightarrow> receivable \<Rightarrow> (string \<times> json) list \<Rightarrow> unit api" where
  "rcv_audit event r m = auditLog (audit_entry event (rcv_id r) ''receivable'' (rcv_userId r) m)"

definition rcv_audit_tx :: "string \<Rightarrow> receivable \<Rightarrow> string \<Rightarrow> (string \<times> json) list \<Rightarrow> unit api" where
  "rcv_audit_tx event r h m = auditLog (audit_entry_tx event (rcv_id r) ''receivable'' (rcv_userId r) h m)"

definition receivables_create :: "string \<Rightarrow> create_receivable_dto \<Rightarrow> receivable_response api" where
  "receivables_create userId d =
     bindM (receivablesRepo_create userId d) (\<lambda>receivable.
     bindM (auditLog (audit_entry ''receivable.created'' (rcv_id receivable) ''receivable'' userId
              [(''value'', JNum (rcv_value receivable)), (''type'', JStr (type_string (rcv_type receivable))),
               (''debtorName'', JStr (rcv_debtorName receivable)),
               (''debtorDocument'', JStr (rcv_debtorDocument receivable)),
               (''dueDate'', JStr (toISOString (rcv_dueDate receivable)))])) (\<lambda>_.
     retM (toReceivableResponse receivable)))"

definition receivables_findAll :: "string \<Rightarrow> receivable_response list api" where
  "receivables_findAll userId =
     bindM (receivablesRepo_findAll userId) (\<lambda>rs. retM (map toReceivableResponse rs))"

definition receivables_findOne :: "string \<Rightarrow> receivable_response option api" where
  "receivables_findOne i =
     bindM (findUniqueM receivables rcv_id i) (\<lambda>r. retM (map_option toReceivableResponse r))"

definition receivables_findPool :: "receivable_response list api" where
  "receivables_findPool = bindM (receivablesRepo_findPool 50) (\<lambda>rs. retM (map toReceivableResponse rs))"

definition findReceivable :: "string \<Rightarrow> receivable api" where
  "findReceivable i =
     bindM (findUniqueM receivables rcv_id i) (\<lambda>found.
     someOr found (NotFoundException (''Receivable '' @ i @ '' not found'')))"

definition tokenize :: "string \<Rightarrow> receivable_response api" where
  "tokenize i =
     bindM (findReceivable i) (\<lambda>receivable.
     bindM (throwIf (rcv_status receivable \<noteq> RValidated)
              (ConflictException ''Receivable must be validated before tokenization'')) (\<lambda>_.
     bindM (rcv_audit ''receivable.ready_for_blockchain'' receivable
              [(''network'', JStr ''stellar''), (''contract'', JStr ''soroban-nft'')]) (\<lambda>_.
     bindM (rcv_audit ''receivable.nft_minting'' receivable
              [(''value'', JNum (rcv_value receivable)), (''xmlHash'', jopt (rcv_documentHash receivable))]) (\<lambda>_.
     bindM (tokenizeNfe \<lparr>tk_key = rcv_id receivable, tk_value = rcv_value receivable,
              tk_dueDate = rcv_dueDate receivable, tk_xmlHash = rcv_documentHash receivable,
              tk_ownerUserId = rcv_userId receivable\<rparr>) (\<lambda>txHash.
     bindM (setTokenized i txHash) (\<lambda>tokenized.
     bindM (rcv_audit_tx ''receivable.tokenized_by_policy'' receivable txHash
              [(''network'', JStr ''stellar''), (''authorization'', JStr ''policy'')]) (\<lambda>_.
     bindM (rcv_audit_tx ''receivable.tx_confirmed'' receivable txHash
              [(''network'', JStr ''stellar''), (''status'', JStr ''success'')]) (\<lambda>_.
     retM (toReceivableResponse tokenized)))))))))"

definition activate :: "string \<Rightarrow> receivable_response api" where
  "activate i = tokenize i"

definition requestAssignment :: "string \<Rightarrow> receivable_response api" where
  "requestAssignment i =
     bindM (findReceivable i) (\<lambda>receivable.
     bindM (throwIf (rcv_status receivable \<noteq> RTokenized)
              (ConflictException ''Receivable must be tokenized before assignment'')) (\<lambda>_.
     bindM (setAssignmentPending i) (\<lambda>updated.
     retM (toReceivableResponse updated))))"

definition assignable :: "receivable \<Rightarrow> bool" where
  "assignable r \<longleftrightarrow> rcv_status r = RTokenized \<or> rcv_status r = RAssignmentPending"

text \<open>The start that the three assignment operations share.\<close>

definition findAssignable :: "string \<Rightarrow> receivable api" where
  "findAssignable i =
     bindM (findReceivable i) (\<lambda>receivable.
     bindM (throwIf (\<not> assignable receivable)
              (ConflictException ''Receivable must be tokenized before assignment'')) (\<lambda>_.
     retM receivable))"

definition assign :: "string \<Rightarrow> string \<Rightarrow> receivable_response api" where
  "assign i authorizationId =
     bindM (findAssignable i) (\<lambda>receivable.
     bindM (consume \<lparr>cs_authorizationId = authorizationId, cs_userId = rcv_userId receivable,
              cs_operation = OpReceivableAssignment, cs_resourceId = Some (rcv_id receivable),
              cs_amount = Some (toFixed 2 (rcv_value receivable)),
              cs_destination = Some ''credbridge-pool''\<rparr>) (\<lambda>_.
     bindM (transferNftToPlatform (rcv_id receivable)) (\<lambda>txHash.
     bindM (setActive i) (\<lambda>updated.
     bindM (rcv_audit_tx ''receivable.assignment_signed'' receivable txHash
              [(''authorizationId'', JStr authorizationId)]) (\<lambda>_.
     retM (toReceivableResponse updated))))))"

definition findPmeWallet :: "string \<Rightarrow> string api" where
  "findPmeWallet userId =
     bindM (findUniqueM users usr_id userId) (\<lambda>u.
     let a = Option.bind u usr_privyStellarWalletAddress in
     if falsy a
     then throwM (NotFoundException (''Stellar privy wallet for user '' @ userId @ '' not found''))
     else retM (the a))"

record prepared_assignment =
  pa_unsignedXdr :: string
  pa_hashToSign :: string
  pa_pmeAddress :: string
  pa_receivable :: receivable_response

definition receivables_prepareAssignment :: "string \<Rightarrow> prepared_assignment api" where
  "receivables_prepareAssignment i =
     bindM (findAssignable i) (\<lambda>receivable.
     bindM (findPmeWallet (rcv_userId receivable)) (\<lambda>pme.
     bindM (prepareAssignment (rcv_id receivable) pme) (\<lambda>(xdr, hash).
     retM \<lparr>pa_unsignedXdr = xdr, pa_hashToSign = hash, pa_pmeAddress = pme,
           pa_receivable = toReceivableResponse receivable\<rparr>)))"

definition payout_error :: "exn \<Rightarrow> exn" where
  "payout_error e = ConflictException (''Failed to complete financial transfer from Pool: '' @ exn_message e
     @ ''. Certifique-se de que a Pool possui liquidez suficiente de aportes.'')"

definition submitAssignment :: "string \<Rightarrow> string \<Rightarrow> string \<Rightarrow> receivable_response api" where
  "submitAssignment i unsignedXdr signatureHex =
     bindM (findAssignable i) (\<lambda>receivable.
     bindM (findPmeWallet (rcv_userId receivable)) (\<lambda>pme.
     bindM (submitSignedAssignment unsignedXdr signatureHex pme) (\<lambda>txHash.
     bindM (catchM
       (buyTokenizedInvoiceInPool pme (rcv_id receivable)
          (case rcv_documentHash receivable of None \<Rightarrow> ''00000000000000000000000000000000'' | Some h \<Rightarrow> h)
          (rcv_value receivable))
       (\<lambda>e. throwM (payout_error e))) (\<lambda>poolTxHash.
     bindM (setActive i) (\<lambda>updated.
     bindM (catchM
       (bindM (createCollectionOrder
          \<lparr>cl_receivableId = rcv_id receivable, cl_pmeUserId = rcv_userId receivable,
           cl_debtorName = rcv_debtorName receivable, cl_debtorDocument = rcv_debtorDocument receivable,
           cl_amount = rcv_value receivable, cl_dueDate = rcv_dueDate receivable\<rparr>) (\<lambda>_. retM ()))
       (\<lambda>_. retM ())) (\<lambda>_.
     bindM (rcv_audit_tx ''receivable.assignment_signed'' receivable txHash
              [(''source'', JStr ''privy_blockchain_signing''), (''poolTxHash'', JStr poolTxHash)]) (\<lambda>_.
     retM (toReceivableResponse updated))))))))"

section \<open>Frames\<close>

lemma rcv_evos:
  "receivable_evo r (rcv_setStatus s r)" "receivable_evo r (rcv_setTokenized h r)"
  "receivable_evo r (r\<lparr>rcv_paymentTxHash := p\<rparr>)"
  by (simp_all add: receivable_evo_def rcv_setStatus_def rcv_setTokenized_def)

lemma rcv_update_step [keeps]:
  "(\<And>r. receivable_evo r (f r)) \<Longrightarrow> keepsR sound_step (rcv_update i f)"
  unfolding rcv_update_def by (rule step_update_receivable)

lemma receivablesRepo_steps [keeps]:
  "keepsR sound_step (receivablesRepo_create u d)" "keepsR sound_step (setTokenized i h)"
  "keepsR sound_step (setAssignmentPending i)" "keepsR sound_step (setActive i)"
  "keepsR sound_step (setPaymentTxHash i h)"
  unfolding receivablesRepo_create_def rcv_create_def setTokenized_def setAssignmentPending_def
    setActive_def setPaymentTxHash_def by (intro keeps rcv_evos)+

lemma updateStatus_step [keeps]: "keepsR sound_step (updateStatus i s h)"
  unfolding updateStatus_def by (intro keeps) (simp add: receivable_evo_def orElse_def falsy_def split: option.splits)

lemma rcv_audit_steps [keeps]:
  "keepsR sound_step (rcv_audit ev r m)" "keepsR sound_step (rcv_audit_tx ev r h m)"
  "keepsR (same receivables) (rcv_audit ev r m)" "keepsR (same receivables) (rcv_audit_tx ev r h m)"
  "keepsR (same finauths) (rcv_audit ev r m)" "keepsR (same finauths) (rcv_audit_tx ev r h m)"
  "keepsR (same w_trace) (rcv_audit ev r m)" "keepsR (same w_trace) (rcv_audit_tx ev r h m)"
  unfolding rcv_audit_def rcv_audit_tx_def by (intro keeps)+

lemma receivables_create_step [keeps]: "keepsR sound_step (receivables_create u d)"
  unfolding receivables_create_def by (intro keeps)

lemma receivables_read_steps [keeps]:
  "keepsR sound_step (receivables_findAll u)" "keepsR sound_step (receivables_findOne i)"
  "keepsR sound_step receivables_findPool" "keepsR sound_step receivablesRepo_getPoolStats"
  "keepsR sound_step (findReceivable i)"
  unfolding receivables_findAll_def receivablesRepo_findAll_def receivables_findOne_def
    receivables_findPool_def receivablesRepo_findPool_def receivablesRepo_getPoolStats_def findReceivable_def
  by (intro keeps)+

lemma tokenize_step [keeps]: "keepsR sound_step (tokenize i)"
  unfolding tokenize_def by (intro keeps)

lemma requestAssignment_step [keeps]: "keepsR sound_step (requestAssignment i)"
  unfolding requestAssignment_def by (intro keeps)

lemma findAssignable_step [keeps]: "keepsR sound_step (findAssignable i)"
  unfolding findAssignable_def by (intro keeps)

lemma findPmeWallet_step [keeps]: "keepsR sound_step (findPmeWallet u)"
  unfolding findPmeWallet_def Let_def by (intro keeps)

lemma assign_step [keeps]: "keepsR sound_step (assign i a)"
  unfolding assign_def by (intro keeps)

lemma receivables_prepareAssignment_step [keeps]: "keepsR sound_step (receivables_prepareAssignment i)"
  unfolding receivables_prepareAssignment_def by (intro keeps)

lemma submitAssignment_step [keeps]: "keepsR sound_step (submitAssignment i x s)"
  unfolding submitAssignment_def by (intro keeps)

section \<open>Properties\<close>

lemma findReceivable_Inr:
  "findReceivable i E w = (Inr r, w') \<longleftrightarrow> find_row rcv_id i (receivables w) = Some r \<and> w' = w"
  by (auto simp: findReceivable_def someOr_def split: option.splits)

lemma findAssignable_Inr:
  "findAssignable i E w = (Inr r, w') \<longleftrightarrow>
   find_row rcv_id i (receivables w) = Some r \<and> assignable r \<and> w' = w"
  by (auto simp: findAssignable_def findReceivable_Inr bindM_def split: prod.splits sum.splits
      dest!: throwIf_InrD) (auto simp: findReceivable_def someOr_def throwIf_def split: option.splits)

lemma rcv_update_Inr:
  assumes "rcv_update i f E w = (Inr r, w')"
  shows "\<exists>r0. find_row rcv_id i (receivables w) = Some r0 \<and> r = f r0
    \<and> receivables w' = upd_row rcv_id i f (receivables w) \<and> finauths w' = finauths w
    \<and> auditLogs w' = auditLogs w \<and> users w' = users w \<and> w_trace w' = w_trace w"
  using assms by (auto simp: rcv_update_def elim!: treceivables.tab_update_Inr)

lemma rcv_audits_Inr:
  assumes "rcv_audit ev r m E w = (Inr u, w') \<or> (\<exists>h. rcv_audit_tx ev r h m E w = (Inr u, w'))"
  shows "\<exists>l. auditLogs w' = auditLogs w @ [l] \<and> aud_event l = ev \<and> aud_entityId l = rcv_id r"
    and "receivables w' = receivables w" and "users w' = users w" and "finauths w' = finauths w"
proof -
  from assms obtain x where x: "auditLog x E w = (Inr u, w')" "ai_event x = ev" "ai_entityId x = rcv_id r"
    by (auto simp: rcv_audit_def rcv_audit_tx_def audit_entry_def audit_entry_tx_def)
  from auditLog_Inr [OF x(1)] x(2,3) show "\<exists>l. auditLogs w' = auditLogs w @ [l] \<and> aud_event l = ev \<and> aud_entityId l = rcv_id r"
    by metis
  from sameD' [OF auditLog_frames(2), OF x(1)] sameD' [OF auditLog_frames(1), OF x(1)]
    sameD' [OF auditLog_frames(5), OF x(1)]
  show "receivables w' = receivables w" and "users w' = users w" and "finauths w' = finauths w" by simp_all
qed

lemma consume_receivables [keeps]: "keepsR (same receivables) (consume x)"
  unfolding consume_def consume_check_def consume_commit_def by (intro keeps keeps_db; simp add: same_def)

lemma tokenizeNfe_Inr:
  assumes "tokenizeNfe d E w = (Inr h, w')"
  shows "\<exists>platform c pme xml. contract_config E = Some (platform, c) \<and> pme \<noteq> []
    \<and> nullish (Option.bind (find_row usr_id (tk_ownerUserId d) (users w)) usr_privyStellarWalletAddress)
        (Option.bind (find_row usr_id (tk_ownerUserId d) (users w)) usr_stellarWalletId) = Some pme
    \<and> invokeContract platform c ''tokenize_nfe'' [ScString (tk_key d), ScI128 (toCentavos (tk_value d)),
        ScU64 (unixSeconds (tk_dueDate d)), ScBytes xml, ScAddress pme, ScAddress (e_publicKey E platform)] E w
      = (Inr h, w')"
  using assms unfolding tokenizeNfe_def Let_def
  by (auto simp: requireContractConfig_Inr publicKeyM_def asksM_def catchM_def findUniqueM_def getsM_def
      elim!: bindM_InrE not_falsyE split: prod.splits sum.splits if_splits dest!: throwIf_InrD)

lemma tokenize_validated:
  "tokenize i E w = (Inr res, w') \<Longrightarrow> \<exists>r. find_row rcv_id i (receivables w) = Some r \<and> rcv_status r = RValidated"
  unfolding tokenize_def by (auto elim!: bindM_InrE dest!: throwIf_InrD simp: findReceivable_Inr)

lemma tokenize_stores:
  assumes "tokenize i E w = (Inr res, w')"
  shows "\<exists>h. receivables w' = upd_row rcv_id i (rcv_setTokenized h) (receivables w) \<and> rr_status res = RTokenized \<and> rr_txHash res = Some h"
proof -
  from assms obtain r v1 v2 d h v3 t v4 v5 m1 m2 m3 m4 where
    a1: "rcv_audit ''receivable.ready_for_blockchain'' r m1 E w = (Inr (), v1)"
    and a2: "rcv_audit ''receivable.nft_minting'' r m2 E v1 = (Inr (), v2)"
    and n: "tokenizeNfe d E v2 = (Inr h, v3)" and s: "setTokenized i h E v3 = (Inr t, v4)"
    and a3: "rcv_audit_tx ''receivable.tokenized_by_policy'' r h m3 E v4 = (Inr (), v5)"
    and a4: "rcv_audit_tx ''receivable.tx_confirmed'' r h m4 E v5 = (Inr (), w')"
    and res: "res = toReceivableResponse t"
    unfolding tokenize_def by (auto elim!: bindM_InrE dest!: throwIf_InrD simp: findReceivable_Inr) blast
  note u = rcv_update_Inr [OF s [unfolded setTokenized_def]]
  have "receivables v3 = receivables w"
    using sameD' [OF rcv_audit_steps(3), OF a1] sameD' [OF rcv_audit_steps(3), OF a2]
      sameD' [OF tokenizeNfe.call_frames(1), OF n] by simp
  moreover have "receivables w' = receivables v4"
    using sameD' [OF rcv_audit_steps(4), OF a3] sameD' [OF rcv_audit_steps(4), OF a4] by simp
  ultimately show ?thesis
    using u res by (auto simp: rcv_setTokenized_def toReceivableResponse_def)
qed

text \<open>C24: Tokenization succeeds only for a validated receivable whose owner has a wallet; the contract call
  carries the identifier, the face value in centavos, the due date in seconds, the owner's wallet and
  the platform's address and was confirmed with the hash that is stored; the receivable, and no other,
  becomes tokenized, and four audit entries record the steps in order.\<close>

theorem tokenize_success:
  assumes "tokenize i E w = (Inr res, w')"
  shows "\<exists>r platform c pme xml v v' h. find_row rcv_id i (receivables w) = Some r \<and> rcv_status r = RValidated
    \<and> contract_config E = Some (platform, c) \<and> pme \<noteq> []
    \<and> invokeContract platform c ''tokenize_nfe'' [ScString i, ScI128 (toCentavos (rcv_value r)),
        ScU64 (unixSeconds (rcv_dueDate r)), ScBytes xml, ScAddress pme, ScAddress (e_publicKey E platform)] E v
      = (Inr h, v')
    \<and> receivables w' = upd_row rcv_id i (rcv_setTokenized h) (receivables w)
    \<and> rr_status res = RTokenized \<and> rr_txHash res = Some h
    \<and> map aud_event (auditLogs w') = map aud_event (auditLogs w) @ [''receivable.ready_for_blockchain'',
        ''receivable.nft_minting'', ''receivable.tokenized_by_policy'', ''receivable.tx_confirmed'']"
proof -
  from assms obtain r v1 v2 h v3 t v4 v5 where
    r: "find_row rcv_id i (receivables w) = Some r" "rcv_status r = RValidated"
    and a1: "rcv_audit ''receivable.ready_for_blockchain'' r
        [(''network'', JStr ''stellar''), (''contract'', JStr ''soroban-nft'')] E w = (Inr (), v1)"
    and a2: "rcv_audit ''receivable.nft_minting'' r
        [(''value'', JNum (rcv_value r)), (''xmlHash'', jopt (rcv_documentHash r))] E v1 = (Inr (), v2)"
    and n: "tokenizeNfe \<lparr>tk_key = rcv_id r, tk_value = rcv_value r, tk_dueDate = rcv_dueDate r,
        tk_xmlHash = rcv_documentHash r, tk_ownerUserId = rcv_userId r\<rparr> E v2 = (Inr h, v3)"
    and s: "setTokenized i h E v3 = (Inr t, v4)"
    and a3: "rcv_audit_tx ''receivable.tokenized_by_policy'' r h
        [(''network'', JStr ''stellar''), (''authorization'', JStr ''policy'')] E v4 = (Inr (), v5)"
    and a4: "rcv_audit_tx ''receivable.tx_confirmed'' r h
        [(''network'', JStr ''stellar''), (''status'', JStr ''success'')] E v5 = (Inr (), w')"
    and res: "res = toReceivableResponse t"
    unfolding tokenize_def by (auto elim!: bindM_InrE dest!: throwIf_InrD simp: findReceivable_Inr) blast
  have i: "rcv_id r = i" using r(1) by (auto dest: find_row_SomeD)
  note b1 = rcv_audits_Inr [OF disjI1, OF a1] and b2 = rcv_audits_Inr [OF disjI1, OF a2]
    and b3 = rcv_audits_Inr [OF disjI2, OF exI, OF a3] and b4 = rcv_audits_Inr [OF disjI2, OF exI, OF a4]
  have v3: "receivables v3 = receivables v2" "auditLogs v3 = auditLogs v2"
    using sameD' [OF tokenizeNfe.call_frames(1), OF n] sameD' [OF tokenizeNfe.call_frames(5), OF n] by simp_all
  note u = rcv_update_Inr [OF s [unfolded setTokenized_def]]
  have "receivables w' = upd_row rcv_id i (rcv_setTokenized h) (receivables w)"
    using u b1(2) b2(2) b3(2) b4(2) v3 by auto
  moreover have "map aud_event (auditLogs w') = map aud_event (auditLogs w) @ [''receivable.ready_for_blockchain'',
        ''receivable.nft_minting'', ''receivable.tokenized_by_policy'', ''receivable.tx_confirmed'']"
    using b1(1) b2(1) b3(1) b4(1) u v3 by auto
  moreover have "rr_status res = RTokenized \<and> rr_txHash res = Some h"
    using u res by (auto simp: rcv_setTokenized_def toReceivableResponse_def)
  ultimately show ?thesis
    using r tokenizeNfe_Inr [OF n] i by (simp del: not_None_eq) blast
qed

text \<open>C21: An assignment by authorization succeeds only for a tokenized receivable or one waiting for assignment,
  and only with a verified, unused and unexpired authorization of the owner for exactly this receivable,
  its value and the pool as destination, which it consumes; then this receivable alone becomes active.\<close>

theorem assign_success:
  assumes "assign i authId E w = (Inr res, w')" and "db_ok w"
  shows "\<exists>r a t'. find_row rcv_id i (receivables w) = Some r \<and> assignable r
    \<and> find_row fa_id authId (finauths w) = Some a \<and> fa_userId a = rcv_userId r
    \<and> fa_operation a = OpReceivableAssignment \<and> fa_resourceId a = Some i
    \<and> fa_amount a = Some (toFixed 2 (rcv_value r)) \<and> fa_destination a = Some ''credbridge-pool''
    \<and> fa_verifiedAt a \<noteq> None \<and> fa_consumedAt a = None \<and> w_now w < fa_expiresAt a
    \<and> finauths w' = upd_row fa_id authId (fa_setConsumed t') (finauths w)
    \<and> receivables w' = upd_row rcv_id i (rcv_setStatus RActive) (receivables w) \<and> rr_status res = RActive"
proof -
  from assms(1) obtain r v1 h v2 t v3 where
    r: "find_row rcv_id i (receivables w) = Some r" "assignable r"
    and c: "consume \<lparr>cs_authorizationId = authId, cs_userId = rcv_userId r,
        cs_operation = OpReceivableAssignment, cs_resourceId = Some (rcv_id r),
        cs_amount = Some (toFixed 2 (rcv_value r)), cs_destination = Some ''credbridge-pool''\<rparr> E w = (Inr (), v1)"
    and n: "transferNftToPlatform (rcv_id r) E v1 = (Inr h, v2)"
    and s: "setActive i E v2 = (Inr t, v3)"
    and l: "rcv_audit_tx ''receivable.assignment_signed'' r h [(''authorizationId'', JStr authId)] E v3 = (Inr (), w')"
    and res: "res = toReceivableResponse t"
    unfolding assign_def by (auto elim!: bindM_InrE simp: findAssignable_Inr)
  have i: "rcv_id r = i" using r(1) by (auto dest: find_row_SomeD)
  have v1: "receivables v1 = receivables w" using sameD' [OF consume_receivables, OF c] .
  have v2: "receivables v2 = receivables v1" "finauths v2 = finauths v1"
    using sameD' [OF transferNftToPlatform.call_frames(1), OF n]
      sameD' [OF transferNftToPlatform.call_frames(4), OF n] by simp_all
  note u = rcv_update_Inr [OF s [unfolded setActive_def]] and b = rcv_audits_Inr [OF disjI2, OF exI, OF l]
  have rr: "receivables w' = upd_row rcv_id i (rcv_setStatus RActive) (receivables w)" "finauths w' = finauths v1"
      "rr_status res = RActive"
    using u b(2,4) v1 v2 res by (auto simp: rcv_setStatus_def toReceivableResponse_def)
  from consume_InrD [OF c assms(2)] r rr i show ?thesis
    by (auto simp: authorizes_def)
qed

text \<open>When the pool refuses the payout after the signed assignment was confirmed on chain, the submission
  fails with a conflict and the receivable keeps its status: the transfer of the token is not undone.\<close>

theorem submitAssignment_payout_refused:
  assumes "find_row rcv_id i (receivables w) = Some r" and "assignable r"
    and "findPmeWallet (rcv_userId r) E w = (Inr pme, w)"
    and "submitSignedAssignment xdr sig pme E w = (Inr h, v)"
    and "buyTokenizedInvoiceInPool pme i (case rcv_documentHash r of
        None \<Rightarrow> ''00000000000000000000000000000000'' | Some x \<Rightarrow> x) (rcv_value r) E v = (Inl e, v')"
  shows "submitAssignment i xdr sig E w = (Inl (payout_error e), v') \<and> receivables v' = receivables w
    \<and> collections v' = collections w \<and> auditLogs v' = auditLogs w"
proof -
  have i: "rcv_id r = i" using assms(1) by (auto dest: find_row_SomeD)
  have f: "findAssignable i E w = (Inr r, w)" using assms(1,2) by (simp add: findAssignable_Inr)
  have "submitAssignment i xdr sig E w = (Inl (payout_error e), v')"
    using assms(3-5) i by (simp add: submitAssignment_def bindM_def catchM_def f)
  with sameD' [OF submitSignedAssignment.call_frames(1), OF assms(4)]
    sameD' [OF buyTokenizedInvoiceInPool.call_frames(1), OF assms(5)]
    sameD' [OF submitSignedAssignment.call_frames(5), OF assms(4)]
    sameD' [OF buyTokenizedInvoiceInPool.call_frames(5), OF assms(5)]
    sameD' [OF submitSignedAssignment.call_frames(9), OF assms(4)]
    sameD' [OF buyTokenizedInvoiceInPool.call_frames(9), OF assms(5)] show ?thesis by simp
qed

end
