(* ===== verification/Investments.thy ===== *)
theory Investments
  imports Receivables
begin

text \<open>
  \<open>modules/investments\<close>: the purchase of a receivable by an investor (a reservation in one database
  transaction, then the authorization, the charge and the transfer on chain), the positions of an
  investor, and the two-stage deposit that the investor signs.
\<close>

definition DISCOUNT_RATE :: rat where
  "DISCOUNT_RATE = fl (3 / 100)"

definition ALLOWED_STATUSES :: "receivable_status list" where
  "ALLOWED_STATUSES = [RActive]"

record create_investment_dto =
  ci_receivableId :: string
  ci_authorizationId :: string
  ci_pixTxId :: "string option"

datatype deposit_stage = StageApprove | StageDeposit

record submit_stage_dto =
  sd_stage :: deposit_stage
  sd_xdr :: string
  sd_signature :: string

record investor_stats =
  ist_totalInvested :: rat
  ist_expectedReturn :: rat
  ist_activePositions :: nat

text \<open>\<open>Number((faceValue * (1 - DISCOUNT_RATE)).toFixed(2))\<close>\<close>

definition amountPaid_of :: "rat \<Rightarrow> rat" where
  "amountPaid_of faceValue = the (js_number (toFixed 2 (js_mul faceValue (js_sub 1 DISCOUNT_RATE))))"

section \<open>Repository\<close>

definition findReceivableForUpdate :: "string \<Rightarrow> (receivable \<times> investment option) option api" where
  "findReceivableForUpdate i = getsM (\<lambda>w.
     map_option (\<lambda>r. (r, find_row inv_receivableId (rcv_id r) (investments w)))
       (find_row rcv_id i (receivables w)))"

definition createInvestment :: "string \<Rightarrow> string \<Rightarrow> rat \<Rightarrow> rat \<Rightarrow> string option \<Rightarrow> investment api" where
  "createInvestment investorUserId receivableId faceValue amountPaid pixTxId =
     createM investments investments_update inv_id chk_investment (\<lambda>i t.
       \<lparr>inv_id = i, inv_investorUserId = investorUserId, inv_receivableId = receivableId,
        inv_amountPaid = amountPaid, inv_faceValue = faceValue, inv_discountRate = DISCOUNT_RATE,
        inv_status = IActive, inv_pixTxId = pixTxId, inv_paymentTxHash = None,
        inv_nftTransferTxHash = None, inv_paidAt = t, inv_createdAt = t\<rparr>)"

definition setReceivableActive :: "string \<Rightarrow> receivable api" where
  "setReceivableActive i = rcv_update i (rcv_setStatus RActive)"

definition recordAudit :: "string \<Rightarrow> string \<Rightarrow> string \<Rightarrow> rat \<Rightarrow> rat \<Rightarrow> audit_log api" where
  "recordAudit investmentId investorUserId receivableId amountPaid faceValue =
     auditCreate (audit_entry ''investment.created'' investmentId ''investment'' investorUserId
       [(''receivableId'', JStr receivableId), (''amountPaid'', JNum amountPaid), (''faceValue'', JNum faceValue)])"

definition inv_setHashes :: "string \<Rightarrow> string \<Rightarrow> investment \<Rightarrow> investment" where
  "inv_setHashes p n i = i\<lparr>inv_paymentTxHash := Some p, inv_nftTransferTxHash := Some n\<rparr>"

definition setBlockchainTxHashes :: "string \<Rightarrow> string \<Rightarrow> string \<Rightarrow> investment api" where
  "setBlockchainTxHashes i p n = updateM investments investments_update inv_id no_chk i (inv_setHashes p n)"

definition findManyByInvestor :: "string \<Rightarrow> (investment \<times> receivable option) list api" where
  "findManyByInvestor u = getsM (\<lambda>w. map (\<lambda>i. (i, find_row rcv_id (inv_receivableId i) (receivables w)))
     (order_desc inv_paidAt (filter (\<lambda>i. inv_investorUserId i = u) (investments w))))"

definition getStatsByInvestor :: "string \<Rightarrow> investor_stats api" where
  "getStatsByInvestor u = getsM (\<lambda>w.
     let mine = filter (\<lambda>i. inv_investorUserId i = u \<and> inv_status i = IActive) (investments w);
         totalInvested = foldl js_add 0 (map inv_amountPaid mine);
         totalFace = foldl js_add 0 (map inv_faceValue mine)
     in \<lparr>ist_totalInvested = totalInvested, ist_expectedReturn = js_sub totalFace totalInvested,
         ist_activePositions = length mine\<rparr>)"

section \<open>Purchase\<close>

definition unavailable :: exn where
  "unavailable = ConflictException ''Recebivel indisponivel''"

text \<open>The body of the database transaction: identifier, receivable and amount of the reservation.\<close>

definition reserve_body :: "string \<Rightarrow> create_investment_dto \<Rightarrow> (string \<times> string \<times> rat) api" where
  "reserve_body investorUserId dto =
     bindM (findReceivableForUpdate (ci_receivableId dto)) (\<lambda>found.
     bindM (someOr found (NotFoundException ''Recebivel nao encontrado'')) (\<lambda>(receivable, taken).
     bindM (throwIf (taken \<noteq> None) unavailable) (\<lambda>_.
     bindM (throwIf (rcv_status receivable \<notin> set ALLOWED_STATUSES) unavailable) (\<lambda>_.
     bindM (throwIf (rcv_userId receivable = investorUserId)
              (BadRequestException ''Voce nao pode comprar um recebivel que cadastrou'')) (\<lambda>_.
     let faceValue = rcv_value receivable; amountPaid = amountPaid_of faceValue in
     bindM (createInvestment investorUserId (rcv_id receivable) faceValue amountPaid (ci_pixTxId dto)) (\<lambda>created.
     bindM (setReceivableActive (rcv_id receivable)) (\<lambda>_.
     bindM (recordAudit (inv_id created) investorUserId (rcv_id receivable) amountPaid faceValue) (\<lambda>_.
     retM (inv_id created, rcv_id receivable, amountPaid)))))))))"

definition reserve :: "string \<Rightarrow> create_investment_dto \<Rightarrow> (string \<times> string \<times> rat) api" where
  "reserve investorUserId dto = catchM (transactionM (reserve_body investorUserId dto))
     (\<lambda>e. if e = PrismaError ''P2002'' then throwM unavailable else throwM e)"

text \<open>What runs after the reservation is committed.\<close>

definition settlePurchase :: "string \<Rightarrow> create_investment_dto \<Rightarrow> string \<times> string \<times> rat \<Rightarrow> investment api" where
  "settlePurchase investorUserId dto res = (case res of (investmentId, receivableId, amountPaid) \<Rightarrow>
     bindM (consume \<lparr>cs_authorizationId = ci_authorizationId dto, cs_userId = investorUserId,
              cs_operation = OpInvestmentPurchase, cs_resourceId = Some receivableId,
              cs_amount = Some (toFixed 2 amountPaid), cs_destination = None\<rparr>) (\<lambda>_.
     bindM (chargeInvestor investorUserId amountPaid receivableId) (\<lambda>paymentTxHash.
     bindM (transferNftToInvestor receivableId investorUserId) (\<lambda>nftTransferTxHash.
     setBlockchainTxHashes investmentId paymentTxHash nftTransferTxHash))))"

definition investments_create :: "string \<Rightarrow> create_investment_dto \<Rightarrow> investment api" where
  "investments_create investorUserId dto =
     bindM (reserve investorUserId dto) (settlePurchase investorUserId dto)"

section \<open>Deposits\<close>

definition findMyTransactions :: "string \<Rightarrow> ptransaction list api" where
  "findMyTransactions u = bindM (findManyM ptransactions (\<lambda>t. ptx_userId t = u
       \<and> ptx_status t \<in> {TPendingPayment, TPaymentSubmitted, TApproved}))
     (\<lambda>ts. retM (order_desc ptx_createdAt ts))"

definition findMyTransaction :: "string \<Rightarrow> string \<Rightarrow> ptransaction api" where
  "findMyTransaction transactionId u =
     bindM (findFirstM ptransactions (\<lambda>t. ptx_id t = transactionId \<and> ptx_userId t = u)) (\<lambda>found.
     someOr found (NotFoundException ''Transacao nao encontrada''))"

definition markAsPaid :: "string \<Rightarrow> string \<Rightarrow> ptransaction api" where
  "markAsPaid transactionId u =
     bindM (findMyTransaction transactionId u) (\<lambda>transaction.
     bindM (throwIf (ptx_status transaction \<noteq> TPendingPayment)
              (BadRequestException ''Esta transacao nao esta pendente de pagamento'')) (\<lambda>_.
     ptx_update transactionId (ptx_setStatus TPaymentSubmitted)))"

definition resolveInvestorAddress :: "string \<Rightarrow> string api" where
  "resolveInvestorAddress u =
     bindM (findUniqueM users usr_id u) (\<lambda>user.
     let address = nullish (Option.bind user usr_privyStellarWalletAddress)
                     (Option.bind user usr_stellarWalletId) in
     if falsy address
     then throwM (BadRequestException ''Investidor nao possui carteira Stellar configurada'')
     else retM (the address))"

definition loadApprovedDeposit :: "string \<Rightarrow> string \<Rightarrow> ptransaction api" where
  "loadApprovedDeposit transactionId u =
     bindM (findMyTransaction transactionId u) (\<lambda>transaction.
     bindM (throwIf (ptx_type transaction \<noteq> ''DEPOSIT'')
              (BadRequestException ''Transacao nao e um deposito'')) (\<lambda>_.
     bindM (throwIf (ptx_status transaction \<noteq> TApproved)
              (BadRequestException ''Esta transacao ainda nao foi aprovada pelo admin'')) (\<lambda>_.
     retM transaction)))"

definition buildDepositStage :: "string \<Rightarrow> string \<Rightarrow> deposit_stage \<Rightarrow> unsigned_tx api" where
  "buildDepositStage transactionId u stage =
     bindM (loadApprovedDeposit transactionId u) (\<lambda>transaction.
     bindM (resolveInvestorAddress u) (\<lambda>address.
     if stage = StageApprove then buildApproveTx address (ptx_amount transaction)
     else buildDepositTx address (ptx_amount transaction)))"

definition ptx_setCompleted :: "string \<Rightarrow> ptransaction \<Rightarrow> ptransaction" where
  "ptx_setCompleted h t = t\<lparr>ptx_status := TCompleted, ptx_txHash := Some h\<rparr>"

definition submitDepositStage :: "string \<Rightarrow> string \<Rightarrow> submit_stage_dto \<Rightarrow> (string \<times> transaction_status) api" where
  "submitDepositStage transactionId u dto =
     bindM (loadApprovedDeposit transactionId u) (\<lambda>transaction.
     bindM (resolveInvestorAddress u) (\<lambda>address.
     bindM (submitSignedTx (sd_xdr dto) address (sd_signature dto)) (\<lambda>hash.
     if sd_stage dto = StageApprove then retM (hash, ptx_status transaction)
     else
       bindM (ptx_update transactionId (ptx_setCompleted hash)) (\<lambda>updated.
       bindM (auditCreate (audit_entry_tx ''pool.deposit_completed'' transactionId ''transaction'' u hash
                [(''amount'', JNum (ptx_amount transaction))])) (\<lambda>_.
       retM (hash, ptx_status updated))))))"

section \<open>Controller\<close>

record auth_user =
  au_userId :: string
  au_email :: string
  au_role :: "string option"

definition assertInvestor :: "auth_user \<Rightarrow> unit api" where
  "assertInvestor req = throwIf (au_role req \<noteq> Some ''investor'')
     (ForbiddenException ''Apenas investidores podem acessar este recurso'')"

definition investmentsController_create :: "auth_user \<Rightarrow> create_investment_dto \<Rightarrow> investment api" where
  "investmentsController_create req body =
     bindM (assertInvestor req) (\<lambda>_. investments_create (au_userId req) body)"

definition investmentsController_markAsPaid :: "auth_user \<Rightarrow> string \<Rightarrow> ptransaction api" where
  "investmentsController_markAsPaid req i = bindM (assertInvestor req) (\<lambda>_. markAsPaid i (au_userId req))"

definition investmentsController_buildOnchainDeposit :: "auth_user \<Rightarrow> string \<Rightarrow> deposit_stage \<Rightarrow> unsigned_tx api" where
  "investmentsController_buildOnchainDeposit req i stage =
     bindM (assertInvestor req) (\<lambda>_. buildDepositStage i (au_userId req) stage)"

definition investmentsController_submitOnchainDeposit ::
    "auth_user \<Rightarrow> string \<Rightarrow> submit_stage_dto \<Rightarrow> (string \<times> transaction_status) api" where
  "investmentsController_submitOnchainDeposit req i dto =
     bindM (assertInvestor req) (\<lambda>_. submitDepositStage i (au_userId req) dto)"

section \<open>Frames\<close>

lemma inv_setHashes_evo: "investment_evo i (inv_setHashes p n i)"
  by (simp add: investment_evo_def inv_setHashes_def)

lemma ptx_setCompleted_evo: "ptransaction_evo t (ptx_setCompleted h t)"
  by (simp add: ptransaction_evo_def ptx_setCompleted_def)

lemma find_row_invest_ok:
  "find_row rcv_id i rs = Some r \<Longrightarrow> rcv_userId r \<noteq> inv_investorUserId x \<Longrightarrow>
   inv_receivableId x = rcv_id r \<Longrightarrow> inv_faceValue x = rcv_value r \<Longrightarrow> invest_ok rs x"
  by (auto simp: invest_ok_def dest: find_row_SomeD)

lemma createInvestment_step:
  assumes "find_row rcv_id i (receivables w) = Some r" and "rcv_userId r \<noteq> u"
  shows "sound_step w (snd (createInvestment u (rcv_id r) (rcv_value r) a p E w))"
proof (cases "createInvestment u (rcv_id r) (rcv_value r) a p E w")
  case (Pair x v)
  then show ?thesis
    using find_row_invest_ok [OF assms(1)] assms(2)
      step_create_investment [OF Pair [unfolded createInvestment_def]] by simp
qed

lemma sound_bind:
  assumes "sound_step w (snd (m E w))" and "\<And>a. keepsR sound_step (f a)"
  shows "sound_step w (snd (bindM m f E w))"
proof (cases "m E w")
  case (Pair r v)
  then show ?thesis
    using assms(1) keepsR_run [OF assms(2), of v _ E] step.kept_trans
    by (auto simp: bindM_def split: sum.splits)
qed

lemma reserve_body_step [keeps]: "keepsR sound_step (reserve_body u d)"
proof (rule keepsRI)
  fix E and w :: world
  let ?rest = "\<lambda>r created. bindM (setReceivableActive (rcv_id r)) (\<lambda>_.
     bindM (recordAudit (inv_id created) u (rcv_id r) (amountPaid_of (rcv_value r)) (rcv_value r)) (\<lambda>_.
     retM (inv_id created, rcv_id r, amountPaid_of (rcv_value r))))"
  have k: "keepsR sound_step (?rest r c)" for r c
    unfolding setReceivableActive_def recordAudit_def by (intro keeps rcv_evos)
  have "sound_step w (snd (bindM (createInvestment u (rcv_id r) (rcv_value r) a p) (?rest r) E w))"
    if "find_row rcv_id (ci_receivableId d) (receivables w) = Some r" "rcv_userId r \<noteq> u" for r a p
    by (rule sound_bind, rule createInvestment_step [OF that], rule k)
  then show "sound_step w (snd (reserve_body u d E w))"
    by (auto simp: reserve_body_def findReceivableForUpdate_def Let_def step.kept_refl split: option.splits)
qed

lemma reserve_step [keeps]: "keepsR sound_step (reserve u d)"
  unfolding reserve_def by (intro keeps)

lemma settlePurchase_step [keeps]: "keepsR sound_step (settlePurchase u d r)"
  unfolding settlePurchase_def setBlockchainTxHashes_def by (intro keeps inv_setHashes_evo)

lemma investments_create_step [keeps]: "keepsR sound_step (investments_create u d)"
  unfolding investments_create_def by (intro keeps)

lemma investments_read_steps [keeps]:
  "keepsR sound_step (findManyByInvestor u)" "keepsR sound_step (getStatsByInvestor u)"
  "keepsR sound_step (findMyTransactions u)" "keepsR sound_step (findMyTransaction t u)"
  "keepsR sound_step (resolveInvestorAddress u)" "keepsR sound_step (loadApprovedDeposit t u)"
  unfolding findManyByInvestor_def getStatsByInvestor_def findMyTransactions_def findMyTransaction_def
    resolveInvestorAddress_def loadApprovedDeposit_def Let_def
  by (intro keeps)+

lemma markAsPaid_step [keeps]: "keepsR sound_step (markAsPaid t u)"
  unfolding markAsPaid_def by (intro keeps ptx_evos)

lemma buildDepositStage_step [keeps]: "keepsR sound_step (buildDepositStage t u s)"
  unfolding buildDepositStage_def by (intro keeps)

lemma submitDepositStage_step [keeps]: "keepsR sound_step (submitDepositStage t u d)"
  unfolding submitDepositStage_def by (intro keeps ptx_setCompleted_evo)

lemma assertInvestor_step [keeps]: "keepsR sound_step (assertInvestor r)"
  unfolding assertInvestor_def by (intro keeps)

section \<open>Properties\<close>

lemma reserve_Inr: "reserve u d E w = (Inr x, w') \<longleftrightarrow> reserve_body u d E w = (Inr x, w')"
  by (auto simp: reserve_def catchM_def transactionM_def split: prod.splits sum.splits if_splits)

lemma rcv_setStatus_same:
  assumes "distinct (map rcv_id t)" and "find_row rcv_id i t = Some r" and "rcv_status r = s"
  shows "upd_row rcv_id i (rcv_setStatus s) t = t"
proof -
  have "x = r" if "x \<in> set t" "rcv_id x = i" for x
    using find_row_distinct [OF assms(1) that(1)] that(2) assms(2) by simp
  then show ?thesis
    using assms(3) by (auto simp: upd_row_def rcv_setStatus_def intro!: map_idI)
qed

lemma createInvestment_Inr:
  assumes "createInvestment u k v a p E w = (Inr i, w')"
  shows "investments w' = investments w @ [i] \<and> receivables w' = receivables w \<and> auditLogs w' = auditLogs w
    \<and> inv_investorUserId i = u \<and> inv_receivableId i = k \<and> inv_faceValue i = v \<and> inv_amountPaid i = a
    \<and> inv_discountRate i = DISCOUNT_RATE \<and> inv_status i = IActive \<and> inv_paymentTxHash i = None
    \<and> inv_nftTransferTxHash i = None"
  using tinvestments.tab_create_Inr [OF assms [unfolded createInvestment_def]] by simp

lemma auditCreate_Inr:
  assumes "auditCreate x E w = (Inr l, w')"
  shows "auditLogs w' = auditLogs w @ [l] \<and> aud_event l = ai_event x \<and> aud_entityId l = ai_entityId x
    \<and> aud_userId l = ai_userId x \<and> aud_txHash l = ai_txHash x"
  using tauditLogs.tab_create_Inr [OF assms [unfolded auditCreate_def]] by simp

lemma reserve_body_Inr:
  assumes "reserve_body u d E w = (Inr (i, k, a), w')" and "db_ok w"
  shows "\<exists>r j l. find_row rcv_id (ci_receivableId d) (receivables w) = Some r \<and> k = rcv_id r
    \<and> rcv_status r = RActive \<and> rcv_userId r \<noteq> u \<and> find_row inv_receivableId k (investments w) = None
    \<and> a = amountPaid_of (rcv_value r) \<and> investments w' = investments w @ [j] \<and> inv_id j = i
    \<and> inv_investorUserId j = u \<and> inv_receivableId j = k \<and> inv_faceValue j = rcv_value r
    \<and> inv_amountPaid j = a \<and> inv_status j = IActive \<and> inv_paymentTxHash j = None
    \<and> inv_nftTransferTxHash j = None \<and> receivables w' = receivables w
    \<and> auditLogs w' = auditLogs w @ [l] \<and> aud_event l = ''investment.created'' \<and> aud_entityId l = i"
proof -
  from assms(1) obtain r j v1 r' v2 l where
    r: "find_row rcv_id (ci_receivableId d) (receivables w) = Some r" "k = rcv_id r" "rcv_status r = RActive"
      "rcv_userId r \<noteq> u" "find_row inv_receivableId k (investments w) = None" "a = amountPaid_of (rcv_value r)"
    and j: "createInvestment u (rcv_id r) (rcv_value r) a (ci_pixTxId d) E w = (Inr j, v1)" "inv_id j = i"
    and s: "setReceivableActive (rcv_id r) E v1 = (Inr r', v2)"
    and l: "recordAudit (inv_id j) u (rcv_id r) a (rcv_value r) E v2 = (Inr l, w')"
    by (auto simp: reserve_body_def findReceivableForUpdate_def ALLOWED_STATUSES_def Let_def
        elim!: bindM_InrE split: option.splits if_splits)
  note c = createInvestment_Inr [OF j(1)]
  have i: "rcv_id r = ci_receivableId d" using r(1) by (auto dest: find_row_SomeD)
  have "distinct (map rcv_id (receivables w))" using assms(2) by (simp add: db_ok_defs)
  from rcv_setStatus_same [OF this, of "rcv_id r" r RActive] r(1,3) i
  have "upd_row rcv_id (rcv_id r) (rcv_setStatus RActive) (receivables v1) = receivables w" using c by simp
  with s have v2: "receivables v2 = receivables w" "investments v2 = investments v1" "auditLogs v2 = auditLogs v1"
    by (auto simp: setReceivableActive_def rcv_update_def elim!: treceivables.tab_update_Inr)
  have "receivables w' = receivables v2" "investments w' = investments v2"
    using sameD' [OF auditCreate_frames(2), OF l [unfolded recordAudit_def]]
      sameD' [OF auditCreate_frames(6), OF l [unfolded recordAudit_def]] by simp_all
  with r j(2) c v2 auditCreate_Inr [OF l [unfolded recordAudit_def]] show ?thesis
    by (auto simp: audit_entry_def)
qed

text \<open>A reservation succeeds only for an active receivable of another user that nobody has invested in; it
  adds one investment of the face value at the discounted price, without payment hashes, and one audit
  entry, and leaves the receivables as they are.\<close>

theorem reserve_success:
  assumes "reserve u d E w = (Inr (i, k, a), w')" and "db_ok w"
  shows "\<exists>r j l. find_row rcv_id (ci_receivableId d) (receivables w) = Some r \<and> k = rcv_id r
    \<and> rcv_status r = RActive \<and> rcv_userId r \<noteq> u \<and> find_row inv_receivableId k (investments w) = None
    \<and> a = amountPaid_of (rcv_value r) \<and> investments w' = investments w @ [j] \<and> inv_id j = i
    \<and> inv_investorUserId j = u \<and> inv_receivableId j = k \<and> inv_faceValue j = rcv_value r
    \<and> inv_amountPaid j = a \<and> inv_status j = IActive \<and> inv_paymentTxHash j = None
    \<and> inv_nftTransferTxHash j = None \<and> receivables w' = receivables w
    \<and> auditLogs w' = auditLogs w @ [l] \<and> aud_event l = ''investment.created'' \<and> aud_entityId l = i"
  using reserve_body_Inr [OF assms(1) [unfolded reserve_Inr] assms(2)] .

text \<open>A reservation that fails changes no table, whatever its body wrote before the failure: the clock,
  the identifier supply and the trace of calls are all that may differ.\<close>

theorem reserve_rollback:
  assumes "reserve u d E w = (Inl e, w')"
  shows "w' = w\<lparr>w_now := w_now w', w_ticks := w_ticks w', w_ids := w_ids w', w_trace := w_trace w'\<rparr>"
  using assms by (auto simp: reserve_def catchM_def transactionM_def split: prod.splits sum.splits if_splits)

lemma reserve_taken_Inl:
  assumes "find_row rcv_id (ci_receivableId d) (receivables w) = Some r"
    and "find_row inv_receivableId (ci_receivableId d) (investments w) \<noteq> None"
  shows "reserve u d E w = (Inl unavailable, w)"
proof -
  have "rcv_id r = ci_receivableId d" using assms(1) by (auto dest: find_row_SomeD)
  with assms have b: "reserve_body u d E w = (Inl unavailable, w)"
    by (auto simp: reserve_body_def findReceivableForUpdate_def)
  then have "transactionM (reserve_body u d) E w = (Inl unavailable, w)"
    by (simp add: transactionM_def)
  then show ?thesis by (simp add: reserve_def catchM_def unavailable_def)
qed

lemma evolves_investment:
  assumes "evolves w v" and "find_row inv_receivableId k (investments w) \<noteq> None"
  shows "find_row inv_receivableId k (investments v) \<noteq> None"
proof -
  from assms(2) obtain i where "find_row inv_receivableId k (investments w) = Some i" by blast
  with assms(1) grows_find_row [of investment_evo "investments w" "investments v" inv_receivableId k i]
  show ?thesis by (auto simp: evolves_def investment_evo_def)
qed

text \<open>A receivable is sold at most once: after a reservation, whatever happens to the database, every
  later reservation of the same receivable, by any user, is refused as unavailable.\<close>

theorem reserve_once:
  assumes "reserve u d E w = (Inr x, w')" and "db_ok w" and "evolves w' v"
    and "ci_receivableId d' = ci_receivableId d"
  shows "reserve u' d' E' v = (Inl unavailable, v)"
proof -
  obtain i k a where x: "x = (i, k, a)" by (cases x)
  from reserve_body_Inr [OF assms(1) [unfolded reserve_Inr x] assms(2)] obtain r j where
    r: "find_row rcv_id (ci_receivableId d) (receivables w) = Some r" "receivables w' = receivables w"
    and j: "investments w' = investments w @ [j]" "inv_receivableId j = rcv_id r" by auto
  have "rcv_id r = ci_receivableId d" using r(1) by (auto dest: find_row_SomeD)
  with j have "find_row inv_receivableId (ci_receivableId d) (investments w') \<noteq> None"
    by (auto simp: find_row_append find_row_Cons split: option.split)
  from evolves_investment [OF assms(3) this] evolves_receivable [OF assms(3)] r assms(4) show ?thesis
    by (metis reserve_taken_Inl)
qed

lemma purchase_Inl:
  assumes "db_ok w" and "biz_ok w"
  shows "\<exists>e v. investments_create u d E w = (Inl e, v)"
proof (rule ccontr)
  assume "\<not> ?thesis"
  then obtain x v where "investments_create u d E w = (Inr x, v)"
    by (cases "investments_create u d E w"; cases "fst (investments_create u d E w)") auto
  then obtain i k a w1 w2 where r: "reserve u d E w = (Inr (i, k, a), w1)"
    and c: "consume \<lparr>cs_authorizationId = ci_authorizationId d, cs_userId = u,
        cs_operation = OpInvestmentPurchase, cs_resourceId = Some k,
        cs_amount = Some (toFixed 2 a), cs_destination = None\<rparr> E w1 = (Inr (), w2)"
    and p: "\<exists>h w3. chargeInvestor u a k E w2 = (Inr h, w3)"
    unfolding investments_create_def settlePurchase_def by (auto elim!: bindM_InrE split: prod.splits)
  have s1: "db_ok w1" "biz_ok w1" using keepsRD [OF reserve_step, OF r] assms by (simp_all add: sound_step_def)
  have s2: "evolves w1 w2" "db_ok w2" using keepsRD [OF consume_step, OF c] s1 by (simp_all add: sound_step_def)
  from consume_InrD [OF c s1(1)] obtain b where "b \<in> set (finauths w1)" "fa_userId b = u" "fa_verifiedAt b \<noteq> None"
    by (auto simp: authorizes_def dest: find_row_SomeD)
  with s1(2) have "has_privy (users w1) u" by (auto simp: biz_ok_def)
  then obtain y where y: "y \<in> set (users w1)" "usr_id y = u" "\<not> falsy (usr_privyStellarWalletAddress y)"
    by (auto simp: has_privy_def)
  have "distinct (map usr_id (users w1))" using s1(1) by (simp add: db_ok_defs)
  from find_row_distinct [OF this y(1)] y(2) have "find_row usr_id u (users w1) = Some y" by simp
  from evolves_user [OF s2(1) this] obtain z where "find_row usr_id u (users w2) = Some z" "user_evo y z" by blast
  with y(3) chargeInvestor_privy [of u w2 z a k E] p show False by (auto simp: user_evo_def)
qed

end
