(* ===== verification/Admin.thy ===== *)
theory Admin
  imports Investments
begin

text \<open>
  \<open>modules/admin\<close>: the operator's service and controller: users, validation of receivables, manual
  deposits and the approval of transactions. Every route is for the role operator.
\<close>

record create_user_dto =
  cu_email :: string
  cu_role :: string
  cu_name :: string
  cu_cnpj :: "string option"
  cu_companyName :: "string option"
  cu_monthlyRevenue :: "rat option"
  cu_riskProfile :: "string option"
  cu_operationalLimit :: "rat option"

record create_deposit_dto =
  cdp_userId :: string
  cdp_amount :: rat

datatype approve_status = ApproveIt | RejectIt

definition blank_user :: "string \<Rightarrow> int \<Rightarrow> string \<Rightarrow> string \<Rightarrow> user" where
  "blank_user i t email provider =
     \<lparr>usr_id = i, usr_email = email, usr_passwordHash = None, usr_googleId = None, usr_provider = provider,
      usr_role = None, usr_name = None, usr_stellarWalletId = None, usr_passkeyId = None,
      usr_passkeyPublicKey = None, usr_walletType = None, usr_walletStatus = None, usr_privyUserId = None,
      usr_privyStellarWalletAddress = None, usr_privyWalletStatus = None, usr_phone = None,
      usr_address = None, usr_companyName = None, usr_cnpj = None, usr_monthlyRevenue = None,
      usr_sector = None, usr_investorType = None, usr_riskProfile = None, usr_operationalLimit = None,
      usr_createdAt = t\<rparr>"

definition findByEmail :: "string \<Rightarrow> user option api" where
  "findByEmail email = findUniqueM users usr_email email"

definition user_create :: "(string \<Rightarrow> int \<Rightarrow> user) \<Rightarrow> user api" where
  "user_create mk = createM users users_update usr_id chk_user mk"

definition user_update :: "string \<Rightarrow> (user \<Rightarrow> user) \<Rightarrow> user api" where
  "user_update i f = updateM users users_update usr_id chk_user i f"

definition admin_createUser :: "create_user_dto \<Rightarrow> user api" where
  "admin_createUser dto =
     bindM (findByEmail (cu_email dto)) (\<lambda>existing.
     bindM (throwIf (existing \<noteq> None) (BadRequestException ''E-mail ja cadastrado na plataforma'')) (\<lambda>_.
     user_create (\<lambda>i t. (blank_user i t (cu_email dto) ''privy'')\<lparr>
       usr_role := Some (cu_role dto), usr_name := Some (cu_name dto), usr_cnpj := cu_cnpj dto,
       usr_companyName := cu_companyName dto, usr_monthlyRevenue := cu_monthlyRevenue dto,
       usr_riskProfile := cu_riskProfile dto, usr_operationalLimit := cu_operationalLimit dto\<rparr>)))"

definition admin_listUsers :: "user list api" where
  "admin_listUsers = bindM (findManyM users (\<lambda>_. True)) (\<lambda>us. retM (order_desc usr_createdAt us))"

definition admin_listPendingReceivables :: "(receivable \<times> user option) list api" where
  "admin_listPendingReceivables = getsM (\<lambda>w.
     map (\<lambda>r. (r, find_row usr_id (rcv_userId r) (users w)))
       (order_desc rcv_createdAt (filter (\<lambda>r. rcv_status r = RPending) (receivables w))))"

definition findPendingReceivable :: "string \<Rightarrow> receivable api" where
  "findPendingReceivable i =
     bindM (findUniqueM receivables rcv_id i) (\<lambda>found.
     bindM (someOr found (NotFoundException ''Recebivel nao encontrado'')) (\<lambda>receivable.
     bindM (throwIf (rcv_status receivable \<noteq> RPending)
              (BadRequestException ''Este recebivel nao esta com status pendente'')) (\<lambda>_.
     retM receivable)))"

definition approveReceivable :: "string \<Rightarrow> string \<Rightarrow> receivable_response api" where
  "approveReceivable i operatorId =
     bindM (findPendingReceivable i) (\<lambda>_.
     bindM (rcv_update i (rcv_setStatus RValidated)) (\<lambda>_.
     bindM (auditCreate (audit_entry ''receivable.validated'' i ''receivable'' operatorId
              [(''approvedByOperator'', JBool True)])) (\<lambda>_.
     tokenize i)))"

definition rejectReceivable :: "string \<Rightarrow> string \<Rightarrow> receivable api" where
  "rejectReceivable i operatorId =
     bindM (findPendingReceivable i) (\<lambda>_.
     bindM (rcv_update i (rcv_setStatus RRejected)) (\<lambda>updated.
     bindM (auditCreate (audit_entry ''receivable.rejected'' i ''receivable'' operatorId
              [(''rejectedByOperator'', JBool True)])) (\<lambda>_.
     retM updated)))"

definition listPendingTransactions :: "(ptransaction \<times> user option) list api" where
  "listPendingTransactions = getsM (\<lambda>w.
     map (\<lambda>t. (t, find_row usr_id (ptx_userId t) (users w)))
       (order_desc ptx_createdAt (filter (\<lambda>t. ptx_status t \<in> {TPending, TPaymentSubmitted}) (ptransactions w))))"

definition admin_createDeposit :: "create_deposit_dto \<Rightarrow> string \<Rightarrow> ptransaction api" where
  "admin_createDeposit dto operatorId =
     bindM (findUniqueM users usr_id (cdp_userId dto)) (\<lambda>investor.
     bindM (throwIf (investor = None) (NotFoundException ''Investidor nao encontrado'')) (\<lambda>_.
     bindM (ptx_create (cdp_userId dto) ''DEPOSIT'' (cdp_amount dto) TPendingPayment None None) (\<lambda>transaction.
     bindM (auditCreate (audit_entry ''pool.deposit_order_created'' (ptx_id transaction) ''transaction'' operatorId
              [(''amount'', JNum (cdp_amount dto)), (''investorId'', JStr (cdp_userId dto))])) (\<lambda>_.
     retM transaction))))"

definition ptx_setRejected :: "string \<Rightarrow> ptransaction \<Rightarrow> ptransaction" where
  "ptx_setRejected by' t = t\<lparr>ptx_status := TRejected, ptx_approvedBy := Some by'\<rparr>"

definition ptx_setApproved :: "string \<Rightarrow> string \<Rightarrow> ptransaction \<Rightarrow> ptransaction" where
  "ptx_setApproved by' h t = t\<lparr>ptx_status := TApproved, ptx_approvedBy := Some by', ptx_txHash := Some h\<rparr>"

text \<open>The chain action of an approved transaction.\<close>

definition approve_action :: "ptransaction \<Rightarrow> string api" where
  "approve_action transaction =
     (if ptx_type transaction = ''DEPOSIT'' then
        bindM (findUniqueM users usr_id (ptx_userId transaction)) (\<lambda>found.
        bindM (someOr found (NotFoundException ''Usuario investidor nao encontrado'')) (\<lambda>user.
        let walletAddress = orElse (usr_privyStellarWalletAddress user) (usr_stellarWalletId user) in
        bindM (throwIf (falsy walletAddress)
                 (BadRequestException ''Investidor nao possui uma carteira Stellar configurada'')) (\<lambda>_.
        mintBrlt (the walletAddress) (ptx_amount transaction))))
      else if ptx_type transaction = ''WITHDRAWAL'' then
        withdrawFromPool (ptx_userId transaction) (ptx_amount transaction)
      else throwM (BadRequestException ''Tipo de transacao invalido''))"

definition approveTransaction :: "string \<Rightarrow> string \<Rightarrow> approve_status \<Rightarrow> ptransaction api" where
  "approveTransaction i operatorId status =
     bindM (findUniqueM ptransactions ptx_id i) (\<lambda>found.
     bindM (someOr found (NotFoundException ''Transacao nao encontrada'')) (\<lambda>transaction.
     bindM (throwIf (ptx_status transaction \<noteq> TPending \<and> ptx_status transaction \<noteq> TPaymentSubmitted)
              (BadRequestException ''Esta transacao nao esta pendente de aprovacao'')) (\<lambda>_.
     if status = RejectIt then ptx_update i (ptx_setRejected operatorId)
     else
       bindM (approve_action transaction) (\<lambda>txHash.
       bindM (ptx_update i (ptx_setApproved operatorId txHash)) (\<lambda>updated.
       bindM (auditCreate (audit_entry_tx (''pool.'' @ toLowerCase (ptx_type transaction)) i ''transaction''
                (ptx_userId transaction) txHash
                [(''amount'', JNum (ptx_amount transaction)), (''approvedBy'', JStr operatorId)])) (\<lambda>_.
       retM updated))))))"

section \<open>Controller\<close>

definition assertOperator :: "auth_user \<Rightarrow> unit api" where
  "assertOperator req = throwIf (au_role req \<noteq> Some ''operator'')
     (ForbiddenException ''Apenas operadores da plataforma podem acessar este recurso'')"

text \<open>\<open>/^G[A-Z2-7]{55}$/\<close>\<close>

definition is_base32 :: "char \<Rightarrow> bool" where
  "is_base32 c \<longleftrightarrow> (let n = of_char c :: int in 65 \<le> n \<and> n \<le> 90 \<or> 50 \<le> n \<and> n \<le> 55)"

definition stellar_address :: "string \<Rightarrow> bool" where
  "stellar_address a \<longleftrightarrow> a \<noteq> [] \<and> hd a = CHR ''G'' \<and> length a = 56 \<and> list_all is_base32 (tl a)"

definition adminController_createUser :: "auth_user \<Rightarrow> create_user_dto \<Rightarrow> user api" where
  "adminController_createUser req body = bindM (assertOperator req) (\<lambda>_. admin_createUser body)"

definition adminController_approveReceivable :: "auth_user \<Rightarrow> string \<Rightarrow> receivable_response api" where
  "adminController_approveReceivable req i =
     bindM (assertOperator req) (\<lambda>_. approveReceivable i (au_userId req))"

definition adminController_rejectReceivable :: "auth_user \<Rightarrow> string \<Rightarrow> receivable api" where
  "adminController_rejectReceivable req i =
     bindM (assertOperator req) (\<lambda>_. rejectReceivable i (au_userId req))"

definition adminController_createDeposit :: "auth_user \<Rightarrow> create_deposit_dto \<Rightarrow> ptransaction api" where
  "adminController_createDeposit req body =
     bindM (assertOperator req) (\<lambda>_. admin_createDeposit body (au_userId req))"

definition adminController_approveTransaction :: "auth_user \<Rightarrow> string \<Rightarrow> approve_status \<Rightarrow> ptransaction api" where
  "adminController_approveTransaction req i status =
     bindM (assertOperator req) (\<lambda>_. approveTransaction i (au_userId req) status)"

definition adminController_getPoolStatus :: "auth_user \<Rightarrow> pool_status api" where
  "adminController_getPoolStatus req = bindM (assertOperator req) (\<lambda>_. getPoolStatus)"

definition adminController_getInvestorShares :: "auth_user \<Rightarrow> string option \<Rightarrow> investor_shares api" where
  "adminController_getInvestorShares req address =
     bindM (assertOperator req) (\<lambda>_.
     bindM (throwIf (falsy address \<or> \<not> stellar_address (the address))
              (BadRequestException ''Endereco Stellar invalido'')) (\<lambda>_.
     getInvestorShares (the address)))"

section \<open>Frames\<close>

lemma ptx_admin_evos: "ptransaction_evo t (ptx_setRejected o' t)" "ptransaction_evo t (ptx_setApproved o' h t)"
  by (simp_all add: ptransaction_evo_def ptx_setRejected_def ptx_setApproved_def)

lemma user_create_step [keeps]: "keepsR sound_step (user_create mk)"
  unfolding user_create_def by (intro keeps)

lemma user_update_step [keeps]: "(\<And>u. user_evo u (f u)) \<Longrightarrow> keepsR sound_step (user_update i f)"
  unfolding user_update_def by (intro keeps)

lemma findByEmail_step [keeps]: "keepsR sound_step (findByEmail e)"
  unfolding findByEmail_def by (intro keeps)

lemma admin_createUser_step [keeps]: "keepsR sound_step (admin_createUser d)"
  unfolding admin_createUser_def by (intro keeps)

lemma admin_read_steps [keeps]:
  "keepsR sound_step admin_listUsers" "keepsR sound_step admin_listPendingReceivables"
  "keepsR sound_step (findPendingReceivable i)" "keepsR sound_step listPendingTransactions"
  "keepsR sound_step (assertOperator r)"
  unfolding admin_listUsers_def admin_listPendingReceivables_def findPendingReceivable_def
    listPendingTransactions_def assertOperator_def
  by (intro keeps)+

lemma approveReceivable_step [keeps]: "keepsR sound_step (approveReceivable i o')"
  unfolding approveReceivable_def by (intro keeps rcv_evos)

lemma rejectReceivable_step [keeps]: "keepsR sound_step (rejectReceivable i o')"
  unfolding rejectReceivable_def by (intro keeps rcv_evos)

lemma admin_createDeposit_step [keeps]: "keepsR sound_step (admin_createDeposit d o')"
  unfolding admin_createDeposit_def by (intro keeps)

lemma approve_action_step [keeps]: "keepsR sound_step (approve_action t)"
  unfolding approve_action_def Let_def by (intro keeps)

lemma approveTransaction_step [keeps]: "keepsR sound_step (approveTransaction i o' s)"
  unfolding approveTransaction_def by (intro keeps ptx_admin_evos)

section \<open>Properties\<close>

text \<open>Every route of the operator refuses a caller with another role, before it reads or writes
  anything.\<close>

theorem admin_routes_guarded:
  assumes "au_role req \<noteq> Some ''operator''"
  shows "let denied = ForbiddenException ''Apenas operadores da plataforma podem acessar este recurso'' in
    adminController_createUser req cu E w = (Inl denied, w)
    \<and> adminController_approveReceivable req i E w = (Inl denied, w)
    \<and> adminController_rejectReceivable req i E w = (Inl denied, w)
    \<and> adminController_createDeposit req cd E w = (Inl denied, w)
    \<and> adminController_approveTransaction req i st E w = (Inl denied, w)
    \<and> adminController_getPoolStatus req E w = (Inl denied, w)"
  using assms
  by (simp add: assertOperator_def adminController_createUser_def adminController_approveReceivable_def
      adminController_rejectReceivable_def adminController_createDeposit_def
      adminController_approveTransaction_def adminController_getPoolStatus_def)

lemma ptx_update_Inr:
  assumes "ptx_update i f E w = (Inr t, w')"
  shows "\<exists>t0. find_row ptx_id i (ptransactions w) = Some t0 \<and> t = f t0
    \<and> ptransactions w' = upd_row ptx_id i f (ptransactions w) \<and> auditLogs w' = auditLogs w"
  using assms by (auto simp: ptx_update_def elim!: tptransactions.tab_update_Inr)

lemma approve_action_frames:
  "keepsR (same ptransactions) (approve_action t)" "keepsR (same auditLogs) (approve_action t)"
  unfolding approve_action_def Let_def by (intro keeps)+

lemma approve_action_Inr:
  assumes "approve_action t E w = (Inr h, w')"
  shows "ptx_type t = ''DEPOSIT'' \<and> (\<exists>u a. find_row usr_id (ptx_userId t) (users w) = Some u
      \<and> orElse (usr_privyStellarWalletAddress u) (usr_stellarWalletId u) = Some a \<and> a \<noteq> []
      \<and> mintBrlt a (ptx_amount t) E w = (Inr h, w'))
    \<or> ptx_type t = ''WITHDRAWAL'' \<and> withdrawFromPool (ptx_userId t) (ptx_amount t) E w = (Inr h, w')"
  using assms by (auto simp: approve_action_def Let_def elim!: not_falsyE split: if_splits option.splits)

text \<open>An operator approves only a transaction that is pending or reported as paid. The approval runs
  exactly one action on chain, the mint of the transaction's amount to the wallet of its user for a
  deposit or the withdrawal from the pool, stores its hash with the operator in this row alone, and
  writes one audit entry; a second decision on the same transaction is then refused.\<close>

theorem approveTransaction_success:
  assumes "approveTransaction i op ApproveIt E w = (Inr t, w')"
  shows "\<exists>t0 h v l. find_row ptx_id i (ptransactions w) = Some t0 \<and> ptx_status t0 \<in> {TPending, TPaymentSubmitted}
    \<and> (ptx_type t0 = ''DEPOSIT'' \<and> (\<exists>u a. find_row usr_id (ptx_userId t0) (users w) = Some u
          \<and> orElse (usr_privyStellarWalletAddress u) (usr_stellarWalletId u) = Some a
          \<and> mintBrlt a (ptx_amount t0) E w = (Inr h, v))
       \<or> ptx_type t0 = ''WITHDRAWAL'' \<and> withdrawFromPool (ptx_userId t0) (ptx_amount t0) E w = (Inr h, v))
    \<and> t = ptx_setApproved op h t0
    \<and> ptransactions w' = upd_row ptx_id i (ptx_setApproved op h) (ptransactions w)
    \<and> auditLogs w' = auditLogs w @ [l] \<and> aud_txHash l = Some h \<and> aud_entityId l = i
    \<and> (\<forall>op' s' E'. approveTransaction i op' s' E' w' =
         (Inl (BadRequestException ''Esta transacao nao esta pendente de aprovacao''), w'))"
proof -
  from assms obtain t0 h v t1 v1 l where
    t0: "find_row ptx_id i (ptransactions w) = Some t0" "ptx_status t0 \<in> {TPending, TPaymentSubmitted}"
    and a: "approve_action t0 E w = (Inr h, v)"
    and u: "ptx_update i (ptx_setApproved op h) E v = (Inr t, v1)"
    and l: "auditCreate (audit_entry_tx (''pool.'' @ toLowerCase (ptx_type t0)) i ''transaction''
        (ptx_userId t0) h [(''amount'', JNum (ptx_amount t0)), (''approvedBy'', JStr op)]) E v1 = (Inr l, w')"
    by (auto simp: approveTransaction_def elim!: bindM_InrE split: option.splits if_splits)
  have v: "ptransactions v = ptransactions w" "auditLogs v = auditLogs w"
    using sameD' [OF approve_action_frames(1), OF a] sameD' [OF approve_action_frames(2), OF a] by simp_all
  have w': "ptransactions w' = ptransactions v1" using sameD' [OF auditCreate_frames(7), OF l] .
  have p: "ptransactions w' = upd_row ptx_id i (ptx_setApproved op h) (ptransactions w)" "t = ptx_setApproved op h t0"
    "auditLogs v1 = auditLogs w"
    using ptx_update_Inr [OF u] v w' t0 by auto
  have "find_row ptx_id i (ptransactions w') = Some t"
    using t0 p by (simp add: find_row_upd_row ptx_setApproved_def)
  then have again: "approveTransaction i op' s' E' w' =
      (Inl (BadRequestException ''Esta transacao nao esta pendente de aprovacao''), w')" for op' s' E'
    using p(2) by (simp add: approveTransaction_def ptx_setApproved_def)
  have "aud_txHash l = Some h \<and> aud_entityId l = i \<and> auditLogs w' = auditLogs w @ [l]"
    using auditCreate_Inr [OF l] p(3) by (simp add: audit_entry_tx_def audit_entry_def)
  with t0 approve_action_Inr [OF a] p(1,2) again show ?thesis by blast
qed

end
