(* ===== verification/Auth.thy ===== *)
theory Auth
  imports Admin
begin

text \<open>
  \<open>modules/auth\<close> (service, Privy session, controller) and \<open>modules/stellar-wallet\<close>. Hashing of
  passwords, the signature of tokens, Google and Privy are parameters. The funding of a wallet that
  \<open>privySession\<close> starts and does not wait for runs here before the token is issued; a failure of it
  is ignored.
\<close>

record token_result =
  tr_accessToken :: string
  tr_id :: string
  tr_email :: string
  tr_role :: "string option"

record session_result =
  sr_token :: token_result
  sr_wallet :: "string option"
  sr_walletStatus :: "string option"
  sr_needsRoleSelection :: bool

record register_dto =
  rg_email :: string
  rg_password :: string
  rg_role :: "string option"

text \<open>A field that is missing keeps its column, an explicit \<open>null\<close> clears it.\<close>

record profile_dto =
  pf_name :: "string option option"
  pf_phone :: "string option option"
  pf_address :: "string option option"
  pf_companyName :: "string option option"
  pf_cnpj :: "string option option"
  pf_monthlyRevenue :: "rat option option"
  pf_sector :: "string option option"
  pf_investorType :: "string option option"
  pf_riskProfile :: "string option option"
  pf_operationalLimit :: "rat option option"

definition value_of :: "'a option option \<Rightarrow> 'a option" where
  "value_of d = Option.bind d (\<lambda>v. v)"

definition written :: "'a option option \<Rightarrow> 'a option \<Rightarrow> 'a option" where
  "written d old = (case d of None \<Rightarrow> old | Some v \<Rightarrow> v)"

definition SECTORS :: "string list" where
  "SECTORS = [''tecnologia'', ''varejo'', ''industria'', ''servicos'', ''agronegocio'', ''saude'',
     ''construcao'', ''transporte'', ''educacao'', ''financeiro'']"

definition optIn :: "string option \<Rightarrow> string list \<Rightarrow> bool" where
  "optIn v xs \<longleftrightarrow> (case v of None \<Rightarrow> True | Some s \<Rightarrow> s \<in> set xs)"

definition optMin0 :: "rat option \<Rightarrow> bool" where
  "optMin0 v \<longleftrightarrow> (case v of None \<Rightarrow> True | Some x \<Rightarrow> 0 \<le> x)"

definition valid_profile_dto :: "profile_dto \<Rightarrow> bool" where
  "valid_profile_dto d \<longleftrightarrow> optMin0 (value_of (pf_monthlyRevenue d)) \<and> optIn (value_of (pf_sector d)) SECTORS
     \<and> optIn (value_of (pf_investorType d)) [''pf'', ''pj'']
     \<and> optIn (value_of (pf_riskProfile d)) [''conservador'', ''moderado'', ''arrojado'']
     \<and> optMin0 (value_of (pf_operationalLimit d))"

definition valid_register_dto :: "(string \<Rightarrow> bool) \<Rightarrow> register_dto \<Rightarrow> bool" where
  "valid_register_dto isEmail d \<longleftrightarrow> isEmail (rg_email d) \<and> 8 \<le> length (rg_password d)
     \<and> optIn (rg_role d) [''pme'', ''investor'', ''partner'']"

definition issueToken :: "string \<Rightarrow> string \<Rightarrow> string option \<Rightarrow> token_result api" where
  "issueToken sub email role = asksM (\<lambda>E.
     \<lparr>tr_accessToken = e_jwtSign E sub email role, tr_id = sub, tr_email = email, tr_role = role\<rparr>)"

definition tokenFor :: "user \<Rightarrow> token_result api" where
  "tokenFor u = issueToken (usr_id u) (usr_email u) (usr_role u)"

definition bcryptHash :: "string \<Rightarrow> string api" where
  "bcryptHash p = callM (BcryptHash p) (\<lambda>E t. e_bcryptHash E t p)"

definition bcryptCompare :: "string \<Rightarrow> string \<Rightarrow> bool api" where
  "bcryptCompare p h = callM (BcryptCompare p h) (\<lambda>E t. e_bcryptCompare E t p h)"

definition register :: "register_dto \<Rightarrow> token_result api" where
  "register dto =
     bindM (findByEmail (rg_email dto)) (\<lambda>existing.
     bindM (throwIf (existing \<noteq> None) (ConflictException ''Email already registered'')) (\<lambda>_.
     bindM (bcryptHash (rg_password dto)) (\<lambda>h.
     bindM (user_create (\<lambda>i t. (blank_user i t (rg_email dto) ''email'')\<lparr>usr_passwordHash := Some h,
              usr_role := nullish (rg_role dto) (Some ''pme'')\<rparr>)) (\<lambda>user.
     tokenFor user))))"

definition login :: "string \<Rightarrow> string \<Rightarrow> token_result api" where
  "login email password =
     bindM (findByEmail email) (\<lambda>found.
     bindM (someOr (Option.bind found (\<lambda>u. if falsy (usr_passwordHash u) then None else Some u))
              (UnauthorizedException ''Invalid credentials'')) (\<lambda>user.
     bindM (bcryptCompare password (the (usr_passwordHash user))) (\<lambda>ok.
     bindM (throwIf (\<not> ok) (UnauthorizedException ''Invalid credentials'')) (\<lambda>_.
     tokenFor user))))"

definition not_whitelisted :: exn where
  "not_whitelisted = UnauthorizedException
     ''Seu e-mail nao esta cadastrado na plataforma. Por favor, entre em contato com o administrador.''"

definition googleVerify :: "string \<Rightarrow> google_payload option api" where
  "googleVerify idToken = catchM (callM (GoogleVerify idToken) (\<lambda>E t. e_googleVerify E t idToken))
     (\<lambda>_. throwM (UnauthorizedException ''Invalid Google credentials''))"

definition googleLogin :: "string \<Rightarrow> session_result api" where
  "googleLogin idToken =
     bindM (confM ''GOOGLE_CLIENT_ID'') (\<lambda>clientId.
     bindM (throwIf (falsy clientId) (BadRequestException ''Google login not configured'')) (\<lambda>_.
     bindM (googleVerify idToken) (\<lambda>found.
     bindM (someOr (Option.bind found (\<lambda>p. if falsy (gp_sub p) \<or> falsy (gp_email p) then None else Some p))
              (UnauthorizedException ''Invalid Google credentials'')) (\<lambda>payload.
     bindM (throwIf (\<not> gp_email_verified payload) (ForbiddenException ''Google email not verified'')) (\<lambda>_.
     bindM (findUniqueM users usr_googleId (gp_sub payload)) (\<lambda>byGoogle.
     bindM (case byGoogle of
              Some u \<Rightarrow> retM u
            | None \<Rightarrow>
                bindM (findByEmail (the (gp_email payload))) (\<lambda>byEmail.
                case byEmail of
                  None \<Rightarrow> throwM not_whitelisted
                | Some u \<Rightarrow>
                    if falsy (usr_googleId u)
                    then user_update (usr_id u) (\<lambda>x. x\<lparr>usr_googleId := gp_sub payload\<rparr>)
                    else retM u)) (\<lambda>user.
     bindM (tokenFor user) (\<lambda>token.
     retM \<lparr>sr_token = token, sr_wallet = usr_stellarWalletId user, sr_walletStatus = None,
           sr_needsRoleSelection = (usr_role user = None)\<rparr>))))))))"

section \<open>Privy sessions\<close>

record privy_session =
  pv_userId :: string
  pv_email :: string
  pv_wallet :: string

fun findEmailAddress :: "linked_account list \<Rightarrow> string option" where
  "findEmailAddress [] = None"
| "findEmailAddress (EmailAccount a # xs) =
     (if trim a \<noteq> [] then Some (toLowerCase (trim a)) else findEmailAddress xs)"
| "findEmailAddress (GoogleOauthAccount a # xs) =
     (if trim a \<noteq> [] then Some (toLowerCase (trim a)) else findEmailAddress xs)"
| "findEmailAddress (_ # xs) = findEmailAddress xs"

text \<open>A wallet account carries its chain type, its client type and its address.\<close>

fun findStellarWalletAddress :: "linked_account list \<Rightarrow> string option" where
  "findStellarWalletAddress [] = None"
| "findStellarWalletAddress (WalletAccount chain client a # xs) =
     (if chain = ''stellar'' \<and> client = ''privy'' \<and> trim a \<noteq> [] then Some (trim a)
      else findStellarWalletAddress xs)"
| "findStellarWalletAddress (_ # xs) = findStellarWalletAddress xs"

fun isUnauthorized :: "exn \<Rightarrow> bool" where
  "isUnauthorized (UnauthorizedException m) = True"
| "isUnauthorized _ = False"

definition verifySession :: "string \<Rightarrow> string \<Rightarrow> privy_session api" where
  "verifySession accessToken identityToken =
     bindM (throwIf (trim accessToken = [] \<or> trim identityToken = [])
              (UnauthorizedException ''Privy access and identity tokens are required'')) (\<lambda>_.
     catchM
       (bindM (callM (PrivyVerifyAccess accessToken) (\<lambda>E t. e_privyAccess E t accessToken)) (\<lambda>claims.
        bindM (callM (PrivyVerifyIdentity identityToken) (\<lambda>E t. e_privyIdentity E t identityToken)) (\<lambda>identity.
        bindM (throwIf (falsy claims \<or> falsy identity \<or> claims \<noteq> identity)
                 (UnauthorizedException ''Privy tokens belong to different users'')) (\<lambda>_.
        bindM (callM (PrivyGetUser (the claims)) (\<lambda>E t. e_privyUser E t (the claims))) (\<lambda>accounts.
        bindM (someOr (findEmailAddress accounts)
                 (UnauthorizedException ''Privy account must have a verified email address'')) (\<lambda>email.
        bindM (someOr (findStellarWalletAddress accounts)
                 (UnauthorizedException
                    ''Privy Stellar embedded wallet must be created before session exchange'')) (\<lambda>wallet.
        retM \<lparr>pv_userId = the claims, pv_email = email, pv_wallet = wallet\<rparr>)))))))
       (\<lambda>e. if isUnauthorized e then throwM e
            else throwM (UnauthorizedException ''Invalid Privy session'')))"

definition setPrivy :: "privy_session \<Rightarrow> user \<Rightarrow> user" where
  "setPrivy s u = u\<lparr>usr_provider := ''privy'', usr_privyUserId := Some (pv_userId s),
     usr_privyStellarWalletAddress := Some (pv_wallet s), usr_privyWalletStatus := Some ''ready''\<rparr>"

definition privy_login :: "privy_session \<Rightarrow> user api" where
  "privy_login s =
     bindM (findUniqueM users usr_privyUserId (Some (pv_userId s))) (\<lambda>found.
     case found of
       Some u \<Rightarrow> user_update (usr_id u) (setPrivy s)
     | None \<Rightarrow>
         bindM (findByEmail (pv_email s)) (\<lambda>byEmail.
         case byEmail of
           Some u \<Rightarrow> user_update (usr_id u) (setPrivy s)
         | None \<Rightarrow> throwM not_whitelisted))"

definition fundQuietly :: "string \<Rightarrow> unit api" where
  "fundQuietly address = catchM (bindM (fundAccountFromPlatform address ''1.0'') (\<lambda>_. retM ())) (\<lambda>_. retM ())"

definition privySession :: "string \<Rightarrow> string \<Rightarrow> session_result api" where
  "privySession accessToken identityToken =
     bindM (verifySession accessToken identityToken) (\<lambda>identity.
     bindM (privy_login identity) (\<lambda>user.
     bindM (asksM isMainnet) (\<lambda>mainnet.
     bindM (if pv_wallet identity \<noteq> [] \<and> \<not> mainnet then fundQuietly (pv_wallet identity) else retM ()) (\<lambda>_.
     bindM (tokenFor user) (\<lambda>token.
     retM \<lparr>sr_token = token, sr_wallet = usr_privyStellarWalletAddress user,
           sr_walletStatus = usr_privyWalletStatus user, sr_needsRoleSelection = (usr_role user = None)\<rparr>)))))"

section \<open>Profile\<close>

definition findUserOrThrow :: "string \<Rightarrow> user api" where
  "findUserOrThrow userId =
     bindM (findUniqueM users usr_id userId) (\<lambda>u. someOr u (UnauthorizedException ''Unauthorized''))"

definition setRole :: "string \<Rightarrow> string \<Rightarrow> token_result api" where
  "setRole userId role =
     bindM (findUserOrThrow userId) (\<lambda>user.
     bindM (throwIf (\<not> falsy (usr_role user)) (ConflictException ''Role already set'')) (\<lambda>_.
     bindM (user_update userId (\<lambda>u. u\<lparr>usr_role := Some role\<rparr>)) (\<lambda>updated.
     tokenFor updated)))"

definition getStellarChallenge :: "string \<Rightarrow> string api" where
  "getStellarChallenge address = bindM nowM (\<lambda>t. retM (''challenge-'' @ show_int t))"

definition verifyStellarChallenge :: "string \<Rightarrow> string api" where
  "verifyStellarChallenge signedTransaction = bindM nowM (\<lambda>t. retM (''jwt-'' @ show_int t))"

definition safe_user :: "user \<Rightarrow> user" where
  "safe_user u = u\<lparr>usr_passwordHash := None\<rparr>"

definition findMe :: "string \<Rightarrow> user api" where
  "findMe userId = bindM (findUserOrThrow userId) (\<lambda>u. retM (safe_user u))"

definition setProfile :: "profile_dto \<Rightarrow> user \<Rightarrow> user" where
  "setProfile d u = u\<lparr>usr_name := written (pf_name d) (usr_name u), usr_phone := written (pf_phone d) (usr_phone u),
     usr_address := written (pf_address d) (usr_address u),
     usr_companyName := written (pf_companyName d) (usr_companyName u),
     usr_cnpj := written (pf_cnpj d) (usr_cnpj u),
     usr_monthlyRevenue := written (pf_monthlyRevenue d) (usr_monthlyRevenue u),
     usr_sector := written (pf_sector d) (usr_sector u),
     usr_investorType := written (pf_investorType d) (usr_investorType u),
     usr_riskProfile := written (pf_riskProfile d) (usr_riskProfile u),
     usr_operationalLimit := written (pf_operationalLimit d) (usr_operationalLimit u)\<rparr>"

definition updateProfile :: "string \<Rightarrow> profile_dto \<Rightarrow> user api" where
  "updateProfile userId dto = bindM (user_update userId (setProfile dto)) (\<lambda>u. retM (safe_user u))"

definition changePassword :: "string \<Rightarrow> string \<Rightarrow> string \<Rightarrow> string api" where
  "changePassword userId currentPassword newPassword =
     bindM (findUserOrThrow userId) (\<lambda>user.
     bindM (throwIf (falsy (usr_passwordHash user)) (BadRequestException ''Conta sem senha cadastrada'')) (\<lambda>_.
     bindM (bcryptCompare currentPassword (the (usr_passwordHash user))) (\<lambda>ok.
     bindM (throwIf (\<not> ok) (BadRequestException ''Senha atual incorreta'')) (\<lambda>_.
     bindM (bcryptHash newPassword) (\<lambda>h.
     bindM (user_update userId (\<lambda>u. u\<lparr>usr_passwordHash := Some h\<rparr>)) (\<lambda>_.
     retM ''ok''))))))"

text \<open>The controller reads the bearer token with \<open>/^Bearer (\S+)$/\<close>.\<close>

definition no_blank :: "string \<Rightarrow> bool" where
  "no_blank s \<longleftrightarrow> s \<noteq> [] \<and> list_all (\<lambda>c. \<not> is_blank c) s"

definition bearer_token :: "string option \<Rightarrow> string option" where
  "bearer_token h = Option.bind h (\<lambda>s.
     if starts_with ''Bearer '' s \<and> no_blank (drop 7 s) then Some (drop 7 s) else None)"

definition authController_privySession :: "string option \<Rightarrow> string option \<Rightarrow> session_result api" where
  "authController_privySession authorization identityToken =
     bindM (throwIf (bearer_token authorization = None \<or> falsy identityToken \<or> \<not> no_blank (the identityToken))
              (UnauthorizedException ''Privy session tokens are required'')) (\<lambda>_.
     privySession (the (bearer_token authorization)) (the identityToken))"

text \<open>\<open>JwtStrategy.validate\<close>: what a guarded route knows of its caller.\<close>

definition jwt_validate :: "string \<Rightarrow> string \<Rightarrow> string option \<Rightarrow> auth_user" where
  "jwt_validate sub email role = \<lparr>au_userId = sub, au_email = email, au_role = role\<rparr>"

section \<open>Wallets\<close>

record wallet_info =
  wi_contractId :: string
  wi_passkeyId :: "string option"
  wi_walletType :: "string option"
  wi_walletStatus :: "string option"

definition privyReady :: "user \<Rightarrow> bool" where
  "privyReady u \<longleftrightarrow> \<not> falsy (usr_privyStellarWalletAddress u) \<and> usr_privyWalletStatus u = Some ''ready''"

definition createWallet :: "string \<Rightarrow> string api" where
  "createWallet userId =
     bindM (findUniqueM users usr_id userId) (\<lambda>found.
     bindM (someOr found (NotFoundException ''User not found'')) (\<lambda>user.
     if privyReady user then retM (the (usr_privyStellarWalletAddress user))
     else if \<not> falsy (usr_stellarWalletId user) then retM (the (usr_stellarWalletId user))
     else throwM (BadRequestException ''Privy Stellar wallet is required'')))"

definition getWallet :: "string \<Rightarrow> wallet_info option api" where
  "getWallet userId =
     bindM (findUniqueM users usr_id userId) (\<lambda>found.
     retM (Option.bind found (\<lambda>user.
       if privyReady user then
         Some \<lparr>wi_contractId = the (usr_privyStellarWalletAddress user), wi_passkeyId = None,
               wi_walletType = Some ''privy_stellar'', wi_walletStatus = usr_privyWalletStatus user\<rparr>
       else if falsy (usr_stellarWalletId user) then None
       else Some \<lparr>wi_contractId = the (usr_stellarWalletId user), wi_passkeyId = usr_passkeyId user,
               wi_walletType = usr_walletType user, wi_walletStatus = usr_walletStatus user\<rparr>)))"

definition getBalance :: "string \<Rightarrow> wallet_balance option api" where
  "getBalance userId =
     bindM (findUniqueM users usr_id userId) (\<lambda>user.
     let address = (if (case user of None \<Rightarrow> False | Some u \<Rightarrow> privyReady u)
                    then Option.bind user usr_privyStellarWalletAddress
                    else Option.bind user usr_stellarWalletId) in
     if falsy address then retM None
     else bindM (getBrltBalance (the address)) (\<lambda>b. retM (Some b)))"

section \<open>Frames\<close>

lemma findStellarWalletAddress_nonempty: "findStellarWalletAddress xs = Some a \<Longrightarrow> a \<noteq> []"
  by (induction xs rule: findStellarWalletAddress.induct) (auto split: if_splits)

lemma tokens_step [keeps]: "keepsR sound_step (tokenFor u)" "keepsR sound_step (issueToken a b c)"
  unfolding tokenFor_def issueToken_def by (intro keeps)+

lemma bcrypt_steps [keeps]: "keepsR sound_step (bcryptHash p)" "keepsR sound_step (bcryptCompare p h)"
  unfolding bcryptHash_def bcryptCompare_def by (intro keeps)+

lemma register_step [keeps]: "keepsR sound_step (register d)"
  unfolding register_def by (intro keeps)

lemma login_step [keeps]: "keepsR sound_step (login e p)"
  unfolding login_def by (intro keeps)

lemma googleLogin_step [keeps]: "keepsR sound_step (googleLogin t)"
  unfolding googleLogin_def googleVerify_def by (intro keeps) (simp add: user_evo_def)

lemma verifySession_step [keeps]: "keepsR sound_step (verifySession a i)"
  unfolding verifySession_def by (intro keeps)

lemma verifySession_Inr:
  assumes "verifySession a i E w = (Inr s, w')"
  shows "\<exists>accounts tr tr' tr''. e_privyAccess E tr a = Inr (Some (pv_userId s)) \<and> pv_userId s \<noteq> []
     \<and> e_privyIdentity E tr' i = Inr (Some (pv_userId s))
     \<and> e_privyUser E tr'' (pv_userId s) = Inr accounts \<and> findEmailAddress accounts = Some (pv_email s)
     \<and> findStellarWalletAddress accounts = Some (pv_wallet s)"
  using assms
  by (auto simp: verifySession_def catchM_def callM_def bindM_def throwIf_def someOr_def falsy_def
      split: if_splits sum.splits prod.splits option.splits) blast+

lemma setPrivy_evo: "pv_wallet s \<noteq> [] \<Longrightarrow> user_evo u (setPrivy s u)"
  by (simp add: user_evo_def setPrivy_def)

lemma privy_login_step [keeps]: "pv_wallet s \<noteq> [] \<Longrightarrow> keepsR sound_step (privy_login s)"
  unfolding privy_login_def by (intro keeps setPrivy_evo)

lemma fundQuietly_step [keeps]: "keepsR sound_step (fundQuietly a)"
  unfolding fundQuietly_def by (intro keeps)

lemma privySession_step [keeps]: "keepsR sound_step (privySession a i)"
  unfolding privySession_def
proof (rule step.keepsR_bind_post [OF verifySession_step])
  show "pv_wallet s \<noteq> []" if "verifySession a i E w = (Inr s, w')" for E w s w'
    using verifySession_Inr [OF that] findStellarWalletAddress_nonempty by blast
qed (intro keeps)

lemma findUserOrThrow_step [keeps]: "keepsR sound_step (findUserOrThrow u)"
  unfolding findUserOrThrow_def by (intro keeps)

lemma profile_steps [keeps]:
  "keepsR sound_step (setRole u r)" "keepsR sound_step (getStellarChallenge x)"
  "keepsR sound_step (verifyStellarChallenge x)" "keepsR sound_step (findMe u)"
  "keepsR sound_step (updateProfile u d)" "keepsR sound_step (changePassword u p q)"
  unfolding setRole_def getStellarChallenge_def verifyStellarChallenge_def findMe_def updateProfile_def
    changePassword_def
  by (intro keeps; simp add: user_evo_def setProfile_def)+

lemma authController_privySession_step [keeps]: "keepsR sound_step (authController_privySession h t)"
  unfolding authController_privySession_def by (intro keeps)

lemma wallet_steps [keeps]:
  "keepsR sound_step (createWallet u)" "keepsR sound_step (getWallet u)" "keepsR sound_step (getBalance u)"
  unfolding createWallet_def getWallet_def getBalance_def Let_def by (intro keeps)+

section \<open>Properties\<close>

lemma bindM_call:
  "bindM (callM c f) g E w = (case f E (w_trace w) of Inl m \<Rightarrow> (Inl (JsError m), callW c E w)
     | Inr a \<Rightarrow> g a E (callW c E w))"
  by (simp add: bindM_def callM_def split: sum.split)

text \<open>A login with e-mail and password succeeds only for the account with this e-mail, which has a password
  hash against which the given password compares; the token is for this account and no table changes.\<close>

theorem login_success:
  assumes "login email password E w = (Inr tok, w')"
  shows "\<exists>u h. find_row usr_email email (users w) = Some u \<and> usr_passwordHash u = Some h \<and> h \<noteq> []
    \<and> e_bcryptCompare E (w_trace w) password h = Inr True
    \<and> tok = \<lparr>tr_accessToken = e_jwtSign E (usr_id u) (usr_email u) (usr_role u), tr_id = usr_id u,
        tr_email = usr_email u, tr_role = usr_role u\<rparr>
    \<and> w' = callW (BcryptCompare password h) E w"
  using assms
  by (auto simp: login_def findByEmail_def bcryptCompare_def tokenFor_def issueToken_def asksM_def bindM_call
      bind_eq_Some_conv elim!: not_falsyE split: option.splits if_splits sum.splits)

text \<open>A refused login does not tell why: an unknown e-mail, an account without a password and a wrong
  password get the same answer.\<close>

lemma login_refusal_uniform:
  assumes "\<And>tr p h. \<exists>b. e_bcryptCompare E tr p h = Inr b" and "login email password E w = (Inl e, w')"
  shows "e = UnauthorizedException ''Invalid credentials''"
proof -
  obtain b where "e_bcryptCompare E (w_trace w) password h = Inr (b h)" for h
    using assms(1) by metis
  with assms(2) show ?thesis
    by (auto simp: login_def findByEmail_def bcryptCompare_def tokenFor_def issueToken_def asksM_def bindM_call
        split: option.splits if_splits)
qed

lemma user_update_Inr:
  assumes "user_update i f E w = (Inr u, w')"
  shows "\<exists>u0. find_row usr_id i (users w) = Some u0 \<and> u = f u0 \<and> users w' = upd_row usr_id i f (users w)"
  using assms by (auto simp: user_update_def elim!: tusers.tab_update_Inr)

text \<open>A role is chosen once: \<open>setRole\<close> succeeds only for a user without a role, gives the role to this user
  alone and names it in the token, and the next choice for the same user is refused.\<close>

lemma setRole_InrD:
  assumes "setRole userId role E w = (Inr tok, w')" and "role \<noteq> []"
  shows "\<exists>u. find_row usr_id userId (users w) = Some u \<and> falsy (usr_role u)
    \<and> users w' = upd_row usr_id userId (\<lambda>x. x\<lparr>usr_role := Some role\<rparr>) (users w)
    \<and> tr_id tok = userId \<and> tr_role tok = Some role
    \<and> (\<forall>role' E'. setRole userId role' E' w' = (Inl (ConflictException ''Role already set''), w'))"
proof -
  from assms(1) obtain u x v where u: "find_row usr_id userId (users w) = Some u" "falsy (usr_role u)"
    and x: "user_update userId (\<lambda>y. y\<lparr>usr_role := Some role\<rparr>) E w = (Inr x, v)"
    and t: "tokenFor x E v = (Inr tok, w')"
    unfolding setRole_def findUserOrThrow_def
    by (auto elim!: bindM_InrE dest!: throwIf_InrD someOr_InrD simp: findUniqueM_def getsM_def)
  from t have "w' = v" "tr_id tok = usr_id x" "tr_role tok = usr_role x"
    by (auto simp: tokenFor_def issueToken_def asksM_def)
  moreover have i: "usr_id u = userId" using u(1) by (auto dest: find_row_SomeD)
  moreover note user_update_Inr [OF x]
  moreover have "find_row usr_id userId (users v) = Some (u\<lparr>usr_role := Some role\<rparr>)"
    using user_update_Inr [OF x] u(1) by (auto simp: find_row_upd_row)
  ultimately show ?thesis
    using u assms(2) by (auto simp: setRole_def findUserOrThrow_def bindM_assoc)
qed

lemma fund_users: "keepsR (same users) (fundQuietly a)"
  unfolding fundQuietly_def fundAccountFromPlatform_def payWith_def sdk_defs Let_def by (intro keeps)

lemma privy_login_Inr:
  assumes "privy_login s E w = (Inr u, w')" and "db_ok w"
  shows "\<exists>u0 \<in> set (users w). u = setPrivy s u0 \<and> users w' = upd_row usr_id (usr_id u0) (setPrivy s) (users w)
    \<and> (usr_privyUserId u0 = Some (pv_userId s)
       \<or> Some (pv_userId s) \<notin> usr_privyUserId ` set (users w) \<and> usr_email u0 = pv_email s)"
proof -
  have d: "distinct (map usr_id (users w))" using assms(2) by (simp add: db_ok_defs)
  have upd: "u = setPrivy s x \<and> users w' = upd_row usr_id (usr_id x) (setPrivy s) (users w)"
    if "x \<in> set (users w)" "user_update (usr_id x) (setPrivy s) E w = (Inr u, w')" for x
    using user_update_Inr [OF that(2)] find_row_distinct [OF d that(1)] by auto
  show ?thesis
  proof (cases "find_row usr_privyUserId (Some (pv_userId s)) (users w)")
    case None
    with assms(1) obtain x where x: "find_row usr_email (pv_email s) (users w) = Some x"
      "user_update (usr_id x) (setPrivy s) E w = (Inr u, w')"
      by (auto simp: privy_login_def findByEmail_def split: option.splits)
    with upd [of x] None show ?thesis by (auto simp: find_row_None_iff dest!: find_row_SomeD)
  next
    case (Some x)
    with assms(1) have "user_update (usr_id x) (setPrivy s) E w = (Inr u, w')"
      by (simp add: privy_login_def)
    with upd [of x] Some show ?thesis by (auto dest!: find_row_SomeD)
  qed
qed

lemma verifySession_users: "keepsR (same users) (verifySession a i)"
  unfolding verifySession_def by (intro keeps)

text \<open>C39: A Privy session is exchanged only when both tokens belong to the same Privy user. The account is the one
  linked to this Privy user or, when no account is, the one with the e-mail Privy verified; it alone is linked
  to the Privy user and to the Stellar wallet that Privy reports, and the token is for this account.\<close>

theorem privySession_success:
  assumes "privySession a i E w = (Inr r, w')" and "db_ok w"
  shows "\<exists>s accounts u tr tr' tr''. e_privyAccess E tr a = Inr (Some (pv_userId s))
    \<and> e_privyIdentity E tr' i = Inr (Some (pv_userId s)) \<and> e_privyUser E tr'' (pv_userId s) = Inr accounts
    \<and> findEmailAddress accounts = Some (pv_email s) \<and> findStellarWalletAddress accounts = Some (pv_wallet s)
    \<and> u \<in> set (users w) \<and> (usr_privyUserId u = Some (pv_userId s)
        \<or> Some (pv_userId s) \<notin> usr_privyUserId ` set (users w) \<and> usr_email u = pv_email s)
    \<and> users w' = upd_row usr_id (usr_id u) (setPrivy s) (users w)
    \<and> tr_id (sr_token r) = usr_id u \<and> tr_role (sr_token r) = usr_role u \<and> sr_wallet r = Some (pv_wallet s)"
proof -
  from assms(1) obtain s v u v1 v2 where s: "verifySession a i E w = (Inr s, v)"
    and u: "privy_login s E v = (Inr u, v1)" and f: "v2 = v1 \<or> v2 = snd (fundQuietly (pv_wallet s) E v1)"
    and r: "w' = v2" "tr_id (sr_token r) = usr_id u" "tr_role (sr_token r) = usr_role u"
      "sr_wallet r = usr_privyStellarWalletAddress u"
    unfolding privySession_def
    by (fastforce elim!: bindM_InrE simp: asksM_def tokenFor_def issueToken_def split: if_splits)
  have v: "users v = users w" using sameD' [OF verifySession_users, OF s] .
  have "db_ok v" using keepsRD [OF verifySession_step, OF s] assms(2) by (simp add: sound_step_def)
  from privy_login_Inr [OF u this] obtain u0 where u0: "u0 \<in> set (users w)" "u = setPrivy s u0"
    "users v1 = upd_row usr_id (usr_id u0) (setPrivy s) (users w)" "usr_privyUserId u0 = Some (pv_userId s)
       \<or> Some (pv_userId s) \<notin> usr_privyUserId ` set (users w) \<and> usr_email u0 = pv_email s"
    unfolding v by blast
  have "users w' = users v1" using f r(1) sameD [OF fund_users] by auto
  then have "users w' = upd_row usr_id (usr_id u0) (setPrivy s) (users w) \<and> tr_id (sr_token r) = usr_id u0
      \<and> tr_role (sr_token r) = usr_role u0 \<and> sr_wallet r = Some (pv_wallet s)"
    using u0(2,3) r by (simp add: setPrivy_def)
  with u0(1,4) verifySession_Inr [OF s] show ?thesis by blast
qed

lemma toLowerCase_idem: "toLowerCase (toLowerCase s) = toLowerCase s"
proof -
  have "lower_char (lower_char c) = lower_char c" for c
    by (simp add: lower_char_def Let_def)
  then show ?thesis by (simp add: toLowerCase_def)
qed

lemma findEmailAddress_lower: "findEmailAddress xs = Some e \<Longrightarrow> toLowerCase e = e"
  by (induction xs rule: findEmailAddress.induct) (auto simp: toLowerCase_idem split: if_splits)

text \<open>The e-mail of a Privy session is compared in lower case with the stored one. An account stored with an
  upper-case letter in its e-mail and not yet linked to the Privy user is never found: the session is
  refused as not registered.\<close>

theorem privySession_upper_case:
  assumes "verifySession a i E w = (Inr s, v)" and "Some (pv_userId s) \<notin> usr_privyUserId ` set (users w)"
    and "toLowerCase (usr_email u) = pv_email s" and "toLowerCase (usr_email u) \<noteq> usr_email u"
    and "\<forall>x \<in> set (users w). toLowerCase (usr_email x) = pv_email s \<longrightarrow> x = u"
  shows "privySession a i E w = (Inl not_whitelisted, v)"
proof -
  have v: "users v = users w" using sameD' [OF verifySession_users, OF assms(1)] .
  obtain accounts where "findEmailAddress accounts = Some (pv_email s)"
    using verifySession_Inr [OF assms(1)] by blast
  then have "toLowerCase (pv_email s) = pv_email s" by (rule findEmailAddress_lower)
  then have "find_row usr_email (pv_email s) (users v) = None"
    using assms(3-5) v by (auto simp: find_row_None_iff)
  moreover have "find_row usr_privyUserId (Some (pv_userId s)) (users v) = None"
    using assms(2) v by (simp add: find_row_None_iff)
  ultimately have "privy_login s E v = (Inl not_whitelisted, v)"
    by (simp add: privy_login_def findByEmail_def)
  then show ?thesis by (simp add: privySession_def bindM_def assms(1))
qed

end
