(* ===== verification/Documents.thy ===== *)
theory Documents
  imports AuditTrail
begin

text \<open>
  \<open>modules/documents\<close>: documents attached to a receivable. The repository writes the hash of an
  invoice document to the receivable as well; the controller takes the receivable from the path.
\<close>

record create_document_dto =
  cd_receivableId :: string
  cd_type :: document_type
  cd_url :: string
  cd_hash :: string

record document_response =
  dr_id :: string
  dr_type :: document_type
  dr_url :: string

definition toDocumentResponse :: "document \<Rightarrow> document_response" where
  "toDocumentResponse d = \<lparr>dr_id = doc_id d, dr_type = doc_type d, dr_url = doc_url d\<rparr>"

definition setDocumentHash :: "string \<Rightarrow> receivable \<Rightarrow> receivable" where
  "setDocumentHash h r = r\<lparr>rcv_documentHash := Some h\<rparr>"

definition documentsRepo_create :: "create_document_dto \<Rightarrow> document api" where
  "documentsRepo_create d =
     bindM (createM documents documents_update doc_id chk_document (\<lambda>i t.
        \<lparr>doc_id = i, doc_receivableId = cd_receivableId d, doc_url = cd_url d, doc_hash = cd_hash d,
         doc_type = cd_type d, doc_createdAt = t\<rparr>)) (\<lambda>document.
     bindM (if cd_type d = DInvoice
            then bindM (updateM receivables receivables_update rcv_id no_chk (cd_receivableId d)
                          (setDocumentHash (cd_hash d))) (\<lambda>_. retM ())
            else retM ()) (\<lambda>_.
     retM document))"

definition documentsRepo_findByReceivable :: "string \<Rightarrow> document list api" where
  "documentsRepo_findByReceivable i = findManyM documents (\<lambda>d. doc_receivableId d = i)"

definition documents_create :: "create_document_dto \<Rightarrow> document_response api" where
  "documents_create d = bindM (documentsRepo_create d) (\<lambda>x. retM (toDocumentResponse x))"

definition documents_findByReceivable :: "string \<Rightarrow> document_response list api" where
  "documents_findByReceivable i =
     bindM (documentsRepo_findByReceivable i) (\<lambda>xs. retM (map toDocumentResponse xs))"

text \<open>\<open>{ ...body, receivableId }\<close>: the path decides the receivable.\<close>

definition documentsController_create :: "string \<Rightarrow> create_document_dto \<Rightarrow> document_response api" where
  "documentsController_create receivableId body = documents_create (body\<lparr>cd_receivableId := receivableId\<rparr>)"

text \<open>The decorators of the body; \<open>isUrl\<close> is the check of the validation package.\<close>

definition valid_document_dto :: "(string \<Rightarrow> bool) \<Rightarrow> create_document_dto \<Rightarrow> bool" where
  "valid_document_dto isUrl d \<longleftrightarrow> isUrl (cd_url d) \<and> cd_hash d \<noteq> []"

lemma setDocumentHash_evo: "receivable_evo r (setDocumentHash h r)"
  by (simp add: receivable_evo_def setDocumentHash_def)

lemma documentsRepo_create_step [keeps]: "keepsR sound_step (documentsRepo_create d)"
  unfolding documentsRepo_create_def by (intro keeps) (rule setDocumentHash_evo)

lemma documents_create_step [keeps]: "keepsR sound_step (documents_create d)"
  unfolding documents_create_def by (intro keeps)

lemma documents_read_step [keeps]: "keepsR sound_step (documents_findByReceivable i)"
  unfolding documents_findByReceivable_def documentsRepo_findByReceivable_def by (intro keeps)

text \<open>Creating a document succeeds only for an existing receivable; the document is the one row
  added, the status and the transaction hashes of every receivable are kept, and for an invoice,
  and only then, the receivable carries the document's hash afterwards.\<close>

lemma documents_create_InrD:
  assumes "documents_create d E w = (Inr r, w')"
  shows "\<exists>x rcv. documents w' = documents w @ [x] \<and> doc_receivableId x = cd_receivableId d
     \<and> doc_hash x = cd_hash d \<and> dr_id r = doc_id x
     \<and> find_row rcv_id (cd_receivableId d) (receivables w) = Some rcv
     \<and> receivables w' = (if cd_type d = DInvoice
          then upd_row rcv_id (cd_receivableId d) (setDocumentHash (cd_hash d)) (receivables w)
          else receivables w)
     \<and> map rcv_status (receivables w') = map rcv_status (receivables w)
     \<and> map rcv_txHash (receivables w') = map rcv_txHash (receivables w)"
proof -
  from assms obtain x v where
    c: "createM documents documents_update doc_id chk_document (\<lambda>i t.
        \<lparr>doc_id = i, doc_receivableId = cd_receivableId d, doc_url = cd_url d, doc_hash = cd_hash d,
         doc_type = cd_type d, doc_createdAt = t\<rparr>) E w = (Inr x, v)"
    and r: "r = toDocumentResponse x"
    and rest: "(if cd_type d = DInvoice
            then bindM (updateM receivables receivables_update rcv_id no_chk (cd_receivableId d)
                          (setDocumentHash (cd_hash d))) (\<lambda>_. retM ())
            else retM ()) E v = (Inr (), w')"
    unfolding documents_create_def documentsRepo_create_def by (auto elim!: bindM_InrE)
  note x = tdocuments.tab_create_Inr [OF c]
  have rc: "receivables v = receivables w" by (simp add: x(4))
  have fk: "has_receivable w (cd_receivableId d)"
    using c by (auto simp: createM_def bindM_def uuidM_def Let_def chk_document_def has_receivable_def
        split: if_splits option.splits)
  have "documents w' = documents v \<and> receivables w' = (if cd_type d = DInvoice
          then upd_row rcv_id (cd_receivableId d) (setDocumentHash (cd_hash d)) (receivables v)
          else receivables v)"
    using rest by (auto elim!: bindM_InrE treceivables.tab_update_Inr split: if_splits)
  then show ?thesis
    using x fk rc r by (auto simp: toDocumentResponse_def has_receivable_def map_key_upd_row setDocumentHash_def)
qed

end
