(* ===== verification/Lifecycle.thy ===== *)
theory Lifecycle
  imports Auth Documents
begin

text \<open>
  The life of a receivable across every operation. \<open>fromTo tab t0 P m\<close> says: run from a world whose
  table \<open>tab\<close> is \<open>t0\<close>, the program \<open>m\<close> ends, however it ends, with a table that satisfies \<open>P\<close>. The
  rules carry what an operation read of the table over the calls that leave the table alone to the
  write at the end, so the status a guard has checked is the status the write finds.
\<close>

named_theorems outcome \<open>rules for the table a program ends with\<close>

definition fromTo :: "(world \<Rightarrow> 't) \<Rightarrow> 't \<Rightarrow> ('t \<Rightarrow> bool) \<Rightarrow> 'a api \<Rightarrow> bool" where
  "fromTo tab t0 P m \<longleftrightarrow> (\<forall>E w. tab w = t0 \<longrightarrow> P (tab (snd (m E w))))"

lemma fromToI: "(\<And>E w. tab w = t0 \<Longrightarrow> P (tab (snd (m E w)))) \<Longrightarrow> fromTo tab t0 P m"
  by (simp add: fromTo_def)

lemma fromToD: "fromTo tab t0 P m \<Longrightarrow> tab w = t0 \<Longrightarrow> P (tab (snd (m E w)))"
  by (simp add: fromTo_def)

lemma fromTo_same: "keepsR (same tab) m \<Longrightarrow> P t0 \<Longrightarrow> fromTo tab t0 P m"
  by (auto simp: fromTo_def sameD)

text \<open>A first part that leaves the table alone.\<close>

lemma fromTo_bind:
  assumes "keepsR (same tab) m" and "P t0" and "\<And>a. fromTo tab t0 P (f a)"
  shows "fromTo tab t0 P (bindM m f)"
proof (rule fromToI)
  fix E w assume w: "tab w = t0"
  show "P (tab (snd (bindM m f E w)))"
  proof (cases "m E w")
    case (Pair r v)
    then have "tab v = t0" using sameD' [OF assms(1) Pair] w by simp
    then show ?thesis
      using Pair assms(2) fromToD [OF assms(3)] by (simp add: bindM_def split: sum.splits)
  qed
qed

text \<open>A last part that leaves the table alone.\<close>

lemma fromTo_then:
  assumes "fromTo tab t0 P m" and "\<And>a. keepsR (same tab) (f a)"
  shows "fromTo tab t0 P (bindM m f)"
proof (rule fromToI)
  fix E w assume w: "tab w = t0"
  show "P (tab (snd (bindM m f E w)))"
  proof (cases "m E w")
    case (Pair r v)
    then have "P (tab v)" using fromToD [OF assms(1) w, of E] by simp
    then show ?thesis
      using Pair sameD [OF assms(2), of _ E v] by (simp add: bindM_def split: sum.splits)
  qed
qed

lemma fromTo_throwIf:
  "P t0 \<Longrightarrow> (\<not> c \<Longrightarrow> fromTo tab t0 P (f ())) \<Longrightarrow> fromTo tab t0 P (bindM (throwIf c e) f)"
  by (auto simp: fromTo_def)

lemma fromTo_if:
  "(c \<Longrightarrow> fromTo tab t0 P m) \<Longrightarrow> (\<not> c \<Longrightarrow> fromTo tab t0 P n) \<Longrightarrow> fromTo tab t0 P (if c then m else n)"
  by simp

lemma fromTo_mono: "fromTo tab t0 P m \<Longrightarrow> (\<And>t. P t \<Longrightarrow> Q t) \<Longrightarrow> fromTo tab t0 Q m"
  by (simp add: fromTo_def)

lemma fromTo_find:
  assumes "\<And>r. find_row rcv_id i t0 = Some r \<Longrightarrow> fromTo receivables t0 Q (f r)"
    and "Q t0"
  shows "fromTo receivables t0 Q (bindM (findReceivable i) f)"
proof (rule fromToI)
  fix E and w :: world assume w: "receivables w = t0"
  show "Q (receivables (snd (bindM (findReceivable i) f E w)))"
  proof (cases "find_row rcv_id i t0")
    case None
    then show ?thesis using w assms(2) by (simp add: findReceivable_def bindM_assoc)
  next
    case (Some r)
    then show ?thesis using w fromToD [OF assms(1) [OF Some] w, of E] by (simp add: findReceivable_def bindM_assoc)
  qed
qed

lemma fromTo_assignable:
  assumes "\<And>r. find_row rcv_id i t0 = Some r \<Longrightarrow> assignable r \<Longrightarrow> fromTo receivables t0 Q (f r)" and "Q t0"
  shows "fromTo receivables t0 Q (bindM (findAssignable i) f)"
  unfolding findAssignable_def bindM_assoc
  by (intro fromTo_find fromTo_throwIf) (simp_all add: assms)

lemma fromTo_pending:
  assumes "\<And>r. find_row rcv_id i t0 = Some r \<Longrightarrow> rcv_status r = RPending \<Longrightarrow> fromTo receivables t0 Q (f r)"
    and "Q t0"
  shows "fromTo receivables t0 Q (bindM (findPendingReceivable i) f)"
proof (rule fromToI)
  fix E and w :: world assume w: "receivables w = t0"
  show "Q (receivables (snd (bindM (findPendingReceivable i) f E w)))"
  proof (cases "find_row rcv_id i t0")
    case None
    then show ?thesis using w assms(2) by (simp add: findPendingReceivable_def bindM_assoc)
  next
    case (Some r)
    then show ?thesis
      using w assms(2) fromToD [OF assms(1) [OF Some] w, of E] by (simp add: findPendingReceivable_def bindM_assoc)
  qed
qed

text \<open>The write.\<close>

lemma fromTo_update:
  assumes "Q t0" and "\<And>r. find_row rcv_id i t0 = Some r \<Longrightarrow> fromTo receivables (upd_row rcv_id i g t0) Q (f (g r))"
  shows "fromTo receivables t0 Q (bindM (rcv_update i g) f)"
proof (rule fromToI)
  fix E and w :: world assume w: "receivables w = t0"
  show "Q (receivables (snd (bindM (rcv_update i g) f E w)))"
  proof (cases "find_row rcv_id i t0")
    case None
    then show ?thesis using w assms(1) by (simp add: rcv_update_def updateM_def bindM_def)
  next
    case (Some r)
    then show ?thesis
      using w fromToD [OF assms(2) [OF Some], of "receivables_update (upd_row rcv_id i g) w" E]
      by (simp add: rcv_update_def updateM_def bindM_def no_chk_def)
  qed
qed

lemma fromTo_catch:
  assumes "fromTo tab t0 P m" and "\<And>e. keepsR (same tab) (h e)"
  shows "fromTo tab t0 P (catchM m h)"
proof (rule fromToI)
  fix E w assume w: "tab w = t0"
  show "P (tab (snd (catchM m h E w)))"
  proof (cases "m E w")
    case (Pair r v)
    then have "P (tab v)" using fromToD [OF assms(1) w, of E] by simp
    then show ?thesis
      using Pair sameD [OF assms(2), of _ E v] by (simp add: catchM_def split: sum.splits)
  qed
qed

lemma fromTo_transaction:
  assumes "fromTo receivables t0 P m" and "P t0"
  shows "fromTo receivables t0 P (transactionM m)"
proof (rule fromToI)
  fix E and w :: world assume w: "receivables w = t0"
  show "P (receivables (snd (transactionM m E w)))"
    using fromToD [OF assms(1) w, of E] assms(2) w
    by (auto simp: transactionM_def split: prod.split sum.split)
qed

section \<open>The states of a receivable\<close>

text \<open>
  The status may only move along these edges. Settlement is open from every status, because
  \<open>settleInvoice\<close> asks for none.
\<close>

inductive life_step :: "receivable_status \<Rightarrow> receivable_status \<Rightarrow> bool" where
  validate: "life_step RPending RValidated"
| reject: "life_step RPending RRejected"
| tokenized: "life_step RValidated RTokenized"
| request: "life_step RTokenized RAssignmentPending"
| assign: "life_step RTokenized RActive"
| assign_pending: "life_step RAssignmentPending RActive"
| settle: "life_step s RSettled"

inductive_cases life_step_fromE: "life_step RRejected s" "life_step RSettled s"

text \<open>A receivable that has been tokenized has the hash of the transaction.\<close>

definition tokened :: "receivable \<Rightarrow> bool" where
  "tokened r \<longleftrightarrow> (rcv_status r \<in> {RTokenized, RAssignmentPending, RActive} \<longrightarrow> rcv_txHash r \<noteq> None)"

definition row_good :: "receivable \<Rightarrow> receivable \<Rightarrow> bool" where
  "row_good r s \<longleftrightarrow> life_step\<^sup>*\<^sup>* (rcv_status r) (rcv_status s) \<and> (tokened r \<longrightarrow> tokened s)"

definition rows_good :: "receivable list \<Rightarrow> receivable list \<Rightarrow> bool" where
  "rows_good t u \<longleftrightarrow> grows row_good t u \<and> (\<forall>r \<in> set (drop (length t) u). rcv_status r = RPending)"

definition good_from :: "receivable list \<Rightarrow> receivable list \<Rightarrow> bool" where
  "good_from t u \<longleftrightarrow> (distinct (map rcv_id t) \<longrightarrow> rows_good t u)"

lemma row_good_refl: "row_good r r"
  by (simp add: row_good_def)

lemma rows_good_refl: "rows_good t t"
  by (simp add: rows_good_def grows_def row_good_refl)

lemma good_refl: "good_from t t"
  by (simp add: good_from_def rows_good_refl)

lemma row_good_pending: "row_good r s \<Longrightarrow> rcv_status r = RPending \<Longrightarrow> tokened r"
  by (simp add: tokened_def)

lemma good_upd:
  assumes "find_row rcv_id i t = Some r" and "row_good r (g r)"
  shows "good_from t (upd_row rcv_id i g t)"
  unfolding good_from_def
proof
  assume d: "distinct (map rcv_id t)"
  have "row_good x (if rcv_id x = i then g x else x)" if "x \<in> set t" for x
    using find_row_distinct [OF d that] assms by (auto simp: row_good_refl)
  then show "rows_good t (upd_row rcv_id i g t)"
    by (simp add: rows_good_def grows_def upd_row_def)
qed

text \<open>Two writes to the same rows, one after the other.\<close>

lemma good_two:
  assumes "good_from t u" and "good_from u v" and "map rcv_id u = map rcv_id t"
  shows "good_from t v"
  unfolding good_from_def
proof
  assume "distinct (map rcv_id t)"
  with assms have g: "rows_good t u" "rows_good u v" by (simp_all add: good_from_def)
  have "length u = length t" using assms(3) by (metis length_map)
  moreover have "row_good a b \<Longrightarrow> row_good b c \<Longrightarrow> row_good a c" for a b c
    by (auto simp: row_good_def)
  ultimately show "rows_good t v"
    using g unfolding rows_good_def grows_def by (metis (no_types, lifting))
qed

lemma good_bind:
  "keepsR (same receivables) m \<Longrightarrow> (\<And>a. fromTo receivables t (good_from t) (f a)) \<Longrightarrow>
   fromTo receivables t (good_from t) (bindM m f)"
  by (rule fromTo_bind) (simp_all add: good_refl)

lemma fromTo_good_update:
  assumes "find_row rcv_id i t = Some r" and "row_good r (g r)" and "\<And>a. keepsR (same receivables) (f a)"
  shows "fromTo receivables t (good_from t) (bindM (rcv_update i g) f)"
  by (rule fromTo_then [OF _ assms(3)], rule fromToI)
    (use good_upd [of i t r g, OF assms(1,2)] in
      \<open>auto simp: rcv_update_def updateM_def no_chk_def good_refl split: option.split\<close>)

lemma life_stars:
  "life_step\<^sup>*\<^sup>* RPending RValidated" "life_step\<^sup>*\<^sup>* RPending RRejected" "life_step\<^sup>*\<^sup>* RValidated RTokenized"
  "life_step\<^sup>*\<^sup>* RTokenized RAssignmentPending" "life_step\<^sup>*\<^sup>* RTokenized RActive"
  "life_step\<^sup>*\<^sup>* RAssignmentPending RActive" "life_step\<^sup>*\<^sup>* s RSettled"
  by (rule r_into_rtranclp, rule life_step.intros)+

lemma row_goods:
  "rcv_status r = RPending \<Longrightarrow> row_good r (rcv_setStatus RValidated r)"
  "rcv_status r = RPending \<Longrightarrow> row_good r (rcv_setStatus RRejected r)"
  "rcv_status r = RValidated \<Longrightarrow> row_good r (rcv_setTokenized h r)"
  "rcv_status r = RTokenized \<Longrightarrow> row_good r (rcv_setStatus RAssignmentPending r)"
  "assignable r \<Longrightarrow> row_good r (rcv_setStatus RActive r)"
  "rcv_status r = RActive \<Longrightarrow> row_good r (rcv_setStatus RActive r)"
  "row_good r (setSettled h r)" "row_good r (setDocumentHash d r)"
  by (auto simp: row_good_def tokened_def rcv_setStatus_def rcv_setTokenized_def assignable_def
      setSettled_def setDocumentHash_def intro: life_stars)

section \<open>Operations that write receivables\<close>

lemma rcv_frames [keeps]:
  "keepsR (same receivables) (findPmeWallet u)" "keepsR (same receivables) (createCollectionOrder c)"
  unfolding findPmeWallet_def createCollectionOrder_def
    col_create_def col_update_def Let_def
  by (intro keeps keeps_db; simp add: same_def)+

lemma tokenize_good: "fromTo receivables t (good_from t) (tokenize i)"
  unfolding tokenize_def setTokenized_def
  by (intro fromTo_find fromTo_throwIf good_bind fromTo_good_update good_refl keeps)
    (auto intro: row_goods)

lemma requestAssignment_good: "fromTo receivables t (good_from t) (requestAssignment i)"
  unfolding requestAssignment_def setAssignmentPending_def
  by (intro fromTo_find fromTo_throwIf fromTo_good_update good_refl keeps) (auto intro: row_goods)

lemma assign_good: "fromTo receivables t (good_from t) (assign i a)"
  unfolding assign_def setActive_def
  by (intro fromTo_assignable good_bind fromTo_good_update good_refl keeps)
    (auto intro: row_goods)

lemma submitAssignment_good: "fromTo receivables t (good_from t) (submitAssignment i x s)"
  unfolding submitAssignment_def setActive_def
  by (intro fromTo_assignable good_bind fromTo_good_update good_refl keeps)
    (auto intro: row_goods)

lemma approveReceivable_good: "fromTo receivables t (good_from t) (approveReceivable i o')"
  unfolding approveReceivable_def
proof (intro fromTo_pending fromTo_update good_refl)
  fix r
  let ?u = "upd_row rcv_id i (rcv_setStatus RValidated) t"
  assume r: "find_row rcv_id i t = Some r" "rcv_status r = RPending"
  have u: "good_from t ?u" using good_upd [OF r(1)] row_goods(1) [OF r(2)] by blast
  have m: "map rcv_id ?u = map rcv_id t" by (rule map_key_upd_row) (simp add: rcv_setStatus_def)
  have "fromTo receivables ?u (good_from t) (tokenize i)"
    by (rule fromTo_mono [OF tokenize_good]) (rule good_two [OF u _ m])
  then show "fromTo receivables ?u (good_from t) (bindM (auditCreate (audit_entry ''receivable.validated'' i ''receivable'' o'
              [(''approvedByOperator'', JBool True)])) (\<lambda>_. tokenize i))"
    by (intro fromTo_bind u keeps)
qed

lemma rejectReceivable_good: "fromTo receivables t (good_from t) (rejectReceivable i o')"
  unfolding rejectReceivable_def
  by (intro fromTo_pending fromTo_good_update good_refl keeps) (auto intro: row_goods)

lemma settleInvoice_good: "fromTo receivables t (good_from t) (settleInvoice i)"
  unfolding settleInvoice_def
proof -
  have upd: "updateM receivables receivables_update rcv_id no_chk i (setSettled h) = rcv_update i (setSettled h)" for h
    by (simp add: rcv_update_def)
  have f: "bindM (findUniqueM receivables rcv_id i) (\<lambda>found.
      bindM (someOr found (NotFoundException (''Receivable '' @ i @ '' not found''))) k) = bindM (findReceivable i) k" for k
    by (simp add: findReceivable_def bindM_assoc)
  show "fromTo receivables t (good_from t) (bindM (findUniqueM receivables rcv_id i) (\<lambda>found.
     bindM (someOr found (NotFoundException (''Receivable '' @ i @ '' not found''))) (\<lambda>receivable.
     if rcv_status receivable = RSettled then retM (rcv_paymentTxHash receivable)
     else
       bindM (settleInvoiceInPool (rcv_id receivable) (rcv_value receivable)) (\<lambda>txHash.
       bindM (updateM receivables receivables_update rcv_id no_chk i (setSettled txHash)) (\<lambda>_.
       bindM nowM (\<lambda>now.
       bindM (settlement_record i (rcv_value receivable) txHash now) (\<lambda>_.
       retM (Some txHash)))))))) "
    unfolding f upd settlement_record_def
    by (intro fromTo_find fromTo_if fromTo_same good_bind fromTo_good_update good_refl keeps keeps_db)
      (auto intro: row_goods simp: same_def)
qed

lemma documents_create_good: "fromTo receivables t (good_from t) (documents_create d)"
proof (rule fromToI)
  fix E and w :: world assume w: "receivables w = t"
  show "good_from t (receivables (snd (documents_create d E w)))"
    using w good_upd [of "cd_receivableId d" t _ "setDocumentHash (cd_hash d)", OF _ row_goods(8)]
    by (auto simp: documents_create_def documentsRepo_create_def bindM_def createM_def uuidM_def updateM_def
        no_chk_def Let_def good_refl split: option.splits)
qed

lemma receivables_create_good: "fromTo receivables t (good_from t) (receivables_create u d)"
proof -
  have a: "good_from x (x @ [r])" if "rcv_status r = RPending" for r x
    using that by (simp add: good_from_def rows_good_def grows_def nth_append row_good_refl)
  have "fromTo receivables t (good_from t) (rcv_create u d due)" for due
    by (rule fromToI) (auto simp: rcv_create_def createM_def bindM_def uuidM_def Let_def good_refl
        intro!: a split: option.split)
  then show ?thesis
    unfolding receivables_create_def receivablesRepo_create_def
    by (intro fromTo_then [where m = "bindM _ _"] good_bind good_refl keeps) 
qed

lemma reserve_write_good:
  assumes "find_row rcv_id (rcv_id r) t = Some r" and "rcv_status r = RActive"
  shows "fromTo receivables t (good_from t) (bindM (createInvestment u (rcv_id r) fv ap p) (\<lambda>created.
     bindM (setReceivableActive (rcv_id r)) (\<lambda>_.
     bindM (recordAudit (inv_id created) u (rcv_id r) ap fv) (\<lambda>_.
     retM (inv_id created, rcv_id r, ap)))))"
proof -
  have c: "keepsR (same receivables) (createInvestment u (rcv_id r) fv ap p)"
    unfolding createInvestment_def by (intro keeps keeps_db; simp add: same_def)
  have "keepsR (same receivables) (bindM (recordAudit i u (rcv_id r) ap fv) (\<lambda>_. retM x))"
    for i and x :: "string \<times> string \<times> rat"
    unfolding recordAudit_def by (intro keeps)
  then show ?thesis
    unfolding setReceivableActive_def
    by (intro good_bind [OF c] fromTo_good_update [where r = r]) (auto intro: assms row_goods(6))
qed

lemma reserve_body_good: "fromTo receivables t (good_from t) (reserve_body u d)"
proof (rule fromToI)
  fix E and w :: world assume w: "receivables w = t"
  show "good_from t (receivables (snd (reserve_body u d E w)))"
  proof (cases "find_row rcv_id (ci_receivableId d) t")
    case None
    then show ?thesis
      using w by (simp add: reserve_body_def findReceivableForUpdate_def good_refl)
  next
    case (Some r)
    then have r: "find_row rcv_id (rcv_id r) t = Some r" by (metis find_row_SomeD)
    show ?thesis
    proof (cases "find_row inv_receivableId (rcv_id r) (investments w) = None \<and> rcv_status r = RActive \<and> rcv_userId r \<noteq> u")
      case True
      then show ?thesis
        using Some w fromToD [OF reserve_write_good [OF r] w, of u "rcv_value r" "amountPaid_of (rcv_value r)" "ci_pixTxId d" E]
        by (simp add: reserve_body_def findReceivableForUpdate_def Let_def ALLOWED_STATUSES_def)
    next
      case False
      then show ?thesis
        using Some w by (auto simp: reserve_body_def findReceivableForUpdate_def good_refl ALLOWED_STATUSES_def)
    qed
  qed
qed

lemma investments_create_good: "fromTo receivables t (good_from t) (investments_create u d)"
proof -
  have "fromTo receivables t (good_from t) (reserve u d)"
    unfolding reserve_def by (intro fromTo_catch fromTo_transaction good_refl reserve_body_good keeps)
  moreover have "keepsR (same receivables) (settlePurchase u d r)" for r
    unfolding settlePurchase_def setBlockchainTxHashes_def
    by (intro keeps keeps_db; simp add: same_def)
  ultimately show ?thesis
    unfolding investments_create_def by (rule fromTo_then)
qed

section \<open>Callbacks\<close>

lemma admitEvent_frame [keeps]: "keepsR (same receivables) m \<Longrightarrow> keepsR (same receivables) (admitEvent i m)"
  unfolding admitEvent_def by (intro keeps)

lemma pix_row_frames [keeps]:
  "keepsR (same receivables) (event_create ei o' x n ty st a p)" "keepsR (same receivables) (ptx_create u ty' am s k h)"
  "keepsR (same receivables) (ptx_update i f)" "keepsR (same receivables) (col_update i g)"
  "keepsR (same receivables) (col_create i am dd)"
  unfolding event_create_def ptx_create_def ptx_update_def col_update_def col_create_def
  by (intro keeps keeps_db; simp add: same_def)+

lemma orderEffects_frame [keeps]: "keepsR (same receivables) (orderEffects d)"
  unfolding orderEffects_def handleDepositConfirmed_def handleWithdrawalConfirmed_def handleOrderFailed_def
    handleOrderExpired_def Let_def
  by (intro keeps)

lemma fromTo_option:
  "fromTo tab t P m \<Longrightarrow> (\<And>a. fromTo tab t P (f a)) \<Longrightarrow> fromTo tab t P (case v of None \<Rightarrow> m | Some a \<Rightarrow> f a)"
  by (simp split: option.split)

lemma settle_then_good:
  "(\<And>a. keepsR (same receivables) (f a)) \<Longrightarrow> fromTo receivables t (good_from t) (bindM (settleInvoice i) f)"
  by (rule fromTo_then [OF settleInvoice_good])

lemma collectionEffects_good: "fromTo receivables t (good_from t) (collectionEffects d)"
  unfolding collectionEffects_def Let_def
  by (intro settle_then_good fromTo_if fromTo_same [where m = "retM ()"] good_refl good_bind keeps)

lemma receivePixWebhook_good: "fromTo receivables t (good_from t) (receivePixWebhook r b)"
proof -
  have "fromTo receivables t (good_from t) (case b of CollectionBody d \<Rightarrow> processCollectionCallback d
              | OrderBody d \<Rightarrow> processPixOrderCallback d)"
    unfolding processCollectionCallback_def processPixOrderCallback_def storeCollectionEvent_def storeOrderEvent_def
    by (cases b; simp)
      (intro good_bind fromTo_if collectionEffects_good fromTo_same good_refl keeps)+
  then show ?thesis
    unfolding receivePixWebhook_def Let_def
    by (intro good_bind fromTo_then [where m = "case b of CollectionBody d \<Rightarrow> processCollectionCallback d
              | OrderBody d \<Rightarrow> processPixOrderCallback d"] keeps)
qed

section \<open>Operations that do not write receivables\<close>

lemma user_frames [keeps]:
  "keepsR (same receivables) (user_create mk)" "keepsR (same receivables) (user_update i f)"
  unfolding user_create_def user_update_def by (intro keeps keeps_db; simp add: same_def)+

lemma fa_frames [keeps]:
  "keepsR (same receivables) (createChallenge u c)" "keepsR (same receivables) (verify u v)"
  unfolding createChallenge_def createChallenge_for_def fa_create_def verify_def verify_commit_def Let_def
  by (intro keeps keeps_db; simp add: same_def)+

lemma auth_frames [keeps]:
  "keepsR (same receivables) (register d)" "keepsR (same receivables) (login e p)"
  "keepsR (same receivables) (googleLogin g)" "keepsR (same receivables) (privySession a b)"
  "keepsR (same receivables) (setRole u r)" "keepsR (same receivables) (updateProfile u q)"
  "keepsR (same receivables) (changePassword u p p')" "keepsR (same receivables) (findMe u)"
  unfolding register_def login_def googleLogin_def googleVerify_def privySession_def verifySession_def
    privy_login_def fundQuietly_def setRole_def updateProfile_def changePassword_def findMe_def
    findByEmail_def tokenFor_def issueToken_def bcryptHash_def bcryptCompare_def findUserOrThrow_def
  by (intro keeps)+

lemma money_frames [keeps]:
  "keepsR (same receivables) (settlements_create s)" "keepsR (same receivables) (markAsPaid i u)"
  "keepsR (same receivables) (buildDepositStage i u st)" "keepsR (same receivables) (submitDepositStage i u sd)"
  "keepsR (same receivables) (admin_createUser cu)" "keepsR (same receivables) (admin_createDeposit cd o')"
  "keepsR (same receivables) (approveTransaction i o' ap)" "keepsR (same receivables) (createDepositOrder pd o')"
  "keepsR (same receivables) (createWithdrawalOrder pw o')" "keepsR (same receivables) (buildWithdrawalTx u x)"
  "keepsR (same receivables) (submitWithdrawal u sw)" "keepsR (same receivables) (retryCollectionOrder i u)"
  "keepsR (same receivables) (refreshPixOrder i u)" "keepsR (same receivables) (getBalance u)"
  "keepsR (same receivables) (createWallet u)"
  unfolding settlements_create_def markAsPaid_def buildDepositStage_def submitDepositStage_def
    loadApprovedDeposit_def findMyTransaction_def resolveInvestorAddress_def admin_createUser_def
    findByEmail_def admin_createDeposit_def approveTransaction_def approve_action_def createDepositOrder_def
    createWithdrawalOrder_def buildWithdrawalTx_def userAddress_def submitWithdrawal_def
    retryCollectionOrder_def refreshPixOrder_def getBalance_def createWallet_def Let_def
  by (intro keeps keeps_db; simp add: same_def)+

lemma read_frames [keeps]:
  "keepsR (same receivables) (receivables_findAll u)" "keepsR (same receivables) (receivables_findOne i)"
  "keepsR (same receivables) receivables_findPool" "keepsR (same receivables) receivablesRepo_getPoolStats"
  "keepsR (same receivables) (receivables_prepareAssignment i)"
  "keepsR (same receivables) (documents_findByReceivable i)" "keepsR (same receivables) settlements_findAll"
  "keepsR (same receivables) (settlements_findByReceivable i)"
  unfolding receivables_findAll_def receivablesRepo_findAll_def receivables_findOne_def
    receivables_findPool_def receivablesRepo_findPool_def receivablesRepo_getPoolStats_def
    receivables_prepareAssignment_def findAssignable_def findReceivable_def findPmeWallet_def
    documents_findByReceivable_def documentsRepo_findByReceivable_def settlements_findAll_def
    settlements_findByReceivable_def Let_def
  by (intro keeps)+

end
