(* ===== verification/Scripts.thy ===== *)
theory Scripts
  imports Lifecycle
begin

text \<open>
  The scripts an administrator runs against the same database: \<open>apps/api/prisma/seed.ts\<close>, which enters the
  data of the demonstration, and \<open>scripts/add-user.ts\<close>, which admits a user. \<open>Math.random()\<close> is a
  parameter, the sequence of the numbers it returns; the offset of the local time zone from UTC is another,
  constant as in Brazil. Promises that run in parallel are run one after the other.
\<close>

section \<open>Many operations\<close>

fun mapM :: "('a \<Rightarrow> ('r, 's, 'x, 'b) prog) \<Rightarrow> 'a list \<Rightarrow> ('r, 's, 'x, 'b list) prog" where
  "mapM f [] = retM []"
| "mapM f (x # xs) = bindM (f x) (\<lambda>y. bindM (mapM f xs) (\<lambda>ys. retM (y # ys)))"

definition user_upsert :: "string \<Rightarrow> (user \<Rightarrow> user) \<Rightarrow> (string \<Rightarrow> int \<Rightarrow> user) \<Rightarrow> user api" where
  "user_upsert email f mk =
     bindM (findByEmail email) (\<lambda>found.
     case found of Some u \<Rightarrow> user_update (usr_id u) f | None \<Rightarrow> user_create mk)"

section \<open>Seed\<close>

definition SACADOS :: "(string \<times> string) list" where
  "SACADOS =
    [(''Magazine Luiza S.A.'', ''47.960.950/0001-21''),
     (''Via Varejo S.A.'', ''33.041.260/0065-28''),
     (''Americanas S.A.'', ''00.776.574/0006-60''),
     (''Lojas Renner S.A.'', ''92.754.738/0001-62''),
     (''C&A Modas Ltda.'', ''45.242.914/0001-05''),
     (''Riachuelo S.A.'', ''33.200.056/0001-06''),
     (''Grupo Mateus Com'' @ [CHR 0xE9] @ ''rcio'', ''01.797.675/0001-02'')]"

definition daysFromNow :: "int \<Rightarrow> int \<Rightarrow> int api" where
  "daysFromNow tz n = bindM nowM (\<lambda>t. retM (((t + tz) div 86400000 + n) * 86400000 - tz))"

definition charAt :: "string \<Rightarrow> int \<Rightarrow> string" where
  "charAt s i = (if 0 \<le> i \<and> i < int (length s) then [s ! nat i] else '''')"

text \<open>\<open>random k\<close> is the answer of the call with number \<open>k\<close>.\<close>

definition fakeTxHash :: "(nat \<Rightarrow> rat) \<Rightarrow> nat \<Rightarrow> string" where
  "fakeTxHash random k = ''G'' @
     concat (map (\<lambda>j. charAt ''ABCDEFGHIJKLMNOPQRSTUVWXYZ234567'' \<lfloor>js_mul (random (k + j)) 32\<rfloor>) [0..<55])"

definition fakeDocHash :: "(nat \<Rightarrow> rat) \<Rightarrow> nat \<Rightarrow> string" where
  "fakeDocHash random k =
     concat (map (\<lambda>j. charAt ''0123456789abcdef'' \<lfloor>js_mul (random (k + j)) 16\<rfloor>) [0..<64])"

record seed_receivable =
  sd_value :: rat
  sd_status :: receivable_status
  sd_debtor :: "string \<times> string"
  sd_documentHash :: "string option"
  sd_txHash :: "string option"
  sd_dueDate :: int

text \<open>One entry of the list of the script; the numbers of the calls of \<open>Math.random()\<close> follow from the order of
  the entries.\<close>

definition seed_entry :: "int \<Rightarrow> rat \<Rightarrow> receivable_status \<Rightarrow> string \<times> string \<Rightarrow> string option \<Rightarrow> string option \<Rightarrow> int \<Rightarrow>
    seed_receivable api" where
  "seed_entry tz value status debtor documentHash txHash n =
     bindM (daysFromNow tz n) (\<lambda>due.
     retM \<lparr>sd_value = value, sd_status = status, sd_debtor = debtor, sd_documentHash = documentHash,
           sd_txHash = txHash, sd_dueDate = due\<rparr>)"

definition receivablesData :: "int \<Rightarrow> (nat \<Rightarrow> rat) \<Rightarrow> seed_receivable list api" where
  "receivablesData tz random = mapM id
    [seed_entry tz 182450 RSettled (SACADOS ! 0) (Some (fakeDocHash random 0)) (Some (fakeTxHash random 64)) (-18),
     seed_entry tz 58120 RSettled (SACADOS ! 3) (Some (fakeDocHash random 119)) (Some (fakeTxHash random 183)) (-5),
     seed_entry tz 132990 RSettled (SACADOS ! 4) (Some (fakeDocHash random 238)) (Some (fakeTxHash random 302)) (-15),
     seed_entry tz 94200 RActive (SACADOS ! 1) (Some (fakeDocHash random 357)) (Some (fakeTxHash random 421)) 30,
     seed_entry tz 215800 RActive (SACADOS ! 5) (Some (fakeDocHash random 476)) (Some (fakeTxHash random 540)) 45,
     seed_entry tz 246800 RPending (SACADOS ! 2) None None 48,
     seed_entry tz 87340 RPending (SACADOS ! 6) None None 60,
     seed_entry tz 163500 RValidated (SACADOS ! 1) (Some (fakeDocHash random 595)) None 35,
     seed_entry tz 71450 RDefaulted (''Pernambucanas Com'' @ [CHR 0xE9] @ ''rcio Ltda.'', ''61.189.288/0001-89'')
       (Some (fakeDocHash random 659)) None (-6)]"

definition seed_user :: "string \<Rightarrow> string \<Rightarrow> string \<Rightarrow> (user \<Rightarrow> user) \<Rightarrow> user api" where
  "seed_user hash email role f = user_upsert email f
     (\<lambda>i t. (blank_user i t email ''email'')\<lparr>usr_passwordHash := Some hash, usr_role := Some role\<rparr>)"

definition setUserRole :: "string \<Rightarrow> user \<Rightarrow> user" where
  "setUserRole role u = u\<lparr>usr_role := Some role\<rparr>"

definition seed_row :: "string \<Rightarrow> seed_receivable \<Rightarrow> string \<Rightarrow> int \<Rightarrow> receivable" where
  "seed_row pme d i t =
     \<lparr>rcv_id = i, rcv_userId = pme, rcv_value = sd_value d, rcv_type = RTInvoice, rcv_status = sd_status d,
      rcv_debtorName = fst (sd_debtor d), rcv_debtorDocument = snd (sd_debtor d),
      rcv_documentHash = sd_documentHash d, rcv_txHash = sd_txHash d, rcv_paymentTxHash = None,
      rcv_dueDate = sd_dueDate d, rcv_createdAt = t\<rparr>"

definition seed_document :: "receivable \<Rightarrow> string \<Rightarrow> int \<Rightarrow> document" where
  "seed_document r i t =
     \<lparr>doc_id = i, doc_receivableId = rcv_id r, doc_url = ''stub://nfe-'' @ take 8 (rcv_id r) @ ''.xml'',
      doc_hash = the (rcv_documentHash r), doc_type = DInvoice, doc_createdAt = t\<rparr>"

definition seed_settlement :: "int \<Rightarrow> (nat \<Rightarrow> rat) \<Rightarrow> nat \<times> receivable \<Rightarrow> settlement api" where
  "seed_settlement tz random = (\<lambda>(k, r).
     bindM (daysFromNow tz (-2)) (\<lambda>settledAt.
     createM settlements settlements_update stl_id chk_settlement (\<lambda>i t.
       \<lparr>stl_id = i, stl_receivableId = rcv_id r, stl_amount = js_mul (rcv_value r) (fl (97/100)), stl_method = MPix,
        stl_status = SSettled, stl_txHash = rcv_txHash r, stl_stellarTxHash = Some (fakeTxHash random (723 + 55 * k)),
        stl_settledAt = Some settledAt, stl_createdAt = t\<rparr>)))"

definition seed_audit :: "string \<Rightarrow> receivable \<Rightarrow> audit_input list" where
  "seed_audit pme r =
     [audit_entry ''receivable.created'' (rcv_id r) ''receivable'' pme
        [(''value'', JNum (rcv_value r)), (''debtorName'', JStr (rcv_debtorName r))]]
   @ (if rcv_status r \<in> {RValidated, RActive, RSettled}
      then [audit_entry ''receivable.validated'' (rcv_id r) ''receivable'' pme [(''sefazCode'', JStr ''OK'')]] else [])
   @ (if rcv_status r \<in> {RActive, RSettled}
      then [(audit_entry ''receivable.funded'' (rcv_id r) ''receivable'' pme [(''discount'', JNum (fl (3/100)))])
              \<lparr>ai_txHash := rcv_txHash r\<rparr>] else [])
   @ (if rcv_status r = RSettled
      then [(audit_entry ''receivable.settled'' (rcv_id r) ''receivable'' pme
               [(''method'', JStr ''pix''), (''amount'', JNum (js_mul (rcv_value r) (fl (97/100))))])
              \<lparr>ai_txHash := rcv_txHash r\<rparr>] else [])"

text \<open>\<open>createMany\<close> is one statement.\<close>

definition seed :: "int \<Rightarrow> (nat \<Rightarrow> rat) \<Rightarrow> unit api" where
  "seed tz random =
     bindM (bcryptHash ''demo@1234'') (\<lambda>hash.
     bindM (seed_user hash ''victorbcbrbc@gmail.com'' ''pme'' (setUserRole ''pme'')) (\<lambda>pme.
     bindM (seed_user hash ''victorh.barros011@gmail.com'' ''investor'' (setUserRole ''investor'')) (\<lambda>_.
     bindM (seed_user hash ''api@fintechpartner.io'' ''partner'' id) (\<lambda>_.
     bindM (seed_user hash ''victorh.vbarros@gmail.com'' ''operator'' (setUserRole ''operator'')) (\<lambda>_.
     bindM (receivablesData tz random) (\<lambda>rows.
     bindM (mapM (\<lambda>d. createM receivables receivables_update rcv_id chk_receivable (seed_row (usr_id pme) d)) rows) (\<lambda>rs.
     bindM (transactionM (mapM (\<lambda>r. createM documents documents_update doc_id chk_document (seed_document r))
              (filter (\<lambda>r. \<not> falsy (rcv_documentHash r)) rs))) (\<lambda>_.
     bindM (mapM (seed_settlement tz random) (enumerate 0 (filter (\<lambda>r. rcv_status r = RSettled) rs))) (\<lambda>_.
     bindM (transactionM (mapM auditCreate (concat (map (seed_audit (usr_id pme)) rs)))) (\<lambda>_.
     retM ()))))))))))"

section \<open>Adding a user\<close>

definition validRoles :: "string list" where
  "validRoles = [''pme'', ''investor'', ''operator'']"

definition plain :: "char \<Rightarrow> bool" where
  "plain c \<longleftrightarrow> \<not> is_blank c \<and> c \<noteq> CHR ''@''"

text \<open>\<open>/^[^\s@]+@[^\s@]+\.[^\s@]+$/\<close>: the text before the first at sign, and the rest with a dot inside.\<close>

definition email_form :: "string \<Rightarrow> bool" where
  "email_form s =
     (let a = takeWhile (\<lambda>c. c \<noteq> CHR ''@'') s; b = drop (Suc (length a)) s in
      length a < length s \<and> a \<noteq> [] \<and> list_all plain a \<and> list_all plain b \<and> CHR ''.'' \<in> set (butlast (tl b)))"

definition parseAddUserArguments :: "string list \<Rightarrow> string + string \<times> string" where
  "parseAddUserArguments args =
     (let email = (case args of [] \<Rightarrow> None | a # _ \<Rightarrow> Some (toLowerCase (trim a)));
          role = (case args of _ # r # _ \<Rightarrow> (if trim r = [] then ''pme'' else trim r) | _ \<Rightarrow> ''pme'')
      in if falsy email then Inl ''Uso: npm run add:user -- email@dominio.com [pme|investor|operator]''
         else if \<not> email_form (the email) then Inl ''E-mail invalido. Informe um e-mail no formato correto.''
         else if role \<notin> set validRoles then Inl ''Role invalida. Use uma destas: pme, investor, operator.''
         else Inr (the email, role))"

definition setReleased :: "string \<Rightarrow> user \<Rightarrow> user" where
  "setReleased role u = u\<lparr>usr_role := Some role, usr_provider := ''privy''\<rparr>"

definition addUser :: "string list \<Rightarrow> user api" where
  "addUser args =
     (case parseAddUserArguments args of
        Inl m \<Rightarrow> throwM (JsError m)
      | Inr (email, role) \<Rightarrow>
          bindM (confM ''DATABASE_URL'') (\<lambda>url.
          bindM (throwIf (falsy url) (JsError ''DATABASE_URL nao configurada no ambiente.'')) (\<lambda>_.
          user_upsert email (setReleased role) (\<lambda>i t. (blank_user i t email ''privy'')\<lparr>usr_role := Some role\<rparr>))))"

text \<open>What an administrator may run.\<close>

datatype script = Seed int "nat \<Rightarrow> rat" | AddUser "string list"

definition run_script :: "script \<Rightarrow> unit api" where
  "run_script s = (case s of
     Seed tz random \<Rightarrow> seed tz random
   | AddUser args \<Rightarrow> bindM (addUser args) (\<lambda>_. retM ()))"

section \<open>Scripts are sound steps\<close>

context kept_relation
begin

lemma keepsR_mapM [keeps]: "(\<And>x. keepsR R (f x)) \<Longrightarrow> keepsR R (mapM f xs)"
  by (induction xs) (simp_all add: keepsR_ret keepsR_bind)

lemma keepsR_mapM_in: "(\<And>x. x \<in> set xs \<Longrightarrow> keepsR R (f x)) \<Longrightarrow> keepsR R (mapM f xs)"
  by (induction xs) (simp_all add: keepsR_ret keepsR_bind)

end

lemma upsert_step [keeps]:
  "(\<And>u. user_evo u (f u)) \<Longrightarrow> keepsR sound_step (user_upsert email f mk)"
  unfolding user_upsert_def findByEmail_def user_update_def user_create_def by (intro keeps)

lemma role_evo: "user_evo u (setUserRole role u)" "user_evo u (setReleased role u)" "user_evo u (id u)"
  by (simp_all add: user_evo_def setUserRole_def setReleased_def)

lemma seed_parts_step [keeps]:
  "keepsR sound_step (bcryptHash p)" "keepsR sound_step (daysFromNow tz n)"
  "keepsR sound_step (seed_entry tz x st debtor dh th n)" "keepsR sound_step (seed_settlement tz random kr)"
  "keepsR sound_step (receivablesData tz random)"
proof -
  show "keepsR sound_step (daysFromNow tz n)" for n
    unfolding daysFromNow_def by (intro keeps)
  note days = this
  show "keepsR sound_step (seed_entry tz x st debtor dh th n)" for x st debtor dh th n
    unfolding seed_entry_def by (intro keeps days)
  note entry = this
  show "keepsR sound_step (receivablesData tz random)"
    unfolding receivablesData_def mapM.simps id_apply by (intro keeps entry)
  show "keepsR sound_step (seed_settlement tz random kr)"
    unfolding seed_settlement_def by (cases kr) (simp, intro keeps days)
qed (unfold bcryptHash_def, intro keeps)

lemma seed_step [keeps]: "keepsR sound_step (seed tz random)"
  unfolding seed_def seed_user_def by (intro keeps role_evo)

lemma addUser_step [keeps]: "keepsR sound_step (addUser args)"
  unfolding addUser_def by (intro keeps role_evo)

lemma run_script_step: "keepsR sound_step (run_script s)"
  unfolding run_script_def by (cases s) (simp_all, (intro keeps)+)

text \<open>A script enters no receivable that is tokenized without the hash of a transaction.\<close>

definition enters_tokened :: "world \<Rightarrow> world \<Rightarrow> bool" where
  "enters_tokened w v \<longleftrightarrow> (\<forall>r \<in> set (receivables v). r \<in> set (receivables w) \<or> tokened r)"

interpretation entered: world_relation enters_tokened
  by unfold_locales (auto simp: enters_tokened_def)

lemma same_receivables_entered: "keepsR (same receivables) m \<Longrightarrow> keepsR enters_tokened m"
  by (erule keepsR_mono) (simp add: same_def enters_tokened_def)

lemma user_upsert_frames [keeps]:
  "keepsR (same receivables) (user_upsert email f mk)" "keepsR (same documents) (user_upsert email f mk)"
  "keepsR (same settlements) (user_upsert email f mk)" "keepsR (same auditLogs) (user_upsert email f mk)"
  unfolding user_upsert_def findByEmail_def user_update_def user_create_def
  by (intro keeps keeps_db; simp add: same_def)+

lemma seed_reads_frames [keeps]:
  "keepsR (same receivables) (bcryptHash p)" "keepsR (same documents) (bcryptHash p)"
  "keepsR (same settlements) (bcryptHash p)" "keepsR (same auditLogs) (bcryptHash p)"
  "keepsR (same users) (daysFromNow tz n)"
  "keepsR (same receivables) (daysFromNow tz n)" "keepsR (same documents) (daysFromNow tz n)"
  "keepsR (same settlements) (daysFromNow tz n)" "keepsR (same auditLogs) (daysFromNow tz n)"
  unfolding bcryptHash_def daysFromNow_def by (intro keeps)+

lemma seed_rows_frames [keeps]:
  "keepsR (same receivables) (receivablesData tz random)" "keepsR (same documents) (receivablesData tz random)"
  "keepsR (same settlements) (receivablesData tz random)" "keepsR (same auditLogs) (receivablesData tz random)"
  unfolding receivablesData_def seed_entry_def mapM.simps id_apply by (intro keeps)+

lemma seed_settlement_frames [keeps]:
  "keepsR (same receivables) (seed_settlement tz random kr)"
  "keepsR (same documents) (seed_settlement tz random kr)" "keepsR (same auditLogs) (seed_settlement tz random kr)"
  unfolding seed_settlement_def by (intro keeps keeps_db; simp add: same_def)+

lemma receivablesData_rows:
  assumes "receivablesData tz random E w = (Inr rows, w')"
  shows "map sd_status rows = [RSettled, RSettled, RSettled, RActive, RActive, RPending, RPending, RValidated, RDefaulted]"
    and "\<forall>d \<in> set rows. (sd_status d \<in> {RSettled, RActive} \<longrightarrow> sd_txHash d \<noteq> None)
      \<and> sd_status d \<notin> {RTokenized, RAssignmentPending}"
  using assms
  by (auto simp: receivablesData_def seed_entry_def daysFromNow_def bindM_assoc retM_def elim!: bindM_InrE)

lemma seed_enters: "keepsR enters_tokened (seed tz random)"
proof -
  have rows: "keepsR enters_tokened (receivablesData tz random)"
    unfolding receivablesData_def mapM.simps id_apply seed_entry_def
    by (intro keeps same_receivables_entered)
  have create: "keepsR enters_tokened (createM receivables receivables_update rcv_id chk_receivable (seed_row pme d))"
    if "sd_status d \<in> {RSettled, RActive} \<longrightarrow> sd_txHash d \<noteq> None" "sd_status d \<notin> {RTokenized, RAssignmentPending}" for pme d
    using that by (intro entered.keepsR_create_made) (auto simp: enters_tokened_def seed_row_def tokened_def)
  have "keepsR enters_tokened (mapM (\<lambda>d. createM receivables receivables_update rcv_id chk_receivable (seed_row pme d)) ds)"
    if "\<forall>d \<in> set ds. (sd_status d \<in> {RSettled, RActive} \<longrightarrow> sd_txHash d \<noteq> None) \<and> sd_status d \<notin> {RTokenized, RAssignmentPending}"
    for pme ds
    using that by (intro entered.keepsR_mapM_in create) blast+
  note creates = this
  show ?thesis
    unfolding seed_def seed_user_def
    by (intro keeps same_receivables_entered entered.keepsR_bind_post [OF rows receivablesData_rows(2)] creates keeps_db;
        simp add: same_def enters_tokened_def)
qed

lemma run_script_enters: "keepsR enters_tokened (run_script s)"
  unfolding run_script_def addUser_def
  by (cases s) (simp_all add: seed_enters, (intro keeps same_receivables_entered)+)

section \<open>What the seed enters\<close>

lemma mapM_appends:
  assumes "mapM f xs E w = (Inr ys, w')" and "\<And>x v y v'. f x E v = (Inr y, v') \<Longrightarrow> tab v' = tab v @ [y] \<and> P x y"
  shows "tab w' = tab w @ ys \<and> list_all2 P xs ys"
  using assms(1)
proof (induction xs arbitrary: w ys)
  case (Cons x xs)
  from Cons.prems obtain y v zs where y: "f x E w = (Inr y, v)" and zs: "mapM f xs E v = (Inr zs, w')" "ys = y # zs"
    by (auto simp: retM_def elim!: bindM_InrE)
  show ?case using assms(2) [OF y] Cons.IH [OF zs(1)] zs(2) by simp
qed (simp add: retM_def)

lemma transactionM_InrD: "transactionM m E w = (Inr a, w') \<Longrightarrow> m E w = (Inr a, w')"
  by (auto simp: transactionM_def split: prod.splits sum.splits)

context db_table
begin

lemma tab_mapM_create:
  assumes "mapM (\<lambda>x. createM tab upd key chk (mk x)) xs E w = (Inr rs, w')" and "\<And>x i t. P x (mk x i t)"
  shows "tab w' = tab w @ rs \<and> list_all2 P xs rs"
  using mapM_appends [OF assms(1)] tab_create_Inr(1,3) assms(2) by metis

end

text \<open>The events the script enters for a receivable of each status.\<close>

definition seed_history :: "receivable_status \<Rightarrow> string list" where
  "seed_history st = [''receivable.created'']
     @ (if st \<in> {RValidated, RActive, RSettled} then [''receivable.validated''] else [])
     @ (if st \<in> {RActive, RSettled} then [''receivable.funded''] else [])
     @ (if st = RSettled then [''receivable.settled''] else [])"

lemma seed_audit_history:
  "map (\<lambda>x. (ai_event x, ai_entityId x)) (seed_audit pme r) = map (\<lambda>e. (e, rcv_id r)) (seed_history (rcv_status r))"
  by (simp add: seed_audit_def seed_history_def audit_entry_def)

lemma list_all2_map_eq: "list_all2 (\<lambda>x y. f x = g y) xs ys \<Longrightarrow> map g ys = map f xs"
  by (induction rule: list_all2_induct) simp_all

definition seed_rest :: "int \<Rightarrow> (nat \<Rightarrow> rat) \<Rightarrow> string \<Rightarrow> user \<Rightarrow> unit api" where
  "seed_rest tz random hash pme =
     bindM (seed_user hash ''victorh.barros011@gmail.com'' ''investor'' (setUserRole ''investor'')) (\<lambda>_.
     bindM (seed_user hash ''api@fintechpartner.io'' ''partner'' id) (\<lambda>_.
     bindM (seed_user hash ''victorh.vbarros@gmail.com'' ''operator'' (setUserRole ''operator'')) (\<lambda>_.
     bindM (receivablesData tz random) (\<lambda>rows.
     bindM (mapM (\<lambda>d. createM receivables receivables_update rcv_id chk_receivable (seed_row (usr_id pme) d)) rows) (\<lambda>rs.
     bindM (transactionM (mapM (\<lambda>r. createM documents documents_update doc_id chk_document (seed_document r))
              (filter (\<lambda>r. \<not> falsy (rcv_documentHash r)) rs))) (\<lambda>_.
     bindM (mapM (seed_settlement tz random) (enumerate 0 (filter (\<lambda>r. rcv_status r = RSettled) rs))) (\<lambda>_.
     bindM (transactionM (mapM auditCreate (concat (map (seed_audit (usr_id pme)) rs)))) (\<lambda>_.
     retM ()))))))))"

lemma seed_rest: "seed tz random =
    bindM (bcryptHash ''demo@1234'') (\<lambda>hash.
    bindM (seed_user hash ''victorbcbrbc@gmail.com'' ''pme'' (setUserRole ''pme'')) (\<lambda>pme. seed_rest tz random hash pme))"
  by (simp add: seed_def seed_rest_def)

lemma seed_parts:
  assumes "seed tz random E w = (Inr (), v)"
  obtains h w0 pme w1 u2 w2 u3 w3 u4 w4 rows w5 rs w6 ds w7 ss w8 ls where
    "bcryptHash ''demo@1234'' E w = (Inr h, w0)"
    "seed_user h ''victorbcbrbc@gmail.com'' ''pme'' (setUserRole ''pme'') E w0 = (Inr pme, w1)"
    "seed_user h ''victorh.barros011@gmail.com'' ''investor'' (setUserRole ''investor'') E w1 = (Inr u2, w2)"
    "seed_user h ''api@fintechpartner.io'' ''partner'' id E w2 = (Inr u3, w3)"
    "seed_user h ''victorh.vbarros@gmail.com'' ''operator'' (setUserRole ''operator'') E w3 = (Inr u4, w4)"
    "receivablesData tz random E w4 = (Inr rows, w5)"
    "mapM (\<lambda>d. createM receivables receivables_update rcv_id chk_receivable (seed_row (usr_id pme) d)) rows E w5 = (Inr rs, w6)"
    "mapM (\<lambda>r. createM documents documents_update doc_id chk_document (seed_document r))
      (filter (\<lambda>r. \<not> falsy (rcv_documentHash r)) rs) E w6 = (Inr ds, w7)"
    "mapM (seed_settlement tz random) (enumerate 0 (filter (\<lambda>r. rcv_status r = RSettled) rs)) E w7 = (Inr ss, w8)"
    "mapM auditCreate (concat (map (seed_audit (usr_id pme)) rs)) E w8 = (Inr ls, v)" "evolves w1 v"
proof -
  obtain h w0 pme w1 where h: "bcryptHash ''demo@1234'' E w = (Inr h, w0)"
    and pme: "seed_user h ''victorbcbrbc@gmail.com'' ''pme'' (setUserRole ''pme'') E w0 = (Inr pme, w1)"
    and rest: "seed_rest tz random h pme E w1 = (Inr (), v)"
    using assms unfolding seed_rest by (elim bindM_InrE)
  have "keepsR sound_step (seed_rest tz random h pme)"
    unfolding seed_rest_def seed_user_def by (intro keeps role_evo)
  then have "evolves w1 v" using rest by (auto simp: sound_step_def dest: keepsRD)
  from that [OF h pme] this rest show ?thesis
    unfolding seed_rest_def
    by (elim bindM_InrE) (drule transactionM_InrD, drule transactionM_InrD, simp add: retM_def)
qed

lemma user_upsert_Inr:
  assumes "user_upsert email f mk E w = (Inr u, v)" and "db_ok w"
    and "\<And>x. usr_email (f x) = usr_email x" and "\<And>x. usr_id (f x) = usr_id x"
    and "\<And>i t. usr_email (mk i t) = email"
  shows "usr_email u = email \<and> find_row usr_id (usr_id u) (users v) = Some u"
proof (cases "find_row usr_email email (users w)")
  case None
  with assms(1) have c: "createM users users_update usr_id chk_user mk E w = (Inr u, v)"
    by (simp add: user_upsert_def findByEmail_def user_create_def)
  have "usr_email u = email" using tusers.tab_create_Inr(3) [OF c] assms(5) by simp
  then show ?thesis using tusers.tab_create_Inr(1,2) [OF c]
    by (simp add: find_row_append find_row_Cons find_row_None_iff [THEN iffD2])
next
  case (Some x)
  with assms(1) have "user_update (usr_id x) f E w = (Inr u, v)"
    by (simp add: user_upsert_def findByEmail_def)
  moreover have "x \<in> set (users w)" "usr_email x = email" using find_row_SomeD [OF Some] by simp_all
  moreover from this have "find_row usr_id (usr_id x) (users w) = Some x"
    using assms(2) by (intro find_row_distinct) (simp_all add: db_ok_defs)
  ultimately show ?thesis using user_update_Inr [of "usr_id x" f E w u v] assms(3,4)
    by (auto simp: find_row_upd_row)
qed

lemma seed_settlement_Inr:
  assumes "seed_settlement tz random (k, r) E w = (Inr s, v)"
  shows "settlements v = settlements w @ [s] \<and> stl_receivableId s = rcv_id r \<and> stl_status s = SSettled"
proof -
  from assms obtain t w1 mk where "daysFromNow tz (-2) E w = (Inr t, w1)"
    and c: "createM settlements settlements_update stl_id chk_settlement mk E w1 = (Inr s, v)"
    and "\<And>i x. stl_receivableId (mk i x) = rcv_id r \<and> stl_status (mk i x) = SSettled"
    unfolding seed_settlement_def by (auto elim!: bindM_InrE)
  then show ?thesis using tsettlements.tab_create_Inr(1,3) [OF c] sameD' [OF seed_reads_frames(8)] by metis
qed

lemma seed_before:
  assumes "\<And>p. keepsR (same g) (bcryptHash p)" and "\<And>e f mk. keepsR (same g) (user_upsert e f mk)"
    and "keepsR (same g) (receivablesData tz random)"
    and "bcryptHash p E w = (Inr h, w0)" "seed_user h e1 r1 f1 E w0 = (Inr u1, w1)" "seed_user h e2 r2 f2 E w1 = (Inr u2, w2)"
    "seed_user h e3 r3 f3 E w2 = (Inr u3, w3)" "seed_user h e4 r4 f4 E w3 = (Inr u4, w4)"
    "receivablesData tz random E w4 = (Inr rows, w5)"
  shows "g w5 = g w"
  using sameD' [OF assms(1), OF assms(4)] sameD' [OF assms(3,9)]
    sameD' [OF assms(2), OF assms(5) [unfolded seed_user_def]] sameD' [OF assms(2), OF assms(6) [unfolded seed_user_def]]
    sameD' [OF assms(2), OF assms(7) [unfolded seed_user_def]] sameD' [OF assms(2), OF assms(8) [unfolded seed_user_def]]
  by simp

lemma seed_company:
  assumes "bcryptHash p E w = (Inr h, w0)" and "seed_user h email role (setUserRole role) E w0 = (Inr u, w1)"
    and "evolves w1 v" and "db_ok w"
  shows "\<exists>x \<in> set (users v). usr_id x = usr_id u \<and> usr_email x = email"
proof -
  have "db_ok w0" using keepsRD [OF seed_parts_step(1), OF assms(1)] assms(4) by (simp add: sound_step_def)
  from user_upsert_Inr [OF assms(2) [unfolded seed_user_def] this]
  have u: "usr_email u = email" "find_row usr_id (usr_id u) (users w1) = Some u"
    by (simp_all add: setUserRole_def blank_user_def)
  from evolves_user [OF assms(3) u(2)] u(1) show ?thesis
    by (metis find_row_SomeD user_evo_def)
qed

lemma list_all2_enumerate: "list_all2 (\<lambda>kx y. P (snd kx) y) (enumerate n xs) ys \<Longrightarrow> list_all2 P xs ys"
  by (auto simp: list_all2_conv_all_nth nth_enumerate_eq)

lemma seed_writes_frames:
  "keepsR (same documents) (mapM (\<lambda>d. createM receivables receivables_update rcv_id chk_receivable (f d)) xs)"
  "keepsR (same settlements) (mapM (\<lambda>d. createM receivables receivables_update rcv_id chk_receivable (f d)) xs)"
  "keepsR (same auditLogs) (mapM (\<lambda>d. createM receivables receivables_update rcv_id chk_receivable (f d)) xs)"
  "keepsR (same receivables) (mapM (\<lambda>r. createM documents documents_update doc_id chk_document (g r)) ys)"
  "keepsR (same settlements) (mapM (\<lambda>r. createM documents documents_update doc_id chk_document (g r)) ys)"
  "keepsR (same auditLogs) (mapM (\<lambda>r. createM documents documents_update doc_id chk_document (g r)) ys)"
  "keepsR (same receivables) (mapM (seed_settlement tz random) zs)"
  "keepsR (same documents) (mapM (seed_settlement tz random) zs)"
  "keepsR (same auditLogs) (mapM (seed_settlement tz random) zs)"
  "keepsR (same receivables) (mapM auditCreate ls)" "keepsR (same documents) (mapM auditCreate ls)"
  "keepsR (same settlements) (mapM auditCreate ls)"
  by (intro keeps keeps_db; simp add: same_def)+

lemma after_seed:
  assumes "mapM (\<lambda>d. createM receivables receivables_update rcv_id chk_receivable (seed_row i d)) rows E w5 = (Inr rs, w6)"
    and "mapM (\<lambda>r. createM documents documents_update doc_id chk_document (seed_document r)) ys E w6 = (Inr ds, w7)"
    and "mapM (seed_settlement tz random) xs E w7 = (Inr ss, w8)" and "mapM auditCreate zs E w8 = (Inr ls, v)"
  shows "receivables v = receivables w6" and "documents v = documents w7" and "settlements v = settlements w8"
    and "documents w6 = documents w5" and "settlements w7 = settlements w5" and "auditLogs w8 = auditLogs w5"
  using seed_writes_frames(1-3) [THEN sameD', OF assms(1)] seed_writes_frames(4-6) [THEN sameD', OF assms(2)]
    seed_writes_frames(7-9) [THEN sameD', OF assms(3)] seed_writes_frames(10-12) [THEN sameD', OF assms(4)]
  by simp_all

definition seed_statuses :: "receivable_status list" where
  "seed_statuses = [RSettled, RSettled, RSettled, RActive, RActive, RPending, RPending, RValidated, RDefaulted]"

lemma filter_settled:
  "map rcv_status rs = seed_statuses \<Longrightarrow> filter (\<lambda>r. rcv_status r = RSettled) rs = take 3 rs"
  by (auto simp: seed_statuses_def Cons_eq_map_conv)

lemma seed_effect:
  assumes "seed tz random E w = (Inr (), v)" and "db_ok w"
  shows "\<exists>pme rs ds ss ls. receivables v = receivables w @ rs \<and> documents v = documents w @ ds
    \<and> settlements v = settlements w @ ss \<and> auditLogs v = auditLogs w @ ls
    \<and> (\<exists>u \<in> set (users v). usr_id u = pme \<and> usr_email u = ''victorbcbrbc@gmail.com'') \<and> rcv_userId ` set rs = {pme}
    \<and> map rcv_status rs = seed_statuses
    \<and> map (\<lambda>d. (doc_receivableId d, Some (doc_hash d))) ds
       = map (\<lambda>r. (rcv_id r, rcv_documentHash r)) (filter (\<lambda>r. \<not> falsy (rcv_documentHash r)) rs)
    \<and> map (\<lambda>s. (stl_receivableId s, stl_status s)) ss = map (\<lambda>r. (rcv_id r, SSettled)) (take 3 rs)
    \<and> map (\<lambda>l. (aud_event l, aud_entityId l)) ls
       = concat (map (\<lambda>r. map (\<lambda>e. (e, rcv_id r)) (seed_history (rcv_status r))) rs)"
proof -
  obtain h w0 pme w1 u2 w2 u3 w3 u4 w4 rows w5 rs w6 ds w7 ss w8 ls where
    h: "bcryptHash ''demo@1234'' E w = (Inr h, w0)"
    and u: "seed_user h ''victorbcbrbc@gmail.com'' ''pme'' (setUserRole ''pme'') E w0 = (Inr pme, w1)"
    "seed_user h ''victorh.barros011@gmail.com'' ''investor'' (setUserRole ''investor'') E w1 = (Inr u2, w2)"
    "seed_user h ''api@fintechpartner.io'' ''partner'' id E w2 = (Inr u3, w3)"
    "seed_user h ''victorh.vbarros@gmail.com'' ''operator'' (setUserRole ''operator'') E w3 = (Inr u4, w4)"
    and rows: "receivablesData tz random E w4 = (Inr rows, w5)"
    and rs: "mapM (\<lambda>d. createM receivables receivables_update rcv_id chk_receivable (seed_row (usr_id pme) d)) rows E w5 = (Inr rs, w6)"
    and ds: "mapM (\<lambda>r. createM documents documents_update doc_id chk_document (seed_document r))
      (filter (\<lambda>r. \<not> falsy (rcv_documentHash r)) rs) E w6 = (Inr ds, w7)"
    and ss: "mapM (seed_settlement tz random) (enumerate 0 (filter (\<lambda>r. rcv_status r = RSettled) rs)) E w7 = (Inr ss, w8)"
    and ls: "mapM auditCreate (concat (map (seed_audit (usr_id pme)) rs)) E w8 = (Inr ls, v)"
    and later: "evolves w1 v"
    using assms(1) by (rule seed_parts)
  note same = seed_before [OF _ _ _ h u rows]
  have before: "receivables w5 = receivables w" "documents w5 = documents w" "settlements w5 = settlements w"
    "auditLogs w5 = auditLogs w"
    by (rule same; rule keeps)+
  have r: "receivables w6 = receivables w5 @ rs \<and> list_all2 (\<lambda>d r. (sd_status d, usr_id pme) = (rcv_status r, rcv_userId r)) rows rs"
    by (rule treceivables.tab_mapM_create [OF rs]) (simp add: seed_row_def)
  have d: "documents w7 = documents w6 @ ds
      \<and> list_all2 (\<lambda>r d. (rcv_id r, the (rcv_documentHash r)) = (doc_receivableId d, doc_hash d))
          (filter (\<lambda>r. \<not> falsy (rcv_documentHash r)) rs) ds"
    by (rule tdocuments.tab_mapM_create [OF ds]) (simp add: seed_document_def)
  have s: "settlements w8 = settlements w7 @ ss
      \<and> list_all2 (\<lambda>kr s. (rcv_id (snd kr), SSettled) = (stl_receivableId s, stl_status s))
          (enumerate 0 (filter (\<lambda>r. rcv_status r = RSettled) rs)) ss"
    by (rule mapM_appends [OF ss]) (auto dest!: seed_settlement_Inr)
  have l: "auditLogs v = auditLogs w8 @ ls
      \<and> list_all2 (\<lambda>x l. (ai_event x, ai_entityId x) = (aud_event l, aud_entityId l))
          (concat (map (seed_audit (usr_id pme)) rs)) ls"
    by (rule tauditLogs.tab_mapM_create [OF ls [unfolded auditCreate_def]]) simp
  have after: "receivables v = receivables w6" "documents v = documents w7" "settlements v = settlements w8"
    "documents w6 = documents w5" "settlements w7 = settlements w5" "auditLogs w8 = auditLogs w5"
    using after_seed [OF rs ds ss ls] by simp_all
  have st: "map (\<lambda>r. (rcv_status r, rcv_userId r)) rs = map (\<lambda>st. (st, usr_id pme)) seed_statuses"
    using list_all2_map_eq [OF conjunct2 [OF r]] arg_cong [OF receivablesData_rows(1) [OF rows], of "map (\<lambda>st. (st, usr_id pme))"]
    by (simp add: seed_statuses_def comp_def)
  have statuses: "map rcv_status rs = seed_statuses" using arg_cong [OF st, of "map fst"] by (simp add: comp_def)
  have owners: "rcv_userId ` set rs = {usr_id pme}"
    using arg_cong [OF st, of "\<lambda>xs. snd ` set xs"] by (simp add: image_image seed_statuses_def)
  obtain u where "u \<in> set (users v)" "usr_id u = usr_id pme" "usr_email u = ''victorbcbrbc@gmail.com''"
    using seed_company [OF h u(1) later assms(2)] by blast
  moreover have "map (\<lambda>d. (doc_receivableId d, Some (doc_hash d))) ds
       = map (\<lambda>r. (rcv_id r, rcv_documentHash r)) (filter (\<lambda>r. \<not> falsy (rcv_documentHash r)) rs)"
    using arg_cong [OF list_all2_map_eq [OF conjunct2 [OF d]], of "map (apsnd Some)"]
    by (auto simp: comp_def elim!: not_falsyE)
  moreover have "map (\<lambda>s. (stl_receivableId s, stl_status s)) ss = map (\<lambda>r. (rcv_id r, SSettled)) (take 3 rs)"
    using list_all2_map_eq [OF list_all2_enumerate [OF conjunct2 [OF s]]] filter_settled [OF statuses] by simp
  moreover have "map (\<lambda>l. (aud_event l, aud_entityId l)) ls
       = concat (map (\<lambda>r. map (\<lambda>e. (e, rcv_id r)) (seed_history (rcv_status r))) rs)"
    using list_all2_map_eq [OF conjunct2 [OF l]] by (simp add: map_concat seed_audit_history comp_def)
  ultimately show ?thesis using r d s l before after statuses owners by (intro exI [of _ "usr_id pme"] exI) auto
qed

section \<open>The seed ends normally\<close>

text \<open>Every identifier in the tables the script writes was issued by the generator, which does not repeat itself.\<close>

definition issued :: "env \<Rightarrow> world \<Rightarrow> bool" where
  "issued E w \<longleftrightarrow> usr_id ` set (users w) \<union> rcv_id ` set (receivables w) \<union> doc_id ` set (documents w)
     \<union> stl_id ` set (settlements w) \<union> aud_id ` set (auditLogs w) \<subseteq> e_uuid E ` {..<w_ids w}"

definition seeding :: "env \<Rightarrow> world \<Rightarrow> world \<Rightarrow> bool" where
  "seeding E w0 w \<longleftrightarrow> db_ok w \<and> issued E w \<and> evolves w0 w"

lemma seeding_step:
  assumes "seeding E w0 w" and "keepsR sound_step m" and "m E w = (r, v)" and "issued E v"
  shows "seeding E w0 v"
proof -
  have "sound_step w v" using assms(2,3) by (rule keepsRD)
  then show ?thesis using assms(1,4) evo.kept_trans by (auto simp: seeding_def sound_step_def)
qed

context db_table
begin

lemma tab_create_runs:
  assumes "inj (e_uuid E)" and "key ` set (tab w) \<subseteq> e_uuid E ` {..<w_ids w}" and "\<And>i t. key (mk i t) = i"
    and "\<And>i t. chk (w\<lparr>w_ids := Suc (w_ids w)\<rparr>) (mk i t) = None"
  shows "\<exists>i t. createM tab upd key chk mk E w = (Inr (mk i t), upd (\<lambda>x. x @ [mk i t]) (w\<lparr>w_ids := Suc (w_ids w)\<rparr>))
    \<and> i = e_uuid E (w_ids w)"
proof -
  have "e_uuid E (w_ids w) \<notin> key ` set (tab w)" using assms(2) inj_image_mem_iff [OF assms(1), of "w_ids w" "{..<w_ids w}"] by auto
  then have "createM tab upd key chk mk E w = (Inr (mk (e_uuid E (w_ids w)) (w_now w)),
      upd (\<lambda>x. x @ [mk (e_uuid E (w_ids w)) (w_now w)]) (w\<lparr>w_ids := Suc (w_ids w)\<rparr>))"
    using assms(3,4) by (simp add: createM_def bindM_def uuidM_def Let_def tab_ids)
  then show ?thesis by blast
qed

end

lemma mapM_runs:
  assumes "I w" and "\<And>x w. x \<in> set xs \<Longrightarrow> I w \<Longrightarrow> \<exists>y v. f x E w = (Inr y, v) \<and> I v"
  shows "\<exists>ys v. mapM f xs E w = (Inr ys, v) \<and> I v"
  using assms
proof (induction xs arbitrary: w)
  case (Cons x xs)
  obtain y v where y: "f x E w = (Inr y, v)" "I v" using Cons.prems by (metis list.set_intros(1))
  obtain ys u where "mapM f xs E v = (Inr ys, u)" "I u"
    using Cons.IH [OF y(2)] Cons.prems(2) by (metis list.set_intros(2))
  with y show ?case by (simp add: bindM_def retM_def)
qed (simp add: retM_def)

lemma seeding_user: "seeding E w0 w \<Longrightarrow> has_user w0 i \<Longrightarrow> has_user w i"
  unfolding seeding_def has_user_def by (metis evolves_user not_None_eq)

lemma seeding_receivable: "seeding E w0 w \<Longrightarrow> has_receivable w0 i \<Longrightarrow> has_receivable w i"
  unfolding seeding_def has_receivable_def by (metis evolves_receivable not_None_eq)

lemma seeding_rows:
  assumes "seeding E w0 w"
  shows "usr_id ` set (users w) \<subseteq> e_uuid E ` {..<w_ids w}" "rcv_id ` set (receivables w) \<subseteq> e_uuid E ` {..<w_ids w}"
    "doc_id ` set (documents w) \<subseteq> e_uuid E ` {..<w_ids w}" "stl_id ` set (settlements w) \<subseteq> e_uuid E ` {..<w_ids w}"
    "aud_id ` set (auditLogs w) \<subseteq> e_uuid E ` {..<w_ids w}"
  using assms by (auto simp: seeding_def issued_def)

lemma user_upsert_runs:
  assumes "inj (e_uuid E)" and "seeding E w0 w" and "\<And>u. user_evo u (f u)" and "\<And>i t. usr_id (mk i t) = i"
    and "\<And>x. usr_googleId (f x) = usr_googleId x \<and> usr_privyUserId (f x) = usr_privyUserId x
      \<and> usr_privyStellarWalletAddress (f x) = usr_privyStellarWalletAddress x \<and> usr_cnpj (f x) = usr_cnpj x"
    and "\<And>i t. usr_email (mk i t) = email \<and> usr_googleId (mk i t) = None \<and> usr_privyUserId (mk i t) = None
      \<and> usr_privyStellarWalletAddress (mk i t) = None \<and> usr_cnpj (mk i t) = None"
  shows "\<exists>u v. user_upsert email f mk E w = (Inr u, v) \<and> seeding E w0 v \<and> has_user v (usr_id u)"
proof (cases "find_row usr_email email (users w)")
  case None
  have "chk_user (w\<lparr>w_ids := Suc (w_ids w)\<rparr>) (mk i t) = None" for i t
    using None assms(6) by (auto simp: chk_user_def clash_def list_ex_iff find_row_None_iff)
  from tusers.tab_create_runs [where mk = mk and w = w and chk = chk_user, OF assms(1) seeding_rows(1) [OF assms(2)] assms(4) this]
  obtain i t where c: "createM users users_update usr_id chk_user mk E w
      = (Inr (mk i t), users_update (\<lambda>x. x @ [mk i t]) (w\<lparr>w_ids := Suc (w_ids w)\<rparr>))" and i: "i = e_uuid E (w_ids w)"
    by blast
  have "issued E (users_update (\<lambda>x. x @ [mk i t]) (w\<lparr>w_ids := Suc (w_ids w)\<rparr>))"
    using assms(2,4) i by (auto simp: seeding_def issued_def lessThan_Suc)
  from seeding_step [OF assms(2) step_create_user c this] c None assms(4) show ?thesis
    by (simp add: user_upsert_def findByEmail_def user_create_def has_user_def find_row_append find_row_Cons split: option.split)
next
  case (Some x)
  then have x: "x \<in> set (users w)" by (auto dest: find_row_SomeD)
  have d: "db_ok w" using assms(2) by (simp add: seeding_def)
  have i: "usr_id (f u) = usr_id u" "usr_email (f u) = usr_email u" for u using assms(3) by (simp_all add: user_evo_def)
  have "chk_user w (f x) = None"
    using x i assms(5) by (simp add: chk_user_def uniq_no_clash [OF _ x] d [unfolded db_ok_defs])
  moreover have r: "find_row usr_id (usr_id x) (users w) = Some x"
    using d x by (intro find_row_distinct) (simp_all add: db_ok_defs)
  ultimately have c: "updateM users users_update usr_id chk_user (usr_id x) f E w
      = (Inr (f x), users_update (upd_row usr_id (usr_id x) f) w)"
    by (intro tusers.tab_update_run)
  have "issued E (users_update (upd_row usr_id (usr_id x) f) w)"
    using assms(2) i by (simp add: seeding_def issued_def image_upd_row)
  from seeding_step [OF assms(2) step_update_user [OF assms(3)] c this] c Some r i show ?thesis
    by (simp add: user_upsert_def findByEmail_def user_update_def has_user_def find_row_upd_row)
qed

lemma seeding_here: "seeding E w0 w \<Longrightarrow> seeding E w w"
  by (simp add: seeding_def evo.kept_refl)

lemma daysFromNow_runs: "seeding E w0 w \<Longrightarrow> \<exists>t v. daysFromNow tz n E w = (Inr t, v) \<and> seeding E w0 v"
proof -
  assume r: "seeding E w0 w"
  let ?t = "((w_now (tick E w) + tz) div 86400000 + n) * 86400000 - tz"
  have run: "daysFromNow tz n E w = (Inr ?t, tick E w)" by (simp add: daysFromNow_def retM_def)
  have "issued E (tick E w)" using r by (simp add: seeding_def issued_def tick_def)
  with run seeding_step [OF r seed_parts_step(2) run] show ?thesis by blast
qed

lemma receivablesData_runs: "seeding E w0 w \<Longrightarrow> \<exists>rows v. receivablesData tz random E w = (Inr rows, v) \<and> seeding E w0 v"
proof -
  have entry: "\<exists>d v. seed_entry tz x st debtor dh th n E w = (Inr d, v) \<and> seeding E w0 v" if "seeding E w0 w" for x st debtor dh th n w
    using daysFromNow_runs [OF that, of tz n] by (force simp: seed_entry_def bindM_def retM_def)
  assume "seeding E w0 w"
  then show ?thesis unfolding receivablesData_def by (rule mapM_runs) (auto intro: entry)
qed

context db_table
begin

lemma tab_create_seeding:
  assumes "inj (e_uuid E)" and "seeding E w0 w" and "key ` set (tab w) \<subseteq> e_uuid E ` {..<w_ids w}" and "\<And>i t. key (mk i t) = i"
    and "\<And>i t. chk (w\<lparr>w_ids := Suc (w_ids w)\<rparr>) (mk i t) = None" and "keepsR sound_step (createM tab upd key chk mk)"
    and "\<And>t. issued E (upd (\<lambda>x. x @ [mk (e_uuid E (w_ids w)) t]) (w\<lparr>w_ids := Suc (w_ids w)\<rparr>))"
  shows "\<exists>r v. createM tab upd key chk mk E w = (Inr r, v) \<and> seeding E w0 v"
proof -
  obtain t where c: "createM tab upd key chk mk E w = (Inr (mk (e_uuid E (w_ids w)) t),
      upd (\<lambda>x. x @ [mk (e_uuid E (w_ids w)) t]) (w\<lparr>w_ids := Suc (w_ids w)\<rparr>))"
    using tab_create_runs [where mk = mk and chk = chk and w = w, OF assms(1,3,4,5)] by blast
  from seeding_step [OF assms(2,6) this assms(7)] c show ?thesis by blast
qed

end

lemma receivable_runs:
  assumes "inj (e_uuid E)" and "seeding E w0 w" and "has_user w0 i"
  shows "\<exists>r v. createM receivables receivables_update rcv_id chk_receivable (seed_row i d) E w = (Inr r, v) \<and> seeding E w0 v"
proof (rule treceivables.tab_create_seeding [OF assms(1,2) seeding_rows(2) [OF assms(2)]])
  show "chk_receivable (w\<lparr>w_ids := Suc (w_ids w)\<rparr>) (seed_row i d k t) = None" for k t
    using seeding_user [OF assms(2,3)] by (simp add: chk_receivable_def fk_def seed_row_def has_user_def)
  show "issued E (receivables_update (\<lambda>x. x @ [seed_row i d (e_uuid E (w_ids w)) t]) (w\<lparr>w_ids := Suc (w_ids w)\<rparr>))" for t
    using assms(2) by (auto simp: seeding_def issued_def lessThan_Suc seed_row_def)
qed (simp_all add: seed_row_def step_create_receivable)

lemma document_runs:
  assumes "inj (e_uuid E)" and "seeding E w0 w" and "has_receivable w0 (rcv_id r)"
  shows "\<exists>d v. createM documents documents_update doc_id chk_document (seed_document r) E w = (Inr d, v) \<and> seeding E w0 v"
proof (rule tdocuments.tab_create_seeding [OF assms(1,2) seeding_rows(3) [OF assms(2)]])
  show "chk_document (w\<lparr>w_ids := Suc (w_ids w)\<rparr>) (seed_document r k t) = None" for k t
    using seeding_receivable [OF assms(2,3)] by (simp add: chk_document_def fk_def seed_document_def has_receivable_def)
  show "issued E (documents_update (\<lambda>x. x @ [seed_document r (e_uuid E (w_ids w)) t]) (w\<lparr>w_ids := Suc (w_ids w)\<rparr>))" for t
    using assms(2) by (auto simp: seeding_def issued_def lessThan_Suc seed_document_def)
qed (simp_all add: seed_document_def step_create_document)

lemma settlement_runs:
  assumes "inj (e_uuid E)" and "seeding E w0 w" and "has_receivable w0 (rcv_id r)"
  shows "\<exists>s v. seed_settlement tz random (n, r) E w = (Inr s, v) \<and> seeding E w0 v"
proof -
  obtain a w1 where a: "daysFromNow tz (-2) E w = (Inr a, w1)" "seeding E w0 w1" using daysFromNow_runs [OF assms(2)] by blast
  define mk where "mk = (\<lambda>i t. \<lparr>stl_id = i, stl_receivableId = rcv_id r, stl_amount = js_mul (rcv_value r) (fl (97/100)),
    stl_method = MPix, stl_status = SSettled, stl_txHash = rcv_txHash r,
    stl_stellarTxHash = Some (fakeTxHash random (723 + 55 * n)), stl_settledAt = Some a, stl_createdAt = t\<rparr>)"
  have run: "seed_settlement tz random (n, r) E w = createM settlements settlements_update stl_id chk_settlement mk E w1"
    using a(1) by (simp add: seed_settlement_def bindM_def mk_def)
  have "\<exists>s v. createM settlements settlements_update stl_id chk_settlement mk E w1 = (Inr s, v) \<and> seeding E w0 v"
  proof (rule tsettlements.tab_create_seeding [OF assms(1) a(2) seeding_rows(4) [OF a(2)]])
    show "chk_settlement (w1\<lparr>w_ids := Suc (w_ids w1)\<rparr>) (mk k t) = None" for k t
      using seeding_receivable [OF a(2) assms(3)] by (simp add: chk_settlement_def fk_def mk_def has_receivable_def)
    show "issued E (settlements_update (\<lambda>x. x @ [mk (e_uuid E (w_ids w1)) t]) (w1\<lparr>w_ids := Suc (w_ids w1)\<rparr>))" for t
      using a(2) by (auto simp: seeding_def issued_def lessThan_Suc mk_def)
  qed (simp_all add: mk_def step_create_settlement)
  with run show ?thesis by simp
qed

lemma audit_runs:
  assumes "inj (e_uuid E)" and "seeding E w0 w" and "has_user w0 (ai_userId x)"
  shows "\<exists>l v. auditCreate x E w = (Inr l, v) \<and> seeding E w0 v"
  unfolding auditCreate_def
proof (rule tauditLogs.tab_create_seeding [OF assms(1,2) seeding_rows(5) [OF assms(2)]])
  have "has_user w (ai_userId x)" by (rule seeding_user [OF assms(2,3)])
  then show "chk_auditLog (w\<lparr>w_ids := Suc (w_ids w)\<rparr>) \<lparr>aud_id = i, aud_event = ai_event x, aud_entityId = ai_entityId x,
      aud_entityType = ai_entityType x, aud_userId = ai_userId x, aud_txHash = ai_txHash x,
      aud_metadata = (case ai_metadata x of None \<Rightarrow> JNull | Some m \<Rightarrow> JObj m), aud_createdAt = t\<rparr> = None" for i t
    by (simp add: chk_auditLog_def fk_def has_user_def)
  show "issued E (auditLogs_update (\<lambda>l. l @ [\<lparr>aud_id = e_uuid E (w_ids w), aud_event = ai_event x,
      aud_entityId = ai_entityId x, aud_entityType = ai_entityType x, aud_userId = ai_userId x, aud_txHash = ai_txHash x,
      aud_metadata = (case ai_metadata x of None \<Rightarrow> JNull | Some m \<Rightarrow> JObj m), aud_createdAt = t\<rparr>])
      (w\<lparr>w_ids := Suc (w_ids w)\<rparr>))" for t
    using assms(2) by (auto simp: seeding_def issued_def lessThan_Suc)
qed (simp_all add: step_create_auditLog)

lemma seed_user_runs:
  assumes "inj (e_uuid E)" and "seeding E w0 w" and "f \<in> {id, setUserRole role}"
  shows "\<exists>u v. seed_user h email role f E w = (Inr u, v) \<and> seeding E w0 v \<and> has_user v (usr_id u)"
  unfolding seed_user_def
  by (rule user_upsert_runs [OF assms(1,2)])
    (use assms(3) in \<open>auto simp: role_evo user_evo_def setUserRole_def blank_user_def\<close>)

text \<open>Against a database whose identifiers the generator issued the seed runs to its end, when bcrypt answers.\<close>

lemma seed_succeeds:
  assumes "inj (e_uuid E)" and "db_ok w" and "issued E w" and "\<exists>h. e_bcryptHash E (w_trace w) ''demo@1234'' = Inr h"
  shows "\<exists>v. seed tz random E w = (Inr (), v)"
proof -
  define v0 where "v0 = callW (BcryptHash ''demo@1234'') E w"
  obtain h where h: "bcryptHash ''demo@1234'' E w = (Inr h, v0)"
    using assms(4) by (auto simp: bcryptHash_def callM_def v0_def)
  have "seeding E w w" using assms(2,3) by (simp add: seeding_def evo.kept_refl)
  moreover have "issued E v0" using assms(3) by (simp add: v0_def callW_def issued_def)
  ultimately have "seeding E w v0" using seeding_step [OF _ seed_parts_step(1) h] by blast
  then have v0: "seeding E v0 v0" by (rule seeding_here)
  obtain pme v1 where u1: "seed_user h ''victorbcbrbc@gmail.com'' ''pme'' (setUserRole ''pme'') E v0 = (Inr pme, v1)"
    "seeding E v0 v1" "has_user v1 (usr_id pme)"
    using seed_user_runs [OF assms(1) v0] by blast
  obtain u2 v2 where u2: "seed_user h ''victorh.barros011@gmail.com'' ''investor'' (setUserRole ''investor'') E v1 = (Inr u2, v2)"
    "seeding E v1 v2"
    using seed_user_runs [OF assms(1) seeding_here [OF u1(2)]] by blast
  obtain u3 v3 where u3: "seed_user h ''api@fintechpartner.io'' ''partner'' id E v2 = (Inr u3, v3)" "seeding E v1 v3"
    using seed_user_runs [OF assms(1) u2(2)] by blast
  obtain u4 v4 where u4: "seed_user h ''victorh.vbarros@gmail.com'' ''operator'' (setUserRole ''operator'') E v3 = (Inr u4, v4)"
    "seeding E v1 v4"
    using seed_user_runs [OF assms(1) u3(2)] by blast
  obtain rows v5 where rows: "receivablesData tz random E v4 = (Inr rows, v5)" "seeding E v1 v5"
    using receivablesData_runs [OF u4(2)] by blast
  have "\<exists>rs v. mapM (\<lambda>d. createM receivables receivables_update rcv_id chk_receivable (seed_row (usr_id pme) d)) rows E v5
      = (Inr rs, v) \<and> seeding E v1 v"
    by (rule mapM_runs [where I = "seeding E v1", OF rows(2)]) (rule receivable_runs [OF assms(1) _ u1(3)])
  then obtain rs v6 where rs: "mapM (\<lambda>d. createM receivables receivables_update rcv_id chk_receivable (seed_row (usr_id pme) d))
      rows E v5 = (Inr rs, v6)" "seeding E v1 v6"
    by blast
  have "receivables v6 = receivables v5 @ rs"
    using treceivables.tab_mapM_create [OF rs(1), of "\<lambda>_ _. True"] by simp
  then have has: "has_receivable v6 (rcv_id r)" if "r \<in> set rs" for r using that by (auto simp: has_receivable_iff)
  have user: "has_user v6 (usr_id pme)" by (rule seeding_user [OF rs(2) u1(3)])
  have "\<exists>ds v. mapM (\<lambda>r. createM documents documents_update doc_id chk_document (seed_document r))
      (filter (\<lambda>r. \<not> falsy (rcv_documentHash r)) rs) E v6 = (Inr ds, v) \<and> seeding E v6 v"
    by (rule mapM_runs [where I = "seeding E v6", OF seeding_here [OF rs(2)]]) (auto intro!: document_runs [OF assms(1)] has)
  then obtain ds v7 where ds: "mapM (\<lambda>r. createM documents documents_update doc_id chk_document (seed_document r))
      (filter (\<lambda>r. \<not> falsy (rcv_documentHash r)) rs) E v6 = (Inr ds, v7)" "seeding E v6 v7"
    by blast
  have "\<exists>ss v. mapM (seed_settlement tz random) (enumerate 0 (filter (\<lambda>r. rcv_status r = RSettled) rs)) E v7 = (Inr ss, v)
      \<and> seeding E v6 v"
    by (rule mapM_runs [where I = "seeding E v6", OF ds(2)]) (auto intro!: settlement_runs [OF assms(1)] has simp: in_set_enumerate_eq dest!: nth_mem)
  then obtain ss v8 where ss: "mapM (seed_settlement tz random) (enumerate 0 (filter (\<lambda>r. rcv_status r = RSettled) rs)) E v7
      = (Inr ss, v8)" "seeding E v6 v8"
    by blast
  have "\<exists>ls v. mapM auditCreate (concat (map (seed_audit (usr_id pme)) rs)) E v8 = (Inr ls, v) \<and> seeding E v6 v"
    by (rule mapM_runs [where I = "seeding E v6", OF ss(2)])
      (auto intro!: audit_runs [OF assms(1)] user simp: seed_audit_def audit_entry_def split: if_splits)
  then obtain ls v9 where "mapM auditCreate (concat (map (seed_audit (usr_id pme)) rs)) E v8 = (Inr ls, v9)" by blast
  with h u1(1) u2(1) u3(1) u4(1) rows(1) rs(1) ds(1) ss(1) show ?thesis
    by (simp add: seed_def bindM_def retM_def transactionM_def)
qed

text \<open>C34: A run of the seed ends normally and enters nine receivables of the company of the demonstration, with one
  document for each that has a hash, one settlement for each settled one, and the events of its history in their
  order. It does so each time it runs: the users are entered once, everything else again.\<close>

theorem seed_outcome:
  assumes "inj (e_uuid E)" and "db_ok w" and "issued E w" and "\<exists>h. e_bcryptHash E (w_trace w) ''demo@1234'' = Inr h"
  shows "\<exists>v pme rs ds ss ls. seed tz random E w = (Inr (), v)
    \<and> receivables v = receivables w @ rs \<and> documents v = documents w @ ds
    \<and> settlements v = settlements w @ ss \<and> auditLogs v = auditLogs w @ ls
    \<and> (\<exists>u \<in> set (users v). usr_id u = pme \<and> usr_email u = ''victorbcbrbc@gmail.com'') \<and> rcv_userId ` set rs = {pme}
    \<and> map rcv_status rs = seed_statuses
    \<and> map (\<lambda>d. (doc_receivableId d, Some (doc_hash d))) ds
       = map (\<lambda>r. (rcv_id r, rcv_documentHash r)) (filter (\<lambda>r. \<not> falsy (rcv_documentHash r)) rs)
    \<and> map (\<lambda>s. (stl_receivableId s, stl_status s)) ss = map (\<lambda>r. (rcv_id r, SSettled)) (take 3 rs)
    \<and> map (\<lambda>l. (aud_event l, aud_entityId l)) ls
       = concat (map (\<lambda>r. map (\<lambda>e. (e, rcv_id r)) (seed_history (rcv_status r))) rs)"
proof -
  obtain v where v: "seed tz random E w = (Inr (), v)" using seed_succeeds [OF assms] by blast
  show ?thesis by (rule exI [of _ v]) (simp only: v simp_thms, rule seed_effect [OF v assms(2)])
qed

section \<open>What adding a user does\<close>

text \<open>The test of the e-mail is the regular expression of the script.\<close>

lemma takeWhile_at: "list_all plain a \<Longrightarrow> takeWhile (\<lambda>c. c \<noteq> CHR ''@'') (a @ CHR ''@'' # b) = a"
  by (subst takeWhile_append2) (auto simp: plain_def list_all_iff)

lemma plain_dot: "plain (CHR ''.'')"
  by (simp add: plain_def is_blank_def)

lemma inner_dot: "CHR ''.'' \<in> set (butlast (tl s)) \<longleftrightarrow> (\<exists>b c. s = b @ CHR ''.'' # c \<and> b \<noteq> [] \<and> c \<noteq> [])"
proof
  assume "CHR ''.'' \<in> set (butlast (tl s))"
  then obtain p q where p: "butlast (tl s) = p @ CHR ''.'' # q" by (auto simp: in_set_conv_decomp)
  then have n: "tl s \<noteq> []" "s \<noteq> []" by auto
  have "tl s = butlast (tl s) @ [last (tl s)]" using n(1) by simp
  then have "tl s = p @ CHR ''.'' # (q @ [last (tl s)])" unfolding p by simp
  with n(2) have "s = (hd s # p) @ CHR ''.'' # (q @ [last (tl s)])" by (metis append_Cons list.collapse)
  then show "\<exists>b c. s = b @ CHR ''.'' # c \<and> b \<noteq> [] \<and> c \<noteq> []" by blast
next
  assume "\<exists>b c. s = b @ CHR ''.'' # c \<and> b \<noteq> [] \<and> c \<noteq> []"
  then show "CHR ''.'' \<in> set (butlast (tl s))" by (auto simp: neq_Nil_conv butlast_append)
qed

lemma email_form_iff:
  "email_form s \<longleftrightarrow> (\<exists>a b c. s = a @ CHR ''@'' # b @ CHR ''.'' # c \<and> a \<noteq> [] \<and> b \<noteq> [] \<and> c \<noteq> []
     \<and> list_all plain a \<and> list_all plain b \<and> list_all plain c)"
proof
  let ?a = "takeWhile (\<lambda>c. c \<noteq> CHR ''@'') s"
  assume e: "email_form s"
  then have "length ?a < length s" by (simp add: email_form_def Let_def)
  then have "s = ?a @ CHR ''@'' # drop (Suc (length ?a)) s"
    using nth_length_takeWhile [of "\<lambda>c. c \<noteq> CHR ''@''" s] id_take_nth_drop [of "length ?a" s] takeWhile_eq_take by metis
  with e show "\<exists>a b c. s = a @ CHR ''@'' # b @ CHR ''.'' # c \<and> a \<noteq> [] \<and> b \<noteq> [] \<and> c \<noteq> []
     \<and> list_all plain a \<and> list_all plain b \<and> list_all plain c"
    by (auto simp: email_form_def Let_def inner_dot) (metis list.pred_inject(2) list_all_append)
next
  assume "\<exists>a b c. s = a @ CHR ''@'' # b @ CHR ''.'' # c \<and> a \<noteq> [] \<and> b \<noteq> [] \<and> c \<noteq> []
     \<and> list_all plain a \<and> list_all plain b \<and> list_all plain c"
  then show "email_form s"
    by (simp add: email_form_def Let_def inner_dot) (elim exE conjE, auto simp: takeWhile_at plain_dot)
qed

lemma addUser_Inr:
  assumes "addUser args E w = (Inr u, v)" and "db_ok w"
  shows "\<exists>email role. parseAddUserArguments args = Inr (email, role) \<and> usr_email u = email
    \<and> find_row usr_id (usr_id u) (users v) = Some u"
proof (cases "parseAddUserArguments args")
  case (Inl m)
  with assms(1) show ?thesis by (simp add: addUser_def throwM_def)
next
  case (Inr p)
  obtain email role where p: "p = (email, role)" by (cases p)
  have "user_upsert email (setReleased role) (\<lambda>i t. (blank_user i t email ''privy'')\<lparr>usr_role := Some role\<rparr>) E w = (Inr u, v)"
    using assms(1) unfolding addUser_def Inr p
    by (simp add: confM_def asksM_def bindM_def throwIf_def throwM_def retM_def split: if_splits)
  from user_upsert_Inr [OF this assms(2)] Inr p show ?thesis
    by (simp add: setReleased_def blank_user_def)
qed

lemma parse_email: "parseAddUserArguments args = Inr (email, role) \<Longrightarrow> email = toLowerCase (trim (hd args))"
  by (auto simp: parseAddUserArguments_def Let_def split: if_splits list.splits)

lemma privy_login_runs:
  assumes "db_ok w" and "u \<in> set (users w)" and "usr_email u = pv_email s"
    and "\<forall>x \<in> set (users w). usr_email x = pv_email s \<or> usr_privyUserId x \<noteq> Some (pv_userId s)
      \<and> usr_privyStellarWalletAddress x \<noteq> Some (pv_wallet s)"
  shows "\<exists>v. privy_login s E w = (Inr (setPrivy s u), v)"
proof -
  have k: "uniq usr_id (\<lambda>u. Some (usr_email u)) (users w)" "inj_on usr_id (set (users w))"
    using assms(1) by (simp_all add: db_ok_defs distinct_map)
  have only: "x = u" if "x \<in> set (users w)" "usr_email x = pv_email s" for x
  proof (rule inj_onD [OF k(2) _ that(1) assms(2)])
    show "usr_id x = usr_id u" using k(1) [unfolded uniq_def, rule_format, OF that(1) assms(2)] that(2) assms(3) by simp
  qed
  have "user_update (usr_id u) (setPrivy s) E w = (Inr (setPrivy s u), users_update (upd_row usr_id (usr_id u) (setPrivy s)) w)"
    unfolding user_update_def
  proof (rule tusers.tab_update_run)
    show "find_row usr_id (usr_id u) (users w) = Some u"
      using assms(1,2) by (intro find_row_distinct) (simp_all add: db_ok_defs)
    have "\<not> clash usr_id usr_privyUserId (users w) (setPrivy s u)"
      "\<not> clash usr_id usr_privyStellarWalletAddress (users w) (setPrivy s u)"
      using assms(4) only by (auto simp: clash_def list_ex_iff setPrivy_def)
    moreover have "\<not> clash usr_id (\<lambda>u. Some (usr_email u)) (users w) (setPrivy s u)"
      "\<not> clash usr_id usr_googleId (users w) (setPrivy s u)" "\<not> clash usr_id usr_cnpj (users w) (setPrivy s u)"
      by (rule uniq_no_clash [OF _ assms(2)]; use assms(1) in \<open>simp add: db_ok_defs setPrivy_def\<close>)+
    ultimately show "chk_user w (setPrivy s u) = None" by (simp add: chk_user_def)
  qed
  moreover have "find_row usr_email (pv_email s) (users w) = Some u"
  proof (cases "find_row usr_email (pv_email s) (users w)")
    case None
    then have "pv_email s \<notin> usr_email ` set (users w)" by (simp add: find_row_None_iff)
    then show ?thesis using assms(2,3) by (metis imageI)
  next
    case (Some x)
    then show ?thesis using only [of x] find_row_SomeD [OF Some] by simp
  qed
  moreover have "x = u" if "find_row usr_privyUserId (Some (pv_userId s)) (users w) = Some x" for x
    using only [of x] find_row_SomeD [OF that] assms(4) by blast
  ultimately show ?thesis
    by (cases "find_row usr_privyUserId (Some (pv_userId s)) (users w)") (auto simp: privy_login_def findByEmail_def)
qed

text \<open>C35: A user the script admitted can sign in: when Privy verifies this e-mail, in any spelling of its letters,
  and nobody else holds the Privy user or the wallet, the session is exchanged for a token of this user,
  whatever the API has served in between.\<close>

theorem addUser_admits:
  assumes "addUser args E w = (Inr u, v)" and "db_ok w" and "evolves v v'" and "db_ok v'"
    and "verifySession a i E v' = (Inr s, v1)" and "pv_email s = toLowerCase (trim (hd args))"
    and "\<forall>x \<in> set (users v'). usr_email x = pv_email s \<or> usr_privyUserId x \<noteq> Some (pv_userId s)
      \<and> usr_privyStellarWalletAddress x \<noteq> Some (pv_wallet s)"
  shows "\<exists>r v2. privySession a i E v' = (Inr r, v2) \<and> tr_id (sr_token r) = usr_id u \<and> tr_email (sr_token r) = usr_email u"
proof -
  obtain email role where "parseAddUserArguments args = Inr (email, role)" and e: "usr_email u = email"
    and u: "find_row usr_id (usr_id u) (users v) = Some u"
    using addUser_Inr [OF assms(1,2)] by blast
  then have "usr_email u = pv_email s" using parse_email assms(6) by metis
  moreover obtain u' where u': "find_row usr_id (usr_id u) (users v') = Some u'" "user_evo u u'"
    using evolves_user [OF assms(3) u] .
  ultimately have m: "u' \<in> set (users v1)" "usr_email u' = pv_email s" "usr_id u' = usr_id u"
    using sameD' [OF verifySession_users, OF assms(5)] by (auto simp: user_evo_def dest: find_row_SomeD)
  have "db_ok v1" using keepsRD [OF verifySession_step, OF assms(5)] assms(4) by (simp add: sound_step_def)
  from privy_login_runs [OF this m(1,2)] assms(7) sameD' [OF verifySession_users, OF assms(5)]
  obtain v2 where l: "privy_login s E v1 = (Inr (setPrivy s u'), v2)" by auto
  have "\<exists>x. fundQuietly (pv_wallet s) E v2 = (Inr (), x)"
    by (cases "fundQuietly (pv_wallet s) E v2") (auto simp: fundQuietly_def catchM_def retM_def split: prod.splits sum.splits)
  then show ?thesis
    using assms(5) l m e \<open>usr_email u = pv_email s\<close>
    by (auto simp: privySession_def bindM_def asksM_def retM_def tokenFor_def issueToken_def setPrivy_def)
qed

end
