(* ===== verification/System.thy ===== *)
theory System
  imports Scripts
begin

text \<open>
  The whole API: one constructor of \<open>request\<close> for every route that a controller under
  \<open>modules/\<close> offers, with the arguments the framework hands over (the authenticated user of a
  guarded route, parameters of the path, the body), and \<open>dispatch\<close>, which runs the route. The
  states the system can be in are those that requests and the scripts of an administrator reach from an
  empty database.
  Here a request runs to its end before the next one starts; theory \<open>Interleaving\<close> lifts this.
\<close>

datatype request =
    AuthRegister register_dto
  | AuthLogin string string
  | AuthGoogle string
  | AuthPrivySession "string option" "string option"
  | AuthSetRole auth_user string
  | AuthUpdateMe auth_user profile_dto
  | AuthChangePassword auth_user string string
  | AuthMe auth_user
  | FaChallenge auth_user challenge_dto
  | FaVerify auth_user verify_dto
  | RcvCreate auth_user create_receivable_dto
  | RcvFindAll auth_user
  | RcvFindOne string
  | RcvPool
  | RcvPoolStats
  | RcvActivate string
  | RcvTokenize string
  | RcvRequestAssignment string
  | RcvAssign string string
  | RcvPrepareAssignment string
  | RcvSubmitAssignment string string string
  | DocCreate string create_document_dto
  | DocFind string
  | StlCreate create_settlement_dto
  | StlFindAll
  | StlFind string
  | InvCreate auth_user create_investment_dto
  | InvMarkAsPaid auth_user string
  | InvBuildDeposit auth_user string deposit_stage
  | InvSubmitDeposit auth_user string submit_stage_dto
  | AdmCreateUser auth_user create_user_dto
  | AdmApproveReceivable auth_user string
  | AdmRejectReceivable auth_user string
  | AdmCreateDeposit auth_user create_deposit_dto
  | AdmApproveTransaction auth_user string approve_status
  | PixDeposit pix_deposit_dto
  | PixWithdrawal pix_withdrawal_dto
  | PixBuildWithdrawal auth_user rat
  | PixSubmitWithdrawal auth_user submit_withdrawal_dto
  | PixRetryCollection auth_user string
  | PixRefresh string "string option"
  | PixWebhook "string option" "string option" webhook_body
  | WalletCreate auth_user
  | WalletBalance auth_user

text \<open>The result of a route is sent to the client; the state is what remains.\<close>

definition respond :: "'a api \<Rightarrow> unit api" where
  "respond m = bindM m (\<lambda>_. retM ())"

fun dispatch :: "request \<Rightarrow> unit api" where
  "dispatch (AuthRegister d) = respond (register d)"
| "dispatch (AuthLogin e p) = respond (login e p)"
| "dispatch (AuthGoogle t) = respond (googleLogin t)"
| "dispatch (AuthPrivySession a i) = respond (authController_privySession a i)"
| "dispatch (AuthSetRole u r) = respond (setRole (au_userId u) r)"
| "dispatch (AuthUpdateMe u d) = respond (updateProfile (au_userId u) d)"
| "dispatch (AuthChangePassword u p q) = respond (changePassword (au_userId u) p q)"
| "dispatch (AuthMe u) = respond (findMe (au_userId u))"
| "dispatch (FaChallenge u d) = respond (fa_controller_createChallenge (au_userId u) d)"
| "dispatch (FaVerify u d) = respond (fa_controller_verify (au_userId u) d)"
| "dispatch (RcvCreate u d) = respond (receivables_create (au_userId u) d)"
| "dispatch (RcvFindAll u) = respond (receivables_findAll (au_userId u))"
| "dispatch (RcvFindOne i) = respond (receivables_findOne i)"
| "dispatch RcvPool = respond receivables_findPool"
| "dispatch RcvPoolStats = respond receivablesRepo_getPoolStats"
| "dispatch (RcvActivate i) = respond (activate i)"
| "dispatch (RcvTokenize i) = respond (tokenize i)"
| "dispatch (RcvRequestAssignment i) = respond (requestAssignment i)"
| "dispatch (RcvAssign i a) = respond (assign i a)"
| "dispatch (RcvPrepareAssignment i) = respond (receivables_prepareAssignment i)"
| "dispatch (RcvSubmitAssignment i x s) = respond (submitAssignment i x s)"
| "dispatch (DocCreate i d) = respond (documentsController_create i d)"
| "dispatch (DocFind i) = respond (documents_findByReceivable i)"
| "dispatch (StlCreate d) = respond (settlements_create d)"
| "dispatch StlFindAll = respond settlements_findAll"
| "dispatch (StlFind i) = respond (settlements_findByReceivable i)"
| "dispatch (InvCreate u d) = respond (investmentsController_create u d)"
| "dispatch (InvMarkAsPaid u i) = respond (investmentsController_markAsPaid u i)"
| "dispatch (InvBuildDeposit u i s) = respond (investmentsController_buildOnchainDeposit u i s)"
| "dispatch (InvSubmitDeposit u i d) = respond (investmentsController_submitOnchainDeposit u i d)"
| "dispatch (AdmCreateUser u d) = respond (adminController_createUser u d)"
| "dispatch (AdmApproveReceivable u i) = respond (adminController_approveReceivable u i)"
| "dispatch (AdmRejectReceivable u i) = respond (adminController_rejectReceivable u i)"
| "dispatch (AdmCreateDeposit u d) = respond (adminController_createDeposit u d)"
| "dispatch (AdmApproveTransaction u i s) = respond (adminController_approveTransaction u i s)"
| "dispatch (PixDeposit d) = respond (pixController_createDeposit d)"
| "dispatch (PixWithdrawal d) = respond (pixController_createWithdrawal d)"
| "dispatch (PixBuildWithdrawal u a) = respond (buildWithdrawalTx (au_userId u) a)"
| "dispatch (PixSubmitWithdrawal u d) = respond (submitWithdrawal (au_userId u) d)"
| "dispatch (PixRetryCollection u i) = respond (retryCollectionOrder i (au_userId u))"
| "dispatch (PixRefresh i u) = respond (pixController_refreshOrder i u)"
| "dispatch (PixWebhook s t b) = respond (receivePixWebhook (deployed_request s t) b)"
| "dispatch (WalletCreate u) = respond (createWallet (au_userId u))"
| "dispatch (WalletBalance u) = respond (getBalance (au_userId u))"

definition empty_world :: "int \<Rightarrow> world" where
  "empty_world t = \<lparr>users = [], receivables = [], documents = [], settlements = [], finauths = [],
     auditLogs = [], investments = [], ptransactions = [], pixEvents = [], collections = [],
     w_now = t, w_ticks = 0, w_ids = 0, w_trace = []\<rparr>"

inductive api_step :: "env \<Rightarrow> world \<Rightarrow> world \<Rightarrow> bool" for E where
  request: "api_step E w (snd (dispatch r E w))"

inductive_cases api_stepE: "api_step E w v"

inductive reachable :: "env \<Rightarrow> world \<Rightarrow> bool" for E where
  init: "reachable E (empty_world t)"
| step: "reachable E w \<Longrightarrow> api_step E w v \<Longrightarrow> reachable E v"
| admin: "reachable E w \<Longrightarrow> reachable E (snd (run_script s E w))"

text \<open>A sequence of requests, served one after the other.\<close>

fun run :: "env \<Rightarrow> request list \<Rightarrow> world \<Rightarrow> world" where
  "run E [] w = w"
| "run E (r # rs) w = run E rs (snd (dispatch r E w))"

lemma reachable_run: "reachable E w \<Longrightarrow> reachable E (run E rs w)"
  by (induction rs arbitrary: w) (auto intro: reachable.step api_step.request)

section \<open>Every route is a sound step\<close>

lemma respond_step [keeps]: "keepsR R m \<Longrightarrow> keepsR R (respond m)"
  unfolding respond_def keepsR_def bindM_def by (auto split: sum.split prod.split) (metis snd_conv)+

lemma controllers_step [keeps]:
  "keepsR sound_step (activate i)" "keepsR sound_step (documentsController_create i d)"
  "keepsR sound_step (fa_controller_createChallenge u c)" "keepsR sound_step (fa_controller_verify u v)"
  "keepsR sound_step (investmentsController_create a x)" "keepsR sound_step (investmentsController_markAsPaid a i)"
  "keepsR sound_step (investmentsController_buildOnchainDeposit a i s)"
  "keepsR sound_step (investmentsController_submitOnchainDeposit a i y)"
  "keepsR sound_step (adminController_createUser a cu)" "keepsR sound_step (adminController_approveReceivable a i)"
  "keepsR sound_step (adminController_rejectReceivable a i)" "keepsR sound_step (adminController_createDeposit a cd)"
  "keepsR sound_step (adminController_approveTransaction a i st)"
  "keepsR sound_step (pixController_createDeposit pd)" "keepsR sound_step (pixController_createWithdrawal pw)"
  "keepsR sound_step (pixController_refreshOrder i o')"
  unfolding activate_def documentsController_create_def fa_controller_createChallenge_def
    fa_controller_verify_def investmentsController_create_def investmentsController_markAsPaid_def
    investmentsController_buildOnchainDeposit_def investmentsController_submitOnchainDeposit_def
    adminController_createUser_def adminController_approveReceivable_def
    adminController_rejectReceivable_def adminController_createDeposit_def
    adminController_approveTransaction_def pixController_createDeposit_def
    pixController_createWithdrawal_def pixController_refreshOrder_def
  by (intro keeps)+

lemma dispatch_step: "keepsR sound_step (dispatch r)"
  by (cases r) (simp_all, (intro keeps)+)

lemma api_step_sound: "api_step E w v \<Longrightarrow> sound_step w v"
  by (elim api_stepE) (simp add: keepsR_run [OF dispatch_step])

lemma api_steps_sound: "(api_step E)\<^sup>*\<^sup>* w v \<Longrightarrow> sound_step w v"
  by (induction rule: rtranclp_induct) (auto intro: step.kept_refl step.kept_trans api_step_sound)

lemma empty_ok: "db_ok (empty_world t)" "biz_ok (empty_world t)"
  by (simp_all add: empty_world_def db_ok_defs uniq_def biz_ok_def)

lemma reachable_ok:
  assumes "reachable E w"
  shows "db_ok w \<and> biz_ok w"
  using assms
proof induction
  case (init t)
  then show ?case by (simp add: empty_ok)
next
  case (step w v)
  then show ?case using api_step_sound [of E w v] by (simp add: sound_step_def)
next
  case (admin w s)
  then show ?case using keepsR_run [OF run_script_step, of w s E] by (simp add: sound_step_def)
qed

section \<open>Receivables under every route\<close>

lemma respond_good: "fromTo tab t P m \<Longrightarrow> fromTo tab t P (respond m)"
  unfolding respond_def by (erule fromTo_then) (rule same.keepsR_ret)

lemmas route_defs = activate_def documentsController_create_def fa_controller_createChallenge_def
    fa_controller_verify_def investmentsController_create_def investmentsController_markAsPaid_def
    investmentsController_buildOnchainDeposit_def investmentsController_submitOnchainDeposit_def
    adminController_createUser_def adminController_approveReceivable_def
    adminController_rejectReceivable_def adminController_createDeposit_def
    adminController_approveTransaction_def pixController_createDeposit_def
    pixController_createWithdrawal_def pixController_refreshOrder_def authController_privySession_def
    assertInvestor_def assertOperator_def

lemmas good_ops = tokenize_good requestAssignment_good assign_good submitAssignment_good
  approveReceivable_good rejectReceivable_good documents_create_good receivables_create_good
  investments_create_good receivePixWebhook_good

lemma good_throwIf:
  "fromTo receivables t (good_from t) (f ()) \<Longrightarrow> fromTo receivables t (good_from t) (bindM (throwIf c e) f)"
  by (rule fromTo_throwIf) (simp_all add: good_refl)

lemma dispatch_good: "fromTo receivables t (good_from t) (dispatch r)"
  by (cases r; simp add: route_defs; intro respond_good)
    (intro good_ops good_throwIf fromTo_same good_refl keeps)+

lemma api_step_good: "api_step E w v \<Longrightarrow> good_from (receivables w) (receivables v)"
  by (elim api_stepE) (simp add: fromToD [OF dispatch_good])

section \<open>Properties\<close>

text \<open>In every state the API can reach, the constraints of the schema hold: keys and unique columns do
  not repeat, and every reference has its target.\<close>

theorem reachable_schema:
  assumes "reachable E w"
  shows "keys_ok w \<and> unique_ok w \<and> refs_ok w"
  using reachable_ok [OF assms] by (simp add: db_ok_def)

text \<open>C15: In every reachable state the columns of an authorization are the fields of the payload that was
  signed, a user with a verified authorization has a Privy wallet, and nobody is the investor of a
  receivable of his own.\<close>

theorem reachable_business:
  assumes "reachable E w"
  shows "(\<forall>a \<in> set (finauths w). payload_ok a
        \<and> (fa_verifiedAt a \<noteq> None \<longrightarrow> has_privy (users w) (fa_userId a)))
     \<and> (\<forall>i \<in> set (investments w). \<exists>r \<in> set (receivables w). rcv_id r = inv_receivableId i
        \<and> rcv_userId r \<noteq> inv_investorUserId i \<and> inv_faceValue i = rcv_value r)"
  using reachable_ok [OF assms] by (simp add: biz_ok_def invest_ok_def)

text \<open>No route deletes a row or rewrites what identifies it. The audit log, the webhook events, the
  documents and the settlements are append-only: what they held is a prefix of what they hold.\<close>

theorem dispatch_append_only:
  "let v = snd (dispatch r E w) in
   take (length (auditLogs w)) (auditLogs v) = auditLogs w
   \<and> take (length (pixEvents w)) (pixEvents v) = pixEvents w
   \<and> take (length (documents w)) (documents v) = documents w
   \<and> take (length (settlements w)) (settlements v) = settlements w
   \<and> grows finauth_evo (finauths w) (finauths v) \<and> grows receivable_evo (receivables w) (receivables v)"
  using keepsR_run [OF dispatch_step, of w r E]
  by (simp add: Let_def sound_step_def evolves_def grows_eq_prefix)

text \<open>C5: On every route, however it ends, the status of a receivable moves only along the edges of its life
  cycle: pending to validated or rejected, validated to tokenized, tokenized to assignment pending or
  active, assignment pending to active, and from any status to settled; a new receivable is pending.\<close>

theorem dispatch_lifecycle:
  assumes "db_ok w"
  shows "let v = snd (dispatch r E w) in length (receivables w) \<le> length (receivables v)
     \<and> (\<forall>i < length (receivables w). life_step\<^sup>*\<^sup>* (rcv_status (receivables w ! i)) (rcv_status (receivables v ! i)))
     \<and> (\<forall>x \<in> set (drop (length (receivables w)) (receivables v)). rcv_status x = RPending)"
proof -
  have "distinct (map rcv_id (receivables w))" using assms by (simp add: db_ok_defs)
  with fromToD [OF dispatch_good refl, of w r E] show ?thesis
    by (simp add: Let_def good_from_def rows_good_def grows_def row_good_def)
qed

text \<open>C36: In every reachable state each transaction is of one of the two types the services know, and its user
  exists: no route writes a transaction of another type, although the column is an unrestricted text.\<close>

theorem reachable_typed:
  assumes "reachable E w" and "t \<in> set (ptransactions w)"
  shows "(ptx_type t = ''DEPOSIT'' \<or> ptx_type t = ''WITHDRAWAL'') \<and> has_user w (ptx_userId t)"
  using reachable_ok [OF assms(1)] assms(2)
  by (auto simp: db_ok_def biz_ok_def typed_ptx_def refs_ok_def has_user_iff)

text \<open>In every reachable state a receivable that is tokenized, waiting for assignment or active has the
  hash of the transaction that tokenized it.\<close>

theorem reachable_tokened:
  assumes "reachable E w" and "r \<in> set (receivables w)"
    and "rcv_status r \<in> {RTokenized, RAssignmentPending, RActive}"
  shows "rcv_txHash r \<noteq> None"
proof -
  have "\<forall>r \<in> set (receivables w). tokened r"
    using assms(1)
  proof induction
    case (init t)
    then show ?case by (simp add: empty_world_def)
  next
    case (step w v)
    have "distinct (map rcv_id (receivables w))"
      using reachable_ok [OF step.hyps(1)] by (simp add: db_ok_defs)
    with api_step_good [OF step.hyps(2)] have g: "rows_good (receivables w) (receivables v)"
      by (simp add: good_from_def)
    show ?case
    proof
      fix x assume "x \<in> set (receivables v)"
      then obtain k where k: "k < length (receivables v)" "x = receivables v ! k"
        by (auto simp: in_set_conv_nth)
      show "tokened x"
      proof (cases "k < length (receivables w)")
        case True
        with g k step.IH show ?thesis by (auto simp: rows_good_def grows_def row_good_def)
      next
        case False
        with k have "x \<in> set (drop (length (receivables w)) (receivables v))"
          by (auto simp: in_set_conv_nth intro!: exI [of _ "k - length (receivables w)"])
        with g show ?thesis by (simp add: rows_good_def tokened_def)
      qed
    qed
  next
    case (admin w s)
    then show ?case using keepsR_run [OF run_script_enters, of w s E] by (auto simp: enters_tokened_def)
  qed
  with assms(2,3) show ?thesis by (auto simp: tokened_def)
qed

end
