(* ===== verification/Examples.thy ===== *)
theory Examples
  imports System
begin

text \<open>
  A concrete environment and database, and the sequence of requests of one invoice, on which the
  properties of the other theories are applied: each witness evaluates the hypotheses of its
  property on this data and draws its conclusion.
\<close>

section \<open>Data\<close>

definition ex_env :: env where
  "ex_env = \<lparr>e_conf = map_of [(''STELLAR_RPC_URL'', ''rpc''), (''STELLAR_SECRET_KEY'', ''S''),
       (''STELLAR_NFE_CONTRACT_ID'', ''C''), (''STELLAR_POOL_CONTRACT_ID'', ''P''),
       (''STELLAR_BRLT_TOKEN_ID'', ''B'')],
     e_delay = (\<lambda>_. 1), e_uuid = (\<lambda>n. CHR ''n'' # show_int (int n)), e_dateParse = (\<lambda>_. Some 86400000),
     e_sha256 = (\<lambda>_. replicate 32 11), e_hmac = (\<lambda>k s. [1, 2]),
     e_publicKey = (\<lambda>_. ''GP''), e_publicKeyError = (\<lambda>_. None), e_verifySig = (\<lambda>_ _ _. True),
     e_toXDR = (\<lambda>_. ''xdr''), e_buildError = (\<lambda>_. None), e_txHash = (\<lambda>_. [3, 4]),
     e_loadAccount = (\<lambda>_ _. Inr [(''native'', ''100'')]), e_horizonSubmit = (\<lambda>_ _. Inr ''hh''),
     e_ledgers = (\<lambda>_. Inr (Some 7)), e_getAccount = (\<lambda>_ _. Inr ()),
     e_simulate = (\<lambda>_ _. Inr (SimSuccess (Some (NInt 7)))), e_send = (\<lambda>_ _. Inr (''PENDING'', ''tx'', [])),
     e_getTx = (\<lambda>_ _. Inr ''SUCCESS''), e_pixPost = (\<lambda>_ _ _. Inr (\<lambda>_. None)),
     e_pixGet = (\<lambda>_ _. Inr (\<lambda>_. None)), e_bcryptHash = (\<lambda>_ p. Inr p),
     e_bcryptCompare = (\<lambda>_ p h. Inr (p = h)), e_jwtSign = (\<lambda>_ _ _. ''jwt''), e_googleVerify = (\<lambda>_ _. Inr None),
     e_privyAccess = (\<lambda>_ _. Inr (Some ''did'')), e_privyIdentity = (\<lambda>_ _. Inr (Some ''did'')),
     e_privyUser = (\<lambda>_ _. Inr [EmailAccount '' Pme@x.br'', WalletAccount ''stellar'' ''privy'' ''GU''])\<rparr>"

text \<open>The same without the contract of the token and of the pool.\<close>

definition ex_env_poor :: env where
  "ex_env_poor = ex_env\<lparr>e_conf := map_of [(''STELLAR_RPC_URL'', ''rpc''), (''STELLAR_SECRET_KEY'', ''S''),
     (''STELLAR_NFE_CONTRACT_ID'', ''C'')]\<rparr>"

definition ex_pme :: user where
  "ex_pme = (blank_user ''pme'' 0 ''pme@x.br'' ''email'')\<lparr>usr_passwordHash := Some ''password'',
     usr_role := Some ''pme'', usr_privyUserId := Some ''did'',
     usr_privyStellarWalletAddress := Some ''GU'', usr_privyWalletStatus := Some ''ready''\<rparr>"

definition ex_newcomer :: user where
  "ex_newcomer = blank_user ''new'' 0 ''New@x.br'' ''privy''"

definition ex_rcv :: "string \<Rightarrow> receivable_status \<Rightarrow> string option \<Rightarrow> receivable" where
  "ex_rcv i s h = \<lparr>rcv_id = i, rcv_userId = ''pme'', rcv_value = 1000, rcv_type = RTInvoice, rcv_status = s,
     rcv_debtorName = ''D'', rcv_debtorDocument = ''1'', rcv_documentHash = None, rcv_txHash = h,
     rcv_paymentTxHash = None, rcv_dueDate = 86400000, rcv_createdAt = 0\<rparr>"

definition ex_payload :: "string \<Rightarrow> finauth_payload" where
  "ex_payload nonce = \<lparr>pl_domain = FINANCIAL_AUTH_DOMAIN, pl_version = FINANCIAL_AUTH_VERSION,
     pl_network = ''testnet'', pl_operation = OpReceivableAssignment, pl_userId = ''pme'', pl_walletId = ''GU'',
     pl_resourceId = Some ''r1'', pl_amount = Some ''1000.00'', pl_destination = Some ''credbridge-pool'',
     pl_nonce = nonce, pl_expiresAt = ''1970-01-01T00:05:00.000Z''\<rparr>"

definition ex_hash :: string where
  "ex_hash = concat (replicate 32 ''0a'')"

definition ex_auth :: "string \<Rightarrow> string \<Rightarrow> int option \<Rightarrow> finauth" where
  "ex_auth i h v = \<lparr>fa_id = i, fa_userId = ''pme'', fa_walletId = ''GU'',
     fa_operation = OpReceivableAssignment, fa_resourceId = Some ''r1'', fa_amount = Some ''1000.00'',
     fa_destination = Some ''credbridge-pool'', fa_nonce = i, fa_payloadHash = h, fa_payload = ex_payload i,
     fa_signature = None, fa_expiresAt = 300000, fa_verifiedAt = v, fa_consumedAt = None, fa_createdAt = 0\<rparr>"

definition ex_deposit :: ptransaction where
  "ex_deposit = \<lparr>ptx_id = ''t1'', ptx_userId = ''pme'', ptx_type = ''DEPOSIT'', ptx_amount = 500,
     ptx_status = TPaymentSubmitted, ptx_pixKey = None, ptx_txHash = None, ptx_approvedBy = None,
     ptx_pixOrderId = None, ptx_pixIdentifier = None, ptx_pixTxid = None, ptx_pixPaymentId = None,
     ptx_pixTransactionId = None, ptx_pixEndToEndId = None, ptx_pixQrCodePayload = None,
     ptx_pixQrCodeLocation = None, ptx_pixQrCodeBase64 = None, ptx_pixExpiresAt = None,
     ptx_pixConfirmedAt = None, ptx_pixFailureReason = None, ptx_pixMetadata = None, ptx_createdAt = 0\<rparr>"

definition ex_world :: world where
  "ex_world = \<lparr>users = [ex_pme, ex_newcomer],
     receivables = [ex_rcv ''r1'' RTokenized (Some ''mint''), ex_rcv ''r2'' RActive (Some ''mint2''),
       ex_rcv ''r3'' RValidated None],
     documents = [], settlements = [], finauths = [ex_auth ''a1'' ''h1'' (Some 1), ex_auth ''a2'' ex_hash None],
     auditLogs = [], investments = [], ptransactions = [ex_deposit], pixEvents = [], collections = [],
     w_now = 1000, w_ticks = 0, w_ids = 0, w_trace = []\<rparr>"

definition ex_signature :: string where
  "ex_signature = concat (replicate 64 ''ab'')"

definition ex_assertion :: "(string \<times> json) list" where
  "ex_assertion = [(''type'', JStr ''privy_raw_hash''), (''address'', JStr ''GU''), (''signature'', JStr ex_signature)]"

definition ex_consumption :: consumption where
  "ex_consumption = \<lparr>cs_authorizationId = ''a1'', cs_userId = ''pme'', cs_operation = OpReceivableAssignment,
     cs_resourceId = Some ''r1'', cs_amount = Some ''1000.00'', cs_destination = Some ''credbridge-pool''\<rparr>"

text \<open>Running a program and keeping both results.\<close>

lemma runI: "fst p = r \<Longrightarrow> p = (r, snd p)"
  by (simp add: prod_eq_iff)

lemma ex_world_ok: "db_ok ex_world"
  by code_simp

section \<open>Financial authorizations\<close>

lemma ex_consume: "fst (consume ex_consumption ex_env ex_world) = Inr ()"
  by code_simp

theorem consume_success_witness:
  "\<exists>a t l. find_row fa_id ''a1'' (finauths ex_world) = Some a \<and> authorizes ex_consumption a
     \<and> fa_verifiedAt a \<noteq> None \<and> fa_consumedAt a = None \<and> w_now ex_world \<le> t \<and> t < fa_expiresAt a
     \<and> (\<exists>t' \<ge> t. finauths (snd (consume ex_consumption ex_env ex_world))
          = upd_row fa_id ''a1'' (fa_setConsumed t') (finauths ex_world))
     \<and> auditLogs (snd (consume ex_consumption ex_env ex_world)) = auditLogs ex_world @ [l]
     \<and> aud_event l = ''financial_authorization.consumed'' \<and> aud_entityId l = ''a1'' \<and> aud_userId l = ''pme''"
  using consume_success [OF runI, OF ex_consume ex_world_ok] by (simp add: ex_consumption_def)

theorem consume_succeeds_witness: "\<exists>w'. consume ex_consumption ex_env ex_world = (Inr (), w')"
proof (rule consume_succeeds [OF ex_world_ok])
  show "find_row fa_id (cs_authorizationId ex_consumption) (finauths ex_world) = Some (ex_auth ''a1'' ''h1'' (Some 1))"
    by code_simp
  show "authorizes ex_consumption (ex_auth ''a1'' ''h1'' (Some 1))" by code_simp
  show "fa_verifiedAt (ex_auth ''a1'' ''h1'' (Some 1)) \<noteq> None" by code_simp
  show "fa_consumedAt (ex_auth ''a1'' ''h1'' (Some 1)) = None" by code_simp
  show "w_now (tick ex_env (tick ex_env ex_world)) < fa_expiresAt (ex_auth ''a1'' ''h1'' (Some 1))" by code_simp
  show "e_uuid ex_env (w_ids ex_world) \<notin> aud_id ` set (auditLogs ex_world)" by code_simp
qed

lemma ex_commit: "fst (consume_commit ex_consumption (ex_auth ''a1'' ''h1'' (Some 1)) ex_env ex_world) = Inr ()"
  by code_simp

lemma ex_commit_ok: "db_ok (snd (consume_commit ex_consumption (ex_auth ''a1'' ''h1'' (Some 1)) ex_env ex_world))"
  using keepsR_run [OF consume_commit_step] ex_world_ok by (simp add: sound_step_def)

theorem consume_once_witness:
  "fst (consume_commit ex_consumption (ex_auth ''a1'' ''h1'' (Some 1)) ex_env
      (snd (consume_commit ex_consumption (ex_auth ''a1'' ''h1'' (Some 1)) ex_env ex_world)))
   = Inl (fa_error authorization_already_used ''Authorization was already consumed'')"
  using consume_once [OF runI, OF ex_commit ex_world_ok evo.kept_refl ex_commit_ok refl] .

definition ex_verify :: verify_dto where
  "ex_verify = \<lparr>vf_authorizationId = ''a2'', vf_payloadHash = ex_hash, vf_assertion = ex_assertion\<rparr>"

lemma ex_verified: "fst (verify ''pme'' ex_verify ex_env ex_world) = Inr (''a2'', True)"
  by code_simp

theorem verify_success_witness:
  "\<exists>a u sig t. find_row fa_id ''a2'' (finauths ex_world) = Some a \<and> fa_userId a = ''pme''
     \<and> find_row usr_id ''pme'' (users ex_world) = Some u
     \<and> usr_privyStellarWalletAddress u = Some (fa_walletId a)
     \<and> e_verifySig ex_env (fa_walletId a) (from_hex (fa_payloadHash a)) (from_hex (strip0x sig))
     \<and> finauths (snd (verify ''pme'' ex_verify ex_env ex_world))
        = upd_row fa_id (fa_id a) (fa_setVerified (JObj (vf_assertion ex_verify)) t) (finauths ex_world)"
  using verify_success [OF runI, OF ex_verified] unfolding ex_verify_def by auto

theorem payload_text_inj_witness:
  "payload_text (ex_payload ''a1'') = payload_text (ex_payload ''a1'') \<and> ex_payload ''a1'' = ex_payload ''a1''"
  using payload_text_inj [OF refl] by blast

definition ex_challenge :: challenge_dto where
  "ex_challenge = \<lparr>ch_operation = OpReceivableAssignment, ch_resourceId = Some ''r1'',
     ch_amount = Some ''1000.00'', ch_destination = Some ''credbridge-pool''\<rparr>"

lemma ex_hashes: "hashPayload ex_env p \<notin> fa_payloadHash ` set (finauths ex_world)"
proof -
  have "to_hex (replicate 32 11) \<notin> fa_payloadHash ` set (finauths ex_world)" by code_simp
  then show ?thesis by (simp only: hashPayload_def ex_env_def env.simps not_False_eq_True)
qed

lemma ex_challenged: "\<exists>r w'. createChallenge ''pme'' ex_challenge ex_env ex_world = (Inr r, w')"
proof (rule createChallenge_runs)
  show "find_row usr_id ''pme'' (users ex_world) = Some ex_pme" by code_simp
  show "usr_privyStellarWalletAddress ex_pme = Some ''GU''" by code_simp
  show "usr_privyWalletStatus ex_pme = Some ''ready''" by code_simp
  show "e_uuid ex_env (w_ids ex_world) \<notin> fa_nonce ` set (finauths ex_world)" by code_simp
  show "e_uuid ex_env (Suc (w_ids ex_world)) \<notin> fa_id ` set (finauths ex_world)" by code_simp
  show "e_uuid ex_env (Suc (Suc (w_ids ex_world))) \<notin> aud_id ` set (auditLogs ex_world)" by code_simp
qed (simp_all add: ex_hashes)

theorem createChallenge_success_witness:
  "\<exists>r w' a u. createChallenge ''pme'' ex_challenge ex_env ex_world = (Inr r, w')
     \<and> finauths w' = finauths ex_world @ [a] \<and> fa_payloadHash a = hashPayload ex_env (fa_payload a)
     \<and> find_row usr_id ''pme'' (users ex_world) = Some u \<and> usr_privyWalletStatus u = Some ''ready''
     \<and> usr_privyStellarWalletAddress u = Some (fa_walletId a) \<and> fa_verifiedAt a = None
     \<and> pl_resourceId (fa_payload a) = fa_resourceId a \<and> fa_resourceId a = Some ''r1''"
proof -
  obtain r w' where run: "createChallenge ''pme'' ex_challenge ex_env ex_world = (Inr r, w')"
    using ex_challenged by blast
  from createChallenge_success [OF run] show ?thesis
    by (elim exE conjE) (intro exI conjI, rule run, assumption+, simp_all add: ex_challenge_def)
qed

section \<open>Chain\<close>

lemma ex_invoke: "fst (invokeContract (FromSecret ''S'') ''C'' ''ping'' [] ex_env ex_world) = Inr ''tx''"
  by code_simp

theorem invokeContract_confirmed_witness:
  "\<exists>tr pre er status. (let tx = Built (e_publicKey ex_env (FromSecret ''S'')) (ContractCall ''C'' ''ping'' []) None 30 BASE_FEE in
      w_trace (snd (invokeContract (FromSecret ''S'') ''C'' ''ping'' [] ex_env ex_world)) = pre @ [RpcGetTransaction ''tx'']
      \<and> e_getTx ex_env pre ''tx'' = Inr ''SUCCESS''
      \<and> RpcSend (Signed (Assembled tx) (FromSecret ''S'')) \<in> set pre \<and> RpcSimulate tx \<in> set pre
      \<and> e_send ex_env tr (Signed (Assembled tx) (FromSecret ''S'')) = Inr (status, ''tx'', er) \<and> status \<noteq> ''ERROR'')"
  by (rule invokeContract_confirmed [OF runI, OF ex_invoke])

theorem toStroops_exact_witness:
  "toStroops (fl (of_int 12345 / 100)) = 12345 * 100000 \<and> toCentavos (fl (of_int 12345 / 100)) = 12345"
  by (rule toStroops_exact) simp_all

theorem toBytes32_uuid_witness:
  "toBytes32 (Some (''123e4567'' @ ''-'' @ ''e89b-12d3-a456-426614174000'')) = from_hex ''123e4567''
   \<and> length (toBytes32 (Some (''123e4567'' @ ''-'' @ ''e89b-12d3-a456-426614174000''))) = 4"
  by (rule toBytes32_uuid) (simp, code_simp)

lemma ex_submit: "fst (submitSignedTx ''xdr'' ''GU'' ''0xab'' ex_env ex_world) = Inr ''tx''"
  by code_simp

theorem submitSignedTx_success_witness:
  "\<exists>platform c pre. contract_config ex_env = Some (platform, c)
     \<and> e_verifySig ex_env ''GU'' (e_txHash ex_env (Decoded ''xdr'')) (from_hex (strip0x ''0xab''))
     \<and> w_trace (snd (submitSignedTx ''xdr'' ''GU'' ''0xab'' ex_env ex_world)) = pre @ [RpcGetTransaction ''tx'']
     \<and> e_getTx ex_env pre ''tx'' = Inr ''SUCCESS''
     \<and> RpcSend (Signed (FeeBump platform BASE_FEE
          (WithSignature (Decoded ''xdr'') ''GU'' (from_hex (strip0x ''0xab'')))) platform) \<in> set pre"
  by (rule submitSignedTx_success [OF runI, OF ex_submit])

section \<open>Settlement\<close>

lemma ex_settled: "fst (settleInvoice ''r2'' ex_env ex_world) = Inr (Some ''tx'')"
  by code_simp

lemma ex_r2: "find_row rcv_id ''r2'' (receivables ex_world) = Some (ex_rcv ''r2'' RActive (Some ''mint2''))"
  by code_simp

theorem settleInvoice_success_witness:
  "\<exists>s tx. Some ''tx'' = Some tx
     \<and> receivables (snd (settleInvoice ''r2'' ex_env ex_world)) = upd_row rcv_id ''r2'' (setSettled tx) (receivables ex_world)
     \<and> settlements (snd (settleInvoice ''r2'' ex_env ex_world)) = settlements ex_world @ [s]
     \<and> stl_receivableId s = ''r2'' \<and> stl_amount s = rcv_value (ex_rcv ''r2'' RActive (Some ''mint2''))
     \<and> stl_status s = SCompleted \<and> stl_txHash s = Some tx
     \<and> (\<exists>v. settleInvoiceInPool ''r2'' (rcv_value (ex_rcv ''r2'' RActive (Some ''mint2''))) ex_env ex_world = (Inr tx, v))"
  by (rule settleInvoice_success [OF runI, OF ex_settled ex_r2]) (simp add: ex_rcv_def)

theorem settleInvoice_twice_witness:
  "settleInvoice ''r2'' ex_env (snd (settleInvoice ''r2'' ex_env ex_world)) = (Inr (Some ''tx''), snd (settleInvoice ''r2'' ex_env ex_world))"
  by (rule settleInvoice_twice [OF runI, OF ex_settled])

section \<open>Pix\<close>

lemma ex_signed: "fst (verifyPixCallbackSignature ''b'' (Some ''sha256=0102'') (Some ''1'') ''k'' (Some 300) ex_env ex_world) = Inr True"
  by code_simp

theorem verifyPixCallbackSignature_sound_witness:
  "\<exists>s t n. Some ''sha256=0102'' = Some s \<and> Some ''1'' = Some t \<and> parse_int t = Some n
     \<and> of_int \<bar>unixSeconds (w_now (snd (verifyPixCallbackSignature ''b'' (Some ''sha256=0102'') (Some ''1'') ''k'' (Some 300)
          ex_env ex_world))) - n\<bar> \<le> (300 :: rat)
     \<and> s = ''sha256='' @ to_hex (e_hmac ex_env ''k'' (t @ ''.'' @ ''b''))"
  by (rule verifyPixCallbackSignature_sound [OF runI, OF ex_signed])

definition ex_callback :: pix_webhook_dto where
  "ex_callback = \<lparr>wh_eventId = ''e1'', wh_pixOrderId = ''o1'', wh_externalId = ''t1'', wh_identifier = ''i1'',
     wh_type = ''DEPOSIT'', wh_status = ''CONFIRMED'', wh_amount = 500, wh_txid = None, wh_paymentId = None,
     wh_transactionId = None, wh_endToEndId = None, wh_confirmedAt = None, wh_failedAt = None,
     wh_failureReason = None\<rparr>"

theorem pix_callback_once_witness:
  "processPixOrderCallback ex_callback ex_env (snd (processPixOrderCallback ex_callback ex_env ex_world))
   = (Inr (), snd (processPixOrderCallback ex_callback ex_env ex_world))"
  by (rule pix_callback_once [OF _ evo.kept_refl refl]) code_simp

lemma ex_mint_fails: "fst (mintBrlt ''GU'' (wh_amount ex_callback) ex_env_poor ex_world) = Inl (JsError ''STELLAR_BRLT_TOKEN_ID not configured'')"
  by code_simp

lemma ex_deposit_fails: "fst (handleDepositConfirmed ex_deposit (Some ex_pme) ex_callback ex_env_poor ex_world) = Inr ()"
  by code_simp

lemma ex_wallet: "usr_privyStellarWalletAddress ex_pme = Some ''GU''" "''GU'' \<noteq> []"
  by (simp_all add: ex_pme_def)

theorem deposit_mint_failed_witness:
  "let w' = snd (handleDepositConfirmed ex_deposit (Some ex_pme) ex_callback ex_env_poor ex_world) in
   ptransactions w' = ptransactions ex_world \<and> (\<exists>l. auditLogs w' = auditLogs ex_world @ [l]
    \<and> aud_event l = ''pix.deposit.mint_failed'' \<and> aud_entityId l = ptx_id ex_deposit)"
  unfolding Let_def by (rule deposit_mint_failed [OF ex_wallet runI runI, OF ex_mint_fails ex_deposit_fails])

lemma ex_mint: "fst (mintBrlt ''GU'' (wh_amount ex_callback) ex_env ex_world) = Inr ''tx''"
  by code_simp

theorem deposit_confirmed_witness:
  "\<exists>w' l. handleDepositConfirmed ex_deposit (Some ex_pme) ex_callback ex_env ex_world = (Inr (), w')
    \<and> ptransactions w' = upd_row ptx_id (ptx_id ex_deposit) (ptx_setMinted ''tx'') (ptransactions ex_world)
    \<and> auditLogs w' = auditLogs ex_world @ [l] \<and> aud_event l = ''pix.deposit.confirmed'' \<and> aud_txHash l = Some ''tx''"
  by (rule deposit_confirmed [OF ex_world_ok _ ex_wallet runI, OF _ ex_mint]) code_simp+

definition ex_withdrawal :: submit_withdrawal_dto where
  "ex_withdrawal = \<lparr>sw_amount = 10, sw_pixKey = ''k'', sw_pixKeyType = ''EVP'', sw_xdr = ''xdr'', sw_signature = ''0xab''\<rparr>"

lemma ex_withdrawn: "fst (submitWithdrawal ''pme'' ex_withdrawal ex_env ex_world) = Inr (''PROCESSING'', ''tx'', None)"
  by code_simp

theorem withdrawal_after_burn_witness:
  "\<exists>a h w2. userAddress ''pme'' ex_env ex_world = (Inr a, ex_world)
    \<and> submitSignedTx (sw_xdr ex_withdrawal) a (sw_signature ex_withdrawal) ex_env ex_world = (Inr h, w2)
    \<and> e_verifySig ex_env a (e_txHash ex_env (Decoded (sw_xdr ex_withdrawal))) (from_hex (strip0x (sw_signature ex_withdrawal)))
    \<and> ptransactions w2 = ptransactions ex_world"
  using withdrawal_after_burn [OF runI, OF ex_withdrawn] by blast

end
