(* ===== verification/Scenarios.thy ===== *)
theory Scenarios
  imports Examples
begin

text \<open>
  Concrete runs of the services that compose several components, on the data of the theory
  \<open>Examples\<close>, and states that sequences of requests reach from an empty database.
\<close>

section \<open>Receivables\<close>

lemma ex_tokenized: "fst (tokenize ''r3'' ex_env ex_world) =
    Inr (toReceivableResponse (ex_rcv ''r3'' RTokenized (Some ''tx'')))"
  by code_simp

theorem tokenize_success_witness:
  "let w' = snd (tokenize ''r3'' ex_env ex_world) in
   \<exists>r platform c pme xml v v' h. find_row rcv_id ''r3'' (receivables ex_world) = Some r \<and> rcv_status r = RValidated
    \<and> contract_config ex_env = Some (platform, c) \<and> pme \<noteq> []
    \<and> invokeContract platform c ''tokenize_nfe'' [ScString ''r3'', ScI128 (toCentavos (rcv_value r)),
        ScU64 (unixSeconds (rcv_dueDate r)), ScBytes xml, ScAddress pme, ScAddress (e_publicKey ex_env platform)] ex_env v
      = (Inr h, v')
    \<and> receivables w' = upd_row rcv_id ''r3'' (rcv_setTokenized h) (receivables ex_world)"
  unfolding Let_def using tokenize_success [OF runI, OF ex_tokenized] by blast

lemma ex_assigned: "fst (assign ''r1'' ''a1'' ex_env ex_world) =
    Inr (toReceivableResponse (ex_rcv ''r1'' RActive (Some ''mint'')))"
  by code_simp

theorem assign_success_witness:
  "let w' = snd (assign ''r1'' ''a1'' ex_env ex_world) in
   \<exists>r a t'. find_row rcv_id ''r1'' (receivables ex_world) = Some r \<and> assignable r
    \<and> find_row fa_id ''a1'' (finauths ex_world) = Some a \<and> fa_userId a = rcv_userId r
    \<and> fa_operation a = OpReceivableAssignment \<and> fa_resourceId a = Some ''r1''
    \<and> finauths w' = upd_row fa_id ''a1'' (fa_setConsumed t') (finauths ex_world)
    \<and> receivables w' = upd_row rcv_id ''r1'' (rcv_setStatus RActive) (receivables ex_world)"
  unfolding Let_def using assign_success [OF runI, OF ex_assigned ex_world_ok] by blast

lemma ex_r1: "find_row rcv_id ''r1'' (receivables ex_world) = Some (ex_rcv ''r1'' RTokenized (Some ''mint''))"
  by code_simp

lemma ex_pme_wallet: "findPmeWallet (rcv_userId (ex_rcv ''r1'' RTokenized (Some ''mint''))) ex_env_poor ex_world = (Inr ''GU'', ex_world)"
  by code_simp

lemma ex_assignment_sent: "fst (submitSignedAssignment ''xdr'' ''0xab'' ''GU'' ex_env_poor ex_world) = Inr ''tx''"
  by code_simp

lemma ex_payout_refused:
  "fst (buyTokenizedInvoiceInPool ''GU'' ''r1'' (case rcv_documentHash (ex_rcv ''r1'' RTokenized (Some ''mint'')) of
        None \<Rightarrow> ''00000000000000000000000000000000'' | Some x \<Rightarrow> x) (rcv_value (ex_rcv ''r1'' RTokenized (Some ''mint'')))
      ex_env_poor (snd (submitSignedAssignment ''xdr'' ''0xab'' ''GU'' ex_env_poor ex_world)))
   = Inl (JsError ''STELLAR_POOL_CONTRACT_ID not configured'')"
  by code_simp

theorem submitAssignment_payout_refused_witness:
  "\<exists>v'. submitAssignment ''r1'' ''xdr'' ''0xab'' ex_env_poor ex_world
      = (Inl (payout_error (JsError ''STELLAR_POOL_CONTRACT_ID not configured'')), v')
    \<and> receivables v' = receivables ex_world \<and> collections v' = collections ex_world
    \<and> auditLogs v' = auditLogs ex_world"
proof -
  have "assignable (ex_rcv ''r1'' RTokenized (Some ''mint''))" by code_simp
  from submitAssignment_payout_refused [OF ex_r1 this ex_pme_wallet runI runI, OF ex_assignment_sent ex_payout_refused]
  show ?thesis by blast
qed

section \<open>Investments\<close>

definition ex_purchase :: create_investment_dto where
  "ex_purchase = \<lparr>ci_receivableId = ''r2'', ci_authorizationId = ''a1'', ci_pixTxId = None\<rparr>"

lemma ex_amount: "amountPaid_of 1000 = 970"
  by code_simp

lemma ex_reserved: "fst (reserve ''new'' ex_purchase ex_env ex_world) = Inr (''n0'', ''r2'', 970)"
proof -
  have k: "e_uuid ex_env 0 = ''n0''" "e_uuid ex_env (Suc 0) = ''n1''" by code_simp+
  show ?thesis
    by (simp add: reserve_def catchM_def transactionM_def reserve_body_def findReceivableForUpdate_def bindM_def
        someOr_def throwIf_def ALLOWED_STATUSES_def Let_def createInvestment_def createM_def uuidM_def chk_investment_def
        clash_def setReceivableActive_def rcv_update_def updateM_def no_chk_def recordAudit_def auditCreate_def
        audit_entry_def chk_auditLog_def has_user_def has_receivable_def fk_def find_row_def upd_row_def rcv_setStatus_def
        ex_world_def ex_purchase_def ex_rcv_def ex_pme_def ex_newcomer_def blank_user_def getsM_def ex_amount k)
qed

theorem reserve_success_witness:
  "let w' = snd (reserve ''new'' ex_purchase ex_env ex_world) in
   \<exists>r j l. find_row rcv_id (ci_receivableId ex_purchase) (receivables ex_world) = Some r
    \<and> rcv_status r = RActive \<and> rcv_userId r \<noteq> ''new'' \<and> find_row inv_receivableId ''r2'' (investments ex_world) = None
    \<and> (970 :: rat) = amountPaid_of (rcv_value r) \<and> investments w' = investments ex_world @ [j] \<and> inv_id j = ''n0''
    \<and> inv_paymentTxHash j = None \<and> receivables w' = receivables ex_world \<and> auditLogs w' = auditLogs ex_world @ [l]"
  unfolding Let_def using reserve_success [OF runI, OF ex_reserved ex_world_ok] by blast

lemma ex_reserve_own: "fst (reserve ''pme'' ex_purchase ex_env ex_world) =
    Inl (BadRequestException ''Voce nao pode comprar um recebivel que cadastrou'')"
  by code_simp

theorem reserve_rollback_witness:
  "let w' = snd (reserve ''pme'' ex_purchase ex_env ex_world) in
   w' = ex_world\<lparr>w_now := w_now w', w_ticks := w_ticks w', w_ids := w_ids w', w_trace := w_trace w'\<rparr>"
  unfolding Let_def by (rule reserve_rollback [OF runI, OF ex_reserve_own])

theorem reserve_once_witness:
  "reserve ''pme'' ex_purchase ex_env (snd (reserve ''new'' ex_purchase ex_env ex_world))
   = (Inl unavailable, snd (reserve ''new'' ex_purchase ex_env ex_world))"
  by (rule reserve_once [OF runI, OF ex_reserved ex_world_ok evo.kept_refl refl])

section \<open>Operator and accounts\<close>

definition ex_caller :: "string \<Rightarrow> auth_user" where
  "ex_caller role = \<lparr>au_userId = ''pme'', au_email = ''pme@x.br'', au_role = Some role\<rparr>"

theorem admin_routes_guarded_witness:
  "adminController_approveTransaction (ex_caller ''pme'') ''t1'' ApproveIt ex_env ex_world =
     (Inl (ForbiddenException ''Apenas operadores da plataforma podem acessar este recurso''), ex_world)"
proof -
  have "au_role (ex_caller ''pme'') \<noteq> Some ''operator''" by (simp add: ex_caller_def)
  from admin_routes_guarded [OF this] show ?thesis by (simp add: Let_def)
qed

lemma ex_approved: "fst (approveTransaction ''t1'' ''op'' ApproveIt ex_env ex_world) = Inr (ptx_setApproved ''op'' ''tx'' ex_deposit)"
  by code_simp

theorem approveTransaction_success_witness:
  "let w' = snd (approveTransaction ''t1'' ''op'' ApproveIt ex_env ex_world) in
   \<exists>t0 h l. find_row ptx_id ''t1'' (ptransactions ex_world) = Some t0
    \<and> ptransactions w' = upd_row ptx_id ''t1'' (ptx_setApproved ''op'' h) (ptransactions ex_world)
    \<and> auditLogs w' = auditLogs ex_world @ [l] \<and> aud_txHash l = Some h
    \<and> approveTransaction ''t1'' ''op'' RejectIt ex_env w' =
        (Inl (BadRequestException ''Esta transacao nao esta pendente de aprovacao''), w')"
  unfolding Let_def using approveTransaction_success [OF runI, OF ex_approved] by blast

definition ex_token :: token_result where
  "ex_token = \<lparr>tr_accessToken = ''jwt'', tr_id = ''pme'', tr_email = ''pme@x.br'', tr_role = Some ''pme''\<rparr>"

lemma ex_login: "fst (login ''pme@x.br'' ''password'' ex_env ex_world) = Inr ex_token"
  by code_simp

theorem login_success_witness:
  "\<exists>u h. find_row usr_email ''pme@x.br'' (users ex_world) = Some u \<and> usr_passwordHash u = Some h
    \<and> e_bcryptCompare ex_env (w_trace ex_world) ''password'' h = Inr True"
  using login_success [OF runI, OF ex_login] by blast

definition ex_session :: session_result where
  "ex_session = \<lparr>sr_token = ex_token, sr_wallet = Some ''GU'', sr_walletStatus = Some ''ready'', sr_needsRoleSelection = False\<rparr>"

lemma ex_session_opened: "fst (privySession ''t'' ''i'' ex_env ex_world) = Inr ex_session"
  by code_simp

theorem privySession_success_witness:
  "\<exists>s accounts u. findEmailAddress accounts = Some (pv_email s) \<and> findStellarWalletAddress accounts = Some (pv_wallet s)
    \<and> u \<in> set (users ex_world)
    \<and> users (snd (privySession ''t'' ''i'' ex_env ex_world)) = upd_row usr_id (usr_id u) (setPrivy s) (users ex_world)
    \<and> tr_id (sr_token ex_session) = usr_id u"
  using privySession_success [OF runI, OF ex_session_opened ex_world_ok] by blast

definition ex_env_new :: env where
  "ex_env_new = ex_env\<lparr>e_privyAccess := (\<lambda>_ _. Inr (Some ''did2'')), e_privyIdentity := (\<lambda>_ _. Inr (Some ''did2'')),
     e_privyUser := (\<lambda>_ _. Inr [EmailAccount ''New@x.br'', WalletAccount ''stellar'' ''privy'' ''GN''])\<rparr>"

lemma ex_new_session: "fst (verifySession ''t'' ''i'' ex_env_new ex_world) =
    Inr \<lparr>pv_userId = ''did2'', pv_email = ''new@x.br'', pv_wallet = ''GN''\<rparr>"
  by code_simp

theorem privySession_upper_case_witness:
  "privySession ''t'' ''i'' ex_env_new ex_world = (Inl not_whitelisted, snd (verifySession ''t'' ''i'' ex_env_new ex_world))"
proof (rule privySession_upper_case [OF runI, OF ex_new_session, of ex_newcomer])
qed code_simp+

section \<open>The whole system\<close>

text \<open>A company registers, links its Privy wallet and enters a receivable, which an operator approves.\<close>

definition ex_requests :: "request list" where
  "ex_requests = [AuthRegister \<lparr>rg_email = ''pme@x.br'', rg_password = ''password'', rg_role = None\<rparr>,
     AuthPrivySession (Some ''Bearer t'') (Some ''i''),
     RcvCreate \<lparr>au_userId = ''n0'', au_email = ''pme@x.br'', au_role = Some ''pme''\<rparr>
       \<lparr>crd_value = 1000, crd_type = RTInvoice, crd_debtorName = ''D'', crd_debtorDocument = ''1'', crd_dueDate = ''2025''\<rparr>,
     AdmApproveReceivable \<lparr>au_userId = ''n0'', au_email = ''pme@x.br'', au_role = Some ''operator''\<rparr> ''n1'']"

definition ex_state :: world where
  "ex_state = run ex_env ex_requests (empty_world 0)"

lemma ex_state_reachable: "reachable ex_env ex_state"
  unfolding ex_state_def by (rule reachable_run, rule reachable.init)

theorem reachable_schema_witness: "keys_ok ex_state \<and> unique_ok ex_state \<and> refs_ok ex_state"
  by (rule reachable_schema [OF ex_state_reachable])

lemma ex_state_receivables: "map (\<lambda>r. (rcv_id r, rcv_status r)) (receivables ex_state) = [(''n1'', RTokenized)]"
  by code_simp

theorem reachable_tokened_witness:
  "\<exists>r. r \<in> set (receivables ex_state) \<and> rcv_status r = RTokenized \<and> rcv_txHash r \<noteq> None"
proof -
  from ex_state_receivables obtain r where r: "r \<in> set (receivables ex_state)" "rcv_status r = RTokenized"
    by (cases "receivables ex_state") auto
  with reachable_tokened [OF ex_state_reachable r(1)] show ?thesis by auto
qed

theorem dispatch_lifecycle_witness:
  "let v = snd (dispatch (RcvTokenize ''r3'') ex_env ex_world) in
   length (receivables ex_world) \<le> length (receivables v)
   \<and> life_step\<^sup>*\<^sup>* (rcv_status (receivables ex_world ! 2)) (rcv_status (receivables v ! 2))"
proof -
  have "2 < length (receivables ex_world)" by code_simp
  with dispatch_lifecycle [OF ex_world_ok, of "RcvTokenize ''r3''" ex_env] show ?thesis
    unfolding Let_def by blast
qed

text \<open>A challenge issued in a reachable state.\<close>

definition ex_start :: world where
  "ex_start = run ex_env (take 2 ex_requests) (empty_world 0)"

definition ex_challenged_state :: world where
  "ex_challenged_state = snd (dispatch (FaChallenge \<lparr>au_userId = ''n0'', au_email = ''pme@x.br'', au_role = None\<rparr> ex_challenge)
     ex_env ex_start)"

lemma ex_start_reachable: "reachable ex_env ex_start" "reachable ex_env ex_challenged_state"
  unfolding ex_challenged_state_def ex_start_def
  by (rule reachable_run, rule reachable.init)
    (rule reachable.step [OF _ api_step.request], rule reachable_run, rule reachable.init)

lemma ex_start_facts:
  "map (\<lambda>u. (usr_id u, usr_privyStellarWalletAddress u, usr_privyWalletStatus u)) (users ex_start)
    = [(''n0'', Some ''GU'', Some ''ready'')]" "finauths ex_start = []" "auditLogs ex_start = []"
  by code_simp+

lemma ex_start_challenge: "\<exists>a. a \<in> set (finauths ex_challenged_state) \<and> fa_userId a = ''n0''"
proof -
  from ex_start_facts(1) obtain u where u: "find_row usr_id ''n0'' (users ex_start) = Some u"
    "usr_privyStellarWalletAddress u = Some ''GU''" "usr_privyWalletStatus u = Some ''ready''"
    by (cases "users ex_start") (auto simp: find_row_Cons)
  have "\<exists>r w'. createChallenge ''n0'' ex_challenge ex_env ex_start = (Inr r, w')"
    by (rule createChallenge_runs [OF u(1,2) _ u(3)]) (simp_all add: ex_start_facts(2,3))
  then obtain r w' where run: "createChallenge ''n0'' ex_challenge ex_env ex_start = (Inr r, w')" by blast
  then have "ex_challenged_state = w'"
    by (simp add: ex_challenged_state_def respond_def bindM_def fa_controller_createChallenge_def)
  with challenge_stored [OF run] show ?thesis by auto
qed

theorem reachable_business_witness:
  "\<exists>a. a \<in> set (finauths ex_challenged_state) \<and> fa_userId a = ''n0'' \<and> payload_ok a"
  using reachable_business [OF ex_start_reachable(2)] ex_start_challenge by blast


end
