(* ===== verification/Frames.thy ===== *)
theory Frames
  imports System
begin

text \<open>
  What a method leaves alone. A component \<open>g\<close> of the world is \<open>quiet\<close> when no write to the tables of the business
  changes it: the locales below prove once, for every such component, that the methods leave it as it is.
  The authorizations and the roster of the users, who they are and which role they have, are interpreted.
\<close>

section \<open>Components the business does not touch\<close>

locale quiet_table =
  fixes g :: "world \<Rightarrow> 'g"
  assumes quiet_clock: "g (w\<lparr>w_now := t, w_ticks := n, w_ids := i\<rparr>) = g w"
    and quiet_trace: "g (w\<lparr>w_trace := c\<rparr>) = g w"
    and quiet_rows: "g (receivables_update f1 w) = g w" "g (documents_update f2 w) = g w" "g (settlements_update f3 w) = g w"
      "g (auditLogs_update f4 w) = g w" "g (investments_update f5 w) = g w" "g (ptransactions_update f6 w) = g w"
      "g (pixEvents_update f7 w) = g w" "g (collections_update f8 w) = g w"
    and quiet_chain: "chain_frame w v \<Longrightarrow> g v = g w"
    and quiet_user: "(\<And>u. usr_id (f u) = usr_id u \<and> usr_role (f u) = usr_role u) \<Longrightarrow>
      g (users_update (upd_row usr_id k f) w) = g w"

text \<open>A component that holds nothing of the users, and one that holds nothing of the authorizations.\<close>

locale quiet_accounts = quiet_table +
  assumes quiet_users: "g (users_update f w) = g w"

locale quiet_grants = quiet_table +
  assumes quiet_finauths: "g (finauths_update f w) = g w"

sublocale quiet_table \<subseteq> quiet: world_relation "same g"
  by unfold_locales (simp_all add: same_def quiet_clock quiet_trace)

context quiet_table
begin

lemma chain_keeps: "keepsR chain_frame m \<Longrightarrow> keepsR (same g) m"
  by (erule keepsR_mono) (simp add: same_def quiet_chain)

lemmas chain_calls [keeps] = registerProof.framed [THEN chain_keeps] tokenizeNfe.framed [THEN chain_keeps]
  transferNftToPlatform.framed [THEN chain_keeps] prepareAssignment.framed [THEN chain_keeps]
  submitSignedAssignment.framed [THEN chain_keeps] fundAccountFromPlatform.framed [THEN chain_keeps]
  createCustodialWallet.framed [THEN chain_keeps] payPme.framed [THEN chain_keeps]
  transferNftToInvestor.framed [THEN chain_keeps] chargeInvestor.framed [THEN chain_keeps]
  settlePayment.framed [THEN chain_keeps] getTransactionStatus.framed [THEN chain_keeps]
  depositToPool.framed [THEN chain_keeps] withdrawFromPool.framed [THEN chain_keeps]
  settleInvoiceInPool.framed [THEN chain_keeps] buyTokenizedInvoiceInPool.framed [THEN chain_keeps]
  mintBrlt.framed [THEN chain_keeps] buildApproveTx.framed [THEN chain_keeps]
  buildDepositTx.framed [THEN chain_keeps] buildBurnBrltTx.framed [THEN chain_keeps]
  submitSignedTx.framed [THEN chain_keeps] getPoolStatus.framed [THEN chain_keeps]
  getInvestorShares.framed [THEN chain_keeps] getBrltBalance.framed [THEN chain_keeps]
  createDeposit.framed [THEN chain_keeps] createWithdrawal.framed [THEN chain_keeps]
  getOrderById.framed [THEN chain_keeps] getOrderByExternalId.framed [THEN chain_keeps]
  cancelOrder.framed [THEN chain_keeps] refreshOrder.framed [THEN chain_keeps]
  createCollection.framed [THEN chain_keeps] getCollection.framed [THEN chain_keeps]
  cancelCollection.framed [THEN chain_keeps] verifyPix.framed [THEN chain_keeps]
  dateM.framed [THEN chain_keeps]

lemma log_frames [keeps]:
  "keepsR (same g) (auditCreate x)" "keepsR (same g) (auditLog x)" "keepsR (same g) (rcv_audit ev r m)"
  "keepsR (same g) (rcv_audit_tx ev r h m)"
  unfolding auditLog_def auditCreate_def rcv_audit_def rcv_audit_tx_def
  by (intro keeps keeps_db; simp add: same_def quiet_rows)+

lemma user_update_frame [keeps]:
  assumes "\<And>u. usr_id (f u) = usr_id u \<and> usr_role (f u) = usr_role u"
  shows "keepsR (same g) (user_update i f)"
  unfolding user_update_def by (intro keeps_db) (simp add: same_def quiet_user assms)

lemma row_frames [keeps]:
  "keepsR (same g) (event_create ei o' x n ty st a p)" "keepsR (same g) (ptx_create u ty' am s k h)"
  "keepsR (same g) (ptx_update i f)" "keepsR (same g) (col_update i q)"
  "keepsR (same g) (col_create i am dd)" "keepsR (same g) (rcv_update i j)"
  "keepsR (same g) (settlement_record i am h' t)" "keepsR (same g) (settleInvoice i)"
  unfolding event_create_def ptx_create_def ptx_update_def col_update_def col_create_def rcv_update_def
    settlement_record_def settleInvoice_def
  by (intro keeps keeps_db; simp add: same_def quiet_rows quiet_user)+

lemma receivable_frames [keeps]:
  "keepsR (same g) (findAssignable i)" "keepsR (same g) (setActive i)"
  "keepsR (same g) (tokenize i)" "keepsR (same g) (requestAssignment i)"
  "keepsR (same g) (findPmeWallet u)" "keepsR (same g) (createCollectionOrder c)"
  "keepsR (same g) (receivables_create u d)" "keepsR (same g) (documents_create dc)"
  unfolding findAssignable_def findReceivable_def setActive_def tokenize_def setTokenized_def requestAssignment_def
    setAssignmentPending_def findPmeWallet_def createCollectionOrder_def receivables_create_def
    receivablesRepo_create_def rcv_create_def documents_create_def documentsRepo_create_def Let_def
  by (intro keeps keeps_db; simp add: same_def quiet_rows quiet_user)+

lemma operator_frames [keeps]:
  "keepsR (same g) (submitAssignment i x s)" "keepsR (same g) (approveReceivable i o')"
  "keepsR (same g) (rejectReceivable i o')" "keepsR (same g) (reserve u d)"
  unfolding submitAssignment_def approveReceivable_def rejectReceivable_def findPendingReceivable_def
    reserve_def reserve_body_def findReceivableForUpdate_def createInvestment_def setReceivableActive_def
    recordAudit_def Let_def
  by (intro keeps keeps_db; simp add: same_def quiet_rows quiet_user)+

lemma callback_frames [keeps]:
  "keepsR (same g) m \<Longrightarrow> keepsR (same g) (admitEvent i m)"
  "keepsR (same g) (orderEffects d)" "keepsR (same g) (collectionEffects c)"
  unfolding admitEvent_def orderEffects_def handleDepositConfirmed_def handleWithdrawalConfirmed_def
    handleOrderFailed_def handleOrderExpired_def collectionEffects_def Let_def
  by (intro keeps; assumption?)+

lemma webhook_frame [keeps]: "keepsR (same g) (receivePixWebhook r b)"
  unfolding receivePixWebhook_def processCollectionCallback_def processPixOrderCallback_def
    storeCollectionEvent_def storeOrderEvent_def Let_def
  by (cases b) (simp, (intro keeps)+)+

lemma account_frames [keeps]:
  "keepsR (same g) (login e p)"
  "keepsR (same g) (googleLogin gt)" "keepsR (same g) (privySession a b)"
  "keepsR (same g) (updateProfile u q)"
  "keepsR (same g) (changePassword u p p')" "keepsR (same g) (findMe u)"
  unfolding login_def googleLogin_def googleVerify_def privySession_def verifySession_def
    privy_login_def fundQuietly_def updateProfile_def changePassword_def findMe_def
    findByEmail_def tokenFor_def issueToken_def bcryptHash_def bcryptCompare_def findUserOrThrow_def
  by (intro keeps; simp add: setPrivy_def setProfile_def)+

lemma payment_frames [keeps]:
  "keepsR (same g) (settlements_create s)" "keepsR (same g) (markAsPaid i u)"
  "keepsR (same g) (buildDepositStage i u st)" "keepsR (same g) (submitDepositStage i u sd)"
  "keepsR (same g) (admin_createDeposit cd o')"
  "keepsR (same g) (approveTransaction i o' ap)" "keepsR (same g) (createDepositOrder pd o')"
  "keepsR (same g) (createWithdrawalOrder pw o')" "keepsR (same g) (buildWithdrawalTx u x)"
  "keepsR (same g) (submitWithdrawal u sw)" "keepsR (same g) (retryCollectionOrder i u)"
  "keepsR (same g) (refreshPixOrder i u)" "keepsR (same g) (getBalance u)"
  "keepsR (same g) (createWallet u)"
  unfolding settlements_create_def markAsPaid_def buildDepositStage_def submitDepositStage_def
    loadApprovedDeposit_def findMyTransaction_def resolveInvestorAddress_def
    admin_createDeposit_def approveTransaction_def approve_action_def createDepositOrder_def
    createWithdrawalOrder_def buildWithdrawalTx_def userAddress_def submitWithdrawal_def
    retryCollectionOrder_def refreshPixOrder_def getBalance_def createWallet_def Let_def
  by (intro keeps keeps_db; simp add: same_def quiet_rows quiet_user)+

lemma query_frames [keeps]:
  "keepsR (same g) (receivables_findAll u)" "keepsR (same g) (receivables_findOne i)"
  "keepsR (same g) receivables_findPool" "keepsR (same g) receivablesRepo_getPoolStats"
  "keepsR (same g) (receivables_prepareAssignment i)"
  "keepsR (same g) (documents_findByReceivable i)" "keepsR (same g) settlements_findAll"
  "keepsR (same g) (settlements_findByReceivable i)"
  unfolding receivables_findAll_def receivablesRepo_findAll_def receivables_findOne_def
    receivables_findPool_def receivablesRepo_findPool_def receivablesRepo_getPoolStats_def
    receivables_prepareAssignment_def findAssignable_def findReceivable_def findPmeWallet_def
    documents_findByReceivable_def documentsRepo_findByReceivable_def settlements_findAll_def
    settlements_findByReceivable_def Let_def
  by (intro keeps)+

end

context quiet_accounts
begin

lemma new_account_frames [keeps]:
  "keepsR (same g) (user_create mk)" "keepsR (same g) (user_update i f)"
  unfolding user_create_def user_update_def by (intro keeps_db; simp add: same_def quiet_users)+

lemma role_frames [keeps]:
  "keepsR (same g) (register d)" "keepsR (same g) (setRole u r)" "keepsR (same g) (admin_createUser cu)"
  unfolding register_def setRole_def admin_createUser_def findByEmail_def tokenFor_def issueToken_def bcryptHash_def
    findUserOrThrow_def
  by (intro keeps)+

end

context quiet_grants
begin

lemma signature_frame [keeps]: "keepsR (same g) (verifyPrivyRawHashSignature a i s h)"
  by (rule keepsRI) (simp add: verifySig_pure same_def)

lemma grant_frames [keeps]:
  "keepsR (same g) (fa_create u p h e)" "keepsR (same g) (createChallenge u d)" "keepsR (same g) (verify u vd)"
  "keepsR (same g) (consume c)"
  unfolding fa_create_def createChallenge_def createChallenge_for_def verify_def verify_commit_def consume_def
    consume_check_def consume_commit_def Let_def
  by (intro keeps keeps_db; simp add: same_def quiet_finauths)+

lemma assign_frame [keeps]: "keepsR (same g) (assign i a)"
  unfolding assign_def by (intro keeps)

lemma purchase_frames [keeps]:
  "keepsR (same g) (setBlockchainTxHashes j p n)" "keepsR (same g) (settlePurchase u d x)"
  "keepsR (same g) (investments_create u d)"
proof -
  show h: "keepsR (same g) (setBlockchainTxHashes j p n)" for j p n
    unfolding setBlockchainTxHashes_def by (intro keeps_db) (simp add: same_def quiet_rows)
  show p: "keepsR (same g) (settlePurchase u d x)" for x
    unfolding settlePurchase_def by (cases x) (simp, intro keeps h)
  show "keepsR (same g) (investments_create u d)"
    unfolding investments_create_def by (intro keeps p)
qed

end

section \<open>The components\<close>

interpretation ledger_rows: quiet_accounts finauths
  by unfold_locales (simp_all add: chain_frame_def)

interpretation roster_rows: quiet_grants roster
  by unfold_locales (simp_all add: chain_frame_def roster_def upd_row_def)

end
