(* ===== verification/AuthorizationLedger.thy ===== *)
theory AuthorizationLedger
  imports Frames "HOL-Library.Sublist"
begin

text \<open>
  What the financial authorizations promise, without tables, hashes, clocks and signatures: a ledger
  of grants, each for one user and one operation, which are issued, confirmed and used, in this
  order, and used once. The authorizations of the database, seen through \<open>ledger_of\<close>, implement the
  ledger: a request makes at most one step of it, and only a step its route stands for.
\<close>

section \<open>The ledger\<close>

record grant =
  gr_userId :: string
  gr_operation :: financial_operation
  gr_resourceId :: "string option"
  gr_amount :: "string option"
  gr_destination :: "string option"

datatype phase = Issued | Confirmed | Used

type_synonym ledger = "string \<rightharpoonup> grant \<times> phase"

datatype ledger_event =
    Issue string grant
  | Confirm string string
  | Use string grant

fun ledger_apply :: "ledger_event \<Rightarrow> ledger \<Rightarrow> ledger option" where
  "ledger_apply (Issue i g) L = (if L i = None then Some (L(i \<mapsto> (g, Issued))) else None)"
| "ledger_apply (Confirm i u) L = (case L i of
       Some (g, p) \<Rightarrow> if gr_userId g = u \<and> p \<noteq> Used then Some (L(i \<mapsto> (g, Confirmed))) else None
     | None \<Rightarrow> None)"
| "ledger_apply (Use i c) L = (case L i of
       Some (g, p) \<Rightarrow> if g = c \<and> p = Confirmed then Some (L(i \<mapsto> (g, Used))) else None
     | None \<Rightarrow> None)"

fun ledger_run :: "ledger_event list \<Rightarrow> ledger \<Rightarrow> ledger option" where
  "ledger_run [] L = Some L"
| "ledger_run (e # es) L = Option.bind (ledger_apply e L) (ledger_run es)"

fun uses :: "string \<Rightarrow> ledger_event \<Rightarrow> bool" where
  "uses i (Use j g) \<longleftrightarrow> j = i"
| "uses i _ \<longleftrightarrow> False"

lemma ledger_apply_used:
  "ledger_apply e L = Some L' \<Longrightarrow> L i = Some (g, Used) \<Longrightarrow> L' i = Some (g, Used) \<and> \<not> uses i e"
  by (cases e) (auto split: option.splits if_splits)

lemma ledger_apply_uses:
  "ledger_apply e L = Some L' \<Longrightarrow> uses i e \<Longrightarrow> \<exists>g. L i = Some (g, Confirmed) \<and> L' i = Some (g, Used)"
  by (cases e) (auto split: option.splits if_splits)

lemma ledger_run_append:
  "ledger_run (es @ fs) L = Option.bind (ledger_run es L) (ledger_run fs)"
  by (induction es arbitrary: L) (simp_all split: bind_split)

lemma ledger_run_used:
  "ledger_run es L = Some L' \<Longrightarrow> L i = Some (g, Used) \<Longrightarrow> L' i = Some (g, Used) \<and> filter (uses i) es = []"
proof (induction es arbitrary: L)
  case (Cons e es)
  from Cons.prems(1) obtain M where "ledger_apply e L = Some M" "ledger_run es M = Some L'"
    by (auto simp: bind_eq_Some_conv)
  with Cons.IH [of M] Cons.prems(2) ledger_apply_used show ?case by fastforce
qed simp

text \<open>The promise: along any run of the ledger a grant is used at most once.\<close>

lemma ledger_one_shot: "ledger_run es L = Some L' \<Longrightarrow> length (filter (uses i) es) \<le> 1"
proof (induction es arbitrary: L)
  case (Cons e es)
  from Cons.prems obtain M where M: "ledger_apply e L = Some M" "ledger_run es M = Some L'"
    by (auto simp: bind_eq_Some_conv)
  show ?case
  proof (cases "uses i e")
    case True
    then obtain g where "M i = Some (g, Used)" using ledger_apply_uses [OF M(1)] by blast
    with ledger_run_used [OF M(2)] True show ?thesis by simp
  next
    case False
    with Cons.IH [OF M(2)] show ?thesis by simp
  qed
qed simp

section \<open>The database as a ledger\<close>

definition grant_of :: "finauth \<Rightarrow> grant" where
  "grant_of a = \<lparr>gr_userId = fa_userId a, gr_operation = fa_operation a, gr_resourceId = fa_resourceId a,
     gr_amount = fa_amount a, gr_destination = fa_destination a\<rparr>"

definition phase_of :: "finauth \<Rightarrow> phase" where
  "phase_of a = (if fa_consumedAt a \<noteq> None then Used else if fa_verifiedAt a \<noteq> None then Confirmed else Issued)"

definition ledger_of :: "finauth list \<Rightarrow> ledger" where
  "ledger_of t = (\<lambda>i. map_option (\<lambda>a. (grant_of a, phase_of a)) (find_row fa_id i t))"

definition claim_of :: "consumption \<Rightarrow> grant" where
  "claim_of c = \<lparr>gr_userId = cs_userId c, gr_operation = cs_operation c, gr_resourceId = cs_resourceId c,
     gr_amount = cs_amount c, gr_destination = cs_destination c\<rparr>"

lemma claim_grant: "authorizes c a \<longleftrightarrow> grant_of a = claim_of c"
  by (auto simp: authorizes_def grant_of_def claim_of_def)

lemma ledger_append:
  assumes "fa_id a \<notin> fa_id ` set t"
  shows "ledger_of (t @ [a]) = (ledger_of t)(fa_id a \<mapsto> (grant_of a, phase_of a))"
proof
  fix i
  have "find_row fa_id (fa_id a) t = None"
    using assms by (simp add: find_row_None_iff)
  then show "ledger_of (t @ [a]) i = ((ledger_of t)(fa_id a \<mapsto> (grant_of a, phase_of a))) i"
    by (auto simp: ledger_of_def find_row_append find_row_Cons split: option.split)
qed

lemma ledger_upd:
  assumes "find_row fa_id i t = Some a" and "\<And>x. fa_id (f x) = fa_id x"
  shows "ledger_of (upd_row fa_id i f t) = (ledger_of t)(i \<mapsto> (grant_of (f a), phase_of (f a)))"
  using assms by (auto simp: ledger_of_def find_row_upd_row fun_eq_iff)

section \<open>The three operations\<close>

text \<open>Table \<open>u\<close> shows the ledger of table \<open>t\<close>, or the ledger after one event that \<open>ok\<close> admits.\<close>

definition implements :: "(ledger_event \<Rightarrow> bool) \<Rightarrow> finauth list \<Rightarrow> finauth list \<Rightarrow> bool" where
  "implements ok t u \<longleftrightarrow> (distinct (map fa_id t) \<longrightarrow> ledger_of u = ledger_of t
     \<or> (\<exists>e. ok e \<and> ledger_apply e (ledger_of t) = Some (ledger_of u)))"

lemma implements_refl: "implements ok t t"
  by (simp add: implements_def)

lemma implements_mono: "implements ok t u \<Longrightarrow> (\<And>e. ok e \<Longrightarrow> ok' e) \<Longrightarrow> implements ok' t u"
  by (auto simp: implements_def)

lemma implements_bind:
  "keepsR (same finauths) m \<Longrightarrow> (\<And>a. fromTo finauths t (implements ok t) (f a)) \<Longrightarrow>
   fromTo finauths t (implements ok t) (bindM m f)"
  by (rule fromTo_bind) (simp_all add: implements_refl)

lemma implements_same: "keepsR (same finauths) m \<Longrightarrow> fromTo finauths t (implements ok t) m"
  by (rule fromTo_same) (simp_all add: implements_refl)

lemma implements_issue:
  assumes "fa_id a \<notin> fa_id ` set t" and "phase_of a = Issued" and "ok (Issue (fa_id a) (grant_of a))"
  shows "implements ok t (t @ [a])"
proof -
  have "ledger_of t (fa_id a) = None" using assms(1) by (simp add: ledger_of_def find_row_None_iff)
  then show ?thesis using assms by (auto simp: implements_def ledger_append intro: exI [of _ "Issue (fa_id a) (grant_of a)"])
qed

lemma implements_confirm:
  assumes "find_row fa_id i t = Some a" and "fa_consumedAt a = None" and "ok (Confirm i (fa_userId a))"
  shows "implements ok t (upd_row fa_id i (fa_setVerified s n) t)"
proof -
  have "ledger_of (upd_row fa_id i (fa_setVerified s n) t) = (ledger_of t)(i \<mapsto> (grant_of a, Confirmed))"
    using assms(2) ledger_upd [OF assms(1), of "fa_setVerified s n"]
    by (simp add: fa_setVerified_def grant_of_def phase_of_def)
  moreover have "ledger_of t i = Some (grant_of a, phase_of a)" "phase_of a \<noteq> Used" "gr_userId (grant_of a) = fa_userId a"
    using assms(1,2) by (simp_all add: ledger_of_def phase_of_def grant_of_def)
  ultimately show ?thesis
    using assms(3) by (auto simp: implements_def intro!: exI [of _ "Confirm i (fa_userId a)"])
qed

lemma implements_use:
  assumes "find_row fa_id i t = Some a" and "fa_consumedAt a = None" and "fa_verifiedAt a \<noteq> None"
    and "ok (Use i (grant_of a))"
  shows "implements ok t (upd_row fa_id i (fa_setConsumed n) t)"
proof -
  have "ledger_of (upd_row fa_id i (fa_setConsumed n) t) = (ledger_of t)(i \<mapsto> (grant_of a, Used))"
    using ledger_upd [OF assms(1), of "fa_setConsumed n"] by (simp add: fa_setConsumed_def grant_of_def phase_of_def)
  moreover have "ledger_of t i = Some (grant_of a, Confirmed)"
    using assms(1-3) by (simp add: ledger_of_def phase_of_def)
  ultimately show ?thesis
    using assms(4) by (auto simp: implements_def intro!: exI [of _ "Use i (grant_of a)"])
qed

definition grant_for :: "string \<Rightarrow> challenge_dto \<Rightarrow> grant" where
  "grant_for u d = \<lparr>gr_userId = u, gr_operation = ch_operation d, gr_resourceId = ch_resourceId d,
     gr_amount = ch_amount d, gr_destination = ch_destination d\<rparr>"

lemma fa_create_implements:
  assumes "\<And>i. ok (Issue i \<lparr>gr_userId = u, gr_operation = pl_operation p, gr_resourceId = pl_resourceId p,
    gr_amount = pl_amount p, gr_destination = pl_destination p\<rparr>)"
  shows "fromTo finauths t (implements ok t) (fa_create u p h n)"
proof (rule fromToI)
  fix E and w :: world assume "finauths w = t"
  then show "implements ok t (finauths (snd (fa_create u p h n E w)))"
    using assms by (auto simp: fa_create_def createM_def bindM_def uuidM_def Let_def implements_refl phase_of_def
        grant_of_def intro!: implements_issue split: option.split)
qed

lemma createChallenge_implements:
  assumes "\<And>i. ok (Issue i (grant_for u d))"
  shows "fromTo finauths t (implements ok t) (createChallenge u d)"
proof -
  have "fromTo finauths t (implements ok t) (createChallenge_for u d a)" for a
    unfolding createChallenge_for_def Let_def using assms
    by (intro implements_bind fromTo_then [OF fa_create_implements] keeps) (simp add: grant_for_def)
  then show ?thesis
    unfolding createChallenge_def Let_def by (intro implements_bind keeps)
qed

lemma verify_commit_implements:
  assumes "find_row fa_id (fa_id a) t = Some a" and "fa_consumedAt a = None" and "ok (Confirm (fa_id a) (fa_userId a))"
  shows "fromTo finauths t (implements ok t) (verify_commit u a d)"
proof -
  have "fromTo finauths t (implements ok t) (updateM finauths finauths_update fa_id no_chk (fa_id a) (fa_setVerified s n))" for s n
    by (rule fromToI) (use assms in \<open>auto simp: updateM_def no_chk_def implements_refl split: option.split
        intro!: implements_confirm\<close>)
  then show ?thesis
    unfolding verify_commit_def by (intro implements_bind fromTo_then keeps)
qed

lemma verify_implements:
  assumes "ok (Confirm (vf_authorizationId d) u)"
  shows "fromTo finauths t (implements ok t) (verify u d)"
proof (rule fromToI)
  fix E and w :: world assume w: "finauths w = t"
  show "implements ok t (finauths (snd (verify u d E w)))"
  proof (cases "find_row fa_id (vf_authorizationId d) t")
    case None
    then show ?thesis using w by (simp add: verify_def implements_refl)
  next
    case (Some a)
    then have a: "fa_id a = vf_authorizationId d" "find_row fa_id (fa_id a) t = Some a"
      by (metis find_row_SomeD)+
    have "fromTo finauths t (implements ok t) (bindM (throwIf (fa_consumedAt a \<noteq> None) x) (\<lambda>_.
        bindM nowM (\<lambda>now. bindM (throwIf (fa_expiresAt a < now) y) (\<lambda>_.
        bindM (throwIf c z) (\<lambda>_. bindM (verifyPrivyRawHashSignature p i s h) (\<lambda>_. verify_commit u a d))))))"
      if "fa_userId a = u" for x y c z p i s h
      using that a assms
      by (intro fromTo_throwIf implements_refl implements_bind verify_commit_implements keeps) simp_all
    from fromToD [OF this w] show ?thesis
      using w Some by (simp add: verify_def implements_refl del: bindM_throwIf bindM_now)
  qed
qed

lemma consume_implements:
  assumes "ok (Use (cs_authorizationId c) (claim_of c))"
  shows "fromTo finauths t (implements ok t) (consume c)"
proof (rule fromToI)
  fix E and w :: world assume w: "finauths w = t"
  show "implements ok t (finauths (snd (consume c E w)))"
  proof (cases "distinct (map fa_id t) \<and> (\<exists>a v. consume_check c E w = (Inr a, v))")
    case True
    then obtain a v where c: "consume_check c E w = (Inr a, v)" by blast
    then have a: "find_row fa_id (cs_authorizationId c) t = Some a" "authorizes c a" "fa_verifiedAt a \<noteq> None"
        "fa_consumedAt a = None" and v: "finauths v = t"
      using w by (simp_all add: consume_check_iff)
    have i: "fa_id a = cs_authorizationId c" using a(1) by (auto dest: find_row_SomeD)
    have d: "distinct (map fa_id (finauths v))" "find_row fa_id (fa_id a) (finauths v) = Some a"
      using True a(1) i v by simp_all
    have "implements ok t (upd_row fa_id (fa_id a) (fa_setConsumed n) t)" for n
      using assms a i by (intro implements_use [where a = a]) (simp_all add: claim_grant)
    then show ?thesis
      using c v sameD [OF auditLog_frames(5)]
      by (simp add: consume_def bindM_def consume_commit_eq [OF d] Let_def implements_refl)
  next
    case False
    have f: "keepsR (same finauths) (consume_check c)"
      unfolding consume_check_def by (intro keeps)
    show ?thesis
    proof (cases "consume_check c E w")
      case (Pair r v)
      then have "finauths v = t" using sameD' [OF f Pair] w by simp
      with Pair False show ?thesis
        by (cases r) (auto simp: consume_def bindM_def implements_def)
    qed
  qed
qed

section \<open>Routes\<close>

text \<open>The step of the ledger a route stands for.\<close>

definition allowed :: "request \<Rightarrow> ledger_event \<Rightarrow> bool" where
  "allowed r e = (case (r, e) of
       (FaChallenge u d, Issue i g) \<Rightarrow> g = grant_for (au_userId u) d
     | (FaVerify u d, Confirm i v) \<Rightarrow> i = vf_authorizationId d \<and> v = au_userId u
     | (RcvAssign i a, Use j g) \<Rightarrow> j = a \<and> gr_operation g = OpReceivableAssignment \<and> gr_resourceId g = Some i
     | (InvCreate u d, Use j g) \<Rightarrow> j = ci_authorizationId d \<and> gr_operation g = OpInvestmentPurchase
         \<and> gr_userId g = au_userId u \<and> gr_resourceId g = Some (ci_receivableId d)
     | _ \<Rightarrow> False)"

lemma implements_bind_post:
  assumes "keepsR (same finauths) m" and "\<And>E w a w'. m E w = (Inr a, w') \<Longrightarrow> Q a"
    and "\<And>a. Q a \<Longrightarrow> fromTo finauths t (implements ok t) (f a)"
  shows "fromTo finauths t (implements ok t) (bindM m f)"
proof (rule fromToI)
  fix E and w :: world assume w: "finauths w = t"
  show "implements ok t (finauths (snd (bindM m f E w)))"
  proof (cases "m E w")
    case (Pair r v)
    then have "finauths v = t" using sameD' [OF assms(1) Pair] w by simp
    then show ?thesis
      using Pair assms(2) [of E w] fromToD [OF assms(3), of _ v E]
      by (auto simp: bindM_def implements_refl split: sum.split)
  qed
qed

lemma assign_implements: "fromTo finauths t (implements (allowed (RcvAssign i a)) t) (assign i a)"
  unfolding assign_def
proof (rule implements_bind_post [where Q = "\<lambda>r. rcv_id r = i"])
  show "keepsR (same finauths) (findAssignable i)" by (intro keeps)
  show "rcv_id r = i" if "findAssignable i E w = (Inr r, w')" for E w r w'
    using that by (auto simp: findAssignable_Inr dest: find_row_SomeD)
qed (intro fromTo_then [OF consume_implements] keeps, simp add: allowed_def claim_of_def)

lemma purchase_implements:
  "fromTo finauths t (implements (allowed (InvCreate u d)) t) (investments_create (au_userId u) d)"
  unfolding investments_create_def
proof (rule implements_bind_post [where Q = "\<lambda>(_, k, _). k = ci_receivableId d"])
  show "keepsR (same finauths) (reserve (au_userId u) d)" by (intro keeps)
  show "case x of (_, k, _) \<Rightarrow> k = ci_receivableId d" if "reserve (au_userId u) d E w = (Inr x, w')" for E w x w'
    using that by (auto simp: reserve_Inr reserve_body_def findReceivableForUpdate_def Let_def
        elim!: bindM_InrE dest!: find_row_SomeD split: option.splits if_splits)
  have h: "keepsR (same finauths) (setBlockchainTxHashes j p n)" for j p n
    unfolding setBlockchainTxHashes_def by (intro keeps keeps_db; simp add: same_def)
  show "fromTo finauths t (implements (allowed (InvCreate u d)) t) (settlePurchase (au_userId u) d x)"
    if "case x of (_, k, _) \<Rightarrow> k = ci_receivableId d" for x
    using that unfolding settlePurchase_def
    by (auto intro!: fromTo_then [OF consume_implements] keeps h simp: allowed_def claim_of_def split: prod.split)
qed

lemma respond_implements:
  "fromTo finauths t (implements ok t) m \<Longrightarrow> fromTo finauths t (implements ok t) (respond m)"
  unfolding respond_def by (erule fromTo_then) (rule same.keepsR_ret)

lemma guard_implements:
  "fromTo finauths t (implements ok t) (f ()) \<Longrightarrow> fromTo finauths t (implements ok t) (bindM (throwIf c e) f)"
  by (rule fromTo_throwIf) (simp_all add: implements_refl)

lemmas implementing = assign_implements purchase_implements createChallenge_implements verify_implements

lemma dispatch_implements: "fromTo finauths t (implements (allowed r) t) (dispatch r)"
  by (cases r; simp add: route_defs; intro respond_implements)
    (intro implementing guard_implements implements_same keeps; simp add: allowed_def)+

text \<open>C3: The authorizations of the database implement the one-shot ledger: a request, however it ends,
  leaves the ledger as it is or makes one step of it, and the step is the one its route stands for: a
  challenge issues the grant it asks for, a verification confirms a grant of the caller, an assignment or
  a purchase uses a confirmed grant for exactly this operation and receivable; no other route makes a
  step.\<close>

theorem dispatch_refines_ledger:
  assumes "db_ok w"
  shows "let L = ledger_of (finauths w); L' = ledger_of (finauths (snd (dispatch r E w))) in
    L' = L \<or> (\<exists>e. allowed r e \<and> ledger_apply e L = Some L')"
proof -
  have "distinct (map fa_id (finauths w))" using assms by (simp add: db_ok_defs)
  with fromToD [OF dispatch_implements refl, of r w E] show ?thesis by (simp add: implements_def Let_def)
qed

lemma history_refines:
  assumes "db_ok w"
  shows "\<exists>qs es. subseq qs rs \<and> list_all2 allowed qs es
    \<and> ledger_run es (ledger_of (finauths w)) = Some (ledger_of (finauths (run E rs w)))"
  using assms
proof (induction rs arbitrary: w)
  case Nil
  then show ?case by (intro exI [of _ "[]"]) simp
next
  case (Cons r rs)
  let ?v = "snd (dispatch r E w)"
  have "db_ok ?v" using keepsR_run [OF dispatch_step, of w r E] Cons.prems by (simp add: sound_step_def)
  from Cons.IH [OF this] obtain qs es where *: "subseq qs rs" "list_all2 allowed qs es"
    "ledger_run es (ledger_of (finauths ?v)) = Some (ledger_of (finauths (run E rs ?v)))" by blast
  have "distinct (map fa_id (finauths w))" using Cons.prems by (simp add: db_ok_defs)
  with fromToD [OF dispatch_implements refl, of r w E]
  consider "ledger_of (finauths ?v) = ledger_of (finauths w)"
    | e where "allowed r e" "ledger_apply e (ledger_of (finauths w)) = Some (ledger_of (finauths ?v))"
    by (auto simp: implements_def)
  then show ?case
  proof cases
    case 1
    with * show ?thesis by (intro exI [of _ qs] exI [of _ es]) auto
  next
    case 2
    with * show ?thesis by (intro exI [of _ "r # qs"] exI [of _ "e # es"]) auto
  qed
qed

text \<open>A whole history of requests is a run of the ledger: its steps belong, in order, to some of the
  requests, and along it no authorization is used twice.\<close>

theorem history_one_shot:
  assumes "db_ok w"
  shows "\<exists>qs es. subseq qs rs \<and> list_all2 allowed qs es
    \<and> ledger_run es (ledger_of (finauths w)) = Some (ledger_of (finauths (run E rs w)))
    \<and> (\<forall>i. length (filter (uses i) es) \<le> 1)"
proof -
  from history_refines [OF assms, of rs E] obtain qs es where "subseq qs rs" "list_all2 allowed qs es"
    and run: "ledger_run es (ledger_of (finauths w)) = Some (ledger_of (finauths (run E rs w)))" by blast
  with ledger_one_shot [OF run] show ?thesis by blast
qed

end
