(* ===== verification/WebClient.thy ===== *)
theory WebClient
  imports AuthorizationLedger
begin

text \<open>
  The boundary between the API and the web application, and the client library of the web
  application. On the side of the API: \<open>AllExceptionsFilter\<close>, which turns an exception into a
  response, and the guard of the protected routes. On the side of the browser
  (\<open>apps/web/src/lib/api\<close>, \<open>hooks\<close>): the stored session, \<open>apiFetch\<close>, the exchange of a Privy
  session and the redirection of visitors.

  A client program runs in the environment \<open>browser\<close> on the state \<open>site\<close>, which holds the world of
  the API: a request runs a route of the model of the API. The network may lose a request before or
  after the API has served it. Body and answer are passed as the values their JSON texts denote.
\<close>

section \<open>Exceptions as responses\<close>

record http_error =
  hx_statusCode :: nat
  hx_message :: string
  hx_stack :: bool

fun isHttpException :: "exn \<Rightarrow> bool" where
  "isHttpException (PrismaError c) = False"
| "isHttpException (JsError m) = False"
| "isHttpException _ = True"

fun getStatus :: "exn \<Rightarrow> nat" where
  "getStatus (NotFoundException m) = 404"
| "getStatus (ConflictException m) = 409"
| "getStatus (BadRequestException m) = 400"
| "getStatus (UnauthorizedException m) = 401"
| "getStatus (ForbiddenException m) = 403"
| "getStatus (FinancialAuthorizationException c m) = 400"
| "getStatus (PrismaError c) = 500"
| "getStatus (JsError m) = 500"

definition isProd :: "env \<Rightarrow> bool" where
  "isProd E \<longleftrightarrow> e_conf E ''NODE_ENV'' = Some ''production''"

definition exceptionsFilter_catch :: "env \<Rightarrow> exn \<Rightarrow> http_error" where
  "exceptionsFilter_catch E e =
     (let status = (if isHttpException e then getStatus e else 500);
          message = (if isHttpException e then exn_message e else ''Internal server error'');
          message' = (if isProd E \<and> 500 \<le> status then ''Internal server error'' else message)
      in \<lparr>hx_statusCode = status, hx_message = message', hx_stack = (\<not> isProd E)\<rparr>)"

section \<open>The browser\<close>

datatype delivery = Delivered | RequestLost | ReplyLost

text \<open>
  \<open>b_jwt\<close> is the check of a bearer token by the passport library, \<open>b_isUuid\<close>, \<open>b_isUrl\<close> and \<open>b_invalid\<close> the tests of
  the class-validator library and its text, \<open>b_sign\<close> the raw-hash signer of
  Privy (address and hash to an error or a signature), \<open>b_privyToken\<close>, \<open>b_createWallet\<close> and \<open>b_logout\<close> its
  session; \<open>b_storage\<close> says whether there is a window whose storage can be used.
\<close>

record browser =
  b_api :: env
  b_apiUrl :: "string option"
  b_storage :: bool
  b_jwt :: "string option \<Rightarrow> auth_user option"
  b_invalid :: string
  b_isUuid :: "string \<Rightarrow> bool"
  b_isUrl :: "string \<Rightarrow> bool"
  b_delivery :: "nat \<Rightarrow> delivery"
  b_statusText :: "nat \<Rightarrow> string"
  b_sign :: "string \<Rightarrow> string \<Rightarrow> string + string"
  b_privyToken :: "string option"
  b_createWallet :: "string + unit"
  b_logout :: "string + unit"

type_synonym headers = "(string \<times> string) list"

text \<open>
  \<open>s_requests\<close>, \<open>s_signed\<close> and \<open>s_stages\<close> record what was sent, what Privy was asked to sign, and the calls of
  \<open>onStage\<close> (\<open>True\<close> is the deposit stage); the fields after them are the React state of the hooks.
\<close>

record site =
  s_world :: world
  s_token :: "string option"
  s_handler :: bool
  s_unauthorized :: nat
  s_requests :: "(string \<times> string \<times> headers) list"
  s_signed :: "(string \<times> string) list"
  s_stages :: "bool list"
  s_authorizing :: bool
  s_bootstrapping :: bool
  s_bootstrapError :: "string option"
  s_attempted :: bool
  s_didBootstrap :: bool
  s_roleError :: "string option"
  s_path :: string

datatype web_error = ApiError nat string "http_error option" | WebError string

type_synonym 'a web = "(browser, site, web_error, 'a) prog"

section \<open>Stored session\<close>

definition getAccessToken :: "string option web" where
  "getAccessToken = (\<lambda>B s. (Inr (if b_storage B then s_token s else None), s))"

definition setAccessToken :: "string \<Rightarrow> unit web" where
  "setAccessToken t = (\<lambda>B s. (Inr (), if b_storage B then s\<lparr>s_token := Some t\<rparr> else s))"

definition clearAccessToken :: "unit web" where
  "clearAccessToken = (\<lambda>B s. (Inr (), if b_storage B then s\<lparr>s_token := None\<rparr> else s))"

section \<open>The transport\<close>

record 'a http_response =
  rs_status :: nat
  rs_statusText :: string
  rs_error :: "http_error option"
  rs_value :: "'a option"

definition reply :: "browser \<Rightarrow> string \<Rightarrow> exn + 'a \<Rightarrow> 'a http_response" where
  "reply B meth r = (case r of
       Inl e \<Rightarrow> (let x = exceptionsFilter_catch (b_api B) e in
         \<lparr>rs_status = hx_statusCode x, rs_statusText = b_statusText B (hx_statusCode x),
          rs_error = Some x, rs_value = None\<rparr>)
     | Inr a \<Rightarrow> (let code = (if meth = ''POST'' then 201 else 200) in
         \<lparr>rs_status = code, rs_statusText = b_statusText B code, rs_error = None, rs_value = Some a\<rparr>))"

text \<open>Names of headers do not depend on case.\<close>

definition header :: "string \<Rightarrow> headers \<Rightarrow> string option" where
  "header n hs = map_of (map (\<lambda>(k, v). (toLowerCase k, v)) hs) n"

text \<open>A route behind \<open>JwtAuthGuard\<close>, and a body behind the \<open>ValidationPipe\<close>.\<close>

definition guarded :: "browser \<Rightarrow> (auth_user \<Rightarrow> 'a api) \<Rightarrow> headers \<Rightarrow> 'a api" where
  "guarded B h hs = (case b_jwt B (header ''authorization'' hs) of
       None \<Rightarrow> throwM (UnauthorizedException ''Unauthorized'')
     | Some u \<Rightarrow> h u)"

definition validated :: "browser \<Rightarrow> bool \<Rightarrow> 'a api \<Rightarrow> 'a api" where
  "validated B ok m = (if ok then m else throwM (BadRequestException (b_invalid B)))"

definition fetchM :: "(browser \<Rightarrow> headers \<Rightarrow> 'a api) \<Rightarrow> string \<Rightarrow> string \<Rightarrow> headers \<Rightarrow> 'a http_response web" where
  "fetchM route meth url hs = (\<lambda>B s.
     let d = b_delivery B (length (s_requests s));
         s' = s\<lparr>s_requests := s_requests s @ [(meth, url, hs)]\<rparr> in
     if d = RequestLost then (Inl (WebError ''Failed to fetch''), s')
     else case route B hs (b_api B) (s_world s) of (r, w) \<Rightarrow>
       if d = ReplyLost then (Inl (WebError ''Failed to fetch''), s'\<lparr>s_world := w\<rparr>)
       else (Inr (reply B meth r), s'\<lparr>s_world := w\<rparr>))"

section \<open>apiFetch\<close>

record api_options =
  op_method :: string
  op_headers :: headers
  op_skipAuth :: bool

definition API_BASE :: "browser \<Rightarrow> string" where
  "API_BASE B = (case b_apiUrl B of None \<Rightarrow> ''http://localhost:3001'' | Some u \<Rightarrow> u)"

text \<open>\<open>{ 'Content-Type': ..., ...headers }\<close>, then the stored token unless the caller names one.\<close>

definition finalHeaders :: "bool \<Rightarrow> string option \<Rightarrow> headers \<Rightarrow> headers" where
  "finalHeaders skipAuth token headers =
     (let hs = fold (\<lambda>(k, v). AList.update k v) headers [(''Content-Type'', ''application/json'')] in
      if \<not> skipAuth \<and> \<not> falsy token \<and> falsy (map_of hs ''Authorization'')
      then AList.update ''Authorization'' (''Bearer '' @ the token) hs else hs)"

definition response_ok :: "'a http_response \<Rightarrow> bool" where
  "response_ok r \<longleftrightarrow> 200 \<le> rs_status r \<and> rs_status r \<le> 299"

definition callUnauthorized :: "unit web" where
  "callUnauthorized = modifyM (\<lambda>s. if s_handler s then s\<lparr>s_unauthorized := Suc (s_unauthorized s)\<rparr> else s)"

text \<open>What \<open>apiFetch\<close> does with a response; \<open>None\<close> is \<open>undefined\<close>, the result of a 204.\<close>

definition readResponse :: "bool \<Rightarrow> 'a http_response \<Rightarrow> 'a option web" where
  "readResponse skipAuth response =
     (if \<not> response_ok response then
        bindM (if rs_status response = 401
               then bindM clearAccessToken (\<lambda>_. if \<not> skipAuth then callUnauthorized else retM ())
               else retM ()) (\<lambda>_.
        throwM (ApiError (rs_status response) (rs_statusText response) (rs_error response)))
      else if rs_status response = 204 then retM None
      else retM (rs_value response))"

definition apiFetch :: "(browser \<Rightarrow> headers \<Rightarrow> 'a api) \<Rightarrow> string \<Rightarrow> api_options \<Rightarrow> 'a option web" where
  "apiFetch route path options =
     bindM (if op_skipAuth options then retM None else getAccessToken) (\<lambda>token.
     bindM (asksM API_BASE) (\<lambda>base.
     bindM (fetchM route (op_method options) (base @ ''/v1'' @ path)
              (finalHeaders (op_skipAuth options) token (op_headers options))) (\<lambda>response.
     readResponse (op_skipAuth options) response)))"

definition extractApiErrorMessage :: "web_error \<Rightarrow> string" where
  "extractApiErrorMessage e = (case e of
       ApiError status statusText body \<Rightarrow>
         (case body of
            Some b \<Rightarrow> if hx_message b \<noteq> [] then hx_message b else show_int (int status) @ '' '' @ statusText
          | None \<Rightarrow> show_int (int status) @ '' '' @ statusText)
     | WebError m \<Rightarrow> m)"

text \<open>\<open>err.message\<close> of an error object.\<close>

definition errorMessage :: "web_error \<Rightarrow> string" where
  "errorMessage e = (case e of
       ApiError status statusText body \<Rightarrow> ''API '' @ show_int (int status) @ '' '' @ statusText
     | WebError m \<Rightarrow> m)"

definition GET :: api_options where
  "GET = \<lparr>op_method = ''GET'', op_headers = [], op_skipAuth = False\<rparr>"

definition POST :: api_options where
  "POST = \<lparr>op_method = ''POST'', op_headers = [], op_skipAuth = False\<rparr>"

definition PATCH :: api_options where
  "PATCH = \<lparr>op_method = ''PATCH'', op_headers = [], op_skipAuth = False\<rparr>"

text \<open>The use of a member of an answer: on \<open>undefined\<close> it raises a \<open>TypeError\<close>.\<close>

definition answerM :: "'a option web \<Rightarrow> 'a web" where
  "answerM m = bindM m (\<lambda>v. someOr v (WebError ''Cannot read properties of undefined''))"

text \<open>\<open>try { m } finally { f }\<close>\<close>

definition finallyM :: "('r, 's, 'x, 'a) prog \<Rightarrow> ('s \<Rightarrow> 's) \<Rightarrow> ('r, 's, 'x, 'a) prog" where
  "finallyM m f = (\<lambda>E w. case m E w of (r, w') \<Rightarrow> (r, f w'))"

text \<open>A call to Privy that may reject.\<close>

definition privyM :: "(browser \<Rightarrow> string + 'a) \<Rightarrow> 'a web" where
  "privyM f = (\<lambda>B s. (case f B of Inl m \<Rightarrow> Inl (WebError m) | Inr a \<Rightarrow> Inr a, s))"

section \<open>Sessions\<close>

record web_account =
  wa_type :: "string option"
  wa_address :: "string option"
  wa_chainType :: "string option"
  wa_chain_type :: "string option"

definition stellarAccount :: "web_account \<Rightarrow> bool" where
  "stellarAccount a \<longleftrightarrow> wa_type a = Some ''wallet''
     \<and> (wa_chainType a = Some ''stellar'' \<or> wa_chain_type a = Some ''stellar'') \<and> wa_address a \<noteq> None"

definition findPrivyStellarWalletAddress :: "web_account list option \<Rightarrow> string option" where
  "findPrivyStellarWalletAddress linked =
     Option.bind (Option.bind linked (find stellarAccount)) wa_address"

definition hasStellarWallet :: "web_account list option \<Rightarrow> bool" where
  "hasStellarWallet linked = (case linked of None \<Rightarrow> False | Some xs \<Rightarrow> list_ex stellarAccount xs)"

definition route_privySession :: "browser \<Rightarrow> headers \<Rightarrow> session_result api" where
  "route_privySession B hs = authController_privySession (header ''authorization'' hs) (header ''privy-id-token'' hs)"

definition exchangePrivySession :: "string \<Rightarrow> string \<Rightarrow> session_result web" where
  "exchangePrivySession accessToken identityToken =
     bindM (answerM (apiFetch route_privySession ''/auth/privy/session''
       \<lparr>op_method = ''POST'', op_headers = [(''Authorization'', ''Bearer '' @ accessToken),
         (''privy-id-token'', identityToken)], op_skipAuth = True\<rparr>)) (\<lambda>session.
     bindM (setAccessToken (tr_accessToken (sr_token session))) (\<lambda>_.
     retM session))"

definition bootstrap_body :: "string option \<Rightarrow> web_account list option \<Rightarrow> session_result web" where
  "bootstrap_body identityToken linked =
     bindM (throwIf (falsy identityToken) (WebError (''Token de identidade Privy indisponivel. Ative identity ''
              @ ''tokens no dashboard da Privy ou aguarde e tente novamente.''))) (\<lambda>_.
     bindM (if hasStellarWallet linked then retM () else privyM b_createWallet) (\<lambda>_.
     bindM (asksM b_privyToken) (\<lambda>accessToken.
     bindM (throwIf (falsy accessToken)
              (WebError ''A Privy nao forneceu o token de acesso. Faca login novamente.'')) (\<lambda>_.
     exchangePrivySession (the accessToken) (the identityToken)))))"

definition bootstrapSession :: "string option \<Rightarrow> web_account list option \<Rightarrow> session_result web" where
  "bootstrapSession identityToken linked =
     bindM (getsM s_bootstrapping) (\<lambda>running.
     bindM (throwIf running (WebError ''Privy session bootstrap is already running'')) (\<lambda>_.
     bindM (modifyM (\<lambda>s. s\<lparr>s_bootstrapping := True, s_bootstrapError := None\<rparr>)) (\<lambda>_.
     finallyM
       (catchM (bootstrap_body identityToken linked) (\<lambda>e.
          bindM (modifyM (\<lambda>s. s\<lparr>s_bootstrapError := Some (extractApiErrorMessage e)\<rparr>)) (\<lambda>_. throwM e)))
       (\<lambda>s. s\<lparr>s_bootstrapping := False\<rparr>))))"

definition dashboard_of :: "string \<Rightarrow> string" where
  "dashboard_of role = (if role = ''operator'' then ''/operator/dashboard''
     else if role = ''pme'' then ''/pme/dashboard'' else ''/investor/dashboard'')"

definition upper_char :: "char \<Rightarrow> char" where
  "upper_char c = (let n = of_char c :: int in if 97 \<le> n \<and> n \<le> 122 then char_of (n - 32) else c)"

definition toUpperCase :: "string \<Rightarrow> string" where
  "toUpperCase s = map upper_char s"

definition roleErrorText :: "string option \<Rightarrow> string" where
  "roleErrorText role = ''This account is registered as ''
     @ (if falsy role then ''unknown'' else toUpperCase (the role)) @ ''. Please use the correct login portal.''"

text \<open>The panel of \<open>PrivyLoginPanel\<close>: a session of another role is closed again.\<close>

definition refuseRole :: "string option \<Rightarrow> unit web" where
  "refuseRole role =
     bindM (privyM b_logout) (\<lambda>_.
     bindM (modifyM (\<lambda>s. s\<lparr>s_attempted := False\<rparr>)) (\<lambda>_.
     bindM clearAccessToken (\<lambda>_.
     modifyM (\<lambda>s. s\<lparr>s_roleError := Some (roleErrorText role)\<rparr>))))"

definition continueWithPrivy :: "bool \<Rightarrow> string \<Rightarrow> string option \<Rightarrow> web_account list option \<Rightarrow> unit web" where
  "continueWithPrivy authenticated targetRole identityToken linked =
     bindM (modifyM (\<lambda>s. s\<lparr>s_roleError := None\<rparr>)) (\<lambda>_.
     if \<not> authenticated then retM ()
     else catchM
       (bindM (bootstrapSession identityToken linked) (\<lambda>session.
          if tr_role (sr_token session) \<noteq> Some targetRole then refuseRole (tr_role (sr_token session))
          else modifyM (\<lambda>s. s\<lparr>s_path := dashboard_of targetRole\<rparr>)))
       (\<lambda>_. retM ()))"

text \<open>The effect that starts the exchange once when the page has a Privy session.\<close>

definition autoBootstrap :: "bool \<Rightarrow> bool \<Rightarrow> string \<Rightarrow> string option \<Rightarrow> web_account list option \<Rightarrow> unit web" where
  "autoBootstrap ready authenticated targetRole identityToken linked =
     bindM (getsM s_didBootstrap) (\<lambda>did.
     bindM (getsM s_attempted) (\<lambda>attempted.
     if ready \<and> \<not> authenticated then modifyM (\<lambda>s. s\<lparr>s_attempted := False\<rparr>)
     else if \<not> ready \<or> \<not> authenticated \<or> falsy identityToken \<or> did \<or> attempted then retM ()
     else bindM (modifyM (\<lambda>s. s\<lparr>s_didBootstrap := True, s_attempted := True\<rparr>)) (\<lambda>_.
          continueWithPrivy authenticated targetRole identityToken linked)))"

definition restartLogin :: "unit web" where
  "restartLogin =
     bindM (privyM b_logout) (\<lambda>_.
     bindM (modifyM (\<lambda>s. s\<lparr>s_attempted := False\<rparr>)) (\<lambda>_.
     bindM clearAccessToken (\<lambda>_.
     modifyM (\<lambda>s. s\<lparr>s_roleError := None\<rparr>))))"

text \<open>\<open>useRequireAuth\<close>: where a visitor of a page for one role is sent; \<open>None\<close> lets the page render.\<close>

definition requireAuth :: "string option \<Rightarrow> string option \<Rightarrow> string option \<Rightarrow> string option" where
  "requireAuth token role required =
     (if falsy token then Some ''/login''
      else case required of
        None \<Rightarrow> None
      | Some r \<Rightarrow>
          if role = Some r then None
          else if role = Some ''pme'' then Some ''/pme/dashboard''
          else if role = Some ''investor'' then Some ''/investor/dashboard''
          else if role = Some ''partner'' then Some ''/partner/dashboard''
          else if role = Some ''operator'' then Some ''/operator/dashboard''
          else Some ''/login'')"

section \<open>What a request does\<close>

lemma storage_run [simp]:
  "getAccessToken B s = (Inr (if b_storage B then s_token s else None), s)"
  "clearAccessToken B s = (Inr (), if b_storage B then s\<lparr>s_token := None\<rparr> else s)"
  "setAccessToken t B s = (Inr (), if b_storage B then s\<lparr>s_token := Some t\<rparr> else s)"
  by (simp_all add: getAccessToken_def clearAccessToken_def setAccessToken_def)

lemma bindM_storage [simp]:
  "bindM getAccessToken f B s = f (if b_storage B then s_token s else None) B s"
  "bindM clearAccessToken g B s = g () B (if b_storage B then s\<lparr>s_token := None\<rparr> else s)"
  "bindM (setAccessToken t) g B s = g () B (if b_storage B then s\<lparr>s_token := Some t\<rparr> else s)"
  by (simp_all add: bindM_def)

lemma privyM_run [simp]: "privyM f B s = (case f B of Inl m \<Rightarrow> Inl (WebError m) | Inr a \<Rightarrow> Inr a, s)"
  by (simp add: privyM_def)

lemma modifyM_run [simp]: "modifyM f E w = (Inr (), f w)"
  by (simp add: modifyM_def)

lemma finallyM_run: "finallyM m f B s = (fst (m B s), f (snd (m B s)))"
  by (simp add: finallyM_def split: prod.split)

definition sent :: "browser \<Rightarrow> string \<Rightarrow> api_options \<Rightarrow> site \<Rightarrow> string \<times> string \<times> headers" where
  "sent B path options s = (op_method options, API_BASE B @ ''/v1'' @ path,
     finalHeaders (op_skipAuth options)
       (if op_skipAuth options \<or> \<not> b_storage B then None else s_token s) (op_headers options))"

lemma apiFetch_eq:
  "apiFetch route path options B s = bindM (fetchM route (op_method options) (fst (snd (sent B path options s)))
      (snd (snd (sent B path options s)))) (readResponse (op_skipAuth options)) B s"
  by (simp add: apiFetch_def sent_def)

lemma readResponse_run:
  "readResponse skip r B s = (if response_ok r then (Inr (if rs_status r = 204 then None else rs_value r), s)
     else (Inl (ApiError (rs_status r) (rs_statusText r) (rs_error r)),
       if rs_status r = 401 then
         (if b_storage B then s\<lparr>s_token := None\<rparr> else s)
           \<lparr>s_unauthorized := s_unauthorized s + (if s_handler s \<and> \<not> skip then 1 else 0)\<rparr>
       else s))"
  by (auto simp: readResponse_def response_ok_def callUnauthorized_def modifyM_def bindM_assoc bindM_def)

text \<open>The three ways a request ends: lost, refused by the API, or answered.\<close>

lemma reply_simps [simp]:
  "rs_status (reply B meth (Inl e)) = hx_statusCode (exceptionsFilter_catch (b_api B) e)"
  "rs_error (reply B meth (Inl e)) = Some (exceptionsFilter_catch (b_api B) e)"
  "rs_statusText (reply B meth (Inl e)) = b_statusText B (hx_statusCode (exceptionsFilter_catch (b_api B) e))"
  "rs_value (reply B meth (Inr a)) = Some a" "response_ok (reply B meth (Inr a))"
  "rs_status (reply B meth (Inr a)) \<noteq> 204" "rs_status (reply B meth (Inr a)) \<noteq> 401"
  by (simp_all add: reply_def Let_def response_ok_def)

lemma filter_status [simp]: "hx_statusCode (exceptionsFilter_catch E e) = getStatus e"
  by (cases e) (simp_all add: exceptionsFilter_catch_def Let_def)

lemma reply_refused [simp]: "\<not> response_ok (reply B meth (Inl e))"
  by (cases e) (simp_all add: response_ok_def)

definition api_error :: "browser \<Rightarrow> exn \<Rightarrow> web_error" where
  "api_error B e = ApiError (getStatus e) (b_statusText B (getStatus e)) (Some (exceptionsFilter_catch (b_api B) e))"

lemma apiFetch_cases:
  obtains (lost) w' where "apiFetch route path options B s =
      (Inl (WebError ''Failed to fetch''), s\<lparr>s_requests := s_requests s @ [sent B path options s], s_world := w'\<rparr>)"
      "w' = s_world s \<or> w' = snd (route B (snd (snd (sent B path options s))) (b_api B) (s_world s))"
  | (refused) e w' where "route B (snd (snd (sent B path options s))) (b_api B) (s_world s) = (Inl e, w')"
      "apiFetch route path options B s = (Inl (api_error B e),
        s\<lparr>s_requests := s_requests s @ [sent B path options s], s_world := w',
          s_token := (if b_storage B \<and> getStatus e = 401 then None else s_token s),
          s_unauthorized := s_unauthorized s
            + (if getStatus e = 401 \<and> s_handler s \<and> \<not> op_skipAuth options then 1 else 0)\<rparr>)"
  | (answered) a w' where "route B (snd (snd (sent B path options s))) (b_api B) (s_world s) = (Inr a, w')"
      "apiFetch route path options B s = (Inr (Some a),
        s\<lparr>s_requests := s_requests s @ [sent B path options s], s_world := w'\<rparr>)"
proof (cases "b_delivery B (length (s_requests s))")
  case RequestLost
  then show thesis
    by (intro lost [of "s_world s"]) (simp_all add: apiFetch_eq bindM_def fetchM_def sent_def Let_def)
next
  case ReplyLost
  then show thesis
    by (intro lost [of "snd (route B (snd (snd (sent B path options s))) (b_api B) (s_world s))"])
      (simp_all add: apiFetch_eq bindM_def fetchM_def sent_def Let_def split: prod.split)
next
  case Delivered
  obtain r w' where r: "route B (snd (snd (sent B path options s))) (b_api B) (s_world s) = (r, w')"
    by (cases "route B (snd (snd (sent B path options s))) (b_api B) (s_world s)")
  show thesis
  proof (cases r)
    case (Inl e)
    with r Delivered show thesis
      by (intro refused [of e w']) (simp_all add: apiFetch_eq bindM_def fetchM_def sent_def Let_def
          readResponse_run api_error_def)
  next
    case (Inr a)
    with r Delivered show thesis
      by (intro answered [of a w']) (simp_all add: apiFetch_eq bindM_def fetchM_def sent_def Let_def readResponse_run)
  qed
qed

lemma sent_bearer:
  assumes "\<not> op_skipAuth options" and "op_headers options = []" and "b_storage B" and "s_token s = Some t" and "t \<noteq> []"
  shows "header ''authorization'' (snd (snd (sent B path options s))) = Some (''Bearer '' @ t)"
proof -
  have "toLowerCase ''Content-Type'' = ''content-type''" "toLowerCase ''Authorization'' = ''authorization''" by code_simp+
  with assms show ?thesis by (simp add: sent_def finalHeaders_def header_def falsy_def Let_def)
qed

lemma answerM_Inr: "answerM m B s = (Inr a, s') \<longleftrightarrow> m B s = (Inr (Some a), s')"
  by (auto simp: answerM_def bindM_def someOr_def throwM_def retM_def split: prod.splits sum.splits option.splits)

lemma apiFetch_Inr:
  assumes "answerM (apiFetch route path options) B s = (Inr a, s')"
  obtains w' where "route B (snd (snd (sent B path options s))) (b_api B) (s_world s) = (Inr a, w')"
    and "s' = s\<lparr>s_requests := s_requests s @ [sent B path options s], s_world := w'\<rparr>"
  using assms that by (cases rule: apiFetch_cases [of route path options B s]) (auto simp: answerM_Inr)

text \<open>A relation between worlds, seen from the browser. Every client program whose routes are sound is sound.\<close>

definition on_world :: "(world \<Rightarrow> world \<Rightarrow> bool) \<Rightarrow> site \<Rightarrow> site \<Rightarrow> bool" where
  "on_world R s s' \<longleftrightarrow> R (s_world s) (s_world s')"

interpretation web: kept_relation "on_world sound_step"
  by unfold_locales (auto simp: on_world_def intro: step.kept_refl step.kept_trans)

lemma apiFetch_keeps [keeps]:
  assumes "\<And>B hs. keepsR sound_step (route B hs)"
  shows "keepsR (on_world sound_step) (apiFetch route path options)"
proof (rule keepsRI)
  fix B s
  note k = keepsR_run [OF assms]
  show "on_world sound_step s (snd (apiFetch route path options B s))"
  proof (cases rule: apiFetch_cases [of route path options B s])
    case (lost w')
    then show ?thesis using k by (auto simp: on_world_def step.kept_refl)
  next
    case (refused e w')
    then show ?thesis using k by (auto simp: on_world_def) (metis snd_conv)
  next
    case (answered a w')
    then show ?thesis using k by (auto simp: on_world_def) (metis snd_conv)
  qed
qed

lemma web_keeps [keeps]:
  "keepsR (on_world sound_step) m \<Longrightarrow> keepsR (on_world sound_step) (answerM m)"
  "keepsR (on_world sound_step) getAccessToken" "keepsR (on_world sound_step) clearAccessToken"
  "keepsR (on_world sound_step) (setAccessToken t)" "keepsR (on_world sound_step) (privyM p)"
  "(\<And>s. s_world (f s) = s_world s) \<Longrightarrow> keepsR (on_world sound_step) (modifyM f)"
  "keepsR (on_world sound_step) n \<Longrightarrow> (\<And>s. s_world (f s) = s_world s) \<Longrightarrow>
   keepsR (on_world sound_step) (finallyM n f)"
  subgoal unfolding answerM_def by (intro keeps)
  by (auto simp: keepsR_def on_world_def step.kept_refl finallyM_run)

lemma guarded_keeps [keeps]:
  "(\<And>u. keepsR sound_step (h u)) \<Longrightarrow> keepsR sound_step (guarded B h hs)"
  "keepsR sound_step m \<Longrightarrow> keepsR sound_step (validated B ok m)"
  unfolding guarded_def validated_def by (intro keeps; assumption)+

section \<open>Properties\<close>

text \<open>\<open>apiFetch\<close> sends one request. The stored token is dropped, and the handler of expired sessions called
  unless the request was sent without the session, exactly when the answer is 401; on every other outcome
  the session stays. The state of the API changes by the run of the route or not at all.\<close>

theorem apiFetch_session:
  assumes "apiFetch route path options B s = (r, s')" and "b_storage B"
  shows "let expired = (\<exists>x y. r = Inl (ApiError 401 x y)) in
    s_requests s' = s_requests s @ [sent B path options s]
    \<and> s_token s' = (if expired then None else s_token s)
    \<and> s_unauthorized s' = s_unauthorized s + (if expired \<and> s_handler s \<and> \<not> op_skipAuth options then 1 else 0)
    \<and> s_world s' \<in> {s_world s, snd (route B (snd (snd (sent B path options s))) (b_api B) (s_world s))}"
  using assms by (cases rule: apiFetch_cases [of route path options B s]) (auto simp: api_error_def Let_def)

text \<open>A protected route does not run for a caller whose token the guard refuses: nothing in the database
  changes, and an answer that arrives is 401.\<close>

theorem guarded_closed:
  assumes "b_jwt B (header ''authorization'' (snd (snd (sent B path options s)))) = None"
    and "apiFetch (\<lambda>B. guarded B h) path options B s = (r, s')"
  shows "s_world s' = s_world s \<and> (r = Inl (WebError ''Failed to fetch'') \<or> (\<exists>x y. r = Inl (ApiError 401 x y)))"
  using assms by (cases rule: apiFetch_cases [of "\<lambda>B. guarded B h" path options B s])
    (auto simp: guarded_def api_error_def)

text \<open>In production the answer to an unexpected error tells nothing about it: all errors that are not HTTP
  exceptions give the same answer, without stack.\<close>

theorem filter_hides_internals:
  assumes "isProd E" and "\<not> isHttpException e" and "\<not> isHttpException e'"
  shows "exceptionsFilter_catch E e = exceptionsFilter_catch E e'
    \<and> exceptionsFilter_catch E e = \<lparr>hx_statusCode = 500, hx_message = ''Internal server error'', hx_stack = False\<rparr>"
  using assms by (simp add: exceptionsFilter_catch_def Let_def)

lemma privySession_token:
  assumes "authController_privySession h i E w = (Inr r, w')"
  shows "tr_accessToken (sr_token r) = e_jwtSign E (tr_id (sr_token r)) (tr_email (sr_token r)) (tr_role (sr_token r))"
  using assms unfolding authController_privySession_def privySession_def
  by (fastforce elim!: bindM_InrE simp: asksM_def tokenFor_def issueToken_def split: if_splits)

lemma exchange_Inr:
  assumes "exchangePrivySession a i B s = (Inr r, s')" and "b_storage B"
  shows "s_token s' = Some (e_jwtSign (b_api B) (tr_id (sr_token r)) (tr_email (sr_token r)) (tr_role (sr_token r)))"
proof -
  from assms obtain s1 where "answerM (apiFetch route_privySession ''/auth/privy/session''
       \<lparr>op_method = ''POST'', op_headers = [(''Authorization'', ''Bearer '' @ a),
         (''privy-id-token'', i)], op_skipAuth = True\<rparr>) B s = (Inr r, s1)"
    and t: "s_token s' = Some (tr_accessToken (sr_token r))"
    unfolding exchangePrivySession_def by (auto elim!: bindM_InrE)
  then obtain w' hs where "authController_privySession (header ''authorization'' hs) (header ''privy-id-token'' hs)
      (b_api B) (s_world s) = (Inr r, w')"
    by (auto elim!: apiFetch_Inr simp: route_privySession_def)
  from privySession_token [OF this] t show ?thesis by simp
qed

lemma exchange_Inl:
  "exchangePrivySession a i B s = (Inl e, s') \<Longrightarrow> s_token s' = None \<or> s_token s' = s_token s"
  unfolding exchangePrivySession_def
  by (cases rule: apiFetch_cases [of route_privySession "''/auth/privy/session''"
       "\<lparr>op_method = ''POST'', op_headers = [(''Authorization'', ''Bearer '' @ a),
         (''privy-id-token'', i)], op_skipAuth = True\<rparr>" B s])
    (auto simp: answerM_def bindM_def someOr_def split: if_splits)

lemma exchange_path: "exchangePrivySession a i B s = (r, s') \<Longrightarrow> s_path s' = s_path s"
  unfolding exchangePrivySession_def
  by (cases rule: apiFetch_cases [of route_privySession "''/auth/privy/session''"
       "\<lparr>op_method = ''POST'', op_headers = [(''Authorization'', ''Bearer '' @ a),
         (''privy-id-token'', i)], op_skipAuth = True\<rparr>" B s])
    (auto simp: answerM_def bindM_def someOr_def setAccessToken_def modifyM_def retM_def split: if_splits)

lemma bootstrap_body_cases:
  assumes "bootstrap_body t linked B s = (r, s')"
  shows "(\<exists>e. r = Inl e \<and> s' = s) \<or> (\<exists>a i. exchangePrivySession a i B s = (r, s'))"
  using assms unfolding bootstrap_body_def
  by (auto simp: bindM_def [of "if _ then _ else _"] split: if_splits sum.splits)

lemma bootstrap_end:
  assumes "bootstrapSession t linked B s = (r, s')" and "b_storage B"
  shows "s_path s' = s_path s \<and> (case r of Inl e \<Rightarrow> s_token s' = None \<or> s_token s' = s_token s
    | Inr x \<Rightarrow> s_token s' = Some (e_jwtSign (b_api B) (tr_id (sr_token x)) (tr_email (sr_token x)) (tr_role (sr_token x))))"
proof (cases "s_bootstrapping s")
  case True
  with assms show ?thesis by (auto simp: bootstrapSession_def)
next
  case False
  let ?s = "s\<lparr>s_bootstrapping := True, s_bootstrapError := None\<rparr>"
  obtain q u where b: "bootstrap_body t linked B ?s = (q, u)" by (cases "bootstrap_body t linked B ?s")
  have "r = q \<and> s_token s' = s_token u \<and> s_path s' = s_path u"
    using assms(1) False b by (auto simp: bootstrapSession_def finallyM_def catchM_def split: sum.splits)
  with bootstrap_body_cases [OF b] assms(2) exchange_Inr exchange_Inl exchange_path show ?thesis
    by (fastforce split: sum.splits)
qed

text \<open>C40: The login panel of a role opens the dashboard only with the token that the API issued for an account of
  exactly this role. Otherwise the page stays where it is and the browser holds no token, or the one it held
  before: a session of another role does not begin. The browser's storage has to work and Privy's
  logout must not fail.\<close>

theorem continueWithPrivy_role:
  assumes "continueWithPrivy authenticated role t linked B s = (r, s')" and "b_storage B" and "b_logout B = Inr ()"
  shows "(\<exists>i email. s_token s' = Some (e_jwtSign (b_api B) i email (Some role)) \<and> s_path s' = dashboard_of role)
    \<or> (s_token s' = None \<or> s_token s' = s_token s) \<and> s_path s' = s_path s"
proof (cases authenticated)
  case False
  with assms show ?thesis by (auto simp: continueWithPrivy_def)
next
  case True
  obtain q u where b: "bootstrapSession t linked B (s\<lparr>s_roleError := None\<rparr>) = (q, u)"
    by (cases "bootstrapSession t linked B (s\<lparr>s_roleError := None\<rparr>)")
  note ended = bootstrap_end [OF b assms(2)]
  show ?thesis
  proof (cases q)
    case (Inl e)
    with assms(1) True b ended show ?thesis
      by (auto simp: continueWithPrivy_def catchM_def bindM_def [of "bootstrapSession _ _"])
  next
    case (Inr x)
    show ?thesis
    proof (cases "tr_role (sr_token x) = Some role")
      case opened: True
      with assms(1) True b Inr ended
      have "s_token s' = Some (e_jwtSign (b_api B) (tr_id (sr_token x)) (tr_email (sr_token x)) (Some role))
          \<and> s_path s' = dashboard_of role"
        by (auto simp: continueWithPrivy_def catchM_def bindM_def [of "bootstrapSession _ _"])
      then show ?thesis by blast
    next
      case False
      with assms True b Inr ended show ?thesis
        by (auto simp: continueWithPrivy_def catchM_def bindM_def [of "bootstrapSession _ _"] refuseRole_def
            bindM_def [of "privyM _"])
    qed
  qed
qed

text \<open>When Privy's logout fails the panel stops before it drops the token of the other role.\<close>

lemma role_refusal_needs_logout:
  assumes "b_logout B = Inl m"
  shows "refuseRole role B s = (Inl (WebError m), s)"
  using assms by (simp add: refuseRole_def bindM_def [of "privyM _"])

end
