(* ===== verification/WebFlows.thy ===== *)
theory WebFlows
  imports WebClient
begin

text \<open>
  The financial actions of the web application: what a click does between the browser, the Privy
  wallet and the API. \<open>authorize\<close> is \<open>useFinancialAuthorization\<close>; the drawers and modals that use the
  API are records of their React state with their handlers.
\<close>

section \<open>Routes the flows call\<close>

definition route_challenge :: "challenge_dto \<Rightarrow> browser \<Rightarrow> headers \<Rightarrow> challenge_response api" where
  "route_challenge d B = guarded B (\<lambda>u. validated B (valid_challenge_dto d)
     (fa_controller_createChallenge (au_userId u) d))"

definition route_verify :: "verify_dto \<Rightarrow> browser \<Rightarrow> headers \<Rightarrow> (string \<times> bool) api" where
  "route_verify d B = guarded B (\<lambda>u. validated B (b_isUuid B (vf_authorizationId d))
     (fa_controller_verify (au_userId u) d))"

definition route_buy :: "create_investment_dto \<Rightarrow> browser \<Rightarrow> headers \<Rightarrow> investment api" where
  "route_buy d B = guarded B (\<lambda>u. validated B (b_isUuid B (ci_receivableId d) \<and> b_isUuid B (ci_authorizationId d)
     \<and> maxLength 64 (ci_pixTxId d)) (investmentsController_create u d))"

definition route_buildDeposit :: "string \<Rightarrow> deposit_stage \<Rightarrow> browser \<Rightarrow> headers \<Rightarrow> unsigned_tx api" where
  "route_buildDeposit i stage B = guarded B (\<lambda>u. investmentsController_buildOnchainDeposit u i stage)"

definition route_submitDeposit :: "string \<Rightarrow> submit_stage_dto \<Rightarrow> browser \<Rightarrow> headers \<Rightarrow> (string \<times> transaction_status) api" where
  "route_submitDeposit i d B = guarded B (\<lambda>u. validated B (sd_xdr d \<noteq> [] \<and> sd_signature d \<noteq> [])
     (investmentsController_submitOnchainDeposit u i d))"

definition route_markAsPaid :: "string \<Rightarrow> browser \<Rightarrow> headers \<Rightarrow> ptransaction api" where
  "route_markAsPaid i B = guarded B (\<lambda>u. investmentsController_markAsPaid u i)"

definition route_prepareAssignment :: "string \<Rightarrow> browser \<Rightarrow> headers \<Rightarrow> prepared_assignment api" where
  "route_prepareAssignment i B = guarded B (\<lambda>u. receivables_prepareAssignment i)"

definition route_submitAssignment :: "string \<Rightarrow> string \<Rightarrow> string \<Rightarrow> browser \<Rightarrow> headers \<Rightarrow> receivable_response api" where
  "route_submitAssignment i xdr sig B = guarded B (\<lambda>u. submitAssignment i xdr sig)"

definition route_buildWithdrawal :: "rat \<Rightarrow> browser \<Rightarrow> headers \<Rightarrow> unsigned_tx api" where
  "route_buildWithdrawal amount B = guarded B (\<lambda>u. buildWithdrawalTx (au_userId u) amount)"

definition route_submitWithdrawal :: "submit_withdrawal_dto \<Rightarrow> browser \<Rightarrow> headers \<Rightarrow> (string \<times> string \<times> string option) api" where
  "route_submitWithdrawal d B = guarded B (\<lambda>u. submitWithdrawal (au_userId u) d)"

section \<open>Authorization\<close>

text \<open>Privy's raw-hash signer: what it was asked to sign is recorded.\<close>

definition signRawHash :: "string \<Rightarrow> string \<Rightarrow> string web" where
  "signRawHash address hash = (\<lambda>B s.
     (case b_sign B address hash of Inl m \<Rightarrow> Inl (WebError m) | Inr sig \<Rightarrow> Inr sig,
      s\<lparr>s_signed := s_signed s @ [(address, hash)]\<rparr>))"

definition privyAddress :: "wallet_info option \<Rightarrow> web_account list option \<Rightarrow> string option" where
  "privyAddress wallet linked =
     (case wallet of
        Some w \<Rightarrow> if wi_walletType w = Some ''privy_stellar'' then Some (wi_contractId w)
                  else findPrivyStellarWalletAddress linked
      | None \<Rightarrow> findPrivyStellarWalletAddress linked)"

definition assertion_for :: "string \<Rightarrow> string \<Rightarrow> (string \<times> json) list" where
  "assertion_for address sig =
     [(''type'', JStr ''privy_raw_hash''), (''address'', JStr address), (''signature'', JStr sig)]"

definition authorize_body :: "string option \<Rightarrow> challenge_dto \<Rightarrow> string web" where
  "authorize_body address input =
     bindM (throwIf (falsy address)
              (WebError ''Privy Stellar wallet is required for financial authorization'')) (\<lambda>_.
     bindM (answerM (apiFetch (route_challenge input) ''/financial-authorizations/challenge'' POST)) (\<lambda>challenge.
     bindM (signRawHash (the address) (''0x'' @ cr_payloadHash challenge)) (\<lambda>signature.
     bindM (answerM (apiFetch (route_verify
              \<lparr>vf_authorizationId = cr_authorizationId challenge, vf_payloadHash = cr_payloadHash challenge,
               vf_assertion = assertion_for (the address) signature\<rparr>)
              ''/financial-authorizations/verify'' POST)) (\<lambda>verified.
     retM (fst verified)))))"

definition authorize :: "wallet_info option \<Rightarrow> web_account list option \<Rightarrow> challenge_dto \<Rightarrow> string web" where
  "authorize wallet linked input =
     bindM (modifyM (\<lambda>s. s\<lparr>s_authorizing := True\<rparr>)) (\<lambda>_.
     finallyM (authorize_body (privyAddress wallet linked) input) (\<lambda>s. s\<lparr>s_authorizing := False\<rparr>))"

section \<open>Purchase\<close>

datatype buy_step = BuySummary | BuySettling | BuySuccess

record buy_drawer =
  bd_step :: buy_step
  bd_error :: "string option"
  bd_result :: "investment option"
  bd_closing :: bool

definition DISCOUNT :: rat where
  "DISCOUNT = fl (3 / 100)"

definition drawer_amountPaid :: "rat \<Rightarrow> rat" where
  "drawer_amountPaid faceValue = the (js_number (toFixed 2 (js_mul faceValue (js_sub 1 DISCOUNT))))"

definition buy_failed :: "web_error \<Rightarrow> buy_drawer \<Rightarrow> buy_drawer" where
  "buy_failed e d =
     (let m = extractApiErrorMessage e; msg = (if m = [] then ''Failed to process purchase'' else m) in
      if includes_str ''indispon'' (toLowerCase msg)
      then d\<lparr>bd_step := BuySummary, bd_error := Some ''Another investor bought it first.'', bd_closing := True\<rparr>
      else d\<lparr>bd_step := BuySummary, bd_error := Some msg\<rparr>)"

definition handleConfirm :: "wallet_info option \<Rightarrow> web_account list option \<Rightarrow> receivable_response option \<Rightarrow>
    buy_drawer \<Rightarrow> buy_drawer web" where
  "handleConfirm wallet linked receivable d = (case receivable of
       None \<Rightarrow> retM d
     | Some r \<Rightarrow>
         let d' = d\<lparr>bd_error := None, bd_step := BuySettling\<rparr> in
         catchM
           (bindM (authorize wallet linked \<lparr>ch_operation = OpInvestmentPurchase, ch_resourceId = Some (rr_id r),
              ch_amount = Some (toFixed 2 (drawer_amountPaid (rr_value r))), ch_destination = None\<rparr>) (\<lambda>authorizationId.
            bindM (answerM (apiFetch (route_buy \<lparr>ci_receivableId = rr_id r, ci_authorizationId = authorizationId,
              ci_pixTxId = None\<rparr>) ''/investments'' POST)) (\<lambda>inv.
            retM (d'\<lparr>bd_result := Some inv, bd_step := BuySuccess\<rparr>))))
           (\<lambda>e. retM (buy_failed e d')))"

section \<open>Deposit on chain\<close>

fun stage_string :: "deposit_stage \<Rightarrow> string" where
  "stage_string StageApprove = ''approve''"
| "stage_string StageDeposit = ''deposit''"

definition depositStage :: "string \<Rightarrow> string \<Rightarrow> deposit_stage \<Rightarrow> string web" where
  "depositStage transactionId address stage =
     bindM (answerM (apiFetch (route_buildDeposit transactionId stage)
              (''/investments/deposit/'' @ transactionId @ ''/onchain/build'') POST)) (\<lambda>built.
     bindM (signRawHash address (''0x'' @ ut_hashToSign built)) (\<lambda>signature.
     bindM (answerM (apiFetch (route_submitDeposit transactionId
              \<lparr>sd_stage = stage, sd_xdr = ut_xdr built, sd_signature = signature\<rparr>)
              (''/investments/deposit/'' @ transactionId @ ''/onchain/submit'') POST)) (\<lambda>result.
     retM (fst result))))"

text \<open>The loop over the stages keeps the hash of the last deposit stage.\<close>

fun depositStages :: "string \<Rightarrow> string \<Rightarrow> deposit_stage list \<Rightarrow> string \<Rightarrow> string web" where
  "depositStages i address [] depositHash = retM depositHash"
| "depositStages i address (stage # stages) depositHash =
     bindM (modifyM (\<lambda>s. s\<lparr>s_stages := s_stages s @ [stage = StageDeposit]\<rparr>)) (\<lambda>_.
     bindM (depositStage i address stage) (\<lambda>h.
     depositStages i address stages (if stage = StageDeposit then h else depositHash)))"

definition runOnChainDeposit :: "string \<Rightarrow> string \<Rightarrow> string web" where
  "runOnChainDeposit transactionId address =
     bindM (depositStages transactionId address [StageApprove, StageDeposit] []) (\<lambda>depositHash.
     bindM (throwIf (depositHash = [])
              (WebError ''Deposito on-chain nao retornou hash da etapa de deposito'')) (\<lambda>_.
     retM depositHash))"

section \<open>Assignment\<close>

record cessao_modal =
  cm_loading :: bool
  cm_error :: "string option"
  cm_success :: bool

definition handleAssign :: "string \<Rightarrow> cessao_modal \<Rightarrow> cessao_modal web" where
  "handleAssign receivableId m =
     (let m' = m\<lparr>cm_error := None, cm_loading := False\<rparr> in
      catchM
        (bindM (answerM (apiFetch (route_prepareAssignment receivableId)
                  (''/receivables/'' @ receivableId @ ''/prepare-assignment'') POST)) (\<lambda>prep.
         bindM (throwIf (pa_pmeAddress prep = []) (WebError ''Client's Privy Stellar wallet not found.'')) (\<lambda>_.
         bindM (signRawHash (pa_pmeAddress prep) (''0x'' @ pa_hashToSign prep)) (\<lambda>signature.
         bindM (throwIf (signature = []) (WebError ''Signature refused or failed.'')) (\<lambda>_.
         bindM (answerM (apiFetch (route_submitAssignment receivableId (pa_unsignedXdr prep) signature)
                  (''/receivables/'' @ receivableId @ ''/submit-assignment'') POST)) (\<lambda>_.
         retM (m'\<lparr>cm_success := True\<rparr>)))))))
        (\<lambda>e. retM (m'\<lparr>cm_error := Some (let t = extractApiErrorMessage e in
               if t = [] then ''An error occurred while signing the assignment.'' else t)\<rparr>)))"

datatype signing_step = SignIdle | SignApproveBrlt | SignDepositPool | SignSuccess | SignError

record finalize_modal =
  fm_step :: signing_step
  fm_errorMessage :: "string option"

text \<open>\<open>onStage\<close> shows the stage that runs; the state here is the one the handler ends with.\<close>

definition handleFinalize :: "wallet_info option \<Rightarrow> web_account list option \<Rightarrow> string \<Rightarrow> finalize_modal \<Rightarrow>
    finalize_modal web" where
  "handleFinalize wallet linked transactionId m =
     (let m' = m\<lparr>fm_errorMessage := None\<rparr> in
      catchM
        (bindM (someOr (case privyAddress wallet linked of None \<Rightarrow> None | Some a \<Rightarrow> if a = [] then None else Some a)
                  (WebError ''Privy Stellar wallet not found'')) (\<lambda>address.
         bindM (runOnChainDeposit transactionId address) (\<lambda>_.
         retM (m'\<lparr>fm_step := SignSuccess\<rparr>))))
        (\<lambda>e. retM (m'\<lparr>fm_step := SignError, fm_errorMessage := Some (let t = errorMessage e in
               if t = [] then ''Failed to sign on-chain transactions.'' else t)\<rparr>)))"

definition handleConfirmPayment :: "string \<Rightarrow> bool web" where
  "handleConfirmPayment transactionId = catchM
     (bindM (apiFetch (route_markAsPaid transactionId) (''/investments/deposit/'' @ transactionId @ ''/pay'') PATCH)
        (\<lambda>_. retM True))
     (\<lambda>_. retM False)"

section \<open>Withdrawal\<close>

text \<open>\<open>parseFloat\<close>: leading blanks, a sign, then the longest decimal literal; \<open>None\<close> is NaN.\<close>

definition exponent_of :: "string \<Rightarrow> int" where
  "exponent_of s =
     (if s \<noteq> [] \<and> (hd s = CHR ''e'' \<or> hd s = CHR ''E'') then
        let t = tl s; neg = (t \<noteq> [] \<and> hd t = CHR ''-'');
            u = (if t \<noteq> [] \<and> (hd t = CHR ''-'' \<or> hd t = CHR ''+'') then tl t else t);
            d = takeWhile is_digit u
        in if d = [] then 0 else if neg then - read_digits d else read_digits d
      else 0)"

definition decimal_prefix :: "string \<Rightarrow> rat option" where
  "decimal_prefix s =
     (let i = takeWhile is_digit s; r = dropWhile is_digit s;
          f = (if r \<noteq> [] \<and> hd r = CHR ''.'' then takeWhile is_digit (tl r) else []);
          x = (if r \<noteq> [] \<and> hd r = CHR ''.'' then dropWhile is_digit (tl r) else r)
      in if i = [] \<and> f = [] then None
         else Some (of_int (read_digits (i @ f)) / 10 ^ length f * 10 powi exponent_of x))"

definition parse_float :: "string \<Rightarrow> rat option" where
  "parse_float s =
     (let t = dropWhile is_blank s; neg = (t \<noteq> [] \<and> hd t = CHR ''-'');
          u = (if t \<noteq> [] \<and> (hd t = CHR ''-'' \<or> hd t = CHR ''+'') then tl t else t)
      in map_option (\<lambda>q. if neg then - fl q else fl q) (decimal_prefix u))"

datatype withdraw_step = WdForm | WdPreparing | WdSigning | WdSubmitting | WdSuccess | WdError

record withdrawal_drawer =
  wd_step :: withdraw_step
  wd_errorMessage :: "string option"
  wd_txHash :: "string option"
  wd_toast :: "string option"

record withdrawal_form =
  wf_amount :: string
  wf_pixKey :: string
  wf_pixKeyType :: string

text \<open>The checks before anything is sent, in their order: the text of the refusal.\<close>

definition withdrawal_refusal :: "rat \<Rightarrow> string option \<Rightarrow> withdrawal_form \<Rightarrow> string option" where
  "withdrawal_refusal available address f = (case parse_float (wf_amount f) of
       None \<Rightarrow> Some ''Por favor, insira um valor valido para o saque.''
     | Some amount \<Rightarrow>
         if amount \<le> 0 then Some ''Por favor, insira um valor valido para o saque.''
         else if available < amount then Some ''Saldo insuficiente para realizar este resgate.''
         else if trim (wf_pixKey f) = [] then Some ''A chave Pix e obrigatoria.''
         else if falsy address then Some ''Sua carteira Stellar Privy nao foi encontrada.''
         else None)"

definition withdraw_body :: "rat \<Rightarrow> string \<Rightarrow> withdrawal_form \<Rightarrow> string web" where
  "withdraw_body amount address f =
     bindM (answerM (apiFetch (route_buildWithdrawal amount) ''/pix/withdrawals/build'' POST)) (\<lambda>builtTx.
     bindM (signRawHash address (''0x'' @ ut_hashToSign builtTx)) (\<lambda>signature.
     bindM (throwIf (signature = []) (WebError ''Assinatura rejeitada pelo usuario.'')) (\<lambda>_.
     bindM (answerM (apiFetch (route_submitWithdrawal \<lparr>sw_amount = amount, sw_pixKey = trim (wf_pixKey f),
              sw_pixKeyType = wf_pixKeyType f, sw_xdr = ut_xdr builtTx, sw_signature = signature\<rparr>)
              ''/pix/withdrawals/submit'' POST)) (\<lambda>result.
     retM (fst (snd result))))))"

definition handleWithdraw :: "wallet_info option \<Rightarrow> web_account list option \<Rightarrow> rat \<Rightarrow> withdrawal_form \<Rightarrow>
    withdrawal_drawer \<Rightarrow> withdrawal_drawer web" where
  "handleWithdraw wallet linked available f d =
     (let address = privyAddress wallet linked in
      case withdrawal_refusal available address f of
        Some m \<Rightarrow> retM (d\<lparr>wd_toast := Some m\<rparr>)
      | None \<Rightarrow>
          let d' = d\<lparr>wd_errorMessage := None\<rparr> in
          catchM
            (bindM (withdraw_body (the (parse_float (wf_amount f))) (the address) f) (\<lambda>h.
             retM (d'\<lparr>wd_txHash := Some h, wd_step := WdSuccess,
               wd_toast := Some ''Solicitacao de resgate Pix enviada com sucesso!''\<rparr>)))
            (\<lambda>e. let m = extractApiErrorMessage e in
               retM (d'\<lparr>wd_errorMessage := Some m, wd_step := WdError,
                 wd_toast := Some (if m = [] then ''Falha ao processar saque Pix.'' else m)\<rparr>)))"

end
