(* ===== verification/WebSafety.thy ===== *)
theory WebSafety
  imports WebFlows
begin

text \<open>
  What the flows of the web application guarantee. Each flow is taken apart once: into the requests that
  the API answered and the signatures that Privy gave (\<open>authorize_steps\<close>, \<open>depositStage_Inr\<close>,
  \<open>withdraw_body_Inr\<close>); the properties combine this with the lemmas on the operations of the API.
\<close>

section \<open>Soundness of the flows\<close>

lemma signRawHash_run:
  "signRawHash a h B s = (case b_sign B a h of Inl m \<Rightarrow> Inl (WebError m) | Inr sig \<Rightarrow> Inr sig,
     s\<lparr>s_signed := s_signed s @ [(a, h)]\<rparr>)"
  by (simp add: signRawHash_def)

lemma signRawHash_keeps [keeps]: "keepsR (on_world sound_step) (signRawHash a h)"
  by (simp add: keepsR_def signRawHash_run on_world_def step.kept_refl)

lemma routes_step [keeps]:
  "keepsR sound_step (route_challenge c B hs)" "keepsR sound_step (route_verify v B hs)"
  "keepsR sound_step (route_buy d B hs)" "keepsR sound_step (route_buildDeposit i st B hs)"
  "keepsR sound_step (route_submitDeposit i sd B hs)" "keepsR sound_step (route_markAsPaid i B hs)"
  "keepsR sound_step (route_prepareAssignment i B hs)" "keepsR sound_step (route_submitAssignment i x y B hs)"
  "keepsR sound_step (route_buildWithdrawal am B hs)" "keepsR sound_step (route_submitWithdrawal wd B hs)"
  unfolding route_challenge_def route_verify_def route_buy_def route_buildDeposit_def route_submitDeposit_def
    route_markAsPaid_def route_prepareAssignment_def route_submitAssignment_def route_buildWithdrawal_def
    route_submitWithdrawal_def
  by (intro keeps)+

lemma authorize_keeps [keeps]: "keepsR (on_world sound_step) (authorize wallet linked input)"
  unfolding authorize_def authorize_body_def by (intro keeps) simp_all

text \<open>Who the API takes the browser for, on a request without headers of its own.\<close>

definition caller :: "browser \<Rightarrow> site \<Rightarrow> auth_user option" where
  "caller B s = b_jwt B (header ''authorization'' (finalHeaders False (if b_storage B then s_token s else None) []))"

lemma sent_caller:
  "op_headers options = [] \<Longrightarrow> \<not> op_skipAuth options \<Longrightarrow>
   b_jwt B (header ''authorization'' (snd (snd (sent B path options s)))) = caller B s"
  by (simp add: sent_def caller_def)

lemma options_simps [simp]:
  "op_headers POST = []" "op_headers PATCH = []" "op_headers GET = []"
  "\<not> op_skipAuth POST" "\<not> op_skipAuth PATCH" "\<not> op_skipAuth GET"
  "op_method POST = ''POST''" "op_method PATCH = ''PATCH''"
  by (simp_all add: POST_def PATCH_def GET_def)

lemma caller_simps [simp]:
  "caller B (s\<lparr>s_world := w\<rparr>) = caller B s" "caller B (s\<lparr>s_requests := r\<rparr>) = caller B s"
  "caller B (s\<lparr>s_signed := x\<rparr>) = caller B s" "caller B (s\<lparr>s_authorizing := b\<rparr>) = caller B s"
  "caller B (s\<lparr>s_stages := y\<rparr>) = caller B s"
  by (simp_all add: caller_def)

text \<open>A protected route that answered ran for the caller.\<close>

lemma guarded_Inr:
  assumes "answerM (apiFetch route path options) B s = (Inr a, s')"
    and "\<And>hs. route B hs = guarded B h hs" and "op_headers options = []" and "\<not> op_skipAuth options"
  shows "\<exists>u w'. caller B s = Some u \<and> h u (b_api B) (s_world s) = (Inr a, w')
    \<and> s' = s\<lparr>s_requests := s_requests s @ [sent B path options s], s_world := w'\<rparr>"
proof -
  from apiFetch_Inr [OF assms(1)] obtain w' where
    r: "guarded B h (snd (snd (sent B path options s))) (b_api B) (s_world s) = (Inr a, w')"
    and s: "s' = s\<lparr>s_requests := s_requests s @ [sent B path options s], s_world := w'\<rparr>"
    by (metis assms(2))
  then show ?thesis
    by (auto simp: guarded_def sent_caller [OF assms(3,4)] split: option.splits)
qed

lemma validated_Inr: "validated B ok m E w = (Inr a, w') \<longleftrightarrow> ok \<and> m E w = (Inr a, w')"
  by (simp add: validated_def)

lemma authorize_steps:
  assumes "authorize wallet linked input B s = (Inr i, s')"
  obtains address u ch w1 sig w2 b where "privyAddress wallet linked = Some address" and "address \<noteq> []"
    and "caller B s = Some u" and "valid_challenge_dto input"
    and "createChallenge (au_userId u) input (b_api B) (s_world s) = (Inr ch, w1)"
    and "b_sign B address (''0x'' @ cr_payloadHash ch) = Inr sig"
    and "verify (au_userId u) \<lparr>vf_authorizationId = cr_authorizationId ch, vf_payloadHash = cr_payloadHash ch,
        vf_assertion = assertion_for address sig\<rparr> (b_api B) w1 = (Inr (i, b), w2)"
    and "s_world s' = w2" and "s_signed s' = s_signed s @ [(address, ''0x'' @ cr_payloadHash ch)]"
    and "caller B s' = caller B s"
proof -
  let ?s = "s\<lparr>s_authorizing := True\<rparr>"
  from assms obtain t where body: "authorize_body (privyAddress wallet linked) input B ?s = (Inr i, t)"
    and s': "s' = t\<lparr>s_authorizing := False\<rparr>"
    by (auto simp: authorize_def finallyM_def split: prod.splits)
  from body obtain ch s1 sig s2 v where adr: "\<not> falsy (privyAddress wallet linked)"
    and c: "answerM (apiFetch (route_challenge input) ''/financial-authorizations/challenge'' POST) B ?s = (Inr ch, s1)"
    and g: "signRawHash (the (privyAddress wallet linked)) (''0x'' @ cr_payloadHash ch) B s1 = (Inr sig, s2)"
    and f: "answerM (apiFetch (route_verify
              \<lparr>vf_authorizationId = cr_authorizationId ch, vf_payloadHash = cr_payloadHash ch,
               vf_assertion = assertion_for (the (privyAddress wallet linked)) sig\<rparr>)
              ''/financial-authorizations/verify'' POST) B s2 = (Inr v, t)" and i: "i = fst v"
    unfolding authorize_body_def by (auto elim!: bindM_InrE split: if_splits)
  from adr obtain address where a: "privyAddress wallet linked = Some address" "address \<noteq> []"
    by (auto elim!: not_falsyE)
  from guarded_Inr [OF c, of "\<lambda>u. validated B (valid_challenge_dto input) (fa_controller_createChallenge (au_userId u) input)"]
  obtain u w1 where u: "caller B s = Some u" and c': "valid_challenge_dto input"
      "createChallenge (au_userId u) input (b_api B) (s_world s) = (Inr ch, w1)"
    and s1: "s1 = ?s\<lparr>s_requests := s_requests s @ [sent B ''/financial-authorizations/challenge'' POST ?s], s_world := w1\<rparr>"
    by (auto simp: route_challenge_def validated_Inr fa_controller_createChallenge_def)
  from g have g': "b_sign B address (''0x'' @ cr_payloadHash ch) = Inr sig"
    and s2: "s2 = s1\<lparr>s_signed := s_signed s @ [(address, ''0x'' @ cr_payloadHash ch)]\<rparr>"
    using a s1 by (auto simp: signRawHash_run split: sum.splits)
  let ?d = "\<lparr>vf_authorizationId = cr_authorizationId ch, vf_payloadHash = cr_payloadHash ch,
               vf_assertion = assertion_for address sig\<rparr>"
  from guarded_Inr [OF f, of "\<lambda>u. validated B (b_isUuid B (cr_authorizationId ch)) (fa_controller_verify (au_userId u) ?d)"]
  obtain u' w2 where u': "caller B s2 = Some u'" and f': "verify (au_userId u') ?d (b_api B) (s_world s2) = (Inr v, w2)"
    and t: "t = s2\<lparr>s_requests := s_requests s2 @ [sent B ''/financial-authorizations/verify'' POST s2], s_world := w2\<rparr>"
    using a by (auto simp: route_verify_def validated_Inr fa_controller_verify_def)
  have "u' = u" using u u' s1 s2 by simp
  then show thesis
    using that [OF a u c' g', of "snd v" w2] f' i t s' s1 s2 by simp
qed


section \<open>Properties\<close>

text \<open>C16: When \<open>authorize\<close> returns an identifier, the ledger of the API holds under it a confirmed grant for the
  signed-in user and exactly the requested operation; Privy was asked for one signature, with the address
  of the wallet of the authorization, of the hash of the payload that the API stored.\<close>

theorem authorize_sound:
  assumes "authorize wallet linked input B s = (Inr i, s')" and "db_ok (s_world s)"
  shows "\<exists>u a. caller B s = Some u
    \<and> ledger_of (finauths (s_world s')) i = Some (grant_for (au_userId u) input, Confirmed)
    \<and> find_row fa_id i (finauths (s_world s')) = Some a \<and> privyAddress wallet linked = Some (fa_walletId a)
    \<and> fa_payloadHash a = hashPayload (b_api B) (fa_payload a)
    \<and> s_signed s' = s_signed s @ [(fa_walletId a, ''0x'' @ fa_payloadHash a)]"
  using assms(1)
proof (rule authorize_steps)
  fix address u ch w1 sig w2 b
  assume p: "privyAddress wallet linked = Some address" and u: "caller B s = Some u"
    and c: "createChallenge (au_userId u) input (b_api B) (s_world s) = (Inr ch, w1)"
    and v: "verify (au_userId u) \<lparr>vf_authorizationId = cr_authorizationId ch, vf_payloadHash = cr_payloadHash ch,
        vf_assertion = assertion_for address sig\<rparr> (b_api B) w1 = (Inr (i, b), w2)"
    and s': "s_world s' = w2" "s_signed s' = s_signed s @ [(address, ''0x'' @ cr_payloadHash ch)]"
  from createChallenge_InrD [OF c] obtain a where a: "finauths w1 = finauths (s_world s) @ [a]"
    "fa_id a = cr_authorizationId ch" "fa_payloadHash a = hashPayload (b_api B) (fa_payload a)"
    "cr_payloadHash ch = fa_payloadHash a" "grant_of a = grant_for (au_userId u) input" "fa_consumedAt a = None"
    by (auto simp: grant_of_def grant_for_def)
  have "db_ok w1" using keepsRD [OF createChallenge_step, OF c] assms(2) by (simp add: sound_step_def)
  then have "distinct (map fa_id (finauths w1))" by (simp add: db_ok_defs)
  from find_row_distinct [OF this, of a] a have f: "find_row fa_id (cr_authorizationId ch) (finauths w1) = Some a" by simp
  from verify_InrD [OF v] f obtain t where i: "i = cr_authorizationId ch" "address = fa_walletId a"
    and w2: "finauths w2 = upd_row fa_id (fa_id a) (fa_setVerified (JObj (assertion_for address sig)) t) (finauths w1)"
    by (auto simp: assertion_for_def)
  let ?b = "fa_setVerified (JObj (assertion_for address sig)) t a"
  have r: "find_row fa_id i (finauths w2) = Some ?b"
    using f i a(2) by (simp add: w2 find_row_upd_row fa_setVerified_def)
  moreover have "grant_of ?b = grant_of a" "phase_of ?b = Confirmed" "fa_walletId ?b = fa_walletId a"
    "fa_payloadHash ?b = fa_payloadHash a" "fa_payload ?b = fa_payload a"
    using a(6) by (simp_all add: fa_setVerified_def grant_of_def phase_of_def)
  ultimately show ?thesis
    using p u s' a i by (intro exI [of _ u] exI [of _ ?b]) (simp add: ledger_of_def)
qed

lemma verifySig_runs:
  assumes "i \<noteq> []" and "e_publicKeyError E i = None" and "list_all is_hex h" and "length h = 64"
    and "list_all is_hex (strip0x sig)" and "length (strip0x sig) = 128"
    and "e_verifySig E i (from_hex h) (from_hex (strip0x sig))"
  shows "verifyPrivyRawHashSignature (Some i) i (assertion_for i sig) h E w = (Inr (), w)"
proof -
  have "sig \<noteq> []" using assms(6) by (auto simp: strip0x_def starts_with_def)
  then have "readPrivyRawHashSignature (assertion_for i sig) i = Inr (strip0x sig)"
    by (simp add: readPrivyRawHashSignature_def assertion_for_def isNonEmptyString_def strip0x_def)
  moreover have "readHexBytes h 32 = Inr (from_hex h)" "readHexBytes (strip0x sig) 64 = Inr (from_hex (strip0x sig))"
    using assms by (auto simp: readHexBytes_def)
  ultimately show ?thesis
    using assms(1,2,7) by (simp add: verifyPrivyRawHashSignature_def falsy_def)
qed

text \<open>The signer of Privy: for a hash of 32 bytes it returns a 64-byte signature that checks.\<close>

definition signs :: "browser \<Rightarrow> string \<Rightarrow> bool" where
  "signs B address \<longleftrightarrow> (\<forall>h. list_all is_hex h \<and> length h = 64 \<longrightarrow> (\<exists>sig. b_sign B address (''0x'' @ h) = Inr sig
     \<and> list_all is_hex (strip0x sig) \<and> length (strip0x sig) = 128
     \<and> e_verifySig (b_api B) address (from_hex h) (from_hex (strip0x sig))))"

definition fresh_ids :: "env \<Rightarrow> world \<Rightarrow> bool" where
  "fresh_ids E w \<longleftrightarrow> inj (e_uuid E) \<and> (\<forall>k \<ge> w_ids w. e_uuid E k \<notin> fa_nonce ` set (finauths w)
     \<and> e_uuid E k \<notin> fa_id ` set (finauths w) \<and> e_uuid E k \<notin> aud_id ` set (auditLogs w))"

lemma apiFetch_runs:
  assumes "b_delivery B (length (s_requests s)) = Delivered" and "caller B s = Some u"
    and "\<And>hs. route B hs = guarded B h hs" and "op_headers options = []" and "\<not> op_skipAuth options"
    and "h u (b_api B) (s_world s) = (Inr a, w')"
  shows "answerM (apiFetch route path options) B s =
    (Inr a, s\<lparr>s_requests := s_requests s @ [sent B path options s], s_world := w'\<rparr>)"
  using assms sent_caller [OF assms(4,5), of B path s]
  by (simp add: answerM_Inr apiFetch_eq bindM_def fetchM_def Let_def guarded_def readResponse_run) (simp add: sent_def)

lemma authorize_runs:
  assumes "caller B s = Some u" and "\<And>n. b_delivery B n = Delivered" and "db_ok (s_world s)"
    and "find_row usr_id (au_userId u) (users (s_world s)) = Some x"
    and "usr_privyStellarWalletAddress x = Some address" and "address \<noteq> []" and "usr_privyWalletStatus x = Some ''ready''"
    and "privyAddress wallet linked = Some address" and "signs B address" and "valid_challenge_dto input"
    and "e_publicKeyError (b_api B) address = None" and "\<And>t. length (e_sha256 (b_api B) t) = 32"
    and "fresh_ids (b_api B) (s_world s)" and "\<And>k. b_isUuid B (e_uuid (b_api B) k)"
    and "hashPayload (b_api B) (next_payload (b_api B) (s_world s) (au_userId u) address input)
      \<notin> fa_payloadHash ` set (finauths (s_world s))"
    and "\<And>n. e_delay (b_api B) n \<le> 300000"
  shows "\<exists>i s'. authorize wallet linked input B s = (Inr i, s')"
proof -
  let ?E = "b_api B" and ?w = "s_world s" and ?s = "s\<lparr>s_authorizing := True\<rparr>"
  have "\<exists>r w'. createChallenge (au_userId u) input ?E ?w = (Inr r, w')"
    using assms(4-7,13,15) by (intro createChallenge_runs) (simp_all add: fresh_ids_def)
  then obtain ch w1 where c: "createChallenge (au_userId u) input ?E ?w = (Inr ch, w1)" by blast
  from createChallenge_InrD [OF c] assms(4,5) obtain a where a: "finauths w1 = finauths ?w @ [a]"
    "fa_id a = cr_authorizationId ch" "fa_payloadHash a = cr_payloadHash ch" "fa_walletId a = address"
    "cr_payloadHash ch = hashPayload ?E (cr_payload ch)"
    "fa_userId a = au_userId u" "fa_consumedAt a = None" "fa_expiresAt a = w_now (tick ?E ?w) + 300000"
    by auto
  note k = createChallenge_clock [OF c]
  have ok: "db_ok w1" using keepsRD [OF createChallenge_step, OF c] assms(3) by (simp add: sound_step_def)
  then have f: "find_row fa_id (cr_authorizationId ch) (finauths w1) = Some a"
    using find_row_distinct [of fa_id "finauths w1" a] a by (simp add: db_ok_defs)
  have h: "list_all is_hex (cr_payloadHash ch)" "length (cr_payloadHash ch) = 64"
    using assms(12) by (auto simp: a(5) hashPayload_def to_hex_hex length_to_hex)
  with assms(9) obtain sig where sig: "b_sign B address (''0x'' @ cr_payloadHash ch) = Inr sig"
    "list_all is_hex (strip0x sig)" "length (strip0x sig) = 128"
    "e_verifySig ?E address (from_hex (cr_payloadHash ch)) (from_hex (strip0x sig))"
    by (auto simp: signs_def)
  let ?d = "\<lparr>vf_authorizationId = cr_authorizationId ch, vf_payloadHash = cr_payloadHash ch,
    vf_assertion = assertion_for address sig\<rparr>"
  have now: "w_now (tick ?E w1) \<le> fa_expiresAt a"
    using k assms(16) [of "w_ticks w1"] by (simp add: a(8)) (simp add: tick_def)
  have ids: "e_uuid ?E (w_ids w1) \<notin> aud_id ` set (auditLogs w1)"
  proof -
    have "e_uuid ?E (w_ids ?w + 3) \<noteq> e_uuid ?E (w_ids ?w + 2)"
      using assms(13) by (auto simp: fresh_ids_def inj_eq)
    moreover have "e_uuid ?E (w_ids ?w + 3) \<notin> aud_id ` set (auditLogs ?w)"
      using assms(13) by (simp add: fresh_ids_def)
    ultimately show ?thesis using k by auto
  qed
  have "\<exists>w'. verify (au_userId u) ?d ?E w1 = (Inr (vf_authorizationId ?d, True), w')"
    using f a k assms(4-6,11) h sig now ids verifySig_runs [of address ?E "cr_payloadHash ch" sig]
    by (intro verify_runs [of _ _ a _ x]) simp_all
  then obtain w2 where v: "verify (au_userId u) ?d ?E w1 = (Inr (cr_authorizationId ch, True), w2)" by auto
  let ?s1 = "?s\<lparr>s_requests := s_requests s @ [sent B ''/financial-authorizations/challenge'' POST ?s], s_world := w1\<rparr>"
  let ?s2 = "?s1\<lparr>s_signed := s_signed s @ [(address, ''0x'' @ cr_payloadHash ch)]\<rparr>"
  have r1: "answerM (apiFetch (route_challenge input) ''/financial-authorizations/challenge'' POST) B ?s = (Inr ch, ?s1)"
    using apiFetch_runs [of B ?s u "route_challenge input" _ POST ch w1] assms(1,2,10) c
    by (simp add: route_challenge_def validated_def fa_controller_createChallenge_def)
  obtain s3 where r2: "answerM (apiFetch (route_verify ?d) ''/financial-authorizations/verify'' POST) B ?s2
      = (Inr (cr_authorizationId ch, True), s3)"
    using apiFetch_runs [of B ?s2 u "route_verify ?d" _ POST _ w2] assms(1,2,14) v k
    by (simp add: route_verify_def validated_def fa_controller_verify_def)
  have "authorize_body (Some address) input B ?s = (Inr (cr_authorizationId ch), s3)"
    using assms(6) r1 r2 sig(1) by (simp add: authorize_body_def falsy_def bindM_def throwIf_def signRawHash_run)
  then show ?thesis by (simp add: authorize_def finallyM_def assms(8))
qed

text \<open>C17: \<open>authorize\<close> succeeds for a signed-in user with a ready Privy wallet that the browser knows, when the
  network delivers, the identifiers to come are new and the hash of the payload of this challenge is not the hash
  of a stored one, no step of the API takes five minutes and the signer of Privy answers with a signature that
  checks under the wallet. The table may hold any authorizations, earlier ones of the user included.\<close>

theorem authorize_succeeds:
  assumes "caller B s = Some u" and "\<And>n. b_delivery B n = Delivered" and "db_ok (s_world s)"
    and "find_row usr_id (au_userId u) (users (s_world s)) = Some x"
    and "usr_privyStellarWalletAddress x = Some address" and "address \<noteq> []" and "usr_privyWalletStatus x = Some ''ready''"
    and "privyAddress wallet linked = Some address" and "signs B address" and "valid_challenge_dto input"
    and "e_publicKeyError (b_api B) address = None" and "\<And>t. length (e_sha256 (b_api B) t) = 32"
    and "fresh_ids (b_api B) (s_world s)" and "\<And>k. b_isUuid B (e_uuid (b_api B) k)"
    and "hashPayload (b_api B) (next_payload (b_api B) (s_world s) (au_userId u) address input)
      \<notin> fa_payloadHash ` set (finauths (s_world s))"
    and "\<And>n. e_delay (b_api B) n \<le> 300000"
  shows "\<exists>i s'. authorize wallet linked input B s = (Inr i, s')"
  by (rule authorize_runs [OF assms])

text \<open>The purchase drawer never shows success: from every reachable state of the API, confirming a purchase
  ends in the summary again, with an error text, whatever wallet, signer and network do.\<close>

theorem buy_drawer_never_succeeds:
  assumes "reachable (b_api B) (s_world s)"
  shows "\<exists>d' s'. handleConfirm wallet linked (Some r) d B s = (Inr d', s') \<and> bd_step d' = BuySummary
    \<and> bd_error d' \<noteq> None \<and> bd_result d' = bd_result d"
proof -
  let ?i = "\<lparr>ch_operation = OpInvestmentPurchase, ch_resourceId = Some (rr_id r),
              ch_amount = Some (toFixed 2 (drawer_amountPaid (rr_value r))), ch_destination = None\<rparr>"
  let ?buy = "\<lambda>i. answerM (apiFetch (route_buy \<lparr>ci_receivableId = rr_id r, ci_authorizationId = i,
              ci_pixTxId = None\<rparr>) ''/investments'' POST)"
  have "\<exists>e t. bindM (authorize wallet linked ?i) ?buy B s = (Inl e, t)"
  proof (cases "authorize wallet linked ?i B s")
    case (Pair q t)
    have "on_world sound_step s t" by (rule keepsRD [OF authorize_keeps Pair])
    then have ok: "db_ok (s_world t)" "biz_ok (s_world t)"
      using reachable_ok [OF assms] by (simp_all add: on_world_def sound_step_def)
    have no: "investments_create u d E (s_world t) \<noteq> (Inr x, v)" for u d E x v
      using purchase_Inl [OF ok, of u d E] by auto
    show ?thesis
    proof (cases q)
      case (Inr i)
      have "\<exists>e v. ?buy i B t = (Inl e, v)"
      proof (cases "?buy i B t")
        case (Pair p v)
        then show ?thesis
        proof (cases p)
          case (Inr x)
          from guarded_Inr [OF Pair [unfolded Inr], of "\<lambda>u. validated B (b_isUuid B (rr_id r) \<and> b_isUuid B i)
              (investmentsController_create u \<lparr>ci_receivableId = rr_id r, ci_authorizationId = i, ci_pixTxId = None\<rparr>)"]
          show ?thesis
            by (auto simp: no route_buy_def maxLength_def validated_Inr investmentsController_create_def
                assertInvestor_def split: if_splits)
        qed simp
      qed
      with Pair Inr show ?thesis by (simp add: bindM_def)
    qed (use Pair in \<open>simp add: bindM_def\<close>)
  qed
  then obtain e t where "bindM (authorize wallet linked ?i) (\<lambda>i. bindM (?buy i) f) B s = (Inl e, t)" for f :: "investment \<Rightarrow> buy_drawer web"
    by (auto simp: bindM_assoc [symmetric] bindM_def [of "bindM _ _"])
  then show ?thesis
    by (simp add: handleConfirm_def Let_def catchM_def buy_failed_def)
qed

lemma depositStage_Inr:
  assumes "depositStage i a st B s = (Inr h, s')"
  obtains u built w1 sig w2 status where "caller B s = Some u" and "au_role u = Some ''investor''"
    and "buildDepositStage i (au_userId u) st (b_api B) (s_world s) = (Inr built, w1)"
    and "b_sign B a (''0x'' @ ut_hashToSign built) = Inr sig"
    and "submitDepositStage i (au_userId u) \<lparr>sd_stage = st, sd_xdr = ut_xdr built, sd_signature = sig\<rparr> (b_api B) w1
      = (Inr (h, status), w2)"
    and "s_world s' = w2" and "s_signed s' = s_signed s @ [(a, ''0x'' @ ut_hashToSign built)]"
    and "s_stages s' = s_stages s" and "caller B s' = caller B s"
proof -
  from assms obtain built s1 sig s2 v where
    b: "answerM (apiFetch (route_buildDeposit i st) (''/investments/deposit/'' @ i @ ''/onchain/build'') POST) B s = (Inr built, s1)"
    and g: "signRawHash a (''0x'' @ ut_hashToSign built) B s1 = (Inr sig, s2)"
    and f: "answerM (apiFetch (route_submitDeposit i \<lparr>sd_stage = st, sd_xdr = ut_xdr built, sd_signature = sig\<rparr>)
              (''/investments/deposit/'' @ i @ ''/onchain/submit'') POST) B s2 = (Inr v, s')" and h: "h = fst v"
    unfolding depositStage_def by (auto elim!: bindM_InrE)
  from guarded_Inr [OF b, of "\<lambda>u. investmentsController_buildOnchainDeposit u i st"]
  obtain u w1 where u: "caller B s = Some u" "au_role u = Some ''investor''"
      "buildDepositStage i (au_userId u) st (b_api B) (s_world s) = (Inr built, w1)"
    and s1: "s1 = s\<lparr>s_requests := s_requests s @ [sent B (''/investments/deposit/'' @ i @ ''/onchain/build'') POST s], s_world := w1\<rparr>"
    by (auto simp: route_buildDeposit_def investmentsController_buildOnchainDeposit_def assertInvestor_def split: if_splits)
  from g have g': "b_sign B a (''0x'' @ ut_hashToSign built) = Inr sig"
    and s2: "s2 = s1\<lparr>s_signed := s_signed s @ [(a, ''0x'' @ ut_hashToSign built)]\<rparr>"
    using s1 by (auto simp: signRawHash_run split: sum.splits)
  from guarded_Inr [OF f, of "\<lambda>u. validated B (ut_xdr built \<noteq> [] \<and> sig \<noteq> []) (investmentsController_submitOnchainDeposit u i
      \<lparr>sd_stage = st, sd_xdr = ut_xdr built, sd_signature = sig\<rparr>)"]
  obtain u' w2 where "caller B s2 = Some u'"
    "submitDepositStage i (au_userId u') \<lparr>sd_stage = st, sd_xdr = ut_xdr built, sd_signature = sig\<rparr> (b_api B) (s_world s2) = (Inr v, w2)"
    and s': "s' = s2\<lparr>s_requests := s_requests s2 @ [sent B (''/investments/deposit/'' @ i @ ''/onchain/submit'') POST s2], s_world := w2\<rparr>"
    by (auto simp: route_submitDeposit_def validated_Inr investmentsController_submitOnchainDeposit_def assertInvestor_def split: if_splits)
  then show thesis
    using that [OF u g', of "snd v" w2] u s1 s2 h by simp
qed

lemma loadApprovedDeposit_Inr:
  "loadApprovedDeposit i u E w = (Inr t, w') \<Longrightarrow> t \<in> set (ptransactions w) \<and> ptx_id t = i \<and> ptx_userId t = u
    \<and> ptx_type t = ''DEPOSIT'' \<and> ptx_status t = TApproved \<and> w' = w"
  by (auto simp: loadApprovedDeposit_def findMyTransaction_def bindM_assoc find_Some_iff elim!: bindM_InrE
      split: option.splits if_splits)

lemma resolveInvestorAddress_Inr: "resolveInvestorAddress u E w = (Inr a, w') \<Longrightarrow> w' = w"
  by (auto simp: resolveInvestorAddress_def Let_def split: if_splits)

text \<open>The deposit stage completes the transaction of the investor who owns it.\<close>

lemma submitDeposit_Inr:
  assumes "submitDepositStage i u d E w = (Inr (h, st), w')" and "sd_stage d = StageDeposit" and "db_ok w"
  shows "\<exists>t. find_row ptx_id i (ptransactions w') = Some t \<and> ptx_userId t = u \<and> ptx_type t = ''DEPOSIT''
    \<and> ptx_status t = TCompleted \<and> ptx_txHash t = Some h"
proof -
  from assms(1,2) obtain t w0 a w1 w2 t' w3 l where
    t: "loadApprovedDeposit i u E w = (Inr t, w0)" and a: "resolveInvestorAddress u E w0 = (Inr a, w1)"
    and x: "submitSignedTx (sd_xdr d) a (sd_signature d) E w1 = (Inr h, w2)"
    and p: "ptx_update i (ptx_setCompleted h) E w2 = (Inr t', w3)"
    and l: "auditCreate (audit_entry_tx ''pool.deposit_completed'' i ''transaction'' u h
                [(''amount'', JNum (ptx_amount t))]) E w3 = (Inr l, w')"
    unfolding submitDepositStage_def by (auto elim!: bindM_InrE)
  note t' = loadApprovedDeposit_Inr [OF t]
  have w: "ptransactions w2 = ptransactions w"
    using sameD' [OF submitSignedTx.call_frames(7), OF x] t' resolveInvestorAddress_Inr [OF a] by simp
  have "distinct (map ptx_id (ptransactions w))" using assms(3) by (simp add: db_ok_defs)
  from find_row_distinct [OF this] t' have f: "find_row ptx_id i (ptransactions w) = Some t" by auto
  from p have "ptransactions w3 = upd_row ptx_id i (ptx_setCompleted h) (ptransactions w2)"
    by (auto simp: ptx_update_def elim!: tptransactions.tab_update_Inr)
  with sameD' [OF auditCreate_frames(7), OF l] w f t' show ?thesis
    by (simp add: find_row_upd_row ptx_setCompleted_def)
qed

lemma deposit_keeps [keeps]: "keepsR (on_world sound_step) (depositStage i a st)"
  unfolding depositStage_def by (intro keeps)

text \<open>C23: A deposit that the browser reports as done went through its two stages in order, with one signature
  of the investor's wallet for each, and the transaction of the signed-in investor is completed under the
  hash of the deposit stage.\<close>

theorem runOnChainDeposit_success:
  assumes "runOnChainDeposit i a B s = (Inr h, s')" and "db_ok (s_world s)"
  shows "h \<noteq> [] \<and> s_stages s' = s_stages s @ [False, True]
    \<and> (\<exists>x y. s_signed s' = s_signed s @ [(a, x), (a, y)])
    \<and> (\<exists>u t. caller B s = Some u \<and> au_role u = Some ''investor'' \<and> find_row ptx_id i (ptransactions (s_world s')) = Some t
      \<and> ptx_userId t = au_userId u \<and> ptx_type t = ''DEPOSIT'' \<and> ptx_status t = TCompleted \<and> ptx_txHash t = Some h)"
proof -
  let ?s0 = "s\<lparr>s_stages := s_stages s @ [False]\<rparr>"
  from assms(1) obtain h1 s1 where h: "h \<noteq> []" and d1: "depositStage i a StageApprove B ?s0 = (Inr h1, s1)"
    and d2: "depositStage i a StageDeposit B (s1\<lparr>s_stages := s_stages s1 @ [True]\<rparr>) = (Inr h, s')"
    unfolding runOnChainDeposit_def by (auto elim!: bindM_InrE dest!: throwIf_InrD)
  let ?s1 = "s1\<lparr>s_stages := s_stages s1 @ [True]\<rparr>"
  from d1 obtain x where s1: "s_stages s1 = s_stages s @ [False]" "s_signed s1 = s_signed s @ [(a, x)]"
    "caller B s1 = caller B s"
    by (rule depositStage_Inr) auto
  have k1: "db_ok (s_world s1)"
    using keepsRD [OF deposit_keeps d1] assms(2) by (simp add: on_world_def sound_step_def)
  from d2 show ?thesis
  proof (rule depositStage_Inr)
    fix u built w1 sig w2 status
    assume u: "caller B ?s1 = Some u" "au_role u = Some ''investor''"
      and b: "buildDepositStage i (au_userId u) StageDeposit (b_api B) (s_world ?s1) = (Inr built, w1)"
      and f: "submitDepositStage i (au_userId u) \<lparr>sd_stage = StageDeposit, sd_xdr = ut_xdr built, sd_signature = sig\<rparr>
          (b_api B) w1 = (Inr (h, status), w2)"
      and s': "s_world s' = w2" "s_signed s' = s_signed ?s1 @ [(a, ''0x'' @ ut_hashToSign built)]"
        "s_stages s' = s_stages ?s1"
    have "keepsR sound_step (buildDepositStage i (au_userId u) StageDeposit)" by (intro keeps)
    from keepsRD [OF this b] k1 have "db_ok w1" by (simp add: sound_step_def)
    from submitDeposit_Inr [OF f _ this] show ?thesis
      using h u s' s1 by auto
  qed
qed

lemma withdraw_body_Inr:
  assumes "withdraw_body amount address f B s = (Inr h, s')"
  shows "\<exists>u x w1 st po hash. s_signed s' = s_signed s @ [(address, ''0x'' @ hash)] \<and> caller B s = Some u
    \<and> sw_amount x = amount \<and> sw_pixKey x = trim (wf_pixKey f)
    \<and> submitWithdrawal (au_userId u) x (b_api B) w1 = (Inr (st, h, po), s_world s')"
proof -
  from assms obtain built s1 sig s2 st po where
    b: "answerM (apiFetch (route_buildWithdrawal amount) ''/pix/withdrawals/build'' POST) B s = (Inr built, s1)"
    and g: "signRawHash address (''0x'' @ ut_hashToSign built) B s1 = (Inr sig, s2)"
    and v: "answerM (apiFetch (route_submitWithdrawal \<lparr>sw_amount = amount, sw_pixKey = trim (wf_pixKey f),
          sw_pixKeyType = wf_pixKeyType f, sw_xdr = ut_xdr built, sw_signature = sig\<rparr>)
          ''/pix/withdrawals/submit'' POST) B s2 = (Inr (st, h, po), s')"
    unfolding withdraw_body_def by (auto elim!: bindM_InrE dest!: throwIf_InrD)
  let ?x = "\<lparr>sw_amount = amount, sw_pixKey = trim (wf_pixKey f),
          sw_pixKeyType = wf_pixKeyType f, sw_xdr = ut_xdr built, sw_signature = sig\<rparr>"
  from guarded_Inr [OF b, of "\<lambda>u. buildWithdrawalTx (au_userId u) amount"] obtain w1 where
    s1: "s1 = s\<lparr>s_requests := s_requests s @ [sent B ''/pix/withdrawals/build'' POST s], s_world := w1\<rparr>"
    by (auto simp: route_buildWithdrawal_def)
  have s2: "s2 = s1\<lparr>s_signed := s_signed s @ [(address, ''0x'' @ ut_hashToSign built)]\<rparr>"
    using g s1 by (auto simp: signRawHash_run split: sum.splits)
  from guarded_Inr [OF v, of "\<lambda>u. submitWithdrawal (au_userId u) ?x"] obtain u w2 where
    u: "caller B s2 = Some u" "submitWithdrawal (au_userId u) ?x (b_api B) w1 = (Inr (st, h, po), w2)"
    and t: "s' = s2\<lparr>s_requests := s_requests s2 @ [sent B ''/pix/withdrawals/submit'' POST s2], s_world := w2\<rparr>"
    using s1 s2 by (auto simp: route_submitWithdrawal_def)
  then show ?thesis
    using s1 s2 by (intro exI [of _ u] exI [of _ ?x] exI [of _ w1]) simp
qed

text \<open>C28: The withdrawal drawer sends and signs nothing unless the amount is positive and covered by the balance
  it shows, a Pix key is given and a wallet is known. When it shows success, Privy was asked for one
  signature, and the API took the withdrawal of this amount to the trimmed key under the hash it shows.\<close>

theorem handleWithdraw_outcome:
  assumes "handleWithdraw wallet linked available f d B s = (r, s')"
  shows "(\<exists>m. withdrawal_refusal available (privyAddress wallet linked) f = Some m \<and> s' = s
        \<and> r = Inr (d\<lparr>wd_toast := Some m\<rparr>))
    \<or> (\<exists>d' amount address. r = Inr d' \<and> parse_float (wf_amount f) = Some amount \<and> 0 < amount \<and> amount \<le> available
        \<and> trim (wf_pixKey f) \<noteq> [] \<and> privyAddress wallet linked = Some address \<and> address \<noteq> []
        \<and> (wd_step d' = WdError \<and> wd_errorMessage d' \<noteq> None
           \<or> wd_step d' = WdSuccess \<and> (\<exists>u x w1 st po hash h. wd_txHash d' = Some h
              \<and> s_signed s' = s_signed s @ [(address, ''0x'' @ hash)] \<and> caller B s = Some u
              \<and> sw_amount x = amount \<and> sw_pixKey x = trim (wf_pixKey f)
              \<and> submitWithdrawal (au_userId u) x (b_api B) w1 = (Inr (st, h, po), s_world s'))))"
proof (cases "withdrawal_refusal available (privyAddress wallet linked) f")
  case (Some m)
  with assms(1) show ?thesis by (auto simp: handleWithdraw_def)
next
  case None
  then obtain amount address where a: "parse_float (wf_amount f) = Some amount" "0 < amount" "amount \<le> available"
    "trim (wf_pixKey f) \<noteq> []" "privyAddress wallet linked = Some address" "address \<noteq> []"
    by (auto simp: withdrawal_refusal_def elim!: not_falsyE split: option.splits if_splits)
  obtain q where q: "withdraw_body amount address f B s = (q, s')"
    using assms(1) None a by (cases "withdraw_body amount address f B s")
      (auto simp: handleWithdraw_def Let_def catchM_def bindM_def split: sum.splits)
  show ?thesis
  proof (cases q)
    case (Inl e)
    with q assms(1) None a show ?thesis
      by (auto simp: handleWithdraw_def Let_def catchM_def bindM_def)
  next
    case (Inr h)
    with q assms(1) None a have "\<exists>d'. r = Inr d' \<and> wd_step d' = WdSuccess \<and> wd_txHash d' = Some h"
      by (auto simp: handleWithdraw_def Let_def catchM_def bindM_def)
    moreover from withdraw_body_Inr q Inr have "\<exists>u x w1 st po hash. s_signed s' = s_signed s @ [(address, ''0x'' @ hash)]
        \<and> caller B s = Some u \<and> sw_amount x = amount \<and> sw_pixKey x = trim (wf_pixKey f)
        \<and> submitWithdrawal (au_userId u) x (b_api B) w1 = (Inr (st, h, po), s_world s')" by blast
    ultimately show ?thesis using a by blast
  qed
qed

lemma findPmeWallet_Inr:
  "findPmeWallet u E w = (Inr a, w') \<Longrightarrow> w' = w \<and> a \<noteq> [] \<and>
   (\<exists>x. find_row usr_id u (users w) = Some x \<and> usr_privyStellarWalletAddress x = Some a)"
  by (auto simp: findPmeWallet_def Let_def bind_eq_Some_conv elim!: not_falsyE split: if_splits)

lemma submitAssignment_InrD:
  assumes "submitAssignment i x sig E w = (Inr rr, w')"
  shows "\<exists>r. find_row rcv_id i (receivables w) = Some r \<and> assignable r
    \<and> find_row rcv_id i (receivables w') = Some (rcv_setStatus RActive r)"
proof -
  from assms obtain r w1 pme w2 h w3 ph w4 r' w5 cu w6 lu w7 where
    r: "findAssignable i E w = (Inr r, w1)" and p: "findPmeWallet (rcv_userId r) E w1 = (Inr pme, w2)"
    and x: "submitSignedAssignment x sig pme E w2 = (Inr h, w3)"
    and b: "catchM (buyTokenizedInvoiceInPool pme (rcv_id r)
          (case rcv_documentHash r of None \<Rightarrow> ''00000000000000000000000000000000'' | Some h \<Rightarrow> h) (rcv_value r))
       (\<lambda>e. throwM (payout_error e)) E w3 = (Inr ph, w4)"
    and u: "setActive i E w4 = (Inr r', w5)"
    and c: "catchM (bindM (createCollectionOrder
          \<lparr>cl_receivableId = rcv_id r, cl_pmeUserId = rcv_userId r,
           cl_debtorName = rcv_debtorName r, cl_debtorDocument = rcv_debtorDocument r,
           cl_amount = rcv_value r, cl_dueDate = rcv_dueDate r\<rparr>) (\<lambda>_. retM ())) (\<lambda>_. retM ()) E w5 = (Inr cu, w6)"
    and l: "rcv_audit_tx ''receivable.assignment_signed'' r h
              [(''source'', JStr ''privy_blockchain_signing''), (''poolTxHash'', JStr ph)] E w6 = (Inr lu, w7)"
    and e: "retM (toReceivableResponse r') E w7 = ((Inr rr :: exn + receivable_response), w')"
    unfolding submitAssignment_def by (elim bindM_InrE) (rule that)
  have "keepsR (same receivables) (catchM (buyTokenizedInvoiceInPool pme (rcv_id r)
          (case rcv_documentHash r of None \<Rightarrow> ''00000000000000000000000000000000'' | Some h \<Rightarrow> h) (rcv_value r))
       (\<lambda>e. throwM (payout_error e)))"
    by (intro keeps)
  from sameD' [OF this, OF b] sameD' [OF submitSignedAssignment.call_frames(1), OF x]
  have w4: "receivables w4 = receivables w" using r findPmeWallet_Inr [OF p] by (simp add: findAssignable_Inr)
  have "keepsR (same receivables) (catchM (bindM (createCollectionOrder c') (\<lambda>_. retM ())) (\<lambda>_. retM ()))" for c'
    by (intro keeps)
  from sameD' [OF this, OF c] rcv_audits_Inr l e have "receivables w' = receivables w5" by fastforce
  moreover have "receivables w5 = upd_row rcv_id i (rcv_setStatus RActive) (receivables w)"
    using rcv_update_Inr [OF u [unfolded setActive_def]] w4 by auto
  ultimately show ?thesis
    using r by (auto simp: findAssignable_Inr find_row_upd_row rcv_setStatus_def)
qed

text \<open>C22: When the assignment modal shows success, the receivable was assignable and is active now, and Privy was
  asked for one signature, by the Privy wallet of the receivable's owner, of the hash of the transaction that
  the API prepared.\<close>

theorem handleAssign_success:
  assumes "handleAssign i m B s = (Inr m', s')" and "cm_success m'" and "\<not> cm_success m"
  shows "\<exists>r0 r x prep w1. receivables_prepareAssignment i (b_api B) (s_world s) = (Inr prep, w1)
    \<and> find_row rcv_id i (receivables (s_world s)) = Some r0
    \<and> find_row usr_id (rcv_userId r0) (users (s_world s)) = Some x
    \<and> usr_privyStellarWalletAddress x = Some (pa_pmeAddress prep)
    \<and> s_signed s' = s_signed s @ [(pa_pmeAddress prep, ''0x'' @ pa_hashToSign prep)]
    \<and> find_row rcv_id i (receivables (s_world s')) = Some r \<and> rcv_status r = RActive"
proof -
  from assms obtain prep s1 sig s2 rr where
    p: "answerM (apiFetch (route_prepareAssignment i) (''/receivables/'' @ i @ ''/prepare-assignment'') POST) B s = (Inr prep, s1)"
    and g: "signRawHash (pa_pmeAddress prep) (''0x'' @ pa_hashToSign prep) B s1 = (Inr sig, s2)"
    and f: "answerM (apiFetch (route_submitAssignment i (pa_unsignedXdr prep) sig)
        (''/receivables/'' @ i @ ''/submit-assignment'') POST) B s2 = (Inr rr, s')"
    unfolding handleAssign_def Let_def catchM_def
    by (auto elim!: bindM_InrE dest!: throwIf_InrD split: prod.splits sum.splits)
  from guarded_Inr [OF p, of "\<lambda>u. receivables_prepareAssignment i"] obtain w1 where
    p': "receivables_prepareAssignment i (b_api B) (s_world s) = (Inr prep, w1)"
    and s1: "s1 = s\<lparr>s_requests := s_requests s @ [sent B (''/receivables/'' @ i @ ''/prepare-assignment'') POST s], s_world := w1\<rparr>"
    by (auto simp: route_prepareAssignment_def)
  have s2: "s2 = s1\<lparr>s_signed := s_signed s @ [(pa_pmeAddress prep, ''0x'' @ pa_hashToSign prep)]\<rparr>"
    using g s1 by (auto simp: signRawHash_run split: sum.splits)
  from guarded_Inr [OF f, of "\<lambda>u. submitAssignment i (pa_unsignedXdr prep) sig"] obtain w2 where
    f': "submitAssignment i (pa_unsignedXdr prep) sig (b_api B) w1 = (Inr rr, w2)" and s': "s_world s' = w2" "s_signed s' = s_signed s2"
    using s1 s2 by (auto simp: route_submitAssignment_def)
  from p' obtain r w0 v where r: "findAssignable i (b_api B) (s_world s) = (Inr r, w0)"
    and x: "findPmeWallet (rcv_userId r) (b_api B) w0 = (Inr (pa_pmeAddress prep), v)"
    unfolding receivables_prepareAssignment_def by (auto elim!: bindM_InrE)
  from submitAssignment_InrD [OF f'] findPmeWallet_Inr [OF x] r s' s2 p' show ?thesis
    by (fastforce simp: findAssignable_Inr rcv_setStatus_def)
qed

end
