(* ===== verification/WebForms.thy ===== *)
theory WebForms
  imports WebSafety
begin

text \<open>
  The form in which a company sends an invoice (\<open>components/pme/UploadZone.tsx\<close>): the file it reads,
  the fields it fills from the XML document, and the two requests of a submission. The parser of the
  browser and \<open>toLocaleString\<close> are parameters; \<open>Date.parse\<close> and SHA-256 are the functions of the
  language and of the platform that the API uses too. A document is the tree the parser returns.
\<close>

section \<open>Documents of natural and legal persons\<close>

definition js_slice :: "nat \<Rightarrow> nat \<Rightarrow> string \<Rightarrow> string" where
  "js_slice a b s = take (b - a) (drop a s)"

definition ends_with :: "string \<Rightarrow> string \<Rightarrow> bool" where
  "ends_with p s \<longleftrightarrow> starts_with (rev p) (rev s)"

text \<open>The replacements by \<open>/^(\d{2})(\d{3})(\d{3})(\d{4})(\d{2})$/\<close> and \<open>/^(\d{3})(\d{3})(\d{3})(\d{2})$/\<close>.\<close>

definition fmtCNPJ :: "string \<Rightarrow> string" where
  "fmtCNPJ s = (if length s = 14 \<and> list_all is_digit s
     then js_slice 0 2 s @ ''.'' @ js_slice 2 5 s @ ''.'' @ js_slice 5 8 s @ ''/'' @ js_slice 8 12 s @ ''-'' @ js_slice 12 14 s
     else s)"

definition fmtCPF :: "string \<Rightarrow> string" where
  "fmtCPF s = (if length s = 11 \<and> list_all is_digit s
     then js_slice 0 3 s @ ''.'' @ js_slice 3 6 s @ ''.'' @ js_slice 6 9 s @ ''-'' @ js_slice 9 11 s
     else s)"

text \<open>What the settings page shows while a CNPJ is typed.\<close>

definition cnpj_text :: "string \<Rightarrow> string" where
  "cnpj_text d =
     (if length d \<le> 2 then d
      else if length d \<le> 5 then js_slice 0 2 d @ ''.'' @ drop 2 d
      else if length d \<le> 8 then js_slice 0 2 d @ ''.'' @ js_slice 2 5 d @ ''.'' @ drop 5 d
      else if length d \<le> 12 then js_slice 0 2 d @ ''.'' @ js_slice 2 5 d @ ''.'' @ js_slice 5 8 d @ ''/'' @ drop 8 d
      else js_slice 0 2 d @ ''.'' @ js_slice 2 5 d @ ''.'' @ js_slice 5 8 d @ ''/'' @ js_slice 8 12 d @ ''-'' @ drop 12 d)"

definition formatCnpj :: "string \<Rightarrow> string" where
  "formatCnpj v = cnpj_text (take 14 (filter is_digit v))"

text \<open>\<open>encodeURIComponent\<close>: letters, digits and \<open>- _ . ! ~ * ' ( )\<close> stay, every other character becomes a
  percent sign and two upper-case hexadecimal digits.\<close>

definition unreserved :: "char \<Rightarrow> bool" where
  "unreserved c \<longleftrightarrow> (let n = of_char c :: int in
     48 \<le> n \<and> n \<le> 57 \<or> 65 \<le> n \<and> n \<le> 90 \<or> 97 \<le> n \<and> n \<le> 122) \<or> c \<in> set ''-_.!~*'()''"

definition percent_byte :: "char \<Rightarrow> string" where
  "percent_byte c = (let n = of_char c :: int in
     CHR ''%'' # map upper_char [hex_digit (n div 16), hex_digit (n mod 16)])"

definition encodeURIComponent :: "string \<Rightarrow> string" where
  "encodeURIComponent s = concat (map (\<lambda>c. if unreserved c then [c] else percent_byte c) s)"

section \<open>XML documents\<close>

datatype xml = XElem string "xml list" | XText string

text \<open>The contents of the elements of a name below a node, in document order, and the text below a node.\<close>

fun getElementsByTagName :: "string \<Rightarrow> xml list \<Rightarrow> xml list list" where
  "getElementsByTagName t [] = []"
| "getElementsByTagName t (XText s # xs) = getElementsByTagName t xs"
| "getElementsByTagName t (XElem n cs # xs) =
     (if n = t then [cs] else []) @ getElementsByTagName t cs @ getElementsByTagName t xs"

fun textContent :: "xml list \<Rightarrow> string" where
  "textContent [] = []"
| "textContent (XText s # xs) = s @ textContent xs"
| "textContent (XElem n cs # xs) = textContent cs @ textContent xs"

text \<open>\<open>xml.getElementsByTagName(a)[0]?.getElementsByTagName(b)[0]?.textContent || ""\<close>\<close>

definition firstElement :: "string \<Rightarrow> xml list \<Rightarrow> xml list option" where
  "firstElement t xs = (case getElementsByTagName t xs of [] \<Rightarrow> None | c # _ \<Rightarrow> Some c)"

definition textAt :: "string list \<Rightarrow> xml list \<Rightarrow> string" where
  "textAt path doc = (case fold (\<lambda>t x. Option.bind x (firstElement t)) path (Some doc) of
     None \<Rightarrow> [] | Some c \<Rightarrow> textContent c)"

section \<open>The form\<close>

datatype upload_phase = UpIdle | UpForm | UpSubmitting | UpSuccess | UpError

text \<open>A file of the browser; \<open>None\<close> is a file whose reading fails.\<close>

record web_file =
  uf_name :: string
  uf_content :: "string option"

record upload_zone =
  uz_phase :: upload_phase
  uz_file :: "web_file option"
  uz_errorMsg :: "string option"
  uz_debtorName :: string
  uz_debtorDocument :: string
  uz_value :: string
  uz_dueDate :: string
  uz_customHash :: string

definition SAMPLE_XML_CONTENT :: string where
  "SAMPLE_XML_CONTENT = (let q = [CHR 0x22] in butlast (concat (map (\<lambda>l. l @ [CHR 0x0A])
     [''<?xml version='' @ q @ ''1.0'' @ q @ '' encoding='' @ q @ ''UTF-8'' @ q @ ''?>'',
      ''<nfeProc xmlns='' @ q @ ''http://www.portalfiscal.inf.br/nfe'' @ q @ '' versao='' @ q @ ''4.00'' @ q @ ''>'',
      ''  <NFe>'',
      ''    <infNFe Id='' @ q @ ''NFe35200100000000000000550010000000011000000018'' @ q @ '' versao='' @ q @ ''4.00'' @ q @ ''>'',
      ''      <ide>'',
      ''        <dhEmi>2026-06-30T12:00:00-03:00</dhEmi>'',
      ''      </ide>'',
      ''      <dest>'',
      ''        <CNPJ>12345678000199</CNPJ>'',
      ''        <xNome>Adquirente de Teste S.A.</xNome>'',
      ''      </dest>'',
      ''      <det nItem='' @ q @ ''1'' @ q @ ''>'',
      ''        <prod>'',
      ''          <xProd>Prestacao de Servicos CredBridge</xProd>'',
      ''        </prod>'',
      ''      </det>'',
      ''      <total>'',
      ''        <ICMSTot>'',
      ''          <vNF>15000.00</vNF>'',
      ''        </ICMSTot>'',
      ''      </total>'',
      ''      <cobr>'',
      ''        <dup>'',
      ''          <dVenc>2026-07-15</dVenc>'',
      ''        </dup>'',
      ''      </cobr>'',
      ''    </infNFe>'',
      ''  </NFe>'',
      ''</nfeProc>''])))"

definition handleFillManually :: "upload_zone \<Rightarrow> upload_zone" where
  "handleFillManually z = z\<lparr>uz_file := Some \<lparr>uf_name = ''nfe_manual.xml'', uf_content = Some SAMPLE_XML_CONTENT\<rparr>,
     uz_errorMsg := None, uz_phase := UpForm,
     uz_debtorName := [], uz_debtorDocument := [], uz_value := [], uz_dueDate := [], uz_customHash := []\<rparr>"

definition date_part :: "string \<Rightarrow> string" where
  "date_part s = takeWhile (\<lambda>c. c \<noteq> CHR ''T'') s"

definition document_text :: "string \<Rightarrow> string" where
  "document_text doc = (if length doc = 14 then fmtCNPJ doc else if length doc = 11 then fmtCPF doc else doc)"

definition orText :: "string \<Rightarrow> string \<Rightarrow> string" where
  "orText a b = (if a \<noteq> [] then a else b)"

text \<open>The fields taken from the parsed document; an empty text leaves a field as it is.\<close>

definition fillFrom :: "(rat \<Rightarrow> string) \<Rightarrow> xml list \<Rightarrow> upload_zone \<Rightarrow> upload_zone" where
  "fillFrom locale doc z =
     (let destName = textAt [''dest'', ''xNome''] doc;
          d = orText (textAt [''dest'', ''CNPJ''] doc) (textAt [''dest'', ''CPF''] doc);
          vNf = textAt [''ICMSTot'', ''vNF''] doc;
          dVenc = orText (textAt [''cobr'', ''dup'', ''dVenc''] doc) (date_part (textAt [''ide'', ''dhEmi''] doc))
      in z\<lparr>uz_debtorName := (if destName \<noteq> [] then destName else uz_debtorName z),
           uz_debtorDocument := (if d \<noteq> [] then document_text d else uz_debtorDocument z),
           uz_value := (if vNf \<noteq> [] then (case parse_float vNf of Some x \<Rightarrow> locale x | None \<Rightarrow> vNf) else uz_value z),
           uz_dueDate := (if dVenc \<noteq> [] then date_part dVenc else uz_dueDate z)\<rparr>)"

definition pickFile :: "(string \<Rightarrow> xml list) \<Rightarrow> (rat \<Rightarrow> string) \<Rightarrow> env \<Rightarrow> web_file \<Rightarrow> upload_zone \<Rightarrow> upload_zone" where
  "pickFile parser locale E f z =
     (if \<not> ends_with ''.xml'' (uf_name f) then z\<lparr>uz_errorMsg := Some ''Only XML files are accepted.''\<rparr>
      else let z' = z\<lparr>uz_file := Some f, uz_errorMsg := None, uz_phase := UpForm\<rparr> in
        case uf_content f of
          None \<Rightarrow> z'
        | Some content \<Rightarrow> fillFrom locale (parser content) (z'\<lparr>uz_customHash := to_hex (e_sha256 E content)\<rparr>))"

definition route_createReceivable :: "rat option \<Rightarrow> create_receivable_dto \<Rightarrow> browser \<Rightarrow> headers \<Rightarrow> receivable_response api" where
  "route_createReceivable value d B = guarded B (\<lambda>u.
     validated B (value = Some (crd_value d) \<and> valid_receivable_dto d) (receivables_create (au_userId u) d))"

definition route_createDocument :: "string \<Rightarrow> create_document_dto \<Rightarrow> browser \<Rightarrow> headers \<Rightarrow> document_response api" where
  "route_createDocument i d B = guarded B (\<lambda>u.
     validated B (valid_document_dto (b_isUrl B) d) (documentsController_create i d))"

text \<open>The number of the field \<open>value\<close>: \<open>None\<close> is NaN, which JSON writes as \<open>null\<close>, and the API refuses.\<close>

definition uz_number :: "upload_zone \<Rightarrow> rat option" where
  "uz_number z = parse_float (filter (\<lambda>c. c \<noteq> CHR '','') (uz_value z))"

definition uz_receivable :: "upload_zone \<Rightarrow> string \<Rightarrow> create_receivable_dto" where
  "uz_receivable z due = \<lparr>crd_value = (case uz_number z of None \<Rightarrow> 0 | Some x \<Rightarrow> x), crd_type = RTInvoice,
     crd_debtorName = uz_debtorName z, crd_debtorDocument = uz_debtorDocument z, crd_dueDate = due\<rparr>"

definition uz_document :: "upload_zone \<Rightarrow> string \<Rightarrow> create_document_dto" where
  "uz_document z i = \<lparr>cd_receivableId = i, cd_type = DInvoice,
     cd_url = ''https://stub/'' @ encodeURIComponent (uf_name (the (uz_file z))), cd_hash = uz_customHash z\<rparr>"

definition uz_incomplete :: "upload_zone \<Rightarrow> bool" where
  "uz_incomplete z \<longleftrightarrow> uz_file z = None \<or> uz_debtorName z = [] \<or> uz_debtorDocument z = [] \<or> uz_value z = []
     \<or> uz_dueDate z = [] \<or> uz_customHash z = []"

definition createReceivable :: "upload_zone \<Rightarrow> receivable_response web" where
  "createReceivable z =
     bindM (asksM (\<lambda>B. e_dateParse (b_api B) (uz_dueDate z))) (\<lambda>t.
     bindM (someOr t (WebError ''Invalid time value'')) (\<lambda>due.
     answerM (apiFetch (route_createReceivable (uz_number z) (uz_receivable z (toISOString due))) ''/receivables'' POST)))"

definition createDocument :: "upload_zone \<Rightarrow> string \<Rightarrow> document_response web" where
  "createDocument z i = answerM (apiFetch (route_createDocument i (uz_document z i))
     (''/receivables/'' @ i @ ''/documents'') POST)"

definition handleSubmit :: "upload_zone \<Rightarrow> upload_zone web" where
  "handleSubmit z =
     (if uz_incomplete z then retM z
      else let z' = z\<lparr>uz_phase := UpSubmitting, uz_errorMsg := None\<rparr> in
        catchM
          (bindM (createReceivable z) (\<lambda>receivable.
           bindM (createDocument z (rr_id receivable)) (\<lambda>_.
           retM (z'\<lparr>uz_phase := UpSuccess\<rparr>))))
          (\<lambda>e. retM (z'\<lparr>uz_errorMsg := Some (errorMessage e), uz_phase := UpError\<rparr>)))"

definition uz_reset :: upload_zone where
  "uz_reset = \<lparr>uz_phase = UpIdle, uz_file = None, uz_errorMsg = None, uz_debtorName = [], uz_debtorDocument = [],
     uz_value = [], uz_dueDate = [], uz_customHash = []\<rparr>"

section \<open>Texts\<close>

lemma slice_drop: "a \<le> b \<Longrightarrow> js_slice a b d @ drop b d = drop a d"
  using append_take_drop_id [of "b - a" "drop a d"] by (simp add: js_slice_def)

lemma digits_only: "filter is_digit d = d" if "list_all is_digit d"
  using that by (induction d) simp_all

lemma digits_slice: "list_all is_digit d \<Longrightarrow> filter is_digit (js_slice a b d) = js_slice a b d"
  "list_all is_digit d \<Longrightarrow> filter is_digit (drop a d) = drop a d"
  by (auto simp: js_slice_def list_all_iff dest!: in_set_takeD in_set_dropD intro!: filter_True)

lemma digits_signs: "\<not> is_digit (CHR ''.'')" "\<not> is_digit (CHR ''/'')" "\<not> is_digit (CHR ''-'')"
  by (simp_all add: is_digit_def)

lemma cnpj_text_digits:
  assumes "list_all is_digit d"
  shows "filter is_digit (cnpj_text d) = d"
proof -
  have "js_slice 0 2 d @ drop 2 d = d" "js_slice 2 5 d @ drop 5 d = drop 2 d" "js_slice 5 8 d @ drop 8 d = drop 5 d"
    "js_slice 8 12 d @ drop 12 d = drop 8 d"
    using slice_drop [of 0 2 d] slice_drop [of 2 5 d] slice_drop [of 5 8 d] slice_drop [of 8 12 d] by simp_all
  then show ?thesis
    unfolding cnpj_text_def by (simp add: digits_slice [OF assms] digits_only [OF assms] digits_signs)
qed

lemma take_digits: "list_all is_digit (take n (filter is_digit v))"
  by (auto simp: list_all_iff dest: in_set_takeD)

lemma fmtCNPJ_cnpj_text: "length d = 14 \<Longrightarrow> list_all is_digit d \<Longrightarrow> fmtCNPJ d = cnpj_text d"
  by (simp add: fmtCNPJ_def cnpj_text_def js_slice_def)

section \<open>What a submission does\<close>

lemma upload_routes [keeps]:
  "keepsR sound_step (route_createReceivable v d B hs)" "keepsR sound_step (route_createDocument i x B hs)"
  unfolding route_createReceivable_def route_createDocument_def documentsController_create_def by (intro keeps)+

lemma upload_keeps [keeps]:
  "keepsR (on_world sound_step) (createReceivable z)" "keepsR (on_world sound_step) (createDocument z i)"
  unfolding createReceivable_def createDocument_def by (intro keeps)+

lemma receivables_create_InrD:
  assumes "receivables_create u d E w = (Inr x, w')"
  shows "\<exists>r t. receivables w' = receivables w @ [r] \<and> rr_id x = rcv_id r \<and> rcv_userId r = u
    \<and> rcv_id r \<notin> rcv_id ` set (receivables w) \<and> e_dateParse E (crd_dueDate d) = Some t \<and> rcv_dueDate r = t
    \<and> rcv_value r = crd_value d \<and> rcv_type r = crd_type d \<and> rcv_debtorName r = crd_debtorName d
    \<and> rcv_debtorDocument r = crd_debtorDocument d \<and> rcv_status r = RPending \<and> documents w' = documents w"
proof -
  from assms obtain t r v y where t: "e_dateParse E (crd_dueDate d) = Some t"
    and c: "rcv_create u d t E w = (Inr r, v)" and l: "auditLog y E v = (Inr (), w')" and x: "x = toReceivableResponse r"
    unfolding receivables_create_def receivablesRepo_create_def by (auto elim!: bindM_InrE simp: asksM_def someOr_def split: option.splits)
  from treceivables.tab_create_Inr [OF c [unfolded rcv_create_def]]
    sameD' [OF auditLog_frames(2), OF l] sameD' [OF auditLog_frames(3), OF l] t x
  show ?thesis by (auto simp: toReceivableResponse_def)
qed

lemma createReceivable_Inr:
  assumes "createReceivable z B s = (Inr x, s')"
  obtains u r v where "caller B s = Some u" and "receivables (s_world s') = receivables (s_world s) @ [r]"
    and "rr_id x = rcv_id r" and "rcv_id r \<notin> rcv_id ` set (receivables (s_world s))" and "rcv_userId r = au_userId u"
    and "uz_number z = Some v" and "0 < v" and "rcv_value r = v" and "rcv_debtorName r = uz_debtorName z"
    and "rcv_debtorDocument r = uz_debtorDocument z" and "rcv_status r = RPending"
    and "documents (s_world s') = documents (s_world s)" and "caller B s' = caller B s"
proof -
  from assms obtain t where
    a: "answerM (apiFetch (route_createReceivable (uz_number z) (uz_receivable z (toISOString t))) ''/receivables'' POST) B s
      = (Inr x, s')"
    unfolding createReceivable_def by (auto elim!: bindM_InrE simp: asksM_def someOr_def split: option.splits)
  let ?d = "uz_receivable z (toISOString t)"
  from guarded_Inr [OF a, of "\<lambda>u. validated B (uz_number z = Some (crd_value ?d) \<and> valid_receivable_dto ?d)
      (receivables_create (au_userId u) ?d)"]
  obtain u w' where u: "caller B s = Some u" "uz_number z = Some (crd_value ?d)" "valid_receivable_dto ?d"
      "receivables_create (au_userId u) ?d (b_api B) (s_world s) = (Inr x, w')"
    and s': "s' = s\<lparr>s_requests := s_requests s @ [sent B ''/receivables'' POST s], s_world := w'\<rparr>"
    by (auto simp: route_createReceivable_def validated_Inr)
  from receivables_create_InrD [OF u(4)] obtain r where r: "receivables w' = receivables (s_world s) @ [r]"
    "rr_id x = rcv_id r" "rcv_id r \<notin> rcv_id ` set (receivables (s_world s))" "rcv_userId r = au_userId u"
    "rcv_value r = crd_value ?d" "rcv_debtorName r = crd_debtorName ?d" "rcv_debtorDocument r = crd_debtorDocument ?d"
    "rcv_status r = RPending" "documents w' = documents (s_world s)"
    by blast
  have d: "0 < crd_value ?d" "crd_debtorName ?d = uz_debtorName z" "crd_debtorDocument ?d = uz_debtorDocument z"
    using u(3) by (simp_all add: valid_receivable_dto_def uz_receivable_def)
  show thesis
    by (rule that [OF u(1) _ r(2,3,4) u(2) d(1) r(5)]) (simp_all add: s' r d)
qed

lemma createDocument_Inr:
  assumes "createDocument z i B s = (Inr x, s')"
  shows "\<exists>d. documents (s_world s') = documents (s_world s) @ [d] \<and> doc_receivableId d = i \<and> doc_hash d = uz_customHash z
    \<and> receivables (s_world s') = upd_row rcv_id i (setDocumentHash (uz_customHash z)) (receivables (s_world s))"
proof -
  let ?d = "uz_document z i"
  from guarded_Inr [OF assms [unfolded createDocument_def], of "\<lambda>u. validated B (valid_document_dto (b_isUrl B) ?d)
      (documentsController_create i ?d)"]
  obtain w' where "documents_create (?d\<lparr>cd_receivableId := i\<rparr>) (b_api B) (s_world s) = (Inr x, w')"
    and "s_world s' = w'"
    by (auto simp: route_createDocument_def validated_Inr documentsController_create_def)
  from documents_create_InrD [OF this(1)] this(2) show ?thesis by (auto simp: uz_document_def)
qed

lemma handleSubmit_cases:
  assumes "handleSubmit z B s = (r, s')"
  obtains (skipped) "uz_incomplete z" and "r = Inr z" and "s' = s"
  | (refused) e where "createReceivable z B s = (Inl e, s')"
      and "r = Inr (z\<lparr>uz_errorMsg := Some (errorMessage e), uz_phase := UpError\<rparr>)"
  | (half) x t e where "createReceivable z B s = (Inr x, t)" and "createDocument z (rr_id x) B t = (Inl e, s')"
      and "r = Inr (z\<lparr>uz_errorMsg := Some (errorMessage e), uz_phase := UpError\<rparr>)"
  | (stored) x t y where "createReceivable z B s = (Inr x, t)" and "createDocument z (rr_id x) B t = (Inr y, s')"
      and "r = Inr (z\<lparr>uz_errorMsg := None, uz_phase := UpSuccess\<rparr>)"
proof (cases "uz_incomplete z")
  case True
  with assms skipped show thesis by (simp add: handleSubmit_def)
next
  case False
  show thesis
  proof (cases "createReceivable z B s")
    case (Pair a t)
    note c = Pair
    show thesis
    proof (cases a)
      case (Inl e)
      with c False assms refused show thesis by (simp add: handleSubmit_def Let_def catchM_def bindM_def)
    next
      case (Inr x)
      show thesis
      proof (cases "createDocument z (rr_id x) B t")
        case (Pair b u)
        with c Inr False assms half stored show thesis
          by (cases b) (simp_all add: handleSubmit_def Let_def catchM_def bindM_def)
      qed
    qed
  qed
qed

lemma handleSubmit_stored:
  assumes "handleSubmit z B s = (Inr z', s')" and "uz_phase z' = UpSuccess" and "uz_phase z \<noteq> UpSuccess"
  obtains x t y where "createReceivable z B s = (Inr x, t)" and "createDocument z (rr_id x) B t = (Inr y, s')"
  using assms(1)
proof (cases rule: handleSubmit_cases)
  case (stored x t y)
  then show thesis by (intro that)
qed (use assms(2,3) in simp_all)

lemma grows_row:
  assumes "grows receivable_evo a b" and "r \<in> set a"
  shows "\<exists>x \<in> set b. receivable_evo r x"
proof -
  from assms(2) obtain k where "k < length a" "r = a ! k" by (auto simp: in_set_conv_nth)
  with assms(1) show ?thesis by (auto simp: grows_def intro!: bexI [of _ "b ! k"])
qed

lemma grows_ids:
  assumes "grows receivable_evo a b"
  shows "rcv_id ` set a \<subseteq> rcv_id ` set b"
proof
  fix i
  assume "i \<in> rcv_id ` set a"
  then obtain r where "r \<in> set a" "i = rcv_id r" by auto
  moreover from this grows_row [OF assms] obtain x where "x \<in> set b" "receivable_evo r x" by blast
  ultimately show "i \<in> rcv_id ` set b" by (intro image_eqI [of _ _ x]) (simp_all add: receivable_evo_def)
qed

section \<open>Properties\<close>

text \<open>Formatting a CNPJ while it is typed keeps the first fourteen digits and nothing else of the input, a
  formatted text is a fixed point, and for a complete number it is the text the other pages show.\<close>

theorem formatCnpj_roundtrip:
  "filter is_digit (formatCnpj v) = take 14 (filter is_digit v) \<and> formatCnpj (formatCnpj v) = formatCnpj v
   \<and> (length (filter is_digit v) < 14 \<or> formatCnpj v = fmtCNPJ (take 14 (filter is_digit v)))"
proof -
  have d: "filter is_digit (formatCnpj v) = take 14 (filter is_digit v)"
    by (simp only: formatCnpj_def cnpj_text_digits [OF take_digits])
  moreover have "formatCnpj (formatCnpj v) = formatCnpj v"
    by (simp only: formatCnpj_def [of "formatCnpj v"] d) (simp add: formatCnpj_def)
  moreover have "formatCnpj v = fmtCNPJ (take 14 (filter is_digit v))" if "\<not> length (filter is_digit v) < 14"
    using fmtCNPJ_cnpj_text [OF _ take_digits, of 14 v] that by (simp add: formatCnpj_def)
  ultimately show ?thesis by blast
qed

text \<open>C32: When the upload form shows success, the signed-in company has exactly one new receivable, pending, with
  the debtor of the form and the positive number its value field denotes, and one new document, which
  carries the hash of the form, as does the receivable.\<close>

theorem upload_success:
  assumes "handleSubmit z B s = (Inr z', s')" and "uz_phase z' = UpSuccess" and "uz_phase z \<noteq> UpSuccess"
  shows "\<exists>u r d v. caller B s = Some u \<and> receivables (s_world s') = receivables (s_world s) @ [r]
    \<and> rcv_userId r = au_userId u \<and> uz_number z = Some v \<and> 0 < v \<and> rcv_value r = v
    \<and> rcv_debtorName r = uz_debtorName z \<and> rcv_debtorDocument r = uz_debtorDocument z \<and> rcv_status r = RPending
    \<and> rcv_documentHash r = Some (uz_customHash z) \<and> documents (s_world s') = documents (s_world s) @ [d]
    \<and> doc_receivableId d = rcv_id r \<and> doc_hash d = uz_customHash z"
  using assms
proof (rule handleSubmit_stored)
  fix x t y
  assume c: "createReceivable z B s = (Inr x, t)" and stored: "createDocument z (rr_id x) B t = (Inr y, s')"
  from c show ?thesis
  proof (rule createReceivable_Inr)
    fix u r v
    assume r: "caller B s = Some u" "receivables (s_world t) = receivables (s_world s) @ [r]" "rr_id x = rcv_id r"
      "rcv_id r \<notin> rcv_id ` set (receivables (s_world s))" "rcv_userId r = au_userId u" "uz_number z = Some v" "0 < v"
      "rcv_value r = v" "rcv_debtorName r = uz_debtorName z" "rcv_debtorDocument r = uz_debtorDocument z"
      "rcv_status r = RPending" "documents (s_world t) = documents (s_world s)"
    from r(4) have m: "upd_row rcv_id (rcv_id r) f (receivables (s_world s)) = receivables (s_world s)" for f
      by (intro upd_row_missing) (auto simp: find_row_None_iff)
    from createDocument_Inr [OF stored] r m show ?thesis
      by (intro exI [of _ u] exI [of _ "setDocumentHash (uz_customHash z) r"]) (auto simp: upd_row_def setDocumentHash_def)
  qed
qed

text \<open>A submission whose second request fails leaves the receivable in place and the form as it was, and sending
  the form again succeeds by entering the same invoice a second time: two receivables of the company with
  different identifiers and the same debtor and value.\<close>

theorem upload_retry_duplicates:
  assumes "createReceivable z B s = (Inr x, t)" and "createDocument z (rr_id x) B t = (Inl e, s1)"
    and "handleSubmit z B s = (Inr z1, s1)" and "\<not> uz_incomplete z"
    and "handleSubmit z1 B s1 = (Inr z2, s2)" and "uz_phase z2 = UpSuccess"
  shows "\<exists>a b. a \<in> set (receivables (s_world s2)) \<and> b \<in> set (receivables (s_world s2)) \<and> rcv_id a \<noteq> rcv_id b
    \<and> rcv_id a \<notin> rcv_id ` set (receivables (s_world s)) \<and> rcv_id b \<notin> rcv_id ` set (receivables (s_world s))
    \<and> rcv_debtorName a = rcv_debtorName b \<and> rcv_debtorDocument a = rcv_debtorDocument b \<and> rcv_value a = rcv_value b"
proof -
  from assms(1-4) have z1: "z1 = z\<lparr>uz_errorMsg := Some (errorMessage e), uz_phase := UpError\<rparr>"
    by (simp add: handleSubmit_def Let_def catchM_def bindM_def)
  have same: "uz_number z1 = uz_number z" "uz_debtorName z1 = uz_debtorName z" "uz_debtorDocument z1 = uz_debtorDocument z"
    by (simp_all add: z1 uz_number_def)
  obtain r v where r: "receivables (s_world t) = receivables (s_world s) @ [r]" "rcv_id r \<notin> rcv_id ` set (receivables (s_world s))"
    "uz_number z = Some v" "rcv_value r = v" "rcv_debtorName r = uz_debtorName z" "rcv_debtorDocument r = uz_debtorDocument z"
    using createReceivable_Inr [OF assms(1)] by metis
  obtain y t2 x2 where c2: "createReceivable z1 B s1 = (Inr y, t2)" and d2: "createDocument z1 (rr_id y) B t2 = (Inr x2, s2)"
    using assms(5,6) z1 by (auto elim: handleSubmit_stored)
  obtain q v2 where q: "receivables (s_world t2) = receivables (s_world s1) @ [q]" "rcv_id q \<notin> rcv_id ` set (receivables (s_world s1))"
    "uz_number z1 = Some v2" "rcv_value q = v2" "rcv_debtorName q = uz_debtorName z1" "rcv_debtorDocument q = uz_debtorDocument z1"
    using createReceivable_Inr [OF c2] by metis
  have g: "grows receivable_evo (receivables (s_world t)) (receivables (s_world s1))"
      "grows receivable_evo (receivables (s_world t2)) (receivables (s_world s2))"
    using keepsRD [OF upload_keeps(2) assms(2)] keepsRD [OF upload_keeps(2) d2]
    by (simp_all add: on_world_def sound_step_def evolves_def)
  obtain a1 where a1: "a1 \<in> set (receivables (s_world s1))" "receivable_evo r a1"
    using grows_row [OF g(1), of r] r(1) by auto
  obtain b where b: "b \<in> set (receivables (s_world s2))" "receivable_evo q b"
    using grows_row [OF g(2), of q] q(1) by auto
  obtain a where a: "a \<in> set (receivables (s_world s2))" "receivable_evo a1 a"
    using grows_row [OF g(2), of a1] q(1) a1(1) by auto
  have ids: "rcv_id ` set (receivables (s_world s)) \<subseteq> rcv_id ` set (receivables (s_world s1))" "rcv_id r \<in> rcv_id ` set (receivables (s_world s1))"
    using grows_ids [OF g(1)] r(1) by auto
  show ?thesis
    using a b a1 r q same ids by (intro exI [of _ a] exI [of _ b]) (auto simp: receivable_evo_def)
qed

end
