(* ===== verification/WebPages.thy ===== *)
theory WebPages
  imports WebForms
begin

text \<open>
  The pages around the financial flows: choice of the role and profile at the first visit
  (\<open>app/(auth)/onboarding/role\<close>, \<open>KycFlow\<close>), the account settings, the desk of the operator, the
  collections of a company, and the numbers the dashboards compute from the answers of the API. A page
  is a record of its React state; a handler returns the state it ends with.
\<close>

section \<open>Account\<close>

definition route_setRole :: "string \<Rightarrow> browser \<Rightarrow> headers \<Rightarrow> token_result api" where
  "route_setRole role B = guarded B (\<lambda>u. validated B (role = ''pme'' \<or> role = ''investor'') (setRole (au_userId u) role))"

definition route_updateMe :: "profile_dto \<Rightarrow> browser \<Rightarrow> headers \<Rightarrow> user api" where
  "route_updateMe d B = guarded B (\<lambda>u. validated B (valid_profile_dto d) (updateProfile (au_userId u) d))"

definition route_changePassword :: "string \<Rightarrow> string \<Rightarrow> browser \<Rightarrow> headers \<Rightarrow> string api" where
  "route_changePassword current new B = guarded B (\<lambda>u. validated B (current \<noteq> [] \<and> 8 \<le> length new)
     (changePassword (au_userId u) current new))"

text \<open>The mutation of \<open>useSetRole\<close> stores the new token before the callbacks of the page run.\<close>

definition useSetRole :: "string \<Rightarrow> token_result web" where
  "useSetRole role =
     bindM (answerM (apiFetch (route_setRole role) ''/auth/me/role'' PATCH)) (\<lambda>data.
     bindM (setAccessToken (tr_accessToken data)) (\<lambda>_.
     retM data))"

datatype onboarding_step = RoleStep | KycStep

record role_page =
  rp_role :: string
  rp_step :: onboarding_step
  rp_error :: "string option"

definition dashFor :: "string \<Rightarrow> unit web" where
  "dashFor r = modifyM (\<lambda>s. s\<lparr>s_path := (if r = ''pme'' then ''/pme/dashboard'' else ''/investor/dashboard'')\<rparr>)"

definition role_handleSubmit :: "role_page \<Rightarrow> role_page web" where
  "role_handleSubmit p =
     (let p' = p\<lparr>rp_error := None\<rparr> in
      catchM
        (bindM (useSetRole (rp_role p)) (\<lambda>_.
         if rp_role p = ''pme'' then retM (p'\<lparr>rp_step := KycStep\<rparr>)
         else bindM (dashFor (rp_role p)) (\<lambda>_. retM p')))
        (\<lambda>e. retM (p'\<lparr>rp_error := Some (orText (extractApiErrorMessage e) ''Erro ao definir perfil'')\<rparr>)))"

text \<open>\<open>x || undefined\<close> for a text.\<close>

definition orUndefined :: "string \<Rightarrow> string option option" where
  "orUndefined s = (if s = [] then None else Some (Some s))"

definition no_profile :: profile_dto where
  "no_profile = \<lparr>pf_name = None, pf_phone = None, pf_address = None, pf_companyName = None, pf_cnpj = None,
     pf_monthlyRevenue = None, pf_sector = None, pf_investorType = None, pf_riskProfile = None, pf_operationalLimit = None\<rparr>"

definition MONTHLY_REVENUE_MAP :: "string \<Rightarrow> rat option" where
  "MONTHLY_REVENUE_MAP = map_of [(''500k-2m'', 1000000), (''2m-10m'', 6000000)]"

record kyc_flow =
  ky_name :: string
  ky_phone :: string
  ky_companyName :: string
  ky_cnpj :: string
  ky_revenueKey :: string
  ky_sector :: string
  ky_error :: "string option"
  ky_isSubmitting :: bool

definition kyc_profile :: "kyc_flow \<Rightarrow> profile_dto" where
  "kyc_profile k = no_profile\<lparr>pf_name := orUndefined (ky_name k), pf_phone := orUndefined (ky_phone k),
     pf_companyName := orUndefined (ky_companyName k), pf_cnpj := orUndefined (ky_cnpj k),
     pf_monthlyRevenue := map_option Some (MONTHLY_REVENUE_MAP (ky_revenueKey k)), pf_sector := Some (Some (ky_sector k))\<rparr>"

text \<open>The second component says whether \<open>onDone\<close> was called, which opens the dashboard.\<close>

definition handleFinish :: "kyc_flow \<Rightarrow> (kyc_flow \<times> bool) web" where
  "handleFinish k = catchM
     (bindM (apiFetch (route_updateMe (kyc_profile k)) ''/auth/me'' PATCH) (\<lambda>_.
      retM (k\<lparr>ky_error := None, ky_isSubmitting := False\<rparr>, True)))
     (\<lambda>_. retM (k\<lparr>ky_error := Some ''Erro ao salvar perfil. Tente novamente.'', ky_isSubmitting := False\<rparr>, False))"

record settings_page =
  se_name :: string
  se_phone :: string
  se_address :: string
  se_companyName :: string
  se_cnpj :: string
  se_monthlyRevenue :: string
  se_sector :: string
  se_investorType :: string
  se_riskProfile :: string
  se_operationalLimit :: string
  se_currentPassword :: string
  se_newPassword :: string
  se_confirmPassword :: string
  se_passwordError :: "string option"
  se_toast :: "string option"

text \<open>The number inputs hold an empty text or a text that denotes a number.\<close>

definition buildProfilePayload :: "settings_page \<Rightarrow> profile_dto" where
  "buildProfilePayload p = no_profile\<lparr>pf_name := orUndefined (trim (se_name p)),
     pf_phone := orUndefined (trim (se_phone p)), pf_address := orUndefined (trim (se_address p))\<rparr>"

definition buildPmePayload :: "settings_page \<Rightarrow> profile_dto" where
  "buildPmePayload p = no_profile\<lparr>pf_companyName := orUndefined (trim (se_companyName p)),
     pf_cnpj := orUndefined (trim (se_cnpj p)),
     pf_monthlyRevenue := (if se_monthlyRevenue p = [] then None else Some (parse_float (se_monthlyRevenue p))),
     pf_sector := orUndefined (se_sector p)\<rparr>"

definition buildInvestorPayload :: "settings_page \<Rightarrow> profile_dto" where
  "buildInvestorPayload p = no_profile\<lparr>pf_investorType := orUndefined (se_investorType p),
     pf_riskProfile := orUndefined (se_riskProfile p),
     pf_operationalLimit := (if se_operationalLimit p = [] then None else Some (parse_float (se_operationalLimit p)))\<rparr>"

definition saveProfile :: "profile_dto \<Rightarrow> string \<Rightarrow> settings_page \<Rightarrow> settings_page web" where
  "saveProfile d ok p = catchM
     (bindM (apiFetch (route_updateMe d) ''/auth/me'' PATCH) (\<lambda>_. retM (p\<lparr>se_toast := Some ok\<rparr>)))
     (\<lambda>e. retM (p\<lparr>se_toast := Some (extractApiErrorMessage e)\<rparr>))"

definition handleSaveProfile :: "settings_page \<Rightarrow> settings_page web" where
  "handleSaveProfile p = saveProfile (buildProfilePayload p) ''Perfil salvo'' p"

definition handleSavePme :: "settings_page \<Rightarrow> settings_page web" where
  "handleSavePme p = saveProfile (buildPmePayload p) ''Dados da empresa salvos'' p"

definition handleSaveInvestor :: "settings_page \<Rightarrow> settings_page web" where
  "handleSaveInvestor p = saveProfile (buildInvestorPayload p) ''Perfil de investidor salvo'' p"

definition handleChangePassword :: "settings_page \<Rightarrow> settings_page web" where
  "handleChangePassword p =
     (if length (se_newPassword p) < 8
      then retM (p\<lparr>se_passwordError := Some ''Nova senha deve ter ao menos 8 caracteres.''\<rparr>)
      else if se_newPassword p \<noteq> se_confirmPassword p
      then retM (p\<lparr>se_passwordError := Some ''As senhas nao coincidem.''\<rparr>)
      else catchM
        (bindM (apiFetch (route_changePassword (se_currentPassword p) (se_newPassword p)) ''/auth/me/password'' PATCH) (\<lambda>_.
         retM (p\<lparr>se_passwordError := None, se_toast := Some ''Senha atualizada'', se_currentPassword := [],
           se_newPassword := [], se_confirmPassword := []\<rparr>)))
        (\<lambda>e. retM (p\<lparr>se_passwordError := Some (extractApiErrorMessage e)\<rparr>)))"

section \<open>Desk of the operator\<close>

record operator_page =
  ow_processingId :: "string option"
  ow_viewing :: "string option"
  ow_createDepositOpen :: bool
  ow_selectedInvestorId :: string
  ow_depositAmount :: string
  ow_creatingDeposit :: bool
  ow_toast :: "(string \<times> bool) option"

definition route_approveReceivable :: "string \<Rightarrow> browser \<Rightarrow> headers \<Rightarrow> receivable_response api" where
  "route_approveReceivable i B = guarded B (\<lambda>u. adminController_approveReceivable u i)"

definition route_rejectReceivable :: "string \<Rightarrow> browser \<Rightarrow> headers \<Rightarrow> receivable api" where
  "route_rejectReceivable i B = guarded B (\<lambda>u. adminController_rejectReceivable u i)"

definition route_approveTransaction :: "string \<Rightarrow> approve_status \<Rightarrow> browser \<Rightarrow> headers \<Rightarrow> ptransaction api" where
  "route_approveTransaction i st B = guarded B (\<lambda>u. adminController_approveTransaction u i st)"

text \<open>The route \<open>/pix/deposits\<close> has no guard.\<close>

definition route_createDeposit :: "string \<Rightarrow> rat \<Rightarrow> browser \<Rightarrow> headers \<Rightarrow> (ptransaction \<times> pix_order) api" where
  "route_createDeposit userId amount B hs =
     (let d = \<lparr>pd_userId = userId, pd_amount = amount, pd_description = None, pd_expiresInSeconds = None, pd_metadata = []\<rparr>
      in validated B (valid_pix_deposit d) (pixController_createDeposit d))"

text \<open>A handler of the desk: the action, its two toasts, and what a success changes.\<close>

definition deskAction :: "'a option web \<Rightarrow> string \<Rightarrow> string \<Rightarrow> (operator_page \<Rightarrow> operator_page) \<Rightarrow> operator_page \<Rightarrow>
    operator_page web" where
  "deskAction m ok failed f p = catchM
     (bindM m (\<lambda>_. retM (f (p\<lparr>ow_processingId := None, ow_toast := Some (ok, True)\<rparr>))))
     (\<lambda>_. retM (p\<lparr>ow_processingId := None, ow_toast := Some (failed, False)\<rparr>))"

definition handleApproveReceivable :: "string \<Rightarrow> operator_page \<Rightarrow> operator_page web" where
  "handleApproveReceivable i = deskAction
     (apiFetch (route_approveReceivable i) (''/admin/receivables/'' @ i @ ''/approve'') PATCH)
     ''Invoice validated and made available successfully!'' ''Failed to approve receivable.'' (\<lambda>p. p\<lparr>ow_viewing := None\<rparr>)"

definition handleRejectReceivable :: "string \<Rightarrow> operator_page \<Rightarrow> operator_page web" where
  "handleRejectReceivable i = deskAction
     (apiFetch (route_rejectReceivable i) (''/admin/receivables/'' @ i @ ''/reject'') PATCH)
     ''Receivable rejected successfully.'' ''Failed to reject receivable.'' (\<lambda>p. p\<lparr>ow_viewing := None\<rparr>)"

definition handleApproveTransaction :: "string \<Rightarrow> approve_status \<Rightarrow> operator_page \<Rightarrow> operator_page web" where
  "handleApproveTransaction i st = deskAction
     (apiFetch (route_approveTransaction i st) (''/admin/transactions/'' @ i @ ''/approve'') POST)
     (if st = ApproveIt then ''Transaction approved and settled on-chain via Stellar!'' else ''Transaction rejected successfully.'')
     ''Failed to process pool action.'' (\<lambda>p. p)"

definition handleCreateDeposit :: "operator_page \<Rightarrow> operator_page web" where
  "handleCreateDeposit p =
     (if ow_selectedInvestorId p = [] \<or> ow_depositAmount p = []
      then retM (p\<lparr>ow_toast := Some (''Select an investor and set the amount.'', False)\<rparr>)
      else case parse_float (ow_depositAmount p) of
        None \<Rightarrow> retM (p\<lparr>ow_toast := Some (''Enter a valid numeric amount greater than zero.'', False)\<rparr>)
      | Some amount \<Rightarrow>
          if amount \<le> 0 then retM (p\<lparr>ow_toast := Some (''Enter a valid numeric amount greater than zero.'', False)\<rparr>)
          else catchM
            (bindM (apiFetch (route_createDeposit (ow_selectedInvestorId p) amount) ''/pix/deposits'' POST) (\<lambda>_.
             retM (p\<lparr>ow_toast := Some (''Deposit order created successfully for the investor!'', True),
               ow_createDepositOpen := False, ow_selectedInvestorId := [], ow_depositAmount := [], ow_creatingDeposit := False\<rparr>)))
            (\<lambda>_. retM (p\<lparr>ow_toast := Some (''Failed to create deposit order.'', False), ow_creatingDeposit := False\<rparr>)))"

section \<open>Collections and dashboards\<close>

record collections_page =
  cp_selected :: "(collection \<times> string \<times> string) option"
  cp_isRetrying :: bool
  cp_toast :: "(string \<times> bool) option"

definition route_retryCollection :: "string \<Rightarrow> browser \<Rightarrow> headers \<Rightarrow> (collection \<times> string \<times> string) api" where
  "route_retryCollection i B = guarded B (\<lambda>u. retryCollectionOrder i (au_userId u))"

definition handleRetryCollection :: "string \<Rightarrow> collections_page \<Rightarrow> collections_page web" where
  "handleRetryCollection i p = catchM
     (bindM (apiFetch (route_retryCollection i) (''/pix/collections/'' @ i @ ''/retry'') POST) (\<lambda>updated.
      retM (p\<lparr>cp_selected := updated, cp_isRetrying := False,
        cp_toast := Some (''Cobranca Pix gerada com sucesso!'', True)\<rparr>)))
     (\<lambda>e. retM (p\<lparr>cp_isRetrying := False,
        cp_toast := Some (orText (errorMessage e) ''Falha ao gerar cobranca Pix.'', False)\<rparr>))"

fun collection_status_string :: "collection_status \<Rightarrow> string" where
  "collection_status_string CPendingPayment = ''PENDING_PAYMENT''"
| "collection_status_string CPaid = ''PAID''"

definition pendingCollections :: "collection list \<Rightarrow> collection list" where
  "pendingCollections cs = filter (\<lambda>c. let status = toLowerCase (collection_status_string (col_status c)) in
     status = ''pending'' \<or> status = ''pending_payment'') cs"

definition owedValue :: "collection list \<Rightarrow> rat" where
  "owedValue cs = foldl (\<lambda>sum c. js_add sum (col_amount c)) 0 (pendingCollections cs)"

definition nextDueDate :: "collection list \<Rightarrow> int option" where
  "nextDueDate cs = foldl (\<lambda>earliest c. case earliest of
       None \<Rightarrow> Some (col_dueDate c)
     | Some d \<Rightarrow> if col_dueDate c < d then Some (col_dueDate c) else Some d) None (pendingCollections cs)"

definition analysisValue :: "receivable_response list \<Rightarrow> rat" where
  "analysisValue rs = foldl (\<lambda>sum r. js_add sum (rr_value r)) 0
     (filter (\<lambda>r. rr_status r = RPending \<or> rr_status r = RValidated) rs)"

definition daysUntil :: "int \<Rightarrow> int \<Rightarrow> int" where
  "daysUntil today due = math_round (js_div (of_int (due - today)) 86400000)"

text \<open>The deposits the investor's dashboard lists, the label of each, and the button it offers.\<close>

datatype deposit_label = AwaitingPix | PixSent | ReleasedOnChain

datatype deposit_button = MakePixPayment | AwaitingReconciliation | FinalizeContribution

definition activeDeposits :: "ptransaction list \<Rightarrow> ptransaction list" where
  "activeDeposits ts = filter (\<lambda>t. ptx_type t = ''DEPOSIT'' \<and> ptx_status t \<noteq> TCompleted \<and> ptx_status t \<noteq> TRejected) ts"

definition depositLabel :: "ptransaction \<Rightarrow> deposit_label" where
  "depositLabel t = (if ptx_status t = TPendingPayment then AwaitingPix
     else if ptx_status t = TPaymentSubmitted then PixSent else ReleasedOnChain)"

definition depositButton :: "ptransaction \<Rightarrow> deposit_button option" where
  "depositButton t = (if ptx_status t = TPendingPayment then Some MakePixPayment
     else if ptx_status t = TPaymentSubmitted then Some AwaitingReconciliation
     else if ptx_status t = TApproved then Some FinalizeContribution else None)"

section \<open>Properties\<close>

lemma apiFetch_Some:
  assumes "apiFetch route path options B s = (Inr v, s')"
  obtains a where "v = Some a" and "answerM (apiFetch route path options) B s = (Inr a, s')"
  using assms that by (cases rule: apiFetch_cases [of route path options B s]) (auto simp: answerM_Inr)

lemma pages_steps [keeps]:
  "keepsR sound_step (route_setRole role B hs)" "keepsR sound_step (route_updateMe d B hs)"
  "keepsR sound_step (route_changePassword x y B hs)" "keepsR sound_step (route_approveReceivable i B hs)"
  "keepsR sound_step (route_rejectReceivable i B hs)" "keepsR sound_step (route_approveTransaction i st B hs)"
  "keepsR sound_step (route_createDeposit i am B hs)" "keepsR sound_step (route_retryCollection i B hs)"
  unfolding route_setRole_def route_updateMe_def route_changePassword_def route_approveReceivable_def
    route_rejectReceivable_def route_approveTransaction_def route_createDeposit_def route_retryCollection_def Let_def
    adminController_approveReceivable_def adminController_rejectReceivable_def adminController_approveTransaction_def
    pixController_createDeposit_def
  by (intro keeps)+

lemma pendingCollections_eq: "pendingCollections cs = filter (\<lambda>c. col_status c = CPendingPayment) cs"
proof -
  have "toLowerCase ''PENDING_PAYMENT'' = ''pending_payment''" "toLowerCase ''PAID'' = ''paid''" by code_simp+
  then have "(let status = toLowerCase (collection_status_string (col_status c)) in
      status = ''pending'' \<or> status = ''pending_payment'') = (col_status c = CPendingPayment)" for c :: collection
    by (cases "col_status c") (simp_all add: Let_def)
  then show ?thesis by (simp add: pendingCollections_def)
qed

lemma earliest_fold:
  "foldl (\<lambda>earliest c. case earliest of None \<Rightarrow> Some (f c) | Some d \<Rightarrow> if f c < d then Some (f c) else Some d) (Some d) cs
    = Some (Min (insert d (f ` set cs)))" for f :: "'a \<Rightarrow> int"
proof (induction cs arbitrary: d)
  case (Cons c cs)
  have "Min (insert d (insert (f c) (f ` set cs))) = Min (insert (min d (f c)) (f ` set cs))"
    by (cases "cs = []") (simp_all add: Min_insert min.assoc)
  with Cons.IH show ?case by (simp add: min_def)
qed simp

text \<open>The due date on the company's dashboard is the earliest due date of its unpaid collections, and there is
  none exactly when every collection is paid.\<close>

theorem nextDueDate_min:
  "let unpaid = filter (\<lambda>c. col_status c = CPendingPayment) cs in
   nextDueDate cs = (if unpaid = [] then None else Some (Min (col_dueDate ` set unpaid)))"
  unfolding nextDueDate_def pendingCollections_eq Let_def
  by (cases "filter (\<lambda>c. col_status c = CPendingPayment) cs") (simp_all add: earliest_fold del: Min_insert)

lemma order_ended:
  assumes "orderEffects dto E w = (Inr u, w')" and "wh_status dto = ''FAILED'' \<or> wh_status dto = ''EXPIRED''"
    and "find_row ptx_id (wh_externalId dto) (ptransactions w) = Some t"
  shows "\<exists>t'. find_row ptx_id (wh_externalId dto) (ptransactions w') = Some t' \<and> ptx_type t' = ptx_type t
    \<and> (ptx_status t' = TFailed \<or> ptx_status t' = TExpired)"
proof -
  have i: "ptx_id t = wh_externalId dto" using assms(3) by (auto dest: find_row_SomeD)
  from assms obtain c w1 t1 w2 f w3 t2 x l where d: "dateM (wh_confirmedAt dto) E w = (Inr c, w1)"
    and p: "ptx_update (wh_externalId dto) (ptx_setCallback dto c) E w1 = (Inr t1, w2)"
    and q: "ptx_update (wh_externalId dto) f E w2 = (Inr t2, w3)" and f: "f = ptx_setStatus TExpired \<or> (\<exists>m. f = ptx_setFailed m)"
    and l: "auditCreate x E w3 = (Inr l, w')"
    unfolding orderEffects_def handleOrderFailed_def handleOrderExpired_def
    by (auto simp: i elim!: bindM_InrE split: if_splits) blast
  have "ptransactions w1 = ptransactions w"
    using d by (auto simp: dateM_def elim!: bindM_InrE split: if_splits option.splits)
  moreover have "ptransactions w2 = upd_row ptx_id (wh_externalId dto) (ptx_setCallback dto c) (ptransactions w1)"
    "ptransactions w3 = upd_row ptx_id (wh_externalId dto) f (ptransactions w2)"
    using p q by (auto simp: ptx_update_def elim!: tptransactions.tab_update_Inr)
  moreover note sameD' [OF auditCreate_frames(7), OF l]
  ultimately show ?thesis
    using assms(3) f by (auto simp: find_row_upd_row ptx_setStatus_def ptx_setFailed_def ptx_setCallback_def)
qed

text \<open>When a callback reports that the Pix order of a deposit failed or expired, the dashboard of the investor
  keeps the deposit among the active ones, labels it as released on chain, and offers no button for it.\<close>

theorem failed_deposit_shown_released:
  assumes "orderEffects dto E w = (Inr u, w')" and "wh_status dto = ''FAILED'' \<or> wh_status dto = ''EXPIRED''"
    and "find_row ptx_id (wh_externalId dto) (ptransactions w) = Some t" and "ptx_type t = ''DEPOSIT''"
  shows "\<exists>t'. t' \<in> set (activeDeposits (ptransactions w')) \<and> ptx_id t' = ptx_id t
    \<and> depositLabel t' = ReleasedOnChain \<and> depositButton t' = None"
  using order_ended [OF assms(1-3)] assms(3,4)
  by (fastforce simp: activeDeposits_def depositLabel_def depositButton_def dest: find_row_SomeD)

lemma useSetRole_Inr:
  assumes "useSetRole role B s = (Inr d, s')" and "b_storage B" and "role \<noteq> []"
  shows "\<exists>u x. caller B s = Some u \<and> find_row usr_id (au_userId u) (users (s_world s)) = Some x \<and> falsy (usr_role x)
    \<and> users (s_world s') = upd_row usr_id (au_userId u) (\<lambda>y. y\<lparr>usr_role := Some role\<rparr>) (users (s_world s))
    \<and> s_token s' = Some (e_jwtSign (b_api B) (au_userId u) (usr_email x) (Some role))"
proof -
  from assms(1,2) obtain s1 where a: "answerM (apiFetch (route_setRole role) ''/auth/me/role'' PATCH) B s = (Inr d, s1)"
    and s': "s' = s1\<lparr>s_token := Some (tr_accessToken d)\<rparr>"
    unfolding useSetRole_def by (auto elim!: bindM_InrE)
  from guarded_Inr [OF a, of "\<lambda>u. validated B (role = ''pme'' \<or> role = ''investor'') (setRole (au_userId u) role)"]
  obtain u w' where u: "caller B s = Some u" and r: "setRole (au_userId u) role (b_api B) (s_world s) = (Inr d, w')"
    and s1: "s_world s1 = w'"
    by (auto simp: route_setRole_def validated_Inr)
  from setRole_InrD [OF r assms(3)] obtain x where x: "find_row usr_id (au_userId u) (users (s_world s)) = Some x" "falsy (usr_role x)"
    "users w' = upd_row usr_id (au_userId u) (\<lambda>y. y\<lparr>usr_role := Some role\<rparr>) (users (s_world s))"
    "tr_id d = au_userId u" "tr_role d = Some role" by blast
  have "usr_id x = au_userId u" using x(1) by (auto dest: find_row_SomeD)
  then have "tr_accessToken d = e_jwtSign (b_api B) (au_userId u) (usr_email x) (Some role)"
    using r x(1) unfolding setRole_def findUserOrThrow_def
    by (auto elim!: bindM_InrE dest!: throwIf_InrD someOr_InrD user_update_Inr
        simp: findUniqueM_def getsM_def tokenFor_def issueToken_def asksM_def)
  with u x s' s1 show ?thesis by auto
qed

text \<open>When the page of the first visit accepts a role, the signed-in user had none, has the chosen one now, and
  the stored token is the one the API signed for this user with this role; a company goes on to the
  profile, an investor to the dashboard.\<close>

theorem role_selection_success:
  assumes "role_handleSubmit p B s = (Inr p', s')" and "rp_error p' = None" and "b_storage B" and "rp_role p \<noteq> []"
  shows "\<exists>u x. caller B s = Some u \<and> find_row usr_id (au_userId u) (users (s_world s)) = Some x \<and> falsy (usr_role x)
    \<and> users (s_world s') = upd_row usr_id (au_userId u) (\<lambda>y. y\<lparr>usr_role := Some (rp_role p)\<rparr>) (users (s_world s))
    \<and> s_token s' = Some (e_jwtSign (b_api B) (au_userId u) (usr_email x) (Some (rp_role p)))
    \<and> (if rp_role p = ''pme'' then rp_step p' = KycStep else s_path s' = ''/investor/dashboard'')"
proof (cases "useSetRole (rp_role p) B s")
  case (Pair q t)
  show ?thesis
  proof (cases q)
    case (Inl e)
    with Pair assms(1,2) show ?thesis by (auto simp: role_handleSubmit_def Let_def catchM_def bindM_def)
  next
    case (Inr d)
    with Pair have run: "useSetRole (rp_role p) B s = (Inr d, t)" by simp
    from useSetRole_Inr [OF run assms(3,4)] assms(1) run show ?thesis
      by (auto simp: role_handleSubmit_def Let_def catchM_def bindM_def dashFor_def split: if_splits)
  qed
qed

lemma updateMe_outcome:
  assumes "apiFetch (route_updateMe d) path PATCH B s = (q, s')"
  shows "users (s_world s') = users (s_world s) \<or> (\<exists>u. caller B s = Some u
    \<and> users (s_world s') = upd_row usr_id (au_userId u) (setProfile d) (users (s_world s)))"
proof -
  let ?hs = "snd (snd (sent B path PATCH s))"
  have k: "users w' = users (s_world s) \<or> (\<exists>u. caller B s = Some u
      \<and> users w' = upd_row usr_id (au_userId u) (setProfile d) (users (s_world s)))"
    if "route_updateMe d B ?hs (b_api B) (s_world s) = (x, w')" for x w'
    using that by (auto simp: route_updateMe_def guarded_def sent_caller validated_def updateProfile_def user_update_def
        updateM_def bindM_def split: option.splits if_splits sum.splits prod.splits)
  from assms k [OF prod.collapse [symmetric]] show ?thesis
    by (cases rule: apiFetch_cases [of "route_updateMe d" path PATCH B s]) (auto dest: k)
qed

lemma saveProfile_outcome:
  assumes "saveProfile d ok p B s = (q, s')"
  shows "users (s_world s') = users (s_world s) \<or> (\<exists>u. caller B s = Some u
    \<and> users (s_world s') = upd_row usr_id (au_userId u) (setProfile d) (users (s_world s)))"
proof (cases "apiFetch (route_updateMe d) ''/auth/me'' PATCH B s")
  case (Pair x t)
  with assms have "s' = t"
    by (cases x) (auto simp: saveProfile_def catchM_def bindM_def)
  with updateMe_outcome [OF Pair] show ?thesis by simp
qed

text \<open>Saving a section of the settings changes, if anything, the profile of the signed-in user, and there only
  the fields of the section that the form fills: a blank field keeps the stored value.\<close>

theorem settings_save:
  assumes "handleSaveProfile p B s = (q, s')"
  shows "users (s_world s') = users (s_world s) \<or> (\<exists>u. caller B s = Some u
    \<and> users (s_world s') = upd_row usr_id (au_userId u) (\<lambda>x. x\<lparr>
        usr_name := (if trim (se_name p) = [] then usr_name x else Some (trim (se_name p))),
        usr_phone := (if trim (se_phone p) = [] then usr_phone x else Some (trim (se_phone p))),
        usr_address := (if trim (se_address p) = [] then usr_address x else Some (trim (se_address p)))\<rparr>)
      (users (s_world s)))"
proof -
  have "setProfile (buildProfilePayload p) = (\<lambda>x. x\<lparr>
        usr_name := (if trim (se_name p) = [] then usr_name x else Some (trim (se_name p))),
        usr_phone := (if trim (se_phone p) = [] then usr_phone x else Some (trim (se_phone p))),
        usr_address := (if trim (se_address p) = [] then usr_address x else Some (trim (se_address p)))\<rparr>)"
    by (rule ext) (simp add: setProfile_def buildProfilePayload_def no_profile_def orUndefined_def written_def)
  with saveProfile_outcome [OF assms [unfolded handleSaveProfile_def]] show ?thesis by simp
qed

lemma changePassword_InrD:
  assumes "changePassword i current new E w = (Inr x, w')"
  shows "\<exists>u h tr tr' h'. find_row usr_id i (users w) = Some u \<and> usr_passwordHash u = Some h
    \<and> e_bcryptCompare E tr current h = Inr True \<and> e_bcryptHash E tr' new = Inr h'
    \<and> users w' = upd_row usr_id i (\<lambda>y. y\<lparr>usr_passwordHash := Some h'\<rparr>) (users w)"
proof -
  from assms obtain u w1 h' w2 y w3 where u: "find_row usr_id i (users w) = Some u" "\<not> falsy (usr_passwordHash u)"
    and c: "bcryptCompare current (the (usr_passwordHash u)) E w = (Inr True, w1)"
    and h: "bcryptHash new E w1 = (Inr h', w2)"
    and p: "user_update i (\<lambda>z. z\<lparr>usr_passwordHash := Some h'\<rparr>) E w2 = (Inr y, w3)" and w: "w' = w3"
    unfolding changePassword_def findUserOrThrow_def
    by (auto elim!: bindM_InrE dest!: throwIf_InrD someOr_InrD simp: findUniqueM_def getsM_def) blast
  from c h have "\<exists>tr. e_bcryptCompare E tr current (the (usr_passwordHash u)) = Inr True" "\<exists>tr. e_bcryptHash E tr new = Inr h'"
    "users w2 = users w"
    by (auto simp: bcryptCompare_def bcryptHash_def callM_def callW_def split: sum.splits)
  with u user_update_Inr [OF p] w show ?thesis by (auto elim!: not_falsyE) blast+
qed

text \<open>The settings page reports a changed password only if the new one has at least eight characters and was
  typed twice alike, the current one matched the stored hash of the signed-in user, and the hash of the
  new one is stored for this user.\<close>

theorem handleChangePassword_success:
  assumes "handleChangePassword p B s = (Inr p', s')" and "se_passwordError p' = None"
  shows "8 \<le> length (se_newPassword p) \<and> se_newPassword p = se_confirmPassword p
    \<and> (\<exists>c u h tr tr' h'. caller B s = Some c \<and> find_row usr_id (au_userId c) (users (s_world s)) = Some u
      \<and> usr_passwordHash u = Some h \<and> e_bcryptCompare (b_api B) tr (se_currentPassword p) h = Inr True
      \<and> e_bcryptHash (b_api B) tr' (se_newPassword p) = Inr h'
      \<and> users (s_world s') = upd_row usr_id (au_userId c) (\<lambda>y. y\<lparr>usr_passwordHash := Some h'\<rparr>) (users (s_world s)))"
proof -
  have n: "8 \<le> length (se_newPassword p)" "se_newPassword p = se_confirmPassword p"
    using assms by (auto simp: handleChangePassword_def split: if_splits)
  let ?r = "route_changePassword (se_currentPassword p) (se_newPassword p)"
  have "\<exists>x. answerM (apiFetch ?r ''/auth/me/password'' PATCH) B s = (Inr x, s')"
  proof (cases "apiFetch ?r ''/auth/me/password'' PATCH B s")
    case (Pair q t)
    then show ?thesis
      using assms n by (cases q) (auto simp: handleChangePassword_def catchM_def bindM_def elim!: apiFetch_Some)
  qed
  then obtain x where a: "answerM (apiFetch ?r ''/auth/me/password'' PATCH) B s = (Inr x, s')" by blast
  from guarded_Inr [OF a, of "\<lambda>u. validated B (se_currentPassword p \<noteq> [] \<and> 8 \<le> length (se_newPassword p))
      (changePassword (au_userId u) (se_currentPassword p) (se_newPassword p))"]
  obtain c w' where c: "caller B s = Some c"
    "changePassword (au_userId c) (se_currentPassword p) (se_newPassword p) (b_api B) (s_world s) = (Inr x, w')" "s_world s' = w'"
    by (auto simp: route_changePassword_def validated_Inr)
  from changePassword_InrD [OF c(2)] c(1,3) n show ?thesis by blast
qed

lemma createDepositOrder_InrD:
  assumes "createDepositOrder d op E w = (Inr r, w')"
  shows "\<exists>t. map ptx_id (ptransactions w') = map ptx_id (ptransactions w) @ [ptx_id t]
    \<and> find_row ptx_id (ptx_id t) (ptransactions w') = Some t \<and> ptx_userId t = pd_userId d \<and> ptx_type t = ''DEPOSIT''
    \<and> ptx_amount t = pd_amount d \<and> ptx_status t = TPendingPayment \<and> has_user w (pd_userId d)"
proof -
  from assms obtain t w1 l w2 o' w3 e w4 t' x y where u: "find_row usr_id (pd_userId d) (users w) \<noteq> None"
    and t: "ptx_create (pd_userId d) ''DEPOSIT'' (pd_amount d) TPendingPayment None None E w = (Inr t, w1)"
    and l: "auditCreate x E w1 = (Inr l, w2)" and p: "createDeposit y E w2 = (Inr o', w3)"
    and q: "dateM (po_expiresAt o') E w3 = (Inr e, w4)"
    and z: "ptx_update (ptx_id t) (ptx_setDepositOrder o' e) E w4 = (Inr t', w')"
    unfolding createDepositOrder_def Let_def
    by (auto elim!: bindM_InrE dest!: throwIf_InrD simp: findUniqueM_def getsM_def confM_def asksM_def)
  have w4: "ptransactions w4 = ptransactions w1"
    using q sameD' [OF auditCreate_frames(7), OF l] sameD' [OF createDeposit.call_frames(7), OF p]
    by (auto simp: dateM_def elim!: bindM_InrE split: if_splits option.splits)
  have w': "ptransactions w' = upd_row ptx_id (ptx_id t) (ptx_setDepositOrder o' e) (ptransactions w4)"
    using z by (auto simp: ptx_update_def elim!: tptransactions.tab_update_Inr)
  note c = ptx_create_Inr [OF t] and i = tptransactions.tab_create_Inr(2) [OF t [unfolded ptx_create_def]]
  have keys: "map ptx_id (ptransactions w') = map ptx_id (ptransactions w) @ [ptx_id t]"
    unfolding w' w4 using c by (subst map_key_upd_row) (simp_all add: ptx_setDepositOrder_def)
  have f: "find_row ptx_id (ptx_id t) (ptransactions w') = Some (ptx_setDepositOrder o' e t)"
    unfolding w' w4 using c i by (simp add: find_row_upd_row find_row_append find_row_None_iff [THEN iffD2] find_row_Cons ptx_setDepositOrder_def)
  show ?thesis
    using keys f c u by (intro exI [of _ "ptx_setDepositOrder o' e t"]) (simp add: ptx_setDepositOrder_def has_user_def)
qed

text \<open>The operator's form for deposits sends nothing unless an investor is chosen and the amount denotes a
  positive number. When it reports success, one new deposit waits for payment, of exactly this amount and
  for exactly this user.\<close>

theorem operator_deposit_outcome:
  assumes "handleCreateDeposit p B s = (Inr p', s')"
  shows "s' = s \<and> (\<exists>m. ow_toast p' = Some (m, False)) \<or>
    (\<exists>amount. parse_float (ow_depositAmount p) = Some amount \<and> 0 < amount \<and> ow_selectedInvestorId p \<noteq> []
      \<and> ((\<exists>m. ow_toast p' = Some (m, False)) \<or>
         (\<exists>t. map ptx_id (ptransactions (s_world s')) = map ptx_id (ptransactions (s_world s)) @ [ptx_id t]
          \<and> find_row ptx_id (ptx_id t) (ptransactions (s_world s')) = Some t \<and> ptx_amount t = amount
          \<and> ptx_userId t = ow_selectedInvestorId p \<and> ptx_type t = ''DEPOSIT'' \<and> ptx_status t = TPendingPayment
          \<and> has_user (s_world s) (ow_selectedInvestorId p))))"
proof (cases "\<exists>amount. parse_float (ow_depositAmount p) = Some amount \<and> \<not> amount \<le> 0 \<and> ow_selectedInvestorId p \<noteq> []
    \<and> ow_depositAmount p \<noteq> []")
  case False
  with assms have "s' = s \<and> (\<exists>m. ow_toast p' = Some (m, False))"
    by (auto simp: handleCreateDeposit_def not_less split: if_splits option.splits)
  then show ?thesis by simp
next
  case True
  then obtain amount where a: "parse_float (ow_depositAmount p) = Some amount" "\<not> amount \<le> 0" "ow_selectedInvestorId p \<noteq> []"
    "ow_depositAmount p \<noteq> []" by blast
  let ?r = "route_createDeposit (ow_selectedInvestorId p) amount"
  show ?thesis
  proof (cases "apiFetch ?r ''/pix/deposits'' POST B s")
    case (Pair q t)
    show ?thesis
    proof (cases q)
      case (Inl e)
      with Pair a assms show ?thesis by (auto simp: handleCreateDeposit_def catchM_def bindM_def)
    next
      case (Inr v)
      with Pair a assms have t: "s' = t" by (auto simp: handleCreateDeposit_def catchM_def bindM_def)
      from Pair Inr obtain x where "answerM (apiFetch ?r ''/pix/deposits'' POST) B s = (Inr x, t)"
        by (auto elim!: apiFetch_Some)
      then obtain w' where "createDepositOrder \<lparr>pd_userId = ow_selectedInvestorId p, pd_amount = amount, pd_description = None,
          pd_expiresInSeconds = None, pd_metadata = []\<rparr> ''system'' (b_api B) (s_world s) = (Inr x, w')" "s_world t = w'"
        by (auto elim!: apiFetch_Inr simp: route_createDeposit_def Let_def validated_Inr pixController_createDeposit_def)
      from createDepositOrder_InrD [OF this(1)] this(2) a t show ?thesis by auto
    qed
  qed
qed

end
