(* ===== verification/WebViews.thy ===== *)
theory WebViews
  imports WebPages "HOL-Library.Multiset" "HOL-Library.Sublist"
begin

text \<open>
  What the pages of the web client show and the state of the components around them: the history of a receivable,
  the table of invoices, the numbers and dates of the dashboards, the public audit page, the messages that
  appear and go, the menus, the end of a session. Translations, \<open>toLocaleString\<close> and \<open>toLocaleTimeString\<close> are
  parameters, as is the offset of the local time zone from UTC, which is constant. A text shortened
  with an ellipsis is the pair of what stands before and after it.
\<close>

section \<open>Texts\<close>

datatype shown = Whole string | Cut string string

definition last_chars :: "nat \<Rightarrow> string \<Rightarrow> string" where
  "last_chars n s = drop (length s - n) s"

definition fmtTxHash :: "string \<Rightarrow> nat \<Rightarrow> shown" where
  "fmtTxHash hash prefixLength = (if length hash \<le> prefixLength + 4 then Whole hash
     else Cut (take prefixLength hash) (last_chars 4 hash))"

definition shortHash :: "string \<Rightarrow> shown" where
  "shortHash hash = (if length hash \<le> 12 then Whole hash else Cut (take 6 hash) (last_chars 4 hash))"

definition shortTx :: "string \<Rightarrow> shown" where
  "shortTx tx = (if 10 < length tx then Cut (take 6 tx) (last_chars 3 tx) else Whole tx)"

definition shortId :: "string \<Rightarrow> string" where
  "shortId i = toUpperCase (take 8 i)"

text \<open>The tables of both languages are arguments; a key without a text is shown itself.\<close>

definition translate :: "(string \<Rightarrow> string option) \<Rightarrow> (string \<Rightarrow> string option) \<Rightarrow> string \<Rightarrow> string" where
  "translate table pt key = (case nullish (table key) (pt key) of None \<Rightarrow> key | Some s \<Rightarrow> s)"

definition fmtBRL :: "(rat \<Rightarrow> string) \<Rightarrow> rat \<Rightarrow> bool \<Rightarrow> string" where
  "fmtBRL locale value short =
     (if short \<and> 1000000000 \<le> value then ''R$ '' @ toFixed 1 (js_div value 1000000000) @ ''B''
      else if short \<and> 1000000 \<le> value then ''R$ '' @ toFixed 1 (js_div value 1000000) @ ''M''
      else if short \<and> 1000 \<le> value then ''R$ '' @ toFixed 0 (js_div value 1000) @ ''k''
      else ''R$ '' @ locale value)"

section \<open>The history of a receivable\<close>

definition route_audit :: "string option \<Rightarrow> browser \<Rightarrow> headers \<Rightarrow> audit_log list api" where
  "route_audit entityId B = guarded B (\<lambda>u. audit_find (au_userId u) entityId)"

text \<open>One refresh of \<open>useAuditTrail\<close>, which repeats every three seconds, and of \<open>useAuditLog\<close>.\<close>

definition useAuditTrail :: "string \<Rightarrow> audit_log list web" where
  "useAuditTrail entityId =
     answerM (apiFetch (route_audit (Some entityId)) (''/audit?entityId='' @ encodeURIComponent entityId) GET)"

definition useAuditLog :: "audit_log list web" where
  "useAuditLog = answerM (apiFetch (route_audit None) ''/audit'' GET)"

datatype item_kind = Blue | Violet | Green

record timeline_item =
  tl_time :: string
  tl_label :: string
  tl_value :: shown
  tl_kind :: item_kind

definition EVENT_LABEL_KEYS :: "string \<Rightarrow> string option" where
  "EVENT_LABEL_KEYS = map_of
    [(''receivable.created'', ''rt_ev_created''), (''receivable.validated'', ''rt_ev_validated''),
     (''receivable.ready_for_blockchain'', ''rt_ev_ready''), (''receivable.nft_minting'', ''rt_ev_minting''),
     (''receivable.nft_minted'', ''rt_ev_minted''), (''receivable.tx_confirmed'', ''rt_ev_confirmed''),
     (''document.created'', ''rt_ev_doc''), (''document.uploaded'', ''rt_ev_doc''),
     (''settlement.created'', ''rt_ev_settlement_created''), (''settlement.completed'', ''rt_ev_settlement_completed'')]"

definition EVENT_KIND :: "string \<Rightarrow> item_kind option" where
  "EVENT_KIND = map_of
    [(''receivable.created'', Blue), (''receivable.validated'', Blue), (''receivable.ready_for_blockchain'', Violet),
     (''receivable.nft_minting'', Violet), (''receivable.nft_minted'', Green), (''receivable.tx_confirmed'', Green),
     (''document.created'', Blue), (''document.uploaded'', Blue), (''settlement.created'', Violet),
     (''settlement.completed'', Green)]"

text \<open>\<open>clock\<close> is \<open>toLocaleTimeString\<close>, \<open>date\<close> is \<open>toLocaleDateString\<close>; the same day is the same local day.\<close>

definition local_day :: "int \<Rightarrow> int \<Rightarrow> int" where
  "local_day tz t = (t + tz) div 86400000"

definition fmtTime :: "int \<Rightarrow> (int \<Rightarrow> string) \<Rightarrow> (int \<Rightarrow> string) \<Rightarrow> (string \<Rightarrow> string) \<Rightarrow> int \<Rightarrow> int \<Rightarrow> string" where
  "fmtTime tz clock date t now d =
     (if local_day tz d = local_day tz now then t ''rt_today'' @ '' '' @ clock d else date d @ '' '' @ clock d)"

definition eventValue :: "audit_log \<Rightarrow> shown" where
  "eventValue e =
     (if \<not> falsy (aud_txHash e) then shortHash (the (aud_txHash e))
      else if aud_event e = ''receivable.validated'' then Whole ''OK''
      else if aud_event e = ''receivable.created'' then Whole ''pending''
      else if aud_event e = ''receivable.ready_for_blockchain'' then Whole ''stellar''
      else if aud_event e = ''receivable.nft_minting'' then Whole ''minting''
      else Whole (aud_entityType e))"

definition timelineItem :: "(int \<Rightarrow> string) \<Rightarrow> (string \<Rightarrow> string) \<Rightarrow> audit_log \<Rightarrow> timeline_item" where
  "timelineItem fmt t e =
     \<lparr>tl_time = fmt (aud_createdAt e),
      tl_label = (case EVENT_LABEL_KEYS (aud_event e) of None \<Rightarrow> aud_event e | Some k \<Rightarrow> t k),
      tl_value = eventValue e, tl_kind = (case EVENT_KIND (aud_event e) of None \<Rightarrow> Blue | Some k \<Rightarrow> k)\<rparr>"

text \<open>\<open>Array.prototype.sort\<close> is stable.\<close>

definition eventsToTimeline :: "(int \<Rightarrow> string) \<Rightarrow> (string \<Rightarrow> string) \<Rightarrow> audit_log list \<Rightarrow> timeline_item list" where
  "eventsToTimeline fmt t events = map (timelineItem fmt t) (sort_key aud_createdAt events)"

text \<open>One refresh of the history, in the state of the API that answers it.\<close>

lemma useAuditTrail_Inr:
  assumes "useAuditTrail i B s = (Inr es, s')" and "i \<noteq> []"
  shows "es = order_desc aud_createdAt (filter (\<lambda>l. aud_entityId l = i) (auditLogs (s_world s)))"
  using assms(1) unfolding useAuditTrail_def
  by (rule apiFetch_Inr)
    (use assms(2) in \<open>auto simp: route_audit_def guarded_def audit_find_def audit_findByEntity_def findManyM_def
      getsM_def bindM_def retM_def throwM_def split: option.splits\<close>)

text \<open>C33: The history of a receivable on the page has one entry for every row of the API's log for it, oldest first. A
  later refresh shows every earlier entry again: the history only grows. This holds in whatever order \<open>xs\<close>, \<open>ys\<close> the
  database returns rows of the same time, and each refresh writes the times with its own formatter, for
  which it may be another day.\<close>

theorem timeline_grows:
  assumes "useAuditTrail i B s = (Inr es, s')" and "i \<noteq> []"
    and "evolves (s_world s) (s_world t)" and "useAuditTrail i B' t = (Inr fs, t')"
    and "mset xs = mset es" and "mset ys = mset fs"
  shows "\<exists>ls ms. eventsToTimeline fmt tr xs = map (timelineItem fmt tr) ls
    \<and> eventsToTimeline fmt' tr ys = map (timelineItem fmt' tr) ms
    \<and> sorted (map aud_createdAt ls) \<and> sorted (map aud_createdAt ms)
    \<and> mset ls = filter_mset (\<lambda>l. aud_entityId l = i) (mset (auditLogs (s_world s)))
    \<and> mset ms = filter_mset (\<lambda>l. aud_entityId l = i) (mset (auditLogs (s_world t)))
    \<and> mset ls \<subseteq># mset ms"
proof -
  have xs: "mset xs = filter_mset (\<lambda>l. aud_entityId l = i) (mset (auditLogs (s_world s)))"
    and ys: "mset ys = filter_mset (\<lambda>l. aud_entityId l = i) (mset (auditLogs (s_world t)))"
    using useAuditTrail_Inr [OF assms(1,2)] useAuditTrail_Inr [OF assms(4,2)] assms(5,6)
    by (simp_all add: order_desc_def mset_filter)
  obtain ls where "auditLogs (s_world t) = auditLogs (s_world s) @ ls"
    using evolves_audit [OF assms(3)] by (metis append_take_drop_id)
  then have "mset xs \<subseteq># mset ys" unfolding xs ys by simp
  then show ?thesis
    using xs ys by (intro exI [of _ "sort_key aud_createdAt xs"] exI [of _ "sort_key aud_createdAt ys"])
      (simp add: eventsToTimeline_def)
qed

section \<open>Messages\<close>

datatype toast_kind = ToastError | ToastSuccess | ToastInfo

record toast =
  to_id :: nat
  to_message :: string
  to_kind :: toast_kind

text \<open>\<open>tp_timers\<close> holds the timers of \<open>setTimeout\<close> that are running: when each is due, and the message it removes.\<close>

record toast_provider =
  tp_toasts :: "toast list"
  tp_counter :: nat
  tp_now :: nat
  tp_timers :: "(nat \<times> nat) list"

definition tp_start :: toast_provider where
  "tp_start = \<lparr>tp_toasts = [], tp_counter = 0, tp_now = 0, tp_timers = []\<rparr>"

definition showToast :: "string \<Rightarrow> toast_kind \<Rightarrow> toast_provider \<Rightarrow> toast_provider" where
  "showToast message kind p =
     (let i = Suc (tp_counter p) in
      p\<lparr>tp_counter := i, tp_toasts := tp_toasts p @ [\<lparr>to_id = i, to_message = message, to_kind = kind\<rparr>],
        tp_timers := tp_timers p @ [(tp_now p + 4000, i)]\<rparr>)"

definition removeToast :: "nat \<Rightarrow> toast list \<Rightarrow> toast list" where
  "removeToast i prev = filter (\<lambda>t. to_id t \<noteq> i) prev"

text \<open>Time passes, and every timer that is due by then has run.\<close>

definition elapse :: "nat \<Rightarrow> toast_provider \<Rightarrow> toast_provider" where
  "elapse d p =
     (let now = tp_now p + d; due = filter (\<lambda>(t, i). t \<le> now) (tp_timers p) in
      p\<lparr>tp_now := now, tp_toasts := fold (\<lambda>(t, i). removeToast i) due (tp_toasts p),
        tp_timers := filter (\<lambda>(t, i). now < t) (tp_timers p)\<rparr>)"

datatype toast_event = Show string toast_kind | Elapse nat

fun toast_run :: "toast_event list \<Rightarrow> toast_provider \<Rightarrow> toast_provider" where
  "toast_run [] p = p"
| "toast_run (Show m k # es) p = toast_run es (showToast m k p)"
| "toast_run (Elapse d # es) p = toast_run es (elapse d p)"

text \<open>What a viewer expects: the messages of the last four seconds, in the order they were given.\<close>

fun toast_history :: "nat \<Rightarrow> toast_event list \<Rightarrow> (nat \<times> string \<times> toast_kind) list" where
  "toast_history now [] = []"
| "toast_history now (Show m k # es) = (now, m, k) # toast_history now es"
| "toast_history now (Elapse d # es) = toast_history (now + d) es"

fun toast_clock :: "toast_event list \<Rightarrow> nat" where
  "toast_clock [] = 0"
| "toast_clock (Show m k # es) = toast_clock es"
| "toast_clock (Elapse d # es) = d + toast_clock es"

definition recent :: "toast_event list \<Rightarrow> (string \<times> toast_kind) list" where
  "recent es = map snd (filter (\<lambda>(t, m). toast_clock es < t + 4000) (toast_history 0 es))"

definition live :: "nat \<Rightarrow> (nat \<times> string \<times> toast_kind) list \<Rightarrow> (nat \<times> nat \<times> string \<times> toast_kind) list" where
  "live now H = filter (\<lambda>(i, t, m). now < t + 4000) (enumerate 1 H)"

definition shows_recent :: "toast_provider \<Rightarrow> (nat \<times> string \<times> toast_kind) list \<Rightarrow> bool" where
  "shows_recent p H \<longleftrightarrow> tp_counter p = length H \<and> (\<forall>(t, m) \<in> set H. t \<le> tp_now p)
     \<and> tp_toasts p = map (\<lambda>(i, t, m, k). \<lparr>to_id = i, to_message = m, to_kind = k\<rparr>) (live (tp_now p) H)
     \<and> tp_timers p = map (\<lambda>(i, t, m). (t + 4000, i)) (live (tp_now p) H)"

lemma fold_remove: "fold (\<lambda>(t, i). removeToast i) due ts = filter (\<lambda>x. to_id x \<notin> snd ` set due) ts"
  by (induction due arbitrary: ts) (auto simp: removeToast_def split: prod.split intro!: filter_cong)

lemma live_append: "live now (H @ [(t, m)]) = live now H @ (if now < t + 4000 then [(Suc (length H), t, m)] else [])"
  by (simp add: live_def enumerate_append_eq)

lemma shows_recent_show: "shows_recent p H \<Longrightarrow> shows_recent (showToast m k p) (H @ [(tp_now p, m, k)])"
  by (simp add: shows_recent_def showToast_def Let_def live_append)

lemma live_due:
  assumes "x \<in> set (live now H)"
  shows "fst x \<in> snd ` set (filter (\<lambda>(t, i). t \<le> now') (map (\<lambda>(i, t, m). (t + 4000, i)) (live now H)))
    \<longleftrightarrow> fst (snd x) + 4000 \<le> now'"
proof -
  have "distinct (map fst (live now H))"
    unfolding live_def by (intro distinct_map_filter) simp
  then have inj: "y = x" if "y \<in> set (live now H)" "fst y = fst x" for y
    using that assms by (auto simp: distinct_map dest: inj_onD)
  show ?thesis
  proof
    assume "fst x \<in> snd ` set (filter (\<lambda>(t, i). t \<le> now') (map (\<lambda>(i, t, m). (t + 4000, i)) (live now H)))"
    then obtain y where "y \<in> set (live now H)" "fst y = fst x" "fst (snd y) + 4000 \<le> now'" by auto
    with inj show "fst (snd x) + 4000 \<le> now'" by metis
  next
    assume "fst (snd x) + 4000 \<le> now'"
    with assms show "fst x \<in> snd ` set (filter (\<lambda>(t, i). t \<le> now') (map (\<lambda>(i, t, m). (t + 4000, i)) (live now H)))"
      by (intro image_eqI [of _ snd "(fst (snd x) + 4000, fst x)"]) (auto simp: image_iff split: prod.splits intro!: bexI [of _ x])
  qed
qed

lemma live_later: "live (now + d) H = filter (\<lambda>(i, t, m). now + d < t + 4000) (live now H)"
  by (auto simp: live_def intro!: filter_cong)

lemma shows_recent_elapse:
  assumes "shows_recent p H"
  shows "shows_recent (elapse d p) H"
proof -
  let ?now = "tp_now p + d" and ?toast = "\<lambda>(i, t, m, k). \<lparr>to_id = i, to_message = m, to_kind = k\<rparr>"
  let ?due = "filter (\<lambda>(t, i). t \<le> ?now) (tp_timers p)"
  note p = assms [unfolded shows_recent_def]
  have "filter (\<lambda>x. to_id x \<notin> snd ` set ?due) (map ?toast (live (tp_now p) H))
      = map ?toast (filter (\<lambda>x. fst x \<notin> snd ` set ?due) (live (tp_now p) H))"
    by (simp add: filter_map comp_def split_beta)
  also have "filter (\<lambda>x. fst x \<notin> snd ` set ?due) (live (tp_now p) H) = live ?now H"
    unfolding live_later using p live_due [of _ "tp_now p" H ?now] by (intro filter_cong) (auto simp: split_beta)
  finally have "tp_toasts (elapse d p) = map ?toast (live ?now H)"
    using p by (simp add: elapse_def Let_def fold_remove)
  moreover have "tp_timers (elapse d p) = map (\<lambda>(i, t, m). (t + 4000, i)) (live ?now H)"
    using p by (simp add: elapse_def Let_def live_later filter_map comp_def case_prod_unfold)
  ultimately show ?thesis using p by (auto simp: shows_recent_def elapse_def Let_def)
qed

lemma shows_recent_run:
  "shows_recent p H \<Longrightarrow> shows_recent (toast_run es p) (H @ toast_history (tp_now p) es)
     \<and> tp_now (toast_run es p) = tp_now p + toast_clock es"
proof (induction es p arbitrary: H rule: toast_run.induct)
  case (2 m k es p)
  from 2(1) [OF shows_recent_show [OF 2(2)]] show ?case by (simp add: showToast_def Let_def)
next
  case (3 d es p)
  from 3(1) [OF shows_recent_elapse [OF 3(2)]] show ?case by (simp add: elapse_def Let_def)
qed simp

lemma live_snd: "map snd (live now H) = filter (\<lambda>(t, m). now < t + 4000) H"
proof -
  have "map snd (filter (\<lambda>(i, t, m). now < t + 4000) (enumerate n H)) = filter (\<lambda>(t, m). now < t + 4000) H" for n
    by (induction H arbitrary: n) auto
  then show ?thesis by (simp add: live_def)
qed

text \<open>The provider of messages implements its specification: after any sequence of messages and pauses it shows
  exactly the messages of the last four seconds in the order they were given, under distinct keys.\<close>

theorem toasts_recent:
  "map (\<lambda>t. (to_message t, to_kind t)) (tp_toasts (toast_run es tp_start)) = recent es
   \<and> distinct (map to_id (tp_toasts (toast_run es tp_start)))"
proof -
  have "shows_recent tp_start []" by (simp add: shows_recent_def tp_start_def live_def)
  from shows_recent_run [OF this, of es]
  have "tp_toasts (toast_run es tp_start) = map (\<lambda>(i, t, m, k). \<lparr>to_id = i, to_message = m, to_kind = k\<rparr>)
      (live (toast_clock es) (toast_history 0 es))"
    by (simp add: shows_recent_def tp_start_def)
  moreover have "distinct (map fst (live (toast_clock es) (toast_history 0 es)))"
    unfolding live_def by (intro distinct_map_filter) simp
  moreover have "map snd (map snd (live (toast_clock es) (toast_history 0 es))) = recent es"
    by (simp only: live_snd recent_def)
  ultimately show ?thesis by (simp add: comp_def split_beta)
qed

end
