(* ===== verification/WebPanels.thy ===== *)
theory WebPanels
  imports WebViews
begin

text \<open>
  The panels of the pages: the table of invoices and its actions, the rows and numbers of the dashboards, the
  positions of an investor, the collections of a company, the public audit page, the theme, the menus and the
  end of a session. The conventions are those of \<open>WebViews\<close>.
\<close>

section \<open>Dashboard of a company\<close>

record invoice_row =
  ir_id :: string
  ir_nfe :: string
  ir_sacado :: string
  ir_cnpj :: string
  ir_valor :: rat
  ir_desagio :: rat
  ir_liquido :: rat
  ir_due :: string
  ir_status :: receivable_status
  ir_days :: int

definition MONTHS :: "string list" where
  "MONTHS = [''Jan'', ''Feb'', ''Mar'', ''Apr'', ''May'', ''Jun'', ''Jul'', ''Aug'', ''Sep'', ''Oct'', ''Nov'', ''Dec'']"

text \<open>\<open>getDate()\<close> and \<open>getMonth()\<close> of a local day.\<close>

definition day_label :: "int \<Rightarrow> string" where
  "day_label day = (case civil day of (y, m, d) \<Rightarrow> show_int d @ '' '' @ MONTHS ! nat (m - 1))"

definition toInvoiceRow :: "int \<Rightarrow> int \<Rightarrow> receivable_response \<Rightarrow> invoice_row" where
  "toInvoiceRow tz now r =
     (let due = rr_dueDate r; today = local_day tz now * 86400000 - tz in
      \<lparr>ir_id = rr_id r, ir_nfe = toUpperCase (last_chars 9 (rr_id r)), ir_sacado = rr_debtorName r,
       ir_cnpj = rr_debtorDocument r, ir_valor = rr_value r, ir_desagio = 0, ir_liquido = rr_value r,
       ir_due = day_label (local_day tz due), ir_status = rr_status r,
       ir_days = math_round (js_div (of_int (due - today)) 86400000)\<rparr>)"

definition dash_fmtBRL :: "(rat \<Rightarrow> string) \<Rightarrow> rat \<Rightarrow> string" where
  "dash_fmtBRL locale value =
     (if 1000000 \<le> value then ''R$ '' @ toFixed 2 (js_div value 1000000) @ ''M''
      else if 1000 \<le> value then ''R$ '' @ toFixed 1 (js_div value 1000) @ ''k''
      else ''R$ '' @ locale value)"

definition relativeTime :: "int \<Rightarrow> int \<Rightarrow> string" where
  "relativeTime now t =
     (let ha = [CHR ''h'', CHR 0xE1, CHR '' '']; mins = \<lfloor>js_div (of_int (now - t)) 60000\<rfloor> in
      if mins < 1 then ''agora''
      else if mins < 60 then ha @ show_int mins @ '' min''
      else let hours = \<lfloor>js_div (of_int mins) 60\<rfloor> in
        if hours < 24 then ha @ show_int hours @ ''h'' else ha @ show_int \<lfloor>js_div (of_int hours) 24\<rfloor> @ ''d'')"

definition EVENT_LABELS :: "string \<Rightarrow> string option" where
  "EVENT_LABELS = (let recebivel = ''Receb'' @ [CHR 0xED] @ ''vel ''; liquidacao = ''Liquida'' @ [CHR 0xE7, CHR 0xE3] @ ''o '' in
     map_of
      [(''receivable.created'', recebivel @ ''enviado''), (''receivable.updated'', recebivel @ ''atualizado''),
       (''receivable.validated'', recebivel @ ''validado''), (''document.created'', ''Documento enviado''),
       (''document.uploaded'', ''Documento enviado''), (''settlement.created'', liquidacao @ ''criada''),
       (''settlement.updated'', liquidacao @ ''atualizada''), (''settlement.completed'', liquidacao @ ''conclu'' @ [CHR 0xED] @ ''da'')])"

definition ENTITY_KIND :: "string \<Rightarrow> item_kind option" where
  "ENTITY_KIND = map_of [(''receivable'', Blue), (''document'', Blue), (''settlement'', Green), (''user'', Violet)]"

definition auditToTimeline :: "int \<Rightarrow> audit_log \<Rightarrow> timeline_item" where
  "auditToTimeline now e =
     \<lparr>tl_time = relativeTime now (aud_createdAt e),
      tl_label = (case EVENT_LABELS (aud_event e) of None \<Rightarrow> aud_event e | Some l \<Rightarrow> l),
      tl_value = Whole (aud_entityType e),
      tl_kind = (case ENTITY_KIND (aud_entityType e) of None \<Rightarrow> Blue | Some k \<Rightarrow> k)\<rparr>"

text \<open>\<open>s.split(c)[0]\<close>\<close>

definition before_char :: "char \<Rightarrow> string \<Rightarrow> string" where
  "before_char c s = takeWhile (\<lambda>x. x \<noteq> c) s"

definition firstName :: "user option \<Rightarrow> string" where
  "firstName me = (case me of None \<Rightarrow> [] | Some u \<Rightarrow>
     (case usr_name u of Some n \<Rightarrow> before_char (CHR '' '') n | None \<Rightarrow> before_char (CHR ''@'') (usr_email u)))"

section \<open>The table of invoices\<close>

record invoice_table =
  it_expandedId :: "string option"
  it_actionRowId :: "string option"
  it_actionError :: "string option"
  it_selectedRowForCessao :: "invoice_row option"

definition visibleRows :: "bool \<Rightarrow> invoice_row list \<Rightarrow> invoice_row list" where
  "visibleRows short rows = (if short then take 4 rows else rows)"

definition toggle :: "string \<Rightarrow> invoice_table \<Rightarrow> invoice_table" where
  "toggle i p = p\<lparr>it_expandedId := (if it_expandedId p = Some i then None else Some i)\<rparr>"

definition route_tokenize :: "string \<Rightarrow> browser \<Rightarrow> headers \<Rightarrow> receivable_response api" where
  "route_tokenize i B = guarded B (\<lambda>u. tokenize i)"

definition useTokenizeReceivable :: "string \<Rightarrow> receivable_response option web" where
  "useTokenizeReceivable i = apiFetch (route_tokenize i) (''/receivables/'' @ i @ ''/tokenize'') PATCH"

definition handleReceivableAction :: "(string \<Rightarrow> string) \<Rightarrow> invoice_row \<Rightarrow> invoice_table \<Rightarrow> invoice_table web" where
  "handleReceivableAction t row p =
     (let p' = p\<lparr>it_actionRowId := None, it_actionError := None\<rparr> in
      if ir_status row = RValidated then
        catchM (bindM (useTokenizeReceivable (ir_id row)) (\<lambda>_. retM p'))
          (\<lambda>e. retM (p'\<lparr>it_actionError := Some (orText (extractApiErrorMessage e) (t ''inv_tbl_action_error''))\<rparr>))
      else if ir_status row = RTokenized \<or> ir_status row = RAssignmentPending
      then retM (p'\<lparr>it_selectedRowForCessao := Some row\<rparr>)
      else retM p')"

definition getActionLabel :: "(string \<Rightarrow> string) \<Rightarrow> receivable_status \<Rightarrow> string option" where
  "getActionLabel t status =
     (if status = RValidated then Some (t ''inv_tbl_tokenize'')
      else if status = RTokenized \<or> status = RAssignmentPending then Some (t ''inv_tbl_sign_assignment'')
      else None)"

definition statusConfig :: "receivable_status \<Rightarrow> string \<times> string" where
  "statusConfig st = (case st of
     RPending \<Rightarrow> (''badge pending'', ''status_pending'')
   | RValidated \<Rightarrow> (''badge validated'', ''status_validated'')
   | RTokenized \<Rightarrow> (''badge validated'', ''status_tokenized'')
   | RAssignmentPending \<Rightarrow> (''badge pending'', ''status_assignment_pending'')
   | RActive \<Rightarrow> (''badge active'', ''status_active'')
   | RSettled \<Rightarrow> (''badge settled'', ''status_settled'')
   | RDefaulted \<Rightarrow> (''badge defaulted'', ''status_defaulted'')
   | RRejected \<Rightarrow> (''badge defaulted'', ''status_rejected''))"

section \<open>Dashboard of an investor\<close>

definition poolStatusLabel :: "(string \<Rightarrow> string) \<Rightarrow> receivable_status \<Rightarrow> string" where
  "poolStatusLabel t st = (if st = RActive then t ''op_active'' else t ''status_validated'')"

definition statusMeta :: "investment_status \<Rightarrow> string \<times> string" where
  "statusMeta s = (if s = ISettled then (''status_settled'', ''var(--green)'')
     else if s = IDefaulted then (''status_defaulted'', ''var(--red)'')
     else (''status_active'', ''var(--blue)''))"

definition positionProfit :: "investment \<Rightarrow> rat" where
  "positionProfit p = js_sub (inv_faceValue p) (inv_amountPaid p)"

section \<open>Collections\<close>

definition currentCollection :: "collection list \<Rightarrow> collection option \<Rightarrow> collection option" where
  "currentCollection cs selected = (case selected of None \<Rightarrow> None | Some c \<Rightarrow>
     (case find (\<lambda>x. col_id x = col_id c) cs of Some x \<Rightarrow> Some x | None \<Rightarrow> Some c))"

definition pollsCollection :: "collection option \<Rightarrow> bool" where
  "pollsCollection current = (case current of None \<Rightarrow> False | Some c \<Rightarrow>
     (let status = toLowerCase (collection_status_string (col_status c)) in
      status = ''pending'' \<or> status = ''pending_payment''))"

definition getQrCodeSrc :: "string option \<Rightarrow> string" where
  "getQrCodeSrc b = (if falsy b then [] else if starts_with ''data:'' (the b) then the b
     else ''data:image/png;base64,'' @ the b)"

section \<open>The public audit page\<close>

datatype audit_tab = PmeTab | CredBridgeTab | InvestorTab | ContractTab

datatype audit_status = Confirmado | EmMonitoramento | Pendente

record contract_row =
  cr_id :: string
  cr_note :: string
  cr_event :: string
  cr_account :: string
  cr_txHash :: string
  cr_value :: rat
  cr_block :: string
  cr_when :: string
  cr_status :: audit_status

definition auditRow :: "string \<Rightarrow> string \<Rightarrow> string \<Rightarrow> string \<Rightarrow> string \<Rightarrow> rat \<Rightarrow> string \<Rightarrow> string \<Rightarrow> audit_status \<Rightarrow> contract_row" where
  "auditRow i note event account txHash value block w st =
     \<lparr>cr_id = i, cr_note = note, cr_event = event, cr_account = account, cr_txHash = txHash, cr_value = value,
      cr_block = block, cr_when = w, cr_status = st\<rparr>"

definition CONTRACT_ID :: string where
  "CONTRACT_ID = ''CDIMUPT2SBPGBR5DHFVQ3HK74DHL4TMVCQIXINJYV2SRHXRYUYQRBVC7''"

definition tabs :: "audit_tab list" where
  "tabs = [PmeTab, CredBridgeTab, InvestorTab, ContractTab]"

fun auditRows :: "audit_tab \<Rightarrow> contract_row list" where
  "auditRows PmeTab =
      [auditRow ''pme-001'' ''NF-2409-018'' ''Nota enviada para validacao''
         ''GCPME7GHTM4D2S8QF6NR9VXL2A4WZBRL77K9M2HDPXQ4S9P2Q7HY''
         ''0x7f2a3b91c8d44f21b7a03d98c551e90ac44e24fd6b9c18a5586f4c91e3a7d204'' 184200 ''5,913,204''
         ''18 mai 2026, 09:42'' Confirmado,
       auditRow ''pme-002'' ''NF-2409-021'' ''Documento fiscal vinculado''
         ''GCPME5YQ8AR2K7MVD3PLK92NCB64TQWZRA8P2L5KHDM3VQ74FNA2''
         ''0x912e73b601ca15da04bd30ee46a1c2b69871a0679f1f295d889a0f4e22b6cc18'' 96750 ''5,913,188''
         ''18 mai 2026, 09:18'' EmMonitoramento,
       auditRow ''pme-003'' ''NF-2408-112'' ''Assinatura da PME registrada''
         ''GCPME3LQPN3J9WV6XA2K8TNHR4EDYMFZC55V7P6ACJZQ4L2TRS91''
         ''0xe10a451e51bc78ee8a6f271443c30952d77752080be6a216dbf0cc056087ab14'' 242900 ''5,912,944''
         ''17 mai 2026, 16:07'' Confirmado]"
| "auditRows CredBridgeTab =
      [auditRow ''cb-001'' ''NF-2409-018'' ''Validacao antifraude aprovada''
         ''GCBRIDGE8QW7PXF4R2Z7HE2ALMNP5G6KQYVSN3H9DLW8C4AE2TQF9''
         ''0xad01659188f4c3e44a99ba3275c7eb0d05f3aa39b589a946a3b9cb5922c09872'' 184200 ''5,913,233''
         ''18 mai 2026, 10:11'' Confirmado,
       auditRow ''cb-002'' ''NF-2409-021'' ''Oraculo fiscal em verificacao''
         ''GCBRIDGE2WMS9N6C84TJLQ7ZVY4N2PBXRS5DHKQG3LV9A7FN4E2''
         ''0x694fbd7456a45a7b81d6ed41233d120f0470e109b86c0d343af6328f638ae7c5'' 96750 ''5,913,196''
         ''18 mai 2026, 09:27'' EmMonitoramento,
       auditRow ''cb-003'' ''NF-2408-112'' ''Pool de recebiveis atualizado''
         ''GCBRIDGEM8K54TAE3RZ9PHQX7N2CVLDY8Q4WSK6AFJ3YB9PV2H''
         ''0x4439d5723c114be1022d3dd14b8cccd9c00fc73de8350cf2cb5a10444be61aa0'' 242900 ''5,912,990''
         ''17 mai 2026, 16:51'' Confirmado]"
| "auditRows InvestorTab =
      [auditRow ''inv-001'' ''NF-2409-018'' ''Cota reservada pelo investidor''
         ''GCINVEST9A5RDK72P4JX8TYF3WQ6BLHNEZCVD2MS9KQ4AP7R6U''
         ''0x604d88e8e3203ff101f987c9463477b55d6919824c8e5f1929504d72dc59d140'' 52000 ''5,913,261''
         ''18 mai 2026, 10:32'' Confirmado,
       auditRow ''inv-002'' ''NF-2409-018'' ''Liquidacao D+2 programada''
         ''GCINVEST3UPN9V8D2CRK5QWL7Z4BHEYSMXA6FTQ2J4PDR97AL''
         ''0x147afdc70aac023c74548275900f01cc30f0938534ff9b2fc6e3104cde65a5bf'' 84000 ''5,913,289''
         ''18 mai 2026, 10:58'' EmMonitoramento,
       auditRow ''inv-003'' ''NF-2408-112'' ''Pagamento de rendimento confirmado''
         ''GCINVEST5LQA9M3X7ER2YBD6VTHKCW8ZFN4PSJQ91GEA5R2M''
         ''0xc157830e0f6254e9b04c5998d21320a6e7bec1dd89060c643236b16fb7138e0d'' 31240 ''5,912,998''
         ''17 mai 2026, 17:04'' Confirmado]"
| "auditRows ContractTab =
      [auditRow ''contract-001'' ''NF-2409-018'' ''Escrow criado no contrato''
         ''CONTRACT-RECEIVABLE-POOL-BRL-2026-05''
         ''0x54300c1b1eb16f7e2e8d0db8191a18aa4b955814c1126f03bf8c7d02ad5c74fb'' 184200 ''5,913,238''
         ''18 mai 2026, 10:14'' Confirmado,
       auditRow ''contract-002'' ''NF-2409-021'' ''Parametro de elegibilidade pendente''
         ''CONTRACT-UNDERWRITING-RULES-V3''
         ''0x2bc66861b214985dfc60f90a8110950e2d78f3ab517c908ee96702c02d99e641'' 96750 ''5,913,205''
         ''18 mai 2026, 09:44'' Pendente,
       auditRow ''contract-003'' ''NF-2408-112'' ''Distribuicao de yield executada''
         ''CONTRACT-YIELD-DISTRIBUTOR-BRL''
         ''0xa6a3ce9086139169181619e5283320917504d02bb085bdb85f4e42b832bd2904'' 242900 ''5,913,008''
         ''17 mai 2026, 17:16'' Confirmado]"

definition getTabTotal :: "audit_tab \<Rightarrow> rat" where
  "getTabTotal tab = foldl (\<lambda>sum r. js_add sum (cr_value r)) 0 (auditRows tab)"

text \<open>The events of a contract as the page asks for them; \<open>text\<close> is \<open>JSON.stringify\<close> and \<open>String\<close> of a number, which may
  fail.\<close>

record stellar_event =
  se_id :: string
  se_ledger :: int
  se_ledgerClosedAt :: "int option"
  se_contractId :: "string option"
  se_topic :: "json list"
  se_txHash :: string

record contract_response =
  cs_found :: bool
  cs_events :: "stellar_event list"
  cs_error :: "string option"

definition stringifyScVal :: "(json \<Rightarrow> string option) \<Rightarrow> json option \<Rightarrow> string" where
  "stringifyScVal text value = (case value of
     None \<Rightarrow> ''Sem payload''
   | Some JNull \<Rightarrow> ''Sem payload''
   | Some (JStr s) \<Rightarrow> s
   | Some (JBool b) \<Rightarrow> (if b then ''true'' else ''false'')
   | Some v \<Rightarrow> (case text v of Some s \<Rightarrow> s | None \<Rightarrow> ''Payload XDR''))"

definition formatEventName :: "(json \<Rightarrow> string option) \<Rightarrow> stellar_event \<Rightarrow> string" where
  "formatEventName text event =
     (let topicText = stringifyScVal text (case se_topic event of [] \<Rightarrow> None | v # _ \<Rightarrow> Some v) in
      if length topicText \<le> 80 then topicText else take 77 topicText @ ''...'')"

definition formatContractTime :: "(int \<Rightarrow> string) \<Rightarrow> int option \<Rightarrow> string" where
  "formatContractTime format date = (case date of None \<Rightarrow> ''Ledger recente'' | Some d \<Rightarrow> format d)"

definition eventToAuditRow :: "(json \<Rightarrow> string option) \<Rightarrow> (int \<Rightarrow> string) \<Rightarrow> stellar_event \<Rightarrow> contract_row" where
  "eventToAuditRow text format event =
     auditRow (se_id event) (''ledger-'' @ show_int (se_ledger event)) (formatEventName text event)
       (case se_contractId event of Some c \<Rightarrow> c | None \<Rightarrow> CONTRACT_ID) (se_txHash event) 0
       (show_int (se_ledger event)) (formatContractTime format (se_ledgerClosedAt event)) Confirmado"

datatype load_status = LoadIdle | Loading | LoadSuccess | LoadError

text \<open>What \<open>fetch\<close> of \<open>/api/stellar/contract\<close> gives: no answer, an answer that is not JSON, or an answer.\<close>

datatype contract_answer = NoAnswer string | NotJson string | ContractAnswer bool contract_response

record audit_page =
  ap_activeTab :: audit_tab
  ap_contractData :: "contract_response option"
  ap_contractStatus :: load_status
  ap_contractError :: "string option"

definition audit_page_start :: audit_page where
  "audit_page_start = \<lparr>ap_activeTab = PmeTab, ap_contractData = None, ap_contractStatus = LoadIdle, ap_contractError = None\<rparr>"

definition loadContractData :: "contract_answer \<Rightarrow> audit_page \<Rightarrow> audit_page" where
  "loadContractData a p =
     (if ap_contractStatus p = Loading \<or> ap_contractStatus p = LoadSuccess then p
      else case a of
        NoAnswer m \<Rightarrow> p\<lparr>ap_contractError := Some m, ap_contractStatus := LoadError\<rparr>
      | NotJson m \<Rightarrow> p\<lparr>ap_contractError := Some m, ap_contractStatus := LoadError\<rparr>
      | ContractAnswer ok payload \<Rightarrow>
          if \<not> ok then p\<lparr>ap_contractError := nullish (cs_error payload) (Some ''Falha ao consultar contrato Stellar''),
                          ap_contractStatus := LoadError\<rparr>
          else p\<lparr>ap_contractError := None, ap_contractData := Some payload, ap_contractStatus := LoadSuccess\<rparr>)"

text \<open>The state here is the one after the answer. A click on a tab; only the tab of the contract asks.\<close>

definition openTab :: "audit_tab \<times> contract_answer \<Rightarrow> audit_page \<Rightarrow> audit_page" where
  "openTab = (\<lambda>(tab, a) p. let q = p\<lparr>ap_activeTab := tab\<rparr> in if tab = ContractTab then loadContractData a q else q)"

definition contractRows :: "(json \<Rightarrow> string option) \<Rightarrow> (int \<Rightarrow> string) \<Rightarrow> audit_page \<Rightarrow> contract_row list" where
  "contractRows text format p = (case ap_contractData p of
     None \<Rightarrow> auditRows ContractTab
   | Some d \<Rightarrow> if cs_events d = [] then auditRows ContractTab else map (eventToAuditRow text format) (cs_events d))"

definition activeRows :: "(json \<Rightarrow> string option) \<Rightarrow> (int \<Rightarrow> string) \<Rightarrow> audit_page \<Rightarrow> contract_row list" where
  "activeRows text format p =
     (if ap_activeTab p = ContractTab then contractRows text format p else auditRows (ap_activeTab p))"

definition contractBanner :: "audit_page \<Rightarrow> string" where
  "contractBanner p = (case ap_contractStatus p of
     LoadSuccess \<Rightarrow> (if (case ap_contractData p of Some d \<Rightarrow> cs_found d | None \<Rightarrow> False)
                    then ''Contrato encontrado'' else ''Contrato nao encontrado'')
   | LoadError \<Rightarrow> ''Erro no RPC''
   | Loading \<Rightarrow> ''Consultando testnet''
   | LoadIdle \<Rightarrow> ''Aguardando consulta'')"

definition uniqueNotes :: nat where
  "uniqueNotes = length (remdups (map cr_note (concat (map auditRows tabs))))"

definition uniqueAccounts :: nat where
  "uniqueAccounts = length (remdups (map cr_account (concat (map auditRows tabs))))"

definition monitoredValue :: rat where
  "monitoredValue = foldl (\<lambda>sum r. js_add sum (cr_value r)) 0 (concat (map auditRows tabs))"

section \<open>Theme\<close>

definition loadTheme :: "string option \<Rightarrow> string" where
  "loadTheme stored = (if stored = Some ''light'' \<or> stored = Some ''dark'' then the stored else ''dark'')"

text \<open>The theme of the page and what is stored.\<close>

definition toggleTheme :: "string \<Rightarrow> string \<times> string option" where
  "toggleTheme theme = (let new = (if theme = ''dark'' then ''light'' else ''dark'') in (new, Some new))"

section \<open>Menus and the end of a session\<close>

datatype sidebar_item = NavGroup string | NavLink string string string

definition operatorSidebarItems :: "(string \<Rightarrow> string) \<Rightarrow> sidebar_item list" where
  "operatorSidebarItems t =
    [NavLink ''/operator/dashboard'' ''chart'' (t ''nav_op_overview''),
     NavGroup (t ''nav_group_operations''),
     NavLink ''/operator/dashboard?tab=receivables'' ''doc'' (t ''nav_op_validate''),
     NavLink ''/operator/dashboard?tab=transactions'' ''zap'' (t ''nav_op_pool_approvals''),
     NavLink ''/operator/dashboard?tab=pool-status'' ''wallet'' (t ''nav_op_pool_status''),
     NavGroup (t ''nav_group_account''),
     NavLink ''/operator/dashboard?tab=settings'' ''settings'' (t ''nav_settings'')]"

definition pmeSidebarItems :: "(string \<Rightarrow> string) \<Rightarrow> sidebar_item list" where
  "pmeSidebarItems t =
    [NavLink ''/pme/dashboard'' ''home'' (t ''nav_dashboard''), NavGroup (t ''nav_group_account''),
     NavLink ''/pme/configuracoes'' ''settings'' (t ''nav_settings'')]"

definition investorSidebarItems :: "(string \<Rightarrow> string) \<Rightarrow> sidebar_item list" where
  "investorSidebarItems t =
    [NavLink ''/investor/dashboard'' ''chart'' (t ''nav_portfolio''), NavGroup (t ''nav_group_account''),
     NavLink ''/investor/configuracoes'' ''settings'' (t ''nav_settings'')]"

fun isActive :: "string \<Rightarrow> sidebar_item \<Rightarrow> bool" where
  "isActive currentPath (NavGroup g) = False"
| "isActive currentPath (NavLink href icon label) = (currentPath = href)"

definition handleLogout :: "unit web" where
  "handleLogout =
     bindM (catchM (privyM b_logout) (\<lambda>_. retM ())) (\<lambda>_.
     bindM clearAccessToken (\<lambda>_.
     modifyM (\<lambda>s. s\<lparr>s_path := ''/login''\<rparr>)))"

section \<open>What the panels guarantee\<close>

text \<open>An action button is shown exactly where the handler does something: without a label nothing is sent and
  no dialog opens; with the label for the assignment only the dialog opens.\<close>

lemma action_without_label:
  assumes "getActionLabel t (ir_status row) = None"
  shows "handleReceivableAction t row p B s = (Inr (p\<lparr>it_actionRowId := None, it_actionError := None\<rparr>), s)"
  using assms by (auto simp: getActionLabel_def handleReceivableAction_def Let_def retM_def split: if_splits)

lemma tokenize_action:
  assumes "ir_status row = RValidated" and "handleReceivableAction t row p B s = (Inr q, s')"
  shows "s_requests s' = s_requests s @ [sent B (''/receivables/'' @ ir_id row @ ''/tokenize'') PATCH s]
    \<and> it_selectedRowForCessao q = it_selectedRowForCessao p
    \<and> (it_actionError q = None \<longleftrightarrow>
        (\<exists>res. fst (useTokenizeReceivable (ir_id row) B s) = Inr (Some res)))
    \<and> (it_actionError q = None \<longrightarrow> (\<exists>r h. find_row rcv_id (ir_id row) (receivables (s_world s)) = Some r \<and> rcv_status r = RValidated
        \<and> receivables (s_world s') = upd_row rcv_id (ir_id row) (rcv_setTokenized h) (receivables (s_world s))))"
proof -
  let ?path = "''/receivables/'' @ ir_id row @ ''/tokenize''" and ?route = "route_tokenize (ir_id row)"
  note h = assms(2) [unfolded handleReceivableAction_def useTokenizeReceivable_def]
  show ?thesis
  proof (cases rule: apiFetch_cases [of ?route ?path PATCH B s])
    case (lost w')
    with h assms(1) show ?thesis by (auto simp: useTokenizeReceivable_def Let_def catchM_def bindM_def retM_def)
  next
    case (refused e w')
    with h assms(1) show ?thesis by (auto simp: useTokenizeReceivable_def Let_def catchM_def bindM_def retM_def)
  next
    case (answered a w')
    from answered(1) obtain u where "tokenize (ir_id row) (b_api B) (s_world s) = (Inr a, w')"
      by (auto simp: route_tokenize_def guarded_def throwM_def split: option.splits)
    from tokenize_stores [OF this] tokenize_validated [OF this] answered(2) h assms(1) show ?thesis
      by (auto simp: useTokenizeReceivable_def Let_def catchM_def bindM_def retM_def)
  qed
qed

lemma near_int:
  fixes X n e f :: rat
  assumes "X - n = e" and "\<bar>e\<bar> \<le> 43199999 / 86400000" and "\<bar>n\<bar> \<le> 1048576" and "\<bar>f - X\<bar> \<le> \<bar>X\<bar> / 2 ^ 53"
  shows "\<bar>f - n\<bar> < 1 / 2"
proof -
  have "\<bar>X\<bar> \<le> 2097152" using assms(1-3) by linarith
  then have "\<bar>X\<bar> / 2 ^ 53 \<le> 2097152 / 2 ^ 53" by (rule divide_right_mono) simp
  also have "(2097152 :: rat) / 2 ^ 53 \<le> 1 / 4294967296" by simp
  finally show ?thesis using assms(1,2,4) by linarith
qed

text \<open>A due date is stored as midnight in UTC. West of Greenwich, as in Brazil, the table of invoices shows the day
  before it, while the number of days next to it counts to the stored day; both hold for every due date within
  a million days, rounding included.\<close>

theorem due_label_day_before:
  assumes "- 43200000 < tz" and "tz < 0" and "rr_dueDate r = 86400000 * k" and "\<bar>k - local_day tz now\<bar> < 2 ^ 20"
  shows "ir_due (toInvoiceRow tz now r) = day_label (k - 1) \<and> ir_days (toInvoiceRow tz now r) = k - local_day tz now"
proof -
  let ?n = "k - local_day tz now" and ?N = "86400000 * (k - local_day tz now) + tz"
  let ?x = "rat_of_int ?N / 86400000"
  have due: "local_day tz (86400000 * k) = k - 1"
    using assms(1,2) by (simp add: local_day_def)
  have x: "?x - of_int ?n = of_int tz / 86400000" by (simp add: field_simps)
  have "1 \<le> \<bar>86400000 * n + tz\<bar>" for n
  proof (cases "1 \<le> n")
    case True
    then have "86400000 \<le> 86400000 * n" by simp
    with assms(1) have "1 \<le> 86400000 * n + tz" by linarith
    then show ?thesis by (rule order_trans [OF _ abs_ge_self])
  next
    case False
    then have "86400000 * n \<le> 0" by simp
    with assms(2) have "1 \<le> - (86400000 * n + tz)" by linarith
    then show ?thesis by (rule order_trans [OF _ abs_ge_minus_self])
  qed
  then have "1 \<le> \<bar>?N\<bar>" .
  then have "1 \<le> \<bar>rat_of_int ?N\<bar>" by (simp flip: of_int_abs)
  then have "1 / 10 ^ 12 \<le> \<bar>?x\<bar>" by (simp add: field_simps)
  moreover have "(2::rat) powi (- 1022) \<le> 1 / 10 ^ 12" by (simp add: power_int_minus field_simps)
  ultimately have e: "\<bar>fl ?x - ?x\<bar> \<le> \<bar>?x\<bar> / 2 ^ 53" using fl_rel_error order_trans by blast
  have tz: "\<bar>rat_of_int tz / 86400000\<bar> \<le> 43199999 / 86400000"
  proof -
    have "\<bar>tz\<bar> \<le> 43199999" using assms(1,2) by linarith
    then have "rat_of_int \<bar>tz\<bar> \<le> 43199999" by (metis of_int_le_iff of_int_numeral)
    then show ?thesis by (simp add: divide_right_mono)
  qed
  have "\<bar>?n\<bar> \<le> 1048576" using assms(4) by simp
  then have "\<bar>rat_of_int ?n\<bar> \<le> 1048576" by (metis of_int_abs of_int_le_iff of_int_numeral)
  from near_int [OF x tz this e] have "\<bar>fl ?x - of_int ?n\<bar> < 1 / 2" .
  then have "math_round (fl ?x) = ?n" by (rule math_round_eqI)
  moreover have N: "rr_dueDate r - (local_day tz now * 86400000 - tz) = ?N" using assms(3) by (simp add: algebra_simps)
  moreover have "ir_days (toInvoiceRow tz now r)
      = math_round (fl (rat_of_int (rr_dueDate r - (local_day tz now * 86400000 - tz)) / 86400000))"
    by (simp add: toInvoiceRow_def Let_def js_div_def)
  ultimately have "ir_days (toInvoiceRow tz now r) = ?n" by (simp only: N)
  then show ?thesis using due assms(3) by (simp add: toInvoiceRow_def Let_def)
qed

lemma audit_page_static:
  assumes "\<forall>(tab, a) \<in> set clicks. \<forall>d. a = ContractAnswer True d \<longrightarrow> cs_events d = []"
  shows "activeRows text format (fold openTab clicks audit_page_start)
      = auditRows (ap_activeTab (fold openTab clicks audit_page_start))"
proof -
  have "contractRows text format (fold openTab clicks p) = auditRows ContractTab"
    if "contractRows text format p = auditRows ContractTab" "\<forall>(tab, a) \<in> set clicks. \<forall>d. a = ContractAnswer True d \<longrightarrow> cs_events d = []"
    for p
    using that
  proof (induction clicks arbitrary: p)
    case (Cons c cs)
    then show ?case
      by (cases c) (auto simp: openTab_def loadContractData_def contractRows_def Let_def split: contract_answer.splits intro!: Cons.IH)
  qed simp
  from this [of audit_page_start] assms show ?thesis
    by (simp add: activeRows_def contractRows_def audit_page_start_def)
qed

lemma audit_page_numbers: "uniqueNotes = 3" "monitoredValue = 1738790" "uniqueAccounts = 12"
  by code_simp+

lemma audit_page_accounts: "list_all (\<lambda>r. length (cr_account r) \<noteq> 56) (concat (map auditRows tabs))"
  by code_simp

lemma logout_ends_session:
  "requireAuth (case getAccessToken B (snd (handleLogout B s)) of (r, u) \<Rightarrow> (case r of Inr t \<Rightarrow> t | Inl e \<Rightarrow> None)) role req = Some ''/login''
   \<and> s_path (snd (handleLogout B s)) = ''/login'' \<and> s_world (snd (handleLogout B s)) = s_world s"
  by (auto simp: handleLogout_def requireAuth_def catchM_def bindM_def retM_def split: sum.splits prod.splits)

lemma theme_roundtrip: "loadTheme (snd (toggleTheme theme)) = fst (toggleTheme theme)"
  by (simp add: loadTheme_def toggleTheme_def Let_def)

lemma pme_menu: "NavLink ''/pme/cobrancas'' icon label \<notin> set (pmeSidebarItems t)"
  by (simp add: pmeSidebarItems_def)

lemma operator_menu_highlight:
  assumes "CHR ''?'' \<notin> set path"
  shows "filter (isActive path) (operatorSidebarItems t)
    = (if path = ''/operator/dashboard'' then [NavLink ''/operator/dashboard'' ''chart'' (t ''nav_op_overview'')] else [])"
proof -
  have "path \<noteq> ''/operator/dashboard?tab='' @ x" for x using assms by (rule contrapos_nn) simp
  from this [of "''receivables''"] this [of "''transactions''"] this [of "''pool-status''"] this [of "''settings''"]
  show ?thesis by (simp add: operatorSidebarItems_def)
qed

text \<open>The dialog of a collection follows the list: once the API reports it paid, it stops asking.\<close>

lemma collection_dialog_follows:
  assumes "distinct (map col_id cs)" and "c' \<in> set cs" and "col_id c' = col_id c"
  shows "currentCollection cs (Some c) = Some c' \<and> (pollsCollection (Some c') \<longleftrightarrow> col_status c' = CPendingPayment)"
proof -
  obtain x where x: "find (\<lambda>x. col_id x = col_id c) cs = Some x"
    using assms(2,3) by (cases "find (\<lambda>x. col_id x = col_id c) cs") (auto simp: find_None_iff)
  then have "x \<in> set cs" "col_id x = col_id c" by (auto simp: find_Some_iff)
  then have "x = c'" using assms by (metis distinct_map inj_onD)
  moreover have "pollsCollection (Some c') \<longleftrightarrow> col_status c' = CPendingPayment"
    using pendingCollections_eq [of "[c']"] by (auto simp: pollsCollection_def pendingCollections_def Let_def split: if_splits)
  ultimately show ?thesis using x by (simp add: currentCollection_def)
qed

end
