(* ===== verification/WebScenarios.thy ===== *)
theory WebScenarios
  imports WebPages Scenarios
begin

text \<open>
  A browser in front of the API of the theory \<open>Examples\<close>, and runs of the flows of the web application.
\<close>

section \<open>Data\<close>

definition ex_browser :: "string \<Rightarrow> env \<Rightarrow> browser" where
  "ex_browser role E = \<lparr>b_api = E, b_apiUrl = None, b_storage = True,
     b_jwt = (\<lambda>h. if h = Some ''Bearer jwt'' then Some (ex_caller role) else None), b_invalid = ''invalid'',
     b_isUuid = (\<lambda>_. True), b_isUrl = (\<lambda>_. True), b_delivery = (\<lambda>_. Delivered), b_statusText = (\<lambda>_. ''text''),
     b_sign = (\<lambda>_ _. Inr ex_signature), b_privyToken = Some ''t'', b_createWallet = Inr (), b_logout = Inr ()\<rparr>"

definition ex_site :: "world \<Rightarrow> string option \<Rightarrow> site" where
  "ex_site w t = \<lparr>s_world = w, s_token = t, s_handler = True, s_unauthorized = 0, s_requests = [], s_signed = [],
     s_stages = [], s_authorizing = False, s_bootstrapping = False, s_bootstrapError = None, s_attempted = False,
     s_didBootstrap = False, s_roleError = None, s_path = ''/login''\<rparr>"

definition ex_wallet_info :: "wallet_info option" where
  "ex_wallet_info = Some \<lparr>wi_contractId = ''GU'', wi_passkeyId = None, wi_walletType = Some ''privy_stellar'', wi_walletStatus = Some ''ready''\<rparr>"

definition ex_funded :: world where
  "ex_funded = ex_world\<lparr>ptransactions := [ex_deposit\<lparr>ptx_status := TApproved\<rparr>]\<rparr>"

section \<open>Ledger\<close>

theorem dispatch_refines_ledger_witness:
  "let L = ledger_of (finauths ex_world);
       L' = ledger_of (finauths (snd (dispatch (RcvAssign ''r1'' ''a1'') ex_env ex_world))) in
   L' = L \<or> (\<exists>e. allowed (RcvAssign ''r1'' ''a1'') e \<and> ledger_apply e L = Some L')"
  by (rule dispatch_refines_ledger [OF ex_world_ok])

theorem history_one_shot_witness:
  "\<exists>qs es. subseq qs [RcvAssign ''r1'' ''a1'', RcvAssign ''r1'' ''a1''] \<and> list_all2 allowed qs es
    \<and> ledger_run es (ledger_of (finauths ex_world))
      = Some (ledger_of (finauths (run ex_env [RcvAssign ''r1'' ''a1'', RcvAssign ''r1'' ''a1''] ex_world)))
    \<and> (\<forall>i. length (filter (uses i) es) \<le> 1)"
  by (rule history_one_shot [OF ex_world_ok])

definition ex_payout :: pix_withdrawal_dto where
  "ex_payout = \<lparr>pw_userId = ''pme'', pw_amount = 10, pw_pixKey = ''k'', pw_pixKeyType = ''EVP'',
     pw_description = None, pw_metadata = None\<rparr>"

lemma ex_paid: "isl (fst (pixController_createWithdrawal ex_payout ex_env ex_world)) = False"
  by code_simp

theorem withdrawal_without_burn_witness:
  "let w' = snd (pixController_createWithdrawal ex_payout ex_env ex_world) in
   \<exists>(t :: ptransaction) b. w_trace w' = w_trace ex_world @ [PixPost ''/v1/orders/withdrawals'' b]
    \<and> map ptx_id (ptransactions w') = map ptx_id (ptransactions ex_world) @ [ptx_id t]
    \<and> ptx_userId t = pw_userId ex_payout \<and> ptx_amount t = pw_amount ex_payout \<and> ptx_status t = TProcessing"
proof -
  obtain r where "fst (pixController_createWithdrawal ex_payout ex_env ex_world) = Inr r"
    using ex_paid by (cases "fst (pixController_createWithdrawal ex_payout ex_env ex_world)") simp_all
  from withdrawal_without_burn [OF runI, OF this] show ?thesis
    unfolding Let_def by blast
qed

section \<open>Client\<close>

lemma ex_no_token: "b_jwt (ex_browser ''pme'' ex_env) (header ''authorization''
    (snd (snd (sent (ex_browser ''pme'' ex_env) ''/receivables'' GET (ex_site ex_world None))))) = None"
  by code_simp

theorem apiFetch_session_witness:
  "let B = ex_browser ''pme'' ex_env; s = ex_site ex_world None; p = apiFetch (\<lambda>B. guarded B (\<lambda>u. tokenize ''r3'')) ''/x'' GET B s in
   s_requests (snd p) = [sent B ''/x'' GET s] \<and> s_token (snd p) = None"
  unfolding Let_def
  using apiFetch_session [of "\<lambda>B. guarded B (\<lambda>u. tokenize ''r3'')" "''/x''" GET "ex_browser ''pme'' ex_env" "ex_site ex_world None",
      OF surjective_pairing]
  by (simp add: ex_browser_def ex_site_def Let_def split: if_splits)

theorem guarded_closed_witness:
  "s_world (snd (apiFetch (\<lambda>B. guarded B (\<lambda>u. tokenize ''r3'')) ''/receivables'' GET (ex_browser ''pme'' ex_env)
      (ex_site ex_world None))) = ex_world"
  using guarded_closed [OF ex_no_token surjective_pairing, of "\<lambda>u. tokenize ''r3''"] by (simp add: ex_site_def)

theorem filter_hides_internals_witness:
  "let E = ex_env\<lparr>e_conf := [''NODE_ENV'' \<mapsto> ''production'']\<rparr> in
   exceptionsFilter_catch E (JsError ''secret'') = exceptionsFilter_catch E (PrismaError ''P2002'')"
  unfolding Let_def by (rule filter_hides_internals [THEN conjunct1]) (simp_all add: isProd_def)

theorem continueWithPrivy_role_witness:
  "let B = ex_browser ''pme'' ex_env; s = ex_site ex_world (Some ''jwt'');
       s' = snd (continueWithPrivy True ''investor'' (Some ''i'') None B s) in
   (\<exists>i email. s_token s' = Some (e_jwtSign (b_api B) i email (Some ''investor'')) \<and> s_path s' = dashboard_of ''investor'')
    \<or> (s_token s' = None \<or> s_token s' = s_token s) \<and> s_path s' = s_path s"
  unfolding Let_def by (rule continueWithPrivy_role [OF surjective_pairing]) (simp_all add: ex_browser_def)

section \<open>Flows\<close>

lemma ex_browser_simps [simp]:
  "b_api (ex_browser role E) = E" "b_storage (ex_browser role E)" "b_delivery (ex_browser role E) n = Delivered"
  "b_isUuid (ex_browser role E) i" "b_sign (ex_browser role E) a h = Inr ex_signature"
  by (simp_all add: ex_browser_def)

lemma ex_site_simps [simp]: "s_world (ex_site w t) = w" "s_signed (ex_site w t) = []" "s_stages (ex_site w t) = []"
  by (simp_all add: ex_site_def)

lemma ex_caller_known: "caller (ex_browser role E) (ex_site w (Some ''jwt'')) = Some (ex_caller role)"
proof -
  have "header ''authorization'' (finalHeaders False (Some ''jwt'') []) = Some ''Bearer jwt''" by code_simp
  then show ?thesis by (simp add: caller_def ex_browser_def ex_site_def)
qed

lemma ex_signs: "signs (ex_browser role ex_env) ''GU''"
proof -
  have "list_all is_hex (strip0x ex_signature)" "length (strip0x ex_signature) = 128" by code_simp+
  then show ?thesis by (simp add: signs_def) (simp add: ex_env_def)
qed

lemma ex_uuid: "e_uuid ex_env k = CHR ''n'' # show_int (int k)"
  by (simp add: ex_env_def)

lemma ex_uuid_inj: "inj (e_uuid ex_env)"
proof (rule injI)
  fix k m
  assume "e_uuid ex_env k = e_uuid ex_env m"
  then have "read_digits (show_digits (int k)) = read_digits (show_digits (int m))" by (simp add: ex_uuid show_int_def)
  then show "k = m" by (simp add: read_show_digits)
qed

lemma ex_ids: "fresh_ids ex_env ex_world"
proof -
  have "fa_nonce ` set (finauths ex_world) = {''a1'', ''a2''}" "fa_id ` set (finauths ex_world) = {''a1'', ''a2''}"
    "aud_id ` set (auditLogs ex_world) = {}"
    by (auto simp: ex_world_def ex_auth_def)
  then show ?thesis by (simp add: fresh_ids_def ex_uuid ex_uuid_inj)
qed

lemmas ex_ready = ex_caller_known ex_signs ex_ids ex_world_ok ex_hashes

lemma ex_ready_user:
  "find_row usr_id (au_userId (ex_caller role)) (users ex_world) = Some ex_pme"
  "usr_privyStellarWalletAddress ex_pme = Some ''GU''" "usr_privyWalletStatus ex_pme = Some ''ready''"
  "privyAddress ex_wallet_info None = Some ''GU''" "valid_challenge_dto ex_challenge"
  subgoal by (simp add: ex_caller_def ex_world_def ex_pme_def blank_user_def find_row_def)
  by code_simp+

lemma ex_env_simps: "e_publicKeyError ex_env a = None" "length (e_sha256 ex_env t) = 32" "e_delay ex_env n \<le> 300000"
  by (simp_all add: ex_env_def)

lemma ex_authorized:
  "\<exists>i s'. authorize ex_wallet_info None ex_challenge (ex_browser ''pme'' ex_env) (ex_site ex_world (Some ''jwt'')) = (Inr i, s')"
  by (rule authorize_runs [where u = "ex_caller ''pme''" and x = ex_pme and address = "''GU''"])
    (simp_all add: ex_ready_user ex_ready ex_env_simps)

text \<open>A hash that depends on the payload, and the database after a challenge of the same user was issued.\<close>

definition ex_env_sums :: env where
  "ex_env_sums = ex_env\<lparr>e_sha256 := (\<lambda>t. take 32 (map of_char (rev t) @ replicate 32 0))\<rparr>"

definition ex_challenged_world :: world where
  "ex_challenged_world = snd (createChallenge ''pme'' ex_challenge ex_env_sums ex_world)"

lemma ex_sums_uuid: "e_uuid ex_env_sums = e_uuid ex_env" "e_conf ex_env_sums ''STELLAR_NETWORK'' = None"
  by (simp_all add: ex_env_sums_def ex_env_def)

lemma ex_first_payload: "next_payload ex_env_sums ex_world ''pme'' ''GU'' ex_challenge
    = challenge_payload None (e_uuid ex_env 0) 301001 ''pme'' ''GU'' ex_challenge"
  by code_simp

lemma ex_sums:
  "hashPayload ex_env_sums (challenge_payload None (e_uuid ex_env 0) 301001 ''pme'' ''GU'' ex_challenge) \<notin> {''h1'', ex_hash}"
  "hashPayload ex_env_sums (challenge_payload None (e_uuid ex_env 3) 301002 ''pme'' ''GU'' ex_challenge)
    \<notin> {''h1'', ex_hash, hashPayload ex_env_sums (challenge_payload None (e_uuid ex_env 0) 301001 ''pme'' ''GU'' ex_challenge)}"
  by code_simp+

lemma ex_world_keys: "fa_nonce ` set (finauths ex_world) = {''a1'', ''a2''}" "fa_id ` set (finauths ex_world) = {''a1'', ''a2''}"
  "fa_payloadHash ` set (finauths ex_world) = {''h1'', ex_hash}" "length (finauths ex_world) = 2"
  "auditLogs ex_world = []" "w_ids ex_world = 0" "w_now ex_world = 1000" "find_row usr_id ''pme'' (users ex_world) = Some ex_pme"
  by (auto simp: ex_world_def ex_auth_def ex_pme_def blank_user_def find_row_def)

lemma ex_not_uuid: "e_uuid ex_env k \<noteq> ''a1''" "e_uuid ex_env k \<noteq> ''a2''" "e_uuid ex_env k \<notin> {''a1'', ''a2''}"
  by (simp_all add: ex_uuid)

lemma ex_challenged_rows:
  "fa_nonce ` set (finauths ex_challenged_world) = {''a1'', ''a2'', e_uuid ex_env 0}"
  "fa_id ` set (finauths ex_challenged_world) = {''a1'', ''a2'', e_uuid ex_env 1}"
  "aud_id ` set (auditLogs ex_challenged_world) = {e_uuid ex_env 2}" "w_ids ex_challenged_world = 3"
  "find_row usr_id ''pme'' (users ex_challenged_world) = Some ex_pme" "length (finauths ex_challenged_world) = 3"
  "hashPayload ex_env_sums (next_payload ex_env_sums ex_challenged_world ''pme'' ''GU'' ex_challenge)
    \<notin> fa_payloadHash ` set (finauths ex_challenged_world)"
proof -
  let ?E = ex_env_sums and ?w = ex_challenged_world
  have "\<exists>r v. createChallenge ''pme'' ex_challenge ?E ex_world = (Inr r, v)"
    by (rule createChallenge_runs [OF ex_world_keys(8), where a = "''GU''"])
      (simp_all add: ex_ready_user ex_world_keys ex_sums_uuid ex_not_uuid ex_first_payload ex_sums(1) del: insert_iff)
  then obtain r where run: "createChallenge ''pme'' ex_challenge ?E ex_world = (Inr r, ?w)"
    by (auto simp: ex_challenged_world_def)
  note k = createChallenge_clock [OF run]
  have p: "cr_payload r = challenge_payload None (e_uuid ex_env 0) 301001 ''pme'' ''GU'' ex_challenge"
    using createChallenge_payload [OF run] ex_world_keys(8) ex_ready_user(2) ex_first_payload by auto
  obtain a where a: "finauths ?w = finauths ex_world @ [a]" "fa_id a = e_uuid ex_env 1" "fa_nonce a = e_uuid ex_env 0"
    "fa_payloadHash a = hashPayload ?E (cr_payload r)"
    using createChallenge_InrD [OF run] k p by (auto simp: ex_world_keys ex_sums_uuid)
  have "next_payload ?E ?w ''pme'' ''GU'' ex_challenge = challenge_payload None (e_uuid ex_env 3) 301002 ''pme'' ''GU'' ex_challenge"
    using k by (simp add: next_payload_def ex_sums_uuid ex_world_keys tick_def AUTH_TTL_MS_def) (simp add: ex_env_sums_def ex_env_def)
  then show "hashPayload ?E (next_payload ?E ?w ''pme'' ''GU'' ex_challenge) \<notin> fa_payloadHash ` set (finauths ?w)"
    using ex_sums(2) a(1,4) p by (simp add: ex_world_keys(3) insert_commute)
  show "fa_nonce ` set (finauths ?w) = {''a1'', ''a2'', e_uuid ex_env 0}" "fa_id ` set (finauths ?w) = {''a1'', ''a2'', e_uuid ex_env 1}"
    "length (finauths ?w) = 3"
    using a by (auto simp: ex_world_keys)
  show "aud_id ` set (auditLogs ?w) = {e_uuid ex_env 2}" "w_ids ?w = 3" "find_row usr_id ''pme'' (users ?w) = Some ex_pme"
    using k ex_world_keys(8) by (auto simp: ex_world_keys ex_sums_uuid numeral_2_eq_2)
qed

lemma ex_challenged_fresh: "fresh_ids ex_env_sums ex_challenged_world"
  using ex_uuid_inj by (auto simp: fresh_ids_def ex_challenged_rows(1-4) ex_sums_uuid ex_not_uuid inj_eq)

lemma ex_challenged_ok: "db_ok ex_challenged_world"
  unfolding ex_challenged_world_def using keepsR_run [OF createChallenge_step] ex_world_ok by (simp add: sound_step_def)

lemma ex_signs_sums: "signs (ex_browser role ex_env_sums) ''GU''"
  using ex_signs [of role] by (simp add: signs_def ex_env_sums_def ex_browser_def)

lemma ex_env_sums_simps: "e_publicKeyError ex_env_sums a = None" "length (e_sha256 ex_env_sums t) = 32"
  "e_delay ex_env_sums n \<le> 300000" "au_userId (ex_caller role) = ''pme''"
  by (simp_all add: ex_env_sums_def ex_env_def ex_caller_def)

theorem authorize_succeeds_witness:
  "length (finauths ex_challenged_world) = 3 \<and> (\<exists>i s'. authorize ex_wallet_info None ex_challenge
    (ex_browser ''pme'' ex_env_sums) (ex_site ex_challenged_world (Some ''jwt'')) = (Inr i, s'))"
  by (rule conjI [OF ex_challenged_rows(6)],
      rule authorize_succeeds [where u = "ex_caller ''pme''" and x = ex_pme and address = "''GU''"])
    (simp_all add: ex_caller_known ex_ready_user ex_challenged_rows(5,7) ex_challenged_fresh ex_challenged_ok
      ex_signs_sums ex_env_sums_simps)

theorem authorize_sound_witness:
  "\<exists>i s'. authorize ex_wallet_info None ex_challenge (ex_browser ''pme'' ex_env) (ex_site ex_world (Some ''jwt'')) = (Inr i, s')
    \<and> ledger_of (finauths (s_world s')) i = Some (grant_for (au_userId (ex_caller ''pme'')) ex_challenge, Confirmed)"
proof -
  obtain i s' where run: "authorize ex_wallet_info None ex_challenge (ex_browser ''pme'' ex_env)
      (ex_site ex_world (Some ''jwt'')) = (Inr i, s')"
    using ex_authorized by blast
  from authorize_sound [OF run] ex_world_ok run show ?thesis by (auto simp: ex_caller_known)
qed

theorem buy_drawer_never_succeeds_witness:
  "\<exists>d' s'. handleConfirm ex_wallet_info None (Some (toReceivableResponse (ex_rcv ''n1'' RTokenized None)))
      \<lparr>bd_step = BuySummary, bd_error = None, bd_result = None, bd_closing = False\<rparr>
      (ex_browser ''investor'' ex_env) (ex_site ex_state (Some ''jwt'')) = (Inr d', s')
    \<and> bd_step d' = BuySummary \<and> bd_error d' \<noteq> None \<and> bd_result d' = None"
  using buy_drawer_never_succeeds [of "ex_browser ''investor'' ex_env" "ex_site ex_state (Some ''jwt'')" ex_wallet_info None
      "toReceivableResponse (ex_rcv ''n1'' RTokenized None)"
      "\<lparr>bd_step = BuySummary, bd_error = None, bd_result = None, bd_closing = False\<rparr>"] ex_state_reachable
  by simp

lemma ex_deposit_run:
  "fst (runOnChainDeposit ''t1'' ''GU'' (ex_browser ''investor'' ex_env) (ex_site ex_funded (Some ''jwt''))) = Inr ''tx''"
  by code_simp

lemma ex_funded_ok: "db_ok ex_funded"
  by code_simp

theorem runOnChainDeposit_success_witness:
  "let s' = snd (runOnChainDeposit ''t1'' ''GU'' (ex_browser ''investor'' ex_env) (ex_site ex_funded (Some ''jwt''))) in
   s_stages s' = [False, True] \<and> (\<exists>t. find_row ptx_id ''t1'' (ptransactions (s_world s')) = Some t
     \<and> ptx_status t = TCompleted \<and> ptx_txHash t = Some ''tx'')"
  using runOnChainDeposit_success [OF runI, OF ex_deposit_run] ex_funded_ok by (auto simp: Let_def)

definition ex_form :: withdrawal_form where
  "ex_form = \<lparr>wf_amount = ''10.50'', wf_pixKey = '' k '', wf_pixKeyType = ''EVP''\<rparr>"

definition ex_drawer :: withdrawal_drawer where
  "ex_drawer = \<lparr>wd_step = WdForm, wd_errorMessage = None, wd_txHash = None, wd_toast = None\<rparr>"

lemma ex_form_ok: "withdrawal_refusal 20 (privyAddress ex_wallet_info None) ex_form = None"
  by code_simp

theorem handleWithdraw_outcome_witness:
  "\<exists>d' amount. fst (handleWithdraw ex_wallet_info None 20 ex_form ex_drawer (ex_browser ''pme'' ex_env)
      (ex_site ex_world (Some ''jwt''))) = Inr d' \<and> parse_float ''10.50'' = Some amount
    \<and> (wd_step d' = WdError \<or> wd_step d' = WdSuccess)"
  using handleWithdraw_outcome [where wallet = ex_wallet_info and linked = None and available = 20 and f = ex_form
      and d = ex_drawer and B = "ex_browser ''pme'' ex_env" and s = "ex_site ex_world (Some ''jwt'')", OF surjective_pairing] ex_form_ok
  by (auto simp: ex_form_def)

definition ex_modal :: cessao_modal where
  "ex_modal = \<lparr>cm_loading = False, cm_error = None, cm_success = False\<rparr>"

lemma ex_assign_run:
  "fst (handleAssign ''r1'' ex_modal (ex_browser ''pme'' ex_env) (ex_site ex_world (Some ''jwt'')))
    = Inr (ex_modal\<lparr>cm_success := True\<rparr>)"
  by code_simp

theorem handleAssign_success_witness:
  "\<exists>r. find_row rcv_id ''r1'' (receivables (s_world (snd (handleAssign ''r1'' ex_modal (ex_browser ''pme'' ex_env)
      (ex_site ex_world (Some ''jwt'')))))) = Some r \<and> rcv_status r = RActive"
  using handleAssign_success [OF runI, OF ex_assign_run] by (auto simp: ex_modal_def)

section \<open>Transactions\<close>

definition ex_paying :: world where
  "ex_paying = run ex_env (take 2 ex_requests @ [PixDeposit \<lparr>pd_userId = ''n0'', pd_amount = 5, pd_description = None,
     pd_expiresInSeconds = None, pd_metadata = []\<rparr>]) (empty_world 0)"

lemma ex_paying_rows: "map ptx_userId (ptransactions ex_paying) = [''n0'']"
  by code_simp

theorem reachable_typed_witness:
  "\<exists>t. t \<in> set (ptransactions ex_paying) \<and> (ptx_type t = ''DEPOSIT'' \<or> ptx_type t = ''WITHDRAWAL'')
     \<and> has_user ex_paying (ptx_userId t)"
proof -
  have "reachable ex_env ex_paying" unfolding ex_paying_def by (rule reachable_run, rule reachable.init)
  moreover from ex_paying_rows obtain t where "t \<in> set (ptransactions ex_paying)"
    by (cases "ptransactions ex_paying") auto
  ultimately show ?thesis using reachable_typed by blast
qed

section \<open>Forms and pages\<close>

definition ex_zone :: upload_zone where
  "ex_zone = \<lparr>uz_phase = UpForm, uz_file = Some \<lparr>uf_name = ''nota 1.xml'', uf_content = None\<rparr>, uz_errorMsg = None,
     uz_debtorName = ''D'', uz_debtorDocument = ''1'', uz_value = ''1,234.50'', uz_dueDate = ''2026-07-15'', uz_customHash = ''beef''\<rparr>"

lemma ex_upload:
  "fst (handleSubmit ex_zone (ex_browser ''pme'' ex_env) (ex_site ex_world (Some ''jwt''))) = Inr (ex_zone\<lparr>uz_phase := UpSuccess\<rparr>)"
  by code_simp

theorem upload_success_witness:
  "\<exists>r. receivables (s_world (snd (handleSubmit ex_zone (ex_browser ''pme'' ex_env) (ex_site ex_world (Some ''jwt'')))))
      = receivables ex_world @ [r] \<and> rcv_debtorName r = uz_debtorName ex_zone \<and> rcv_status r = RPending
    \<and> rcv_documentHash r = Some (uz_customHash ex_zone)"
proof -
  have "uz_phase (ex_zone\<lparr>uz_phase := UpSuccess\<rparr>) = UpSuccess" "uz_phase ex_zone \<noteq> UpSuccess" by (simp_all add: ex_zone_def)
  from upload_success [OF runI, OF ex_upload this] show ?thesis by auto
qed

text \<open>The second request of the first submission is lost.\<close>

definition ex_lossy :: browser where
  "ex_lossy = (ex_browser ''pme'' ex_env)\<lparr>b_delivery := (\<lambda>n. if n = 1 then RequestLost else Delivered)\<rparr>"

definition ex_retry :: upload_zone where
  "ex_retry = ex_zone\<lparr>uz_errorMsg := Some ''Failed to fetch'', uz_phase := UpError\<rparr>"

lemma ex_first_submission:
  "fst (handleSubmit ex_zone ex_lossy (ex_site ex_world (Some ''jwt''))) = Inr ex_retry"
  "isl (fst (createReceivable ex_zone ex_lossy (ex_site ex_world (Some ''jwt'')))) = False"
  "fst (handleSubmit ex_retry ex_lossy (snd (handleSubmit ex_zone ex_lossy (ex_site ex_world (Some ''jwt'')))))
    = Inr (ex_retry\<lparr>uz_errorMsg := None, uz_phase := UpSuccess\<rparr>)"
  "\<not> uz_incomplete ex_zone"
  by code_simp+

theorem upload_retry_duplicates_witness:
  "let w2 = s_world (snd (handleSubmit ex_retry ex_lossy (snd (handleSubmit ex_zone ex_lossy (ex_site ex_world (Some ''jwt'')))))) in
   \<exists>a b. a \<in> set (receivables w2) \<and> b \<in> set (receivables w2) \<and> rcv_id a \<noteq> rcv_id b
    \<and> rcv_debtorName a = rcv_debtorName b \<and> rcv_value a = rcv_value b"
proof -
  let ?s = "ex_site ex_world (Some ''jwt'')"
  obtain s1 where run: "handleSubmit ex_zone ex_lossy ?s = (Inr ex_retry, s1)" "s1 = snd (handleSubmit ex_zone ex_lossy ?s)"
    using runI [OF ex_first_submission(1)] by simp
  from run(1) obtain x t e where "createReceivable ex_zone ex_lossy ?s = (Inr x, t)" "createDocument ex_zone (rr_id x) ex_lossy t = (Inl e, s1)"
  proof (cases rule: handleSubmit_cases)
    case (refused e)
    with ex_first_submission(2) show thesis by simp
  qed (use ex_first_submission(4) in \<open>auto simp: ex_retry_def dest: arg_cong [where f = uz_phase]\<close>)
  moreover have "uz_phase (ex_retry\<lparr>uz_errorMsg := None, uz_phase := UpSuccess\<rparr>) = UpSuccess" by simp
  ultimately have "\<exists>a b. a \<in> set (receivables (s_world (snd (handleSubmit ex_retry ex_lossy s1))))
      \<and> b \<in> set (receivables (s_world (snd (handleSubmit ex_retry ex_lossy s1)))) \<and> rcv_id a \<noteq> rcv_id b
      \<and> rcv_debtorName a = rcv_debtorName b \<and> rcv_value a = rcv_value b"
    using upload_retry_duplicates [OF _ _ run(1) ex_first_submission(4) runI, OF _ _ ex_first_submission(3) [folded run(2)]]
    by blast
  then show ?thesis by (simp only: Let_def run(2))
qed

definition ex_new_browser :: browser where
  "ex_new_browser = (ex_browser ''pme'' ex_env)\<lparr>b_jwt := (\<lambda>h. if h = Some ''Bearer jwt''
     then Some \<lparr>au_userId = ''new'', au_email = ''New@x.br'', au_role = None\<rparr> else None)\<rparr>"

definition ex_role_page :: role_page where
  "ex_role_page = \<lparr>rp_role = ''investor'', rp_step = RoleStep, rp_error = None\<rparr>"

lemma ex_role_chosen:
  "fst (role_handleSubmit ex_role_page ex_new_browser (ex_site ex_world (Some ''jwt''))) = Inr ex_role_page"
  by code_simp

theorem role_selection_success_witness:
  "s_path (snd (role_handleSubmit ex_role_page ex_new_browser (ex_site ex_world (Some ''jwt'')))) = ''/investor/dashboard''"
proof -
  have "rp_error ex_role_page = None" "b_storage ex_new_browser" "rp_role ex_role_page \<noteq> []" "rp_role ex_role_page \<noteq> ''pme''"
    by (simp_all add: ex_role_page_def ex_new_browser_def)
  with role_selection_success [OF runI, OF ex_role_chosen] show ?thesis by auto
qed

definition ex_settings :: settings_page where
  "ex_settings = \<lparr>se_name = '' P '', se_phone = [], se_address = [], se_companyName = [], se_cnpj = [], se_monthlyRevenue = [],
     se_sector = [], se_investorType = [], se_riskProfile = [], se_operationalLimit = [], se_currentPassword = ''password'',
     se_newPassword = ''long enough'', se_confirmPassword = ''long enough'', se_passwordError = None, se_toast = None\<rparr>"

theorem settings_save_witness:
  "let w' = s_world (snd (handleSaveProfile ex_settings (ex_browser ''pme'' ex_env) (ex_site ex_world (Some ''jwt'')))) in
   map usr_phone (users w') = map usr_phone (users ex_world)"
proof -
  have "trim (se_phone ex_settings) = []" by (simp add: ex_settings_def trim_def)
  with settings_save [OF surjective_pairing, of ex_settings "ex_browser ''pme'' ex_env" "ex_site ex_world (Some ''jwt'')"]
  show ?thesis by (auto simp: Let_def upd_row_def)
qed

lemma ex_password_changed:
  "fst (handleChangePassword ex_settings (ex_browser ''pme'' ex_env) (ex_site ex_world (Some ''jwt''))) =
    Inr (ex_settings\<lparr>se_toast := Some ''Senha atualizada'', se_currentPassword := [], se_newPassword := [], se_confirmPassword := []\<rparr>)"
  by code_simp

theorem handleChangePassword_success_witness:
  "\<exists>h'. users (s_world (snd (handleChangePassword ex_settings (ex_browser ''pme'' ex_env) (ex_site ex_world (Some ''jwt'')))))
    = upd_row usr_id (au_userId (ex_caller ''pme'')) (\<lambda>y. y\<lparr>usr_passwordHash := Some h'\<rparr>) (users ex_world)"
proof -
  have "se_passwordError (ex_settings\<lparr>se_toast := Some ''Senha atualizada'', se_currentPassword := [], se_newPassword := [],
      se_confirmPassword := []\<rparr>) = None"
    by (simp add: ex_settings_def)
  from handleChangePassword_success [OF runI, OF ex_password_changed this] show ?thesis by (auto simp: ex_caller_known)
qed

definition ex_desk :: operator_page where
  "ex_desk = \<lparr>ow_processingId = None, ow_viewing = None, ow_createDepositOpen = True, ow_selectedInvestorId = ''pme'',
     ow_depositAmount = ''5'', ow_creatingDeposit = False, ow_toast = None\<rparr>"

lemma ex_desk_deposit:
  "fst (handleCreateDeposit ex_desk (ex_browser ''operator'' ex_env) (ex_site ex_world (Some ''jwt''))) =
    Inr (ex_desk\<lparr>ow_toast := Some (''Deposit order created successfully for the investor!'', True),
      ow_createDepositOpen := False, ow_selectedInvestorId := [], ow_depositAmount := []\<rparr>)"
  by code_simp

theorem operator_deposit_outcome_witness:
  "\<exists>t. find_row ptx_id (ptx_id t) (ptransactions (s_world (snd (handleCreateDeposit ex_desk (ex_browser ''operator'' ex_env)
      (ex_site ex_world (Some ''jwt'')))))) = Some t \<and> ptx_type t = ''DEPOSIT'' \<and> ptx_status t = TPendingPayment"
  using operator_deposit_outcome [OF runI, OF ex_desk_deposit] by auto

definition ex_expired :: pix_webhook_dto where
  "ex_expired = ex_callback\<lparr>wh_status := ''EXPIRED''\<rparr>"

lemma ex_expiry: "fst (orderEffects ex_expired ex_env ex_world) = Inr ()"
  by code_simp

theorem failed_deposit_shown_released_witness:
  "\<exists>t'. t' \<in> set (activeDeposits (ptransactions (snd (orderEffects ex_expired ex_env ex_world))))
    \<and> depositLabel t' = ReleasedOnChain"
proof -
  have "find_row ptx_id (wh_externalId ex_expired) (ptransactions ex_world) = Some ex_deposit" by code_simp
  moreover have "wh_status ex_expired = ''FAILED'' \<or> wh_status ex_expired = ''EXPIRED''" "ptx_type ex_deposit = ''DEPOSIT''"
    by (simp_all add: ex_expired_def ex_deposit_def)
  ultimately show ?thesis using failed_deposit_shown_released [OF runI, OF ex_expiry] by blast
qed

end
