(* ===== verification/ViewScenarios.thy ===== *)
theory ViewScenarios
  imports WebPanels WebScenarios
begin

text \<open>
  The scripts and the pages of the web client on the data of \<open>Examples\<close>: a seeded database, a user who was
  admitted and signs in, a history that is refreshed, and rows of the table of invoices.
\<close>

section \<open>Scripts\<close>

theorem seed_outcome_witness:
  "\<exists>v pme rs ds ss ls. seed 0 (\<lambda>_. 0) ex_env (empty_world 0) = (Inr (), v) \<and> receivables v = rs
    \<and> documents v = ds \<and> settlements v = ss \<and> auditLogs v = ls \<and> rcv_userId ` set rs = {pme}
    \<and> map rcv_status rs = seed_statuses \<and> map (\<lambda>s. (stl_receivableId s, stl_status s)) ss = map (\<lambda>r. (rcv_id r, SSettled)) (take 3 rs)"
proof -
  have "issued ex_env (empty_world 0)" by (simp add: issued_def empty_world_def)
  moreover have "\<exists>h. e_bcryptHash ex_env (w_trace (empty_world 0)) ''demo@1234'' = Inr h" by (simp add: ex_env_def)
  ultimately show ?thesis
    using seed_outcome [OF ex_uuid_inj empty_ok(1), of 0 0 "\<lambda>_. 0"] by (simp add: empty_world_def) blast
qed

definition ex_env_db :: env where
  "ex_env_db = ex_env\<lparr>e_conf := map_of [(''DATABASE_URL'', ''db'')]\<rparr>"

definition ex_admitted :: world where
  "ex_admitted = snd (addUser [''Pme@X.br '', ''investor''] ex_env_db (empty_world 0))"

lemma ex_added: "\<exists>u. fst (addUser [''Pme@X.br '', ''investor''] ex_env_db (empty_world 0)) = Inr u"
proof -
  have "\<not> isl (fst (addUser [''Pme@X.br '', ''investor''] ex_env_db (empty_world 0)))" by code_simp
  then show ?thesis by (auto simp: isl_def) (metis sum.collapse(2) isl_def)
qed

lemma ex_admitted_facts: "map (\<lambda>u. (usr_email u, usr_privyUserId u)) (users ex_admitted) = [(''pme@x.br'', None)]"
  by code_simp

lemma ex_admitted_session: "fst (verifySession ''t'' ''i'' ex_env_db w) =
    Inr \<lparr>pv_userId = ''did'', pv_email = ''pme@x.br'', pv_wallet = ''GU''\<rparr>"
proof -
  have "findEmailAddress [EmailAccount '' Pme@x.br'', WalletAccount ''stellar'' ''privy'' ''GU''] = Some ''pme@x.br''"
    "findStellarWalletAddress [EmailAccount '' Pme@x.br'', WalletAccount ''stellar'' ''privy'' ''GU''] = Some ''GU''"
    "trim ''t'' \<noteq> []" "trim ''i'' \<noteq> []"
    by code_simp+
  then show ?thesis
    by (simp add: verifySession_def throwIf_def callM_def bindM_def catchM_def someOr_def retM_def ex_env_db_def ex_env_def)
qed

lemma ex_admitted_ok: "db_ok ex_admitted"
  using keepsR_run [OF addUser_step] empty_ok(1) by (auto simp: ex_admitted_def sound_step_def)

theorem addUser_admits_witness:
  "\<exists>r v2. privySession ''t'' ''i'' ex_env_db ex_admitted = (Inr r, v2) \<and> tr_email (sr_token r) = ''pme@x.br''"
proof -
  obtain u where "fst (addUser [''Pme@X.br '', ''investor''] ex_env_db (empty_world 0)) = Inr u" using ex_added ..
  then have u: "addUser [''Pme@X.br '', ''investor''] ex_env_db (empty_world 0) = (Inr u, ex_admitted)"
    by (simp only: prod_eq_iff fst_conv snd_conv ex_admitted_def)
  have e: "toLowerCase (trim (hd [''Pme@X.br '', ''investor''])) = ''pme@x.br''" by code_simp
  have only: "\<forall>x \<in> set (users ex_admitted). usr_email x = ''pme@x.br''"
    using arg_cong [OF ex_admitted_facts, of "\<lambda>xs. fst ` set xs"] by (simp add: image_image) blast
  have "usr_email u = ''pme@x.br''"
    using addUser_Inr [OF u empty_ok(1)] only by (auto dest: find_row_SomeD)
  with addUser_admits [OF u empty_ok(1) evo.kept_refl ex_admitted_ok runI, OF ex_admitted_session] e only show ?thesis
    by auto
qed

section \<open>Pages\<close>

definition ex_minted :: world where
  "ex_minted = snd (tokenize ''r3'' ex_env ex_world)"

lemma ex_reads:
  "\<exists>es. fst (useAuditTrail ''r3'' (ex_browser ''pme'' ex_env) (ex_site w (Some ''jwt''))) = Inr es"
proof -
  let ?B = "ex_browser ''pme'' ex_env" and ?s = "ex_site w (Some ''jwt'')"
  let ?ls = "order_desc aud_createdAt (filter (\<lambda>l. aud_entityId l = ''r3'') (auditLogs w))"
  have d: "b_delivery ?B (length (s_requests ?s)) = Delivered" by (simp add: ex_browser_def)
  have "audit_find (au_userId (ex_caller ''pme'')) (Some ''r3'') (b_api ?B) (s_world ?s) = (Inr ?ls, w)"
    by (simp add: audit_find_def audit_findByEntity_def falsy_def)
  from apiFetch_runs [OF d ex_caller_known, where route = "route_audit (Some ''r3'')" and options = GET
      and h = "\<lambda>u. audit_find (au_userId u) (Some ''r3'')", OF _ _ _ this] show ?thesis
    by (simp add: useAuditTrail_def route_audit_def)
qed

theorem timeline_grows_witness:
  "\<exists>es fs. fst (useAuditTrail ''r3'' (ex_browser ''pme'' ex_env) (ex_site ex_world (Some ''jwt''))) = Inr es
    \<and> fst (useAuditTrail ''r3'' (ex_browser ''pme'' ex_env) (ex_site ex_minted (Some ''jwt''))) = Inr fs
    \<and> (\<exists>ls ms. eventsToTimeline toISOString id (rev es) = map (timelineItem toISOString id) ls
      \<and> eventsToTimeline show_int id fs = map (timelineItem show_int id) ms
      \<and> sorted (map aud_createdAt ls) \<and> sorted (map aud_createdAt ms) \<and> mset ls \<subseteq># mset ms)"
proof -
  obtain es fs where
    es: "fst (useAuditTrail ''r3'' (ex_browser ''pme'' ex_env) (ex_site ex_world (Some ''jwt''))) = Inr es" and
    fs: "fst (useAuditTrail ''r3'' (ex_browser ''pme'' ex_env) (ex_site ex_minted (Some ''jwt''))) = Inr fs"
    using ex_reads [of ex_world] ex_reads [of ex_minted] by blast
  have "evolves (s_world (ex_site ex_world (Some ''jwt''))) (s_world (ex_site ex_minted (Some ''jwt'')))"
    using keepsR_run [OF tokenize_step, of ex_world "''r3''" ex_env] by (simp add: ex_minted_def sound_step_def)
  from timeline_grows [OF runI, OF es _ this runI, OF _ fs, of "rev es" fs toISOString id show_int] es fs show ?thesis
    by (simp only: mset_rev list.distinct simp_thms) blast
qed

lemma ex_shown: "length (eventsToTimeline toISOString id
    (case fst (useAuditTrail ''r3'' (ex_browser ''pme'' ex_env) (ex_site ex_minted (Some ''jwt''))) of Inr es \<Rightarrow> es | Inl e \<Rightarrow> [])) = 4"
  by code_simp

definition ex_due :: receivable_response where
  "ex_due = (toReceivableResponse (ex_rcv ''r1'' RValidated None))\<lparr>rr_dueDate := 1779062400000\<rparr>"

theorem due_label_day_before_witness:
  "ir_due (toInvoiceRow (- 10800000) 1778500000000 ex_due) = ''17 May''
   \<and> ir_days (toInvoiceRow (- 10800000) 1778500000000 ex_due) = 7"
proof -
  have d: "day_label (20591 - 1) = ''17 May''" "local_day (- 10800000) 1778500000000 = 20584" by code_simp+
  have "rr_dueDate ex_due = 86400000 * 20591" by (simp add: ex_due_def)
  from due_label_day_before [OF _ _ this, of "- 10800000" 1778500000000] d show ?thesis by simp
qed

end
