(* ===== verification/Threads.thy ===== *)
theory Threads
  imports AuthorizationLedger
begin

text \<open>
  Requests that are served at the same time. Node runs the code of a request up to its next \<open>await\<close> without
  interruption; between two awaits of one request any steps of other requests may happen. A \<open>thread\<close> is a
  request as the sequence of these steps: \<open>awaiting\<close> is one call to the database or to a service with the
  code up to the next one, \<open>bindT\<close> and \<open>catchT\<close> are the sequence and \<open>try\<close> of the language.
\<close>

section \<open>Threads\<close>

datatype 'a thread = Done "exn + 'a" | Next "env \<Rightarrow> world \<Rightarrow> 'a thread \<times> world"

definition awaiting :: "'a api \<Rightarrow> 'a thread" where
  "awaiting m = Next (\<lambda>E w. map_prod Done id (m E w))"

definition returning :: "'a \<Rightarrow> 'a thread" where
  "returning a = Done (Inr a)"

definition failing :: "exn \<Rightarrow> 'a thread" where
  "failing e = Done (Inl e)"

definition unless :: "bool \<Rightarrow> exn \<Rightarrow> unit thread" where
  "unless c e = (if c then failing e else returning ())"

definition present :: "'a option \<Rightarrow> exn \<Rightarrow> 'a thread" where
  "present v e = (case v of None \<Rightarrow> failing e | Some a \<Rightarrow> returning a)"

primrec bindT :: "'a thread \<Rightarrow> ('a \<Rightarrow> 'b thread) \<Rightarrow> 'b thread" where
  "bindT (Done r) = (\<lambda>k. case r of Inl e \<Rightarrow> failing e | Inr a \<Rightarrow> k a)"
| "bindT (Next f) = (\<lambda>k. Next (\<lambda>E w. map_prod (\<lambda>g. g k) id (map_prod bindT id (f E w))))"

primrec catchT :: "'a thread \<Rightarrow> (exn \<Rightarrow> 'a thread) \<Rightarrow> 'a thread" where
  "catchT (Done r) = (\<lambda>h. case r of Inl e \<Rightarrow> h e | Inr a \<Rightarrow> returning a)"
| "catchT (Next f) = (\<lambda>h. Next (\<lambda>E w. map_prod (\<lambda>g. g h) id (map_prod catchT id (f E w))))"

text \<open>The thread without interruption.\<close>

primrec uninterrupted :: "'a thread \<Rightarrow> 'a api" where
  "uninterrupted (Done r) = (\<lambda>E w. (r, w))"
| "uninterrupted (Next f) = (\<lambda>E w. (\<lambda>(g, v). g E v) (map_prod uninterrupted id (f E w)))"

lemma uninterrupted_Next: "uninterrupted (Next f) E w = (case f E w of (t, v) \<Rightarrow> uninterrupted t E v)"
  by (simp add: split_beta)

lemma bindT_Next: "bindT (Next f) k = Next (\<lambda>E w. case f E w of (t, v) \<Rightarrow> (bindT t k, v))"
  by (simp add: split_beta map_prod_def)

lemma catchT_Next: "catchT (Next f) h = Next (\<lambda>E w. case f E w of (t, v) \<Rightarrow> (catchT t h, v))"
  by (simp add: split_beta map_prod_def)

declare uninterrupted.simps(2) [simp del] bindT.simps(2) [simp del] catchT.simps(2) [simp del]

lemma uninterrupted_awaiting [simp]: "uninterrupted (awaiting m) = m"
  by (simp add: awaiting_def uninterrupted_Next fun_eq_iff split_beta)

lemma uninterrupted_pure [simp]:
  "uninterrupted (returning a) = retM a" "uninterrupted (failing e) = throwM e"
  "uninterrupted (unless c e) = throwIf c e" "uninterrupted (present v e) = someOr v e"
  by (simp_all add: returning_def failing_def unless_def present_def throwIf_def someOr_def retM_def throwM_def
      fun_eq_iff split: option.split)

lemma thread_induct [case_names Done Next]:
  assumes "\<And>r. P (Done r)" and "\<And>f. (\<And>E w. P (fst (f E w))) \<Longrightarrow> P (Next f)"
  shows "P t"
proof (induction t)
  case (Next f)
  have "P (fst (f E w))" for E w
    using Next [of "f E" "f E w" "fst (f E w)"] by (simp add: prod_set_defs)
  then show ?case by (rule assms(2))
qed (rule assms(1))

lemma uninterrupted_bind [simp]:
  "uninterrupted (bindT t k) = bindM (uninterrupted t) (\<lambda>a. uninterrupted (k a))"
proof (induction t rule: thread_induct)
  case (Done r)
  then show ?case by (cases r) (simp_all add: failing_def bindM_def fun_eq_iff)
next
  case (Next f)
  then show ?case by (simp add: bindT_Next uninterrupted_Next bindM_def fun_eq_iff split_beta)
qed

lemma uninterrupted_catch [simp]:
  "uninterrupted (catchT t h) = catchM (uninterrupted t) (\<lambda>e. uninterrupted (h e))"
proof (induction t rule: thread_induct)
  case (Done r)
  then show ?case by (cases r) (simp_all add: catchM_def fun_eq_iff)
next
  case (Next f)
  then show ?case by (simp add: catchT_Next uninterrupted_Next catchM_def fun_eq_iff split_beta)
qed

text \<open>One step; a thread that has ended stays as it is.\<close>

fun take_step :: "'a thread \<Rightarrow> env \<Rightarrow> world \<Rightarrow> 'a thread \<times> world" where
  "take_step (Done r) E w = (Done r, w)"
| "take_step (Next f) E w = f E w"

fun outcome :: "'a thread \<Rightarrow> (exn + 'a) option" where
  "outcome (Done r) = Some r"
| "outcome (Next f) = None"

fun steps :: "nat \<Rightarrow> 'a thread \<Rightarrow> env \<Rightarrow> world \<Rightarrow> 'a thread \<times> world" where
  "steps 0 t E w = (t, w)"
| "steps (Suc n) t E w = (case take_step t E w of (u, v) \<Rightarrow> steps n u E v)"

lemma take_step_pure [simp]:
  "take_step (returning a) E w = (returning a, w)" "take_step (failing e) E w = (failing e, w)"
  by (simp_all add: returning_def failing_def)

lemma bindT_pure: "bindT (returning a) k = k a" "bindT (failing e) k = failing e"
  by (simp_all add: returning_def failing_def)

lemma bindT_unless: "bindT (unless c e) k = (if c then failing e else k ())"
  by (simp add: unless_def bindT_pure)

lemma bindT_present: "bindT (present v e) k = (case v of None \<Rightarrow> failing e | Some a \<Rightarrow> k a)"
  by (simp add: present_def bindT_pure split: option.split)

lemma bindT_assoc: "bindT (bindT t f) g = bindT t (\<lambda>a. bindT (f a) g)"
proof (induction t rule: thread_induct)
  case (Done r)
  then show ?case by (cases r) (simp_all add: bindT_pure)
next
  case (Next f)
  then show ?case by (simp add: bindT_Next split_beta)
qed

lemma take_step_awaiting [simp]:
  "take_step (bindT (awaiting m) f) E w = (case m E w of (Inl e, v) \<Rightarrow> (failing e, v) | (Inr a, v) \<Rightarrow> (f a, v))"
  by (auto simp: awaiting_def bindT_Next split: prod.splits sum.splits)

text \<open>A thread that keeps the turn ends, with the result and the state it has without interruption.\<close>

lemma steps_uninterrupted: "\<exists>n. steps n t E w = map_prod Done id (uninterrupted t E w)"
proof (induction t arbitrary: w rule: thread_induct)
  case (Done r)
  show ?case by (intro exI [of _ 0]) simp
next
  case (Next f)
  obtain n where "steps n (fst (f E w)) E (snd (f E w)) = map_prod Done id (uninterrupted (fst (f E w)) E (snd (f E w)))"
    using Next by blast
  then show ?case by (intro exI [of _ "Suc n"]) (simp add: uninterrupted_Next split_beta id_def)
qed

lemmas thread_eqs = bindT_pure bindT_unless bindT_present bindT_assoc

section \<open>What every step of a thread keeps\<close>

named_theorems safe \<open>rules that decompose a statement about a thread into its steps\<close>

text \<open>\<open>safeT R Q t\<close>: every step of \<open>t\<close>, from whatever state it is taken, relates the states by \<open>R\<close>, and a
  normal result satisfies \<open>Q\<close>.\<close>

primrec safeT :: "(world \<Rightarrow> world \<Rightarrow> bool) \<Rightarrow> ('a \<Rightarrow> bool) \<Rightarrow> 'a thread \<Rightarrow> bool" where
  "safeT R Q (Done r) \<longleftrightarrow> (\<forall>a. r = Inr a \<longrightarrow> Q a)"
| "safeT R Q (Next f) \<longleftrightarrow> (\<forall>E w. (\<lambda>(s, v). s \<and> R w v) (map_prod (safeT R Q) id (f E w)))"

lemma safeT_Next: "safeT R Q (Next f) \<longleftrightarrow> (\<forall>E w. safeT R Q (fst (f E w)) \<and> R w (snd (f E w)))"
  by (simp add: split_beta)

declare safeT.simps(2) [simp del]

lemma safe_pure [safe]:
  "Q a \<Longrightarrow> safeT R Q (returning a)" "safeT R Q (failing e)" "Q' () \<Longrightarrow> safeT R Q' (unless c e)"
  by (simp_all add: returning_def failing_def unless_def)

lemma safe_present [safe]: "(\<And>a. v = Some a \<Longrightarrow> Q a) \<Longrightarrow> safeT R Q (present v e)"
  by (cases v) (simp_all add: present_def safe)

lemma safe_awaiting_post:
  assumes "keepsR R m" and "\<And>E w a v. m E w = (Inr a, v) \<Longrightarrow> Q a"
  shows "safeT R Q (awaiting m)"
  using assms(1) assms(2) by (auto simp: awaiting_def safeT_Next keepsR_def) (metis prod.collapse)

lemma safe_bind_post:
  assumes "safeT R P t" and "\<And>a. P a \<Longrightarrow> safeT R Q (k a)"
  shows "safeT R Q (bindT t k)"
  using assms(1)
proof (induction t rule: thread_induct)
  case (Done r)
  then show ?case using assms(2) by (cases r) (auto simp: safe)
next
  case (Next f)
  then show ?case by (simp add: bindT_Next safeT_Next split_beta)
qed

lemma safe_mono: "safeT R P t \<Longrightarrow> (\<And>a. P a \<Longrightarrow> Q a) \<Longrightarrow> safeT R Q t"
  by (induction t rule: thread_induct) (auto simp: safeT_Next)

lemma safe_catch [safe]:
  assumes "safeT R Q t" and "\<And>e. safeT R Q (h e)"
  shows "safeT R Q (catchT t h)"
  using assms(1)
proof (induction t rule: thread_induct)
  case (Done r)
  then show ?case using assms(2) by (cases r) (auto simp: safe)
next
  case (Next f)
  then show ?case by (simp add: catchT_Next safeT_Next split_beta)
qed

abbreviation any :: "'a \<Rightarrow> bool" where
  "any \<equiv> \<lambda>_. True"

lemma safe_awaiting [safe]: "keepsR R m \<Longrightarrow> safeT R any (awaiting m)"
  by (rule safe_awaiting_post) simp_all

lemma safe_bind [safe]: "safeT R any t \<Longrightarrow> (\<And>a. safeT R Q (k a)) \<Longrightarrow> safeT R Q (bindT t k)"
  by (rule safe_bind_post)

lemma safe_if [safe]: "safeT R Q t \<Longrightarrow> safeT R Q u \<Longrightarrow> safeT R Q (if c then t else u)"
  by simp

lemma safe_take_step:
  "safeT R Q t \<Longrightarrow> (\<And>w. R w w) \<Longrightarrow> safeT R Q (fst (take_step t E w)) \<and> R w (snd (take_step t E w))"
  by (cases t) (simp_all add: safeT_Next)

lemma safe_option [safe]:
  "(v = None \<Longrightarrow> safeT R Q t) \<Longrightarrow> (\<And>a. v = Some a \<Longrightarrow> safeT R Q (u a)) \<Longrightarrow>
   safeT R Q (case v of None \<Rightarrow> t | Some a \<Rightarrow> u a)"
  by (cases v) simp_all

lemma safe_sum [safe]:
  "(\<And>a. safeT R Q (t a)) \<Longrightarrow> (\<And>b. safeT R Q (u b)) \<Longrightarrow> safeT R Q (case v of Inl a \<Rightarrow> t a | Inr b \<Rightarrow> u b)"
  by (cases v) simp_all

lemma safe_prod [safe]: "(\<And>a b. safeT R Q (t a b)) \<Longrightarrow> safeT R Q (case v of (a, b) \<Rightarrow> t a b)"
  by (cases v) simp

lemma safe_both: "safeT R any t \<Longrightarrow> safeT R' any t \<Longrightarrow> safeT (\<lambda>w v. R w v \<and> R' w v) any t"
  by (induction t rule: thread_induct) (auto simp: safeT_Next)

section \<open>What a thread keeps when the others keep their promise\<close>

text \<open>\<open>relying S R t w\<close>: the thread was left in the world \<open>w\<close>. Whatever the others do by \<open>S\<close> until its next step,
  that step relates the worlds by \<open>R\<close>, and so on from the world it leaves. What a thread has read before may
  be used here, as far as \<open>S\<close> keeps it.\<close>

primrec relying :: "(world \<Rightarrow> world \<Rightarrow> bool) \<Rightarrow> (world \<Rightarrow> world \<Rightarrow> bool) \<Rightarrow> 'a thread \<Rightarrow> world \<Rightarrow> bool" where
  "relying S R (Done r) = (\<lambda>w. True)"
| "relying S R (Next f) = (\<lambda>w. \<forall>E v. S w v \<longrightarrow> (\<lambda>(s, u). R v u \<and> s u) (map_prod (relying S R) id (f E v)))"

lemma relying_Next:
  "relying S R (Next f) w \<longleftrightarrow> (\<forall>E v. S w v \<longrightarrow> R v (snd (f E v)) \<and> relying S R (fst (f E v)) (snd (f E v)))"
  by (simp add: split_beta)

declare relying.simps(2) [simp del]

lemma relying_pure [simp]: "relying S R (returning a) w" "relying S R (failing e) w"
  by (simp_all add: returning_def failing_def)

lemma safe_relying: "safeT R Q t \<Longrightarrow> relying S R t w"
  by (induction t arbitrary: w rule: thread_induct) (simp_all add: safeT_Next relying_Next)

lemma relying_later:
  assumes "relying S R t w" and "S w v" and "transp S"
  shows "relying S R t v"
  using assms by (cases t) (auto simp: relying_Next dest: transpD)

lemma relying_take_step:
  assumes "relying S R t w" and "S w w" and "R w w"
  shows "R w (snd (take_step t E w)) \<and> relying S R (fst (take_step t E w)) (snd (take_step t E w))"
  using assms by (cases t) (auto simp: relying_Next)

lemma relying_awaiting:
  assumes "\<And>E v. S w v \<Longrightarrow> R v (snd (m E v))"
    and "\<And>E v a u. S w v \<Longrightarrow> m E v = (Inr a, u) \<Longrightarrow> relying S R (k a) u"
  shows "relying S R (bindT (awaiting m) k) w"
proof -
  have "R v (snd (take_step (bindT (awaiting m) k) E v)) \<and>
      relying S R (fst (take_step (bindT (awaiting m) k) E v)) (snd (take_step (bindT (awaiting m) k) E v))"
    if "S w v" for E v
    using assms(1) [OF that, of E] assms(2) [OF that, of E] by (cases "m E v"; cases "fst (m E v)") auto
  then show ?thesis by (auto simp: awaiting_def bindT_Next relying_Next)
qed

lemma relying_awaiting_only: "(\<And>E v. S w v \<Longrightarrow> R v (snd (m E v))) \<Longrightarrow> relying S R (awaiting m) w"
  by (auto simp: awaiting_def relying_Next map_prod_def split_beta)

lemma relying_catch:
  assumes "relying S R t w" and "\<And>e v. relying S R (h e) v"
  shows "relying S R (catchT t h) w"
  using assms(1)
proof (induction t arbitrary: w rule: thread_induct)
  case (Done r)
  then show ?case using assms(2) by (cases r) auto
next
  case (Next f)
  then show ?case by (simp add: catchT_Next relying_Next split_beta)
qed

lemma relying_bind:
  assumes "relying S R t w" and "\<And>a. safeT R Q (k a)"
  shows "relying S R (bindT t k) w"
  using assms(1)
proof (induction t arbitrary: w rule: thread_induct)
  case (Done r)
  then show ?case using safe_relying [OF assms(2)] by (cases r) auto
next
  case (Next f)
  then show ?case by (simp add: bindT_Next relying_Next split_beta)
qed

lemma relying_both: "relying S R t w \<Longrightarrow> safeT R' Q t \<Longrightarrow> relying S (\<lambda>v u. R v u \<and> R' v u) t w"
  by (induction t arbitrary: w rule: thread_induct) (simp_all add: safeT_Next relying_Next)

end
