(* ===== verification/AccountThreads.thy ===== *)
theory AccountThreads
  imports Threads
begin

text \<open>
  The operations on accounts, authorizations, documents and orders as threads, one step per call of the
  database, of bcrypt, Google, Privy, Stellar or the Pix service, with the same names as in the sequential model.
  \<open>challenge_issue\<close>, \<open>verify_check\<close> and \<open>verify_mark\<close> are the calls of the database in \<open>createChallenge\<close> and
  \<open>verify\<close>; the signature is checked without leaving the processor, in the step that reads the row.
\<close>

section \<open>Accounts\<close>

definition register_t :: "register_dto \<Rightarrow> token_result thread" where
  "register_t dto =
     bindT (awaiting (findByEmail (rg_email dto))) (\<lambda>existing.
     bindT (unless (existing \<noteq> None) (ConflictException ''Email already registered'')) (\<lambda>_.
     bindT (awaiting (bcryptHash (rg_password dto))) (\<lambda>h.
     bindT (awaiting (user_create (\<lambda>i t. (blank_user i t (rg_email dto) ''email'')\<lparr>usr_passwordHash := Some h,
              usr_role := nullish (rg_role dto) (Some ''pme'')\<rparr>))) (\<lambda>user.
     awaiting (tokenFor user)))))"

definition googleLogin_t :: "string \<Rightarrow> session_result thread" where
  "googleLogin_t idToken =
     bindT (awaiting (confM ''GOOGLE_CLIENT_ID'')) (\<lambda>clientId.
     bindT (unless (falsy clientId) (BadRequestException ''Google login not configured'')) (\<lambda>_.
     bindT (awaiting (googleVerify idToken)) (\<lambda>found.
     bindT (present (Option.bind found (\<lambda>p. if falsy (gp_sub p) \<or> falsy (gp_email p) then None else Some p))
              (UnauthorizedException ''Invalid Google credentials'')) (\<lambda>payload.
     bindT (unless (\<not> gp_email_verified payload) (ForbiddenException ''Google email not verified'')) (\<lambda>_.
     bindT (awaiting (findUniqueM users usr_googleId (gp_sub payload))) (\<lambda>byGoogle.
     bindT (case byGoogle of
              Some u \<Rightarrow> returning u
            | None \<Rightarrow>
                bindT (awaiting (findByEmail (the (gp_email payload)))) (\<lambda>byEmail.
                case byEmail of
                  None \<Rightarrow> failing not_whitelisted
                | Some u \<Rightarrow>
                    if falsy (usr_googleId u)
                    then awaiting (user_update (usr_id u) (\<lambda>x. x\<lparr>usr_googleId := gp_sub payload\<rparr>))
                    else returning u)) (\<lambda>user.
     bindT (awaiting (tokenFor user)) (\<lambda>token.
     returning \<lparr>sr_token = token, sr_wallet = usr_stellarWalletId user, sr_walletStatus = None,
           sr_needsRoleSelection = (usr_role user = None)\<rparr>))))))))"

definition privy_login_t :: "privy_session \<Rightarrow> user thread" where
  "privy_login_t s =
     bindT (awaiting (findUniqueM users usr_privyUserId (Some (pv_userId s)))) (\<lambda>found.
     case found of
       Some u \<Rightarrow> awaiting (user_update (usr_id u) (setPrivy s))
     | None \<Rightarrow>
         bindT (awaiting (findByEmail (pv_email s))) (\<lambda>byEmail.
         case byEmail of
           Some u \<Rightarrow> awaiting (user_update (usr_id u) (setPrivy s))
         | None \<Rightarrow> failing not_whitelisted))"

definition privySession_t :: "string \<Rightarrow> string \<Rightarrow> session_result thread" where
  "privySession_t accessToken identityToken =
     bindT (awaiting (verifySession accessToken identityToken)) (\<lambda>identity.
     bindT (privy_login_t identity) (\<lambda>user.
     bindT (awaiting (asksM isMainnet)) (\<lambda>mainnet.
     bindT (if pv_wallet identity \<noteq> [] \<and> \<not> mainnet then awaiting (fundQuietly (pv_wallet identity))
            else returning ()) (\<lambda>_.
     bindT (awaiting (tokenFor user)) (\<lambda>token.
     returning \<lparr>sr_token = token, sr_wallet = usr_privyStellarWalletAddress user,
           sr_walletStatus = usr_privyWalletStatus user, sr_needsRoleSelection = (usr_role user = None)\<rparr>)))))"

definition authController_privySession_t :: "string option \<Rightarrow> string option \<Rightarrow> session_result thread" where
  "authController_privySession_t authorization identityToken =
     bindT (unless (bearer_token authorization = None \<or> falsy identityToken \<or> \<not> no_blank (the identityToken))
              (UnauthorizedException ''Privy session tokens are required'')) (\<lambda>_.
     privySession_t (the (bearer_token authorization)) (the identityToken))"

definition findUserOrThrow_t :: "string \<Rightarrow> user thread" where
  "findUserOrThrow_t userId =
     bindT (awaiting (findUniqueM users usr_id userId)) (\<lambda>u. present u (UnauthorizedException ''Unauthorized''))"

definition setRole_t :: "string \<Rightarrow> string \<Rightarrow> token_result thread" where
  "setRole_t userId role =
     bindT (findUserOrThrow_t userId) (\<lambda>user.
     bindT (unless (\<not> falsy (usr_role user)) (ConflictException ''Role already set'')) (\<lambda>_.
     bindT (awaiting (user_update userId (\<lambda>u. u\<lparr>usr_role := Some role\<rparr>))) (\<lambda>updated.
     awaiting (tokenFor updated))))"

definition changePassword_t :: "string \<Rightarrow> string \<Rightarrow> string \<Rightarrow> string thread" where
  "changePassword_t userId currentPassword newPassword =
     bindT (findUserOrThrow_t userId) (\<lambda>user.
     bindT (unless (falsy (usr_passwordHash user)) (BadRequestException ''Conta sem senha cadastrada'')) (\<lambda>_.
     bindT (awaiting (bcryptCompare currentPassword (the (usr_passwordHash user)))) (\<lambda>ok.
     bindT (unless (\<not> ok) (BadRequestException ''Senha atual incorreta'')) (\<lambda>_.
     bindT (awaiting (bcryptHash newPassword)) (\<lambda>h.
     bindT (awaiting (user_update userId (\<lambda>u. u\<lparr>usr_passwordHash := Some h\<rparr>))) (\<lambda>_.
     returning ''ok''))))))"

section \<open>Financial authorizations\<close>

text \<open>The row of a challenge: clock, nonce, hash and \<open>create\<close>, with nothing awaited in between.\<close>

definition challenge_issue :: "string \<Rightarrow> challenge_dto \<Rightarrow> string \<Rightarrow> (finauth_payload \<times> string \<times> finauth) api" where
  "challenge_issue userId dto walletId =
     bindM nowM (\<lambda>now.
     let expiresAt = now + AUTH_TTL_MS in
     bindM (confM ''STELLAR_NETWORK'') (\<lambda>network.
     bindM uuidM (\<lambda>nonce.
     let payload = challenge_payload network nonce expiresAt userId walletId dto in
     bindM (asksM (\<lambda>E. hashPayload E payload)) (\<lambda>payloadHash.
     bindM (fa_create userId payload payloadHash expiresAt) (\<lambda>authorization.
     retM (payload, payloadHash, authorization))))))"

definition createChallenge_for_t :: "string \<Rightarrow> challenge_dto \<Rightarrow> string \<Rightarrow> challenge_response thread" where
  "createChallenge_for_t userId dto walletId =
     bindT (awaiting (challenge_issue userId dto walletId)) (\<lambda>(payload, payloadHash, authorization).
     bindT (awaiting (auditLog (audit_entry ''financial_authorization.challenge_created'' (fa_id authorization)
              ''financial_authorization'' userId (fa_metadata authorization)))) (\<lambda>_.
     returning \<lparr>cr_authorizationId = fa_id authorization, cr_payload = payload,
           cr_payloadHash = payloadHash, cr_expiresAt = pl_expiresAt payload\<rparr>))"

definition createChallenge_t :: "string \<Rightarrow> challenge_dto \<Rightarrow> challenge_response thread" where
  "createChallenge_t userId dto =
     bindT (awaiting (findUniqueM users usr_id userId)) (\<lambda>user.
     let wallet = Option.bind user usr_privyStellarWalletAddress;
         status = Option.bind user usr_privyWalletStatus in
     bindT (if falsy wallet \<or> status \<noteq> Some ''ready''
            then bindT (awaiting (auditLog (audit_entry ''wallet.setup_required'' userId ''user'' userId
                          [(''operation'', JStr (op_string (ch_operation dto))),
                           (''resourceId'', jopt (ch_resourceId dto))])))
                   (\<lambda>_. failing (fa_error wallet_required
                      ''Privy Stellar wallet is required before this financial action''))
            else returning (the wallet)) (createChallenge_for_t userId dto))"

definition verify_check :: "string \<Rightarrow> verify_dto \<Rightarrow> finauth api" where
  "verify_check userId dto =
     bindM (findUniqueM finauths fa_id (vf_authorizationId dto)) (\<lambda>found.
     bindM (someOr (case found of Some a \<Rightarrow> if fa_userId a \<noteq> userId then None else Some a | None \<Rightarrow> None)
              (fa_error authorization_invalid ''Authorization not found'')) (\<lambda>a.
     bindM (findUniqueM users usr_id (fa_userId a)) (\<lambda>user.
     bindM (throwIf (fa_consumedAt a \<noteq> None)
              (fa_error authorization_already_used ''Authorization was already consumed'')) (\<lambda>_.
     bindM nowM (\<lambda>now.
     bindM (throwIf (fa_expiresAt a < now)
              (fa_error authorization_expired ''Authorization expired'')) (\<lambda>_.
     bindM (throwIf (fa_payloadHash a \<noteq> vf_payloadHash dto)
              (fa_error authorization_invalid ''Authorization payload hash mismatch'')) (\<lambda>_.
     bindM (verifyPrivyRawHashSignature (Option.bind user usr_privyStellarWalletAddress)
              (fa_walletId a) (vf_assertion dto) (fa_payloadHash a)) (\<lambda>_.
     retM a))))))))"

text \<open>The update is not conditional: it writes whatever has happened to the row since it was read.\<close>

definition verify_mark :: "finauth \<Rightarrow> verify_dto \<Rightarrow> finauth api" where
  "verify_mark a dto =
     bindM nowM (\<lambda>t.
     updateM finauths finauths_update fa_id no_chk (fa_id a) (fa_setVerified (JObj (vf_assertion dto)) t))"

definition verify_t :: "string \<Rightarrow> verify_dto \<Rightarrow> (string \<times> bool) thread" where
  "verify_t userId dto =
     bindT (awaiting (verify_check userId dto)) (\<lambda>a.
     bindT (awaiting (verify_mark a dto)) (\<lambda>updated.
     bindT (awaiting (auditLog (audit_entry ''financial_authorization.verified'' (fa_id updated)
              ''financial_authorization'' userId (fa_metadata updated)))) (\<lambda>_.
     returning (fa_id updated, True))))"

section \<open>Receivables, documents, orders\<close>

definition receivables_create_t :: "string \<Rightarrow> create_receivable_dto \<Rightarrow> receivable_response thread" where
  "receivables_create_t userId d =
     bindT (awaiting (receivablesRepo_create userId d)) (\<lambda>receivable.
     bindT (awaiting (auditLog (audit_entry ''receivable.created'' (rcv_id receivable) ''receivable'' userId
              [(''value'', JNum (rcv_value receivable)), (''type'', JStr (type_string (rcv_type receivable))),
               (''debtorName'', JStr (rcv_debtorName receivable)),
               (''debtorDocument'', JStr (rcv_debtorDocument receivable)),
               (''dueDate'', JStr (toISOString (rcv_dueDate receivable)))]))) (\<lambda>_.
     returning (toReceivableResponse receivable)))"

definition document_insert :: "create_document_dto \<Rightarrow> document api" where
  "document_insert d = createM documents documents_update doc_id chk_document (\<lambda>i t.
     \<lparr>doc_id = i, doc_receivableId = cd_receivableId d, doc_url = cd_url d, doc_hash = cd_hash d,
      doc_type = cd_type d, doc_createdAt = t\<rparr>)"

definition documents_create_t :: "create_document_dto \<Rightarrow> document_response thread" where
  "documents_create_t d =
     bindT (awaiting (document_insert d)) (\<lambda>document.
     bindT (if cd_type d = DInvoice
            then bindT (awaiting (updateM receivables receivables_update rcv_id no_chk (cd_receivableId d)
                          (setDocumentHash (cd_hash d)))) (\<lambda>_. returning ())
            else returning ()) (\<lambda>_.
     returning (toDocumentResponse document)))"

definition admin_createUser_t :: "create_user_dto \<Rightarrow> user thread" where
  "admin_createUser_t dto =
     bindT (awaiting (findByEmail (cu_email dto))) (\<lambda>existing.
     bindT (unless (existing \<noteq> None) (BadRequestException ''E-mail ja cadastrado na plataforma'')) (\<lambda>_.
     awaiting (user_create (\<lambda>i t. (blank_user i t (cu_email dto) ''privy'')\<lparr>
       usr_role := Some (cu_role dto), usr_name := Some (cu_name dto), usr_cnpj := cu_cnpj dto,
       usr_companyName := cu_companyName dto, usr_monthlyRevenue := cu_monthlyRevenue dto,
       usr_riskProfile := cu_riskProfile dto, usr_operationalLimit := cu_operationalLimit dto\<rparr>))))"

definition admin_createDeposit_t :: "create_deposit_dto \<Rightarrow> string \<Rightarrow> ptransaction thread" where
  "admin_createDeposit_t dto operatorId =
     bindT (awaiting (findUniqueM users usr_id (cdp_userId dto))) (\<lambda>investor.
     bindT (unless (investor = None) (NotFoundException ''Investidor nao encontrado'')) (\<lambda>_.
     bindT (awaiting (ptx_create (cdp_userId dto) ''DEPOSIT'' (cdp_amount dto) TPendingPayment None None)) (\<lambda>transaction.
     bindT (awaiting (auditCreate (audit_entry ''pool.deposit_order_created'' (ptx_id transaction) ''transaction'' operatorId
              [(''amount'', JNum (cdp_amount dto)), (''investorId'', JStr (cdp_userId dto))]))) (\<lambda>_.
     returning transaction))))"

definition createDepositOrder_t :: "pix_deposit_dto \<Rightarrow> string \<Rightarrow> (ptransaction \<times> pix_order) thread" where
  "createDepositOrder_t dto operatorId =
     bindT (awaiting (findUniqueM users usr_id (pd_userId dto))) (\<lambda>investor.
     bindT (unless (investor = None) (NotFoundException ''Investidor nao encontrado'')) (\<lambda>_.
     bindT (awaiting (ptx_create (pd_userId dto) ''DEPOSIT'' (pd_amount dto) TPendingPayment None None)) (\<lambda>transaction.
     bindT (awaiting (auditCreate (audit_entry ''pix.deposit.created'' (ptx_id transaction) ''transaction''
              (if operatorId = ''system'' then pd_userId dto else operatorId)
              [(''amount'', JNum (pd_amount dto)), (''investorId'', JStr (pd_userId dto))]))) (\<lambda>_.
     bindT (awaiting (confM ''PIX_DEPOSIT_EXPIRATION_SECONDS'')) (\<lambda>conf.
     let configured = (case js_number (case conf of None \<Rightarrow> ''1800'' | Some s \<Rightarrow> s) of
           None \<Rightarrow> JNull | Some n \<Rightarrow> JNum n) in
     bindT (awaiting (createDeposit
       \<lparr>dd_externalId = ptx_id transaction, dd_ownerId = pd_userId dto, dd_ownerRole = ''investor'',
        dd_amount = pd_amount dto,
        dd_description = nullish (pd_description dto) (Some ''Aporte CredBridge''),
        dd_expiresInSeconds = Some (case pd_expiresInSeconds dto of None \<Rightarrow> configured | Some n \<Rightarrow> JNum n),
        dd_metadata = Some (spread [(''credbridgeEntityType'', JStr ''transaction''),
          (''credbridgeEntityId'', JStr (ptx_id transaction))] (pd_metadata dto))\<rparr>)) (\<lambda>pixOrder.
     bindT (awaiting (bindM (dateM (po_expiresAt pixOrder)) (\<lambda>expires.
              ptx_update (ptx_id transaction) (ptx_setDepositOrder pixOrder expires)))) (\<lambda>updated.
     returning (updated, pixOrder))))))))"

definition retryCollectionOrder_t :: "string \<Rightarrow> string \<Rightarrow> (collection \<times> string \<times> string) thread" where
  "retryCollectionOrder_t collectionId pmeUserId =
     bindT (awaiting (findUniqueM collections col_id collectionId)) (\<lambda>found.
     bindT (present found (NotFoundException ''Cobranca nao encontrada'')) (\<lambda>collection.
     bindT (awaiting (findUniqueM receivables rcv_id (col_receivableId collection))) (\<lambda>foundR.
     bindT (present foundR (NotFoundException ''Recebivel associado nao encontrado'')) (\<lambda>receivable.
     bindT (awaiting (createCollection
       \<lparr>cc_receivableId = col_receivableId collection, cc_pmeUserId = pmeUserId,
        cc_debtorName = rcv_debtorName receivable, cc_debtorDocument = rcv_debtorDocument receivable,
        cc_amount = col_amount collection, cc_dueDate = toISOString (col_dueDate collection),
        cc_paymentDeadline = toISOString (col_dueDate collection), cc_metadata = None\<rparr>)) (\<lambda>pixCollection.
     bindT (awaiting (col_update (col_id collection) (col_setOrder pixCollection))) (\<lambda>updated.
     returning (updated, rcv_debtorName receivable, rcv_debtorDocument receivable)))))))"

section \<open>Without interruption\<close>

lemma uninterrupted_if: "uninterrupted (if c then t else u) = (if c then uninterrupted t else uninterrupted u)"
  by simp

lemma uninterrupted_option:
  "uninterrupted (case v of None \<Rightarrow> t | Some a \<Rightarrow> u a) = (case v of None \<Rightarrow> uninterrupted t | Some a \<Rightarrow> uninterrupted (u a))"
  by (cases v) simp_all

lemmas uninterrupted_cases = uninterrupted_if uninterrupted_option

lemma uninterrupted_accounts [simp]:
  "uninterrupted (register_t rg) = register rg"
  "uninterrupted (googleLogin_t i) = googleLogin i"
  "uninterrupted (authController_privySession_t h k) = authController_privySession h k"
  "uninterrupted (setRole_t u r) = setRole u r"
  "uninterrupted (changePassword_t u p q) = changePassword u p q"
  by (simp_all add: register_t_def register_def googleLogin_t_def googleLogin_def authController_privySession_t_def
      authController_privySession_def privySession_t_def privySession_def privy_login_t_def privy_login_def
      findUserOrThrow_t_def findUserOrThrow_def setRole_t_def setRole_def changePassword_t_def changePassword_def
      uninterrupted_cases cong: if_cong option.case_cong)

lemma verify_split: "verify u d = bindM (verify_check u d) (\<lambda>a. verify_commit u a d)"
  by (simp add: verify_def verify_check_def bindM_assoc)

lemma uninterrupted_verify [simp]: "uninterrupted (verify_t u d) = verify u d"
  by (simp add: verify_split verify_t_def verify_commit_def [abs_def] verify_mark_def bindM_assoc)

lemma uninterrupted_challenge [simp]: "uninterrupted (createChallenge_t u d) = createChallenge u d"
proof -
  have "uninterrupted (createChallenge_for_t u d a) = createChallenge_for u d a" for a
    by (simp add: createChallenge_for_t_def createChallenge_for_def challenge_issue_def bindM_assoc Let_def)
  then show ?thesis
    by (simp add: createChallenge_t_def createChallenge_def Let_def uninterrupted_if cong: if_cong)
qed

lemma uninterrupted_orders [simp]:
  "uninterrupted (receivables_create_t u d) = receivables_create u d"
  "uninterrupted (documents_create_t x) = documents_create x"
  "uninterrupted (admin_createUser_t cu) = admin_createUser cu"
  "uninterrupted (admin_createDeposit_t cd o') = admin_createDeposit cd o'"
  "uninterrupted (createDepositOrder_t pd o') = createDepositOrder pd o'"
  "uninterrupted (retryCollectionOrder_t i u) = retryCollectionOrder i u"
  by (simp_all add: receivables_create_t_def receivables_create_def documents_create_t_def document_insert_def
      documents_create_def documentsRepo_create_def admin_createUser_t_def admin_createUser_def
      admin_createDeposit_t_def admin_createDeposit_def createDepositOrder_t_def createDepositOrder_def Let_def
      retryCollectionOrder_t_def retryCollectionOrder_def bindM_assoc uninterrupted_cases cong: if_cong)

end
