(* ===== verification/Interleaving.thy ===== *)
theory Interleaving
  imports AccountThreads
begin

text \<open>
  The API serving many requests at once. Every route that checks before it writes, or writes more than once, is a
  thread, one step per call to Prisma, to the Stellar service or to the Pix client; the routes that are one
  step in \<open>serve\<close> read, or make a single write and check nothing before it. The transaction of a purchase reads in
  one step and commits its writes in another. Without interruption a thread is the operation of the
  sequential model. A configuration is the world with the requests in progress; any of them may take the
  next step, and new ones arrive at any time.
\<close>

section \<open>Operations as threads\<close>

definition consume_update :: "consumption \<Rightarrow> finauth \<Rightarrow> unit api" where
  "consume_update inp a =
     bindM nowM (\<lambda>now.
     bindM nowM (\<lambda>t.
     bindM (updateManyM finauths finauths_update (consumable inp (fa_id a) now) (fa_setConsumed t)) (\<lambda>count.
     throwIf (count \<noteq> 1)
       (fa_error authorization_already_used ''Authorization was already consumed''))))"

definition consume_t :: "consumption \<Rightarrow> unit thread" where
  "consume_t inp =
     bindT (awaiting (consume_check inp)) (\<lambda>a.
     bindT (awaiting (consume_update inp a)) (\<lambda>_.
     awaiting (auditLog (audit_entry ''financial_authorization.consumed'' (fa_id a) ''financial_authorization''
       (cs_userId inp) (fa_metadata a)))))"

definition findReceivable_t :: "string \<Rightarrow> receivable thread" where
  "findReceivable_t i =
     bindT (awaiting (findUniqueM receivables rcv_id i)) (\<lambda>found.
     present found (NotFoundException (''Receivable '' @ i @ '' not found'')))"

definition tokenize_t :: "string \<Rightarrow> receivable_response thread" where
  "tokenize_t i =
     bindT (findReceivable_t i) (\<lambda>receivable.
     bindT (unless (rcv_status receivable \<noteq> RValidated)
              (ConflictException ''Receivable must be validated before tokenization'')) (\<lambda>_.
     bindT (awaiting (rcv_audit ''receivable.ready_for_blockchain'' receivable
              [(''network'', JStr ''stellar''), (''contract'', JStr ''soroban-nft'')])) (\<lambda>_.
     bindT (awaiting (rcv_audit ''receivable.nft_minting'' receivable
              [(''value'', JNum (rcv_value receivable)), (''xmlHash'', jopt (rcv_documentHash receivable))])) (\<lambda>_.
     bindT (awaiting (tokenizeNfe \<lparr>tk_key = rcv_id receivable, tk_value = rcv_value receivable,
              tk_dueDate = rcv_dueDate receivable, tk_xmlHash = rcv_documentHash receivable,
              tk_ownerUserId = rcv_userId receivable\<rparr>)) (\<lambda>txHash.
     bindT (awaiting (setTokenized i txHash)) (\<lambda>tokenized.
     bindT (awaiting (rcv_audit_tx ''receivable.tokenized_by_policy'' receivable txHash
              [(''network'', JStr ''stellar''), (''authorization'', JStr ''policy'')])) (\<lambda>_.
     bindT (awaiting (rcv_audit_tx ''receivable.tx_confirmed'' receivable txHash
              [(''network'', JStr ''stellar''), (''status'', JStr ''success'')])) (\<lambda>_.
     returning (toReceivableResponse tokenized)))))))))"

definition requestAssignment_t :: "string \<Rightarrow> receivable_response thread" where
  "requestAssignment_t i =
     bindT (findReceivable_t i) (\<lambda>receivable.
     bindT (unless (rcv_status receivable \<noteq> RTokenized)
              (ConflictException ''Receivable must be tokenized before assignment'')) (\<lambda>_.
     bindT (awaiting (setAssignmentPending i)) (\<lambda>updated.
     returning (toReceivableResponse updated))))"

definition findAssignable_t :: "string \<Rightarrow> receivable thread" where
  "findAssignable_t i =
     bindT (findReceivable_t i) (\<lambda>receivable.
     bindT (unless (\<not> assignable receivable)
              (ConflictException ''Receivable must be tokenized before assignment'')) (\<lambda>_.
     returning receivable))"

definition assign_t :: "string \<Rightarrow> string \<Rightarrow> receivable_response thread" where
  "assign_t i authorizationId =
     bindT (findAssignable_t i) (\<lambda>receivable.
     bindT (consume_t \<lparr>cs_authorizationId = authorizationId, cs_userId = rcv_userId receivable,
              cs_operation = OpReceivableAssignment, cs_resourceId = Some (rcv_id receivable),
              cs_amount = Some (toFixed 2 (rcv_value receivable)),
              cs_destination = Some ''credbridge-pool''\<rparr>) (\<lambda>_.
     bindT (awaiting (transferNftToPlatform (rcv_id receivable))) (\<lambda>txHash.
     bindT (awaiting (setActive i)) (\<lambda>updated.
     bindT (awaiting (rcv_audit_tx ''receivable.assignment_signed'' receivable txHash
              [(''authorizationId'', JStr authorizationId)])) (\<lambda>_.
     returning (toReceivableResponse updated))))))"

definition createCollectionOrder_t :: "collection_request \<Rightarrow> collection thread" where
  "createCollectionOrder_t dto =
     bindT (awaiting (col_create (cl_receivableId dto) (cl_amount dto) (cl_dueDate dto))) (\<lambda>collection.
     bindT (awaiting (auditCreate (audit_entry ''pix.collection.created'' (col_id collection)
              ''receivable_collection'' (cl_pmeUserId dto)
              [(''amount'', JNum (cl_amount dto)), (''receivableId'', JStr (cl_receivableId dto))]))) (\<lambda>_.
     bindT (awaiting (createCollection
       \<lparr>cc_receivableId = cl_receivableId dto, cc_pmeUserId = cl_pmeUserId dto,
        cc_debtorName = cl_debtorName dto, cc_debtorDocument = cl_debtorDocument dto,
        cc_amount = cl_amount dto, cc_dueDate = toISOString (cl_dueDate dto),
        cc_paymentDeadline = toISOString (cl_dueDate dto), cc_metadata = None\<rparr>)) (\<lambda>pixCollection.
     awaiting (col_update (col_id collection) (col_setOrder pixCollection)))))"

definition submitAssignment_t :: "string \<Rightarrow> string \<Rightarrow> string \<Rightarrow> receivable_response thread" where
  "submitAssignment_t i unsignedXdr signatureHex =
     bindT (findAssignable_t i) (\<lambda>receivable.
     bindT (awaiting (findPmeWallet (rcv_userId receivable))) (\<lambda>pme.
     bindT (awaiting (submitSignedAssignment unsignedXdr signatureHex pme)) (\<lambda>txHash.
     bindT (catchT
       (awaiting (buyTokenizedInvoiceInPool pme (rcv_id receivable)
          (case rcv_documentHash receivable of None \<Rightarrow> ''00000000000000000000000000000000'' | Some h \<Rightarrow> h)
          (rcv_value receivable)))
       (\<lambda>e. failing (payout_error e))) (\<lambda>poolTxHash.
     bindT (awaiting (setActive i)) (\<lambda>updated.
     bindT (catchT
       (bindT (createCollectionOrder_t
          \<lparr>cl_receivableId = rcv_id receivable, cl_pmeUserId = rcv_userId receivable,
           cl_debtorName = rcv_debtorName receivable, cl_debtorDocument = rcv_debtorDocument receivable,
           cl_amount = rcv_value receivable, cl_dueDate = rcv_dueDate receivable\<rparr>) (\<lambda>_. returning ()))
       (\<lambda>_. returning ())) (\<lambda>_.
     bindT (awaiting (rcv_audit_tx ''receivable.assignment_signed'' receivable txHash
              [(''source'', JStr ''privy_blockchain_signing''), (''poolTxHash'', JStr poolTxHash)])) (\<lambda>_.
     returning (toReceivableResponse updated))))))))"

text \<open>The operator.\<close>

definition findPendingReceivable_t :: "string \<Rightarrow> receivable thread" where
  "findPendingReceivable_t i =
     bindT (awaiting (findUniqueM receivables rcv_id i)) (\<lambda>found.
     bindT (present found (NotFoundException ''Recebivel nao encontrado'')) (\<lambda>receivable.
     bindT (unless (rcv_status receivable \<noteq> RPending)
              (BadRequestException ''Este recebivel nao esta com status pendente'')) (\<lambda>_.
     returning receivable)))"

definition approveReceivable_t :: "string \<Rightarrow> string \<Rightarrow> receivable_response thread" where
  "approveReceivable_t i operatorId =
     bindT (findPendingReceivable_t i) (\<lambda>_.
     bindT (awaiting (rcv_update i (rcv_setStatus RValidated))) (\<lambda>_.
     bindT (awaiting (auditCreate (audit_entry ''receivable.validated'' i ''receivable'' operatorId
              [(''approvedByOperator'', JBool True)]))) (\<lambda>_.
     tokenize_t i)))"

definition rejectReceivable_t :: "string \<Rightarrow> string \<Rightarrow> receivable thread" where
  "rejectReceivable_t i operatorId =
     bindT (findPendingReceivable_t i) (\<lambda>_.
     bindT (awaiting (rcv_update i (rcv_setStatus RRejected))) (\<lambda>updated.
     bindT (awaiting (auditCreate (audit_entry ''receivable.rejected'' i ''receivable'' operatorId
              [(''rejectedByOperator'', JBool True)]))) (\<lambda>_.
     returning updated)))"

definition approve_action_t :: "ptransaction \<Rightarrow> string thread" where
  "approve_action_t transaction =
     (if ptx_type transaction = ''DEPOSIT'' then
        bindT (awaiting (findUniqueM users usr_id (ptx_userId transaction))) (\<lambda>found.
        bindT (present found (NotFoundException ''Usuario investidor nao encontrado'')) (\<lambda>user.
        let walletAddress = orElse (usr_privyStellarWalletAddress user) (usr_stellarWalletId user) in
        bindT (unless (falsy walletAddress)
                 (BadRequestException ''Investidor nao possui uma carteira Stellar configurada'')) (\<lambda>_.
        awaiting (mintBrlt (the walletAddress) (ptx_amount transaction)))))
      else if ptx_type transaction = ''WITHDRAWAL'' then
        awaiting (withdrawFromPool (ptx_userId transaction) (ptx_amount transaction))
      else failing (BadRequestException ''Tipo de transacao invalido''))"

definition approveTransaction_t :: "string \<Rightarrow> string \<Rightarrow> approve_status \<Rightarrow> ptransaction thread" where
  "approveTransaction_t i operatorId status =
     bindT (awaiting (findUniqueM ptransactions ptx_id i)) (\<lambda>found.
     bindT (present found (NotFoundException ''Transacao nao encontrada'')) (\<lambda>transaction.
     bindT (unless (ptx_status transaction \<noteq> TPending \<and> ptx_status transaction \<noteq> TPaymentSubmitted)
              (BadRequestException ''Esta transacao nao esta pendente de aprovacao'')) (\<lambda>_.
     if status = RejectIt then awaiting (ptx_update i (ptx_setRejected operatorId))
     else
       bindT (approve_action_t transaction) (\<lambda>txHash.
       bindT (awaiting (ptx_update i (ptx_setApproved operatorId txHash))) (\<lambda>updated.
       bindT (awaiting (auditCreate (audit_entry_tx (''pool.'' @ toLowerCase (ptx_type transaction)) i
                ''transaction'' (ptx_userId transaction) txHash
                [(''amount'', JNum (ptx_amount transaction)), (''approvedBy'', JStr operatorId)]))) (\<lambda>_.
       returning updated))))))"

lemma uninterrupted_receivables [simp]:
  "uninterrupted (consume_t c) = consume c" "uninterrupted (findReceivable_t i) = findReceivable i"
  "uninterrupted (tokenize_t i) = tokenize i" "uninterrupted (requestAssignment_t i) = requestAssignment i"
  "uninterrupted (findAssignable_t i) = findAssignable i" "uninterrupted (assign_t i a) = assign i a"
  "uninterrupted (createCollectionOrder_t co) = createCollectionOrder co"
  "uninterrupted (submitAssignment_t i x s) = submitAssignment i x s"
  by (simp_all add: consume_t_def consume_def consume_commit_def [abs_def] consume_update_def bindM_assoc findReceivable_t_def
      findReceivable_def tokenize_t_def tokenize_def requestAssignment_t_def requestAssignment_def
      findAssignable_t_def findAssignable_def assign_t_def assign_def createCollectionOrder_t_def
      createCollectionOrder_def submitAssignment_t_def submitAssignment_def)

lemma uninterrupted_operator [simp]:
  "uninterrupted (approveReceivable_t i o') = approveReceivable i o'"
  "uninterrupted (rejectReceivable_t i o') = rejectReceivable i o'"
  "uninterrupted (approve_action_t t) = approve_action t"
  "uninterrupted (approveTransaction_t i o' s) = approveTransaction i o' s"
  by (simp_all add: approveReceivable_t_def approveReceivable_def findPendingReceivable_t_def
      findPendingReceivable_def rejectReceivable_t_def rejectReceivable_def approve_action_t_def approve_action_def
      approveTransaction_t_def approveTransaction_def Let_def if_distrib [of uninterrupted] cong: if_cong)

text \<open>Settlement, callbacks of the Pix service and withdrawals.\<close>

definition settleInvoice_t :: "string \<Rightarrow> string option thread" where
  "settleInvoice_t receivableId =
     bindT (awaiting (findUniqueM receivables rcv_id receivableId)) (\<lambda>found.
     bindT (present found (NotFoundException (''Receivable '' @ receivableId @ '' not found''))) (\<lambda>receivable.
     if rcv_status receivable = RSettled then returning (rcv_paymentTxHash receivable)
     else
       bindT (awaiting (settleInvoiceInPool (rcv_id receivable) (rcv_value receivable))) (\<lambda>txHash.
       bindT (awaiting (updateM receivables receivables_update rcv_id no_chk receivableId (setSettled txHash))) (\<lambda>_.
       bindT (awaiting (bindM nowM (settlement_record receivableId (rcv_value receivable) txHash))) (\<lambda>_.
       returning (Some txHash))))))"

definition admitEvent_t :: "string \<Rightarrow> pix_event api \<Rightarrow> bool thread" where
  "admitEvent_t eventId store =
     bindT (awaiting (findUniqueM pixEvents evt_eventId eventId)) (\<lambda>alreadyProcessed.
     if alreadyProcessed \<noteq> None then returning False
     else catchT (bindT (awaiting store) (\<lambda>_. returning True))
       (\<lambda>e. if e = PrismaError ''P2002'' then returning False else failing e))"

definition handleDepositConfirmed_t :: "ptransaction \<Rightarrow> user option \<Rightarrow> pix_webhook_dto \<Rightarrow> unit thread" where
  "handleDepositConfirmed_t transaction user dto =
     (let walletAddress = nullish (Option.bind user usr_privyStellarWalletAddress)
            (Option.bind user usr_stellarWalletId) in
      if falsy walletAddress
      then bindT (awaiting (ptx_update (ptx_id transaction)
                    (ptx_setFailed ''Carteira Stellar nao configurada para o investidor''))) (\<lambda>_. returning ())
      else catchT
        (bindT (awaiting (mintBrlt (the walletAddress) (wh_amount dto))) (\<lambda>txHash.
         bindT (awaiting (ptx_update (ptx_id transaction) (ptx_setMinted txHash))) (\<lambda>_.
         bindT (awaiting (auditCreate (audit_entry_tx ''pix.deposit.confirmed'' (ptx_id transaction) ''transaction''
                  (ptx_userId transaction) txHash (order_meta dto)))) (\<lambda>_. returning ()))))
        (\<lambda>e. bindT (awaiting (auditCreate (audit_entry ''pix.deposit.mint_failed'' (ptx_id transaction) ''transaction''
                  (ptx_userId transaction) [(''error'', JStr (exn_string e))]))) (\<lambda>_. returning ())))"

definition handleWithdrawalConfirmed_t :: "ptransaction \<Rightarrow> pix_webhook_dto \<Rightarrow> unit thread" where
  "handleWithdrawalConfirmed_t transaction dto =
     bindT (awaiting (ptx_update (ptx_id transaction) (ptx_setStatus TCompleted))) (\<lambda>_.
     bindT (awaiting (auditCreate (audit_entry ''pix.withdrawal.confirmed'' (ptx_id transaction) ''transaction''
              (ptx_userId transaction) (order_meta dto)))) (\<lambda>_. returning ()))"

definition handleOrderFailed_t :: "ptransaction \<Rightarrow> pix_webhook_dto \<Rightarrow> unit thread" where
  "handleOrderFailed_t transaction dto =
     bindT (awaiting (ptx_update (ptx_id transaction) (ptx_setFailed
              (case wh_failureReason dto of None \<Rightarrow> ''Falha no processamento Pix'' | Some m \<Rightarrow> m)))) (\<lambda>_.
     bindT (awaiting (auditCreate (audit_entry ''pix.order.failed'' (ptx_id transaction) ''transaction''
              (ptx_userId transaction)
              ([(''pixOrderId'', JStr (wh_pixOrderId dto))]
               @ jmember ''failureReason'' (map_option JStr (wh_failureReason dto))
               @ [(''type'', JStr (wh_type dto))])))) (\<lambda>_. returning ()))"

definition handleOrderExpired_t :: "ptransaction \<Rightarrow> pix_webhook_dto \<Rightarrow> unit thread" where
  "handleOrderExpired_t transaction dto =
     bindT (awaiting (ptx_update (ptx_id transaction) (ptx_setStatus TExpired))) (\<lambda>_.
     bindT (awaiting (auditCreate (audit_entry ''pix.deposit.expired'' (ptx_id transaction) ''transaction''
              (ptx_userId transaction) [(''pixOrderId'', JStr (wh_pixOrderId dto))]))) (\<lambda>_. returning ()))"

definition orderEffects_t :: "pix_webhook_dto \<Rightarrow> unit thread" where
  "orderEffects_t dto =
     bindT (awaiting (findUniqueM ptransactions ptx_id (wh_externalId dto))) (\<lambda>found.
     case found of
       None \<Rightarrow> returning ()
     | Some transaction \<Rightarrow>
         bindT (awaiting (findUniqueM users usr_id (ptx_userId transaction))) (\<lambda>user.
         bindT (awaiting (bindM (dateM (wh_confirmedAt dto)) (\<lambda>confirmedAt.
                  ptx_update (ptx_id transaction) (ptx_setCallback dto confirmedAt)))) (\<lambda>_.
         if wh_status dto = ''CONFIRMED'' \<and> wh_type dto = ''DEPOSIT'' then handleDepositConfirmed_t transaction user dto
         else if wh_status dto = ''CONFIRMED'' \<and> wh_type dto = ''WITHDRAWAL'' then handleWithdrawalConfirmed_t transaction dto
         else if wh_status dto = ''FAILED'' then handleOrderFailed_t transaction dto
         else if wh_status dto = ''EXPIRED'' then handleOrderExpired_t transaction dto
         else returning ())))"

definition processPixOrderCallback_t :: "pix_webhook_dto \<Rightarrow> unit thread" where
  "processPixOrderCallback_t dto =
     bindT (admitEvent_t (wh_eventId dto) (storeOrderEvent dto)) (\<lambda>new.
     if new then orderEffects_t dto else returning ())"

definition collectionEffects_t :: "pix_collection_webhook_dto \<Rightarrow> unit thread" where
  "collectionEffects_t dto =
     (if cw_status dto \<noteq> ''PAID'' then returning ()
      else
        bindT (awaiting (findFirstM collections (\<lambda>c. col_identifier c = Some (cw_identifier dto)))) (\<lambda>collection.
        bindT (case collection of
                 None \<Rightarrow> returning ()
               | Some c \<Rightarrow>
                   awaiting (bindM (dateM (cw_paidAt dto)) (\<lambda>paidAt.
                     bindM (case paidAt of None \<Rightarrow> nowM | Some t \<Rightarrow> retM t) (\<lambda>t.
                     bindM (col_update (col_id c) (col_setPaid t (cw_endToEndId dto))) (\<lambda>_. retM ()))))) (\<lambda>_.
        bindT (awaiting (findUniqueM receivables rcv_id (cw_receivableId dto))) (\<lambda>receivable.
        bindT (awaiting (findFirstM users (\<lambda>_. True))) (\<lambda>fallbackUser.
        let owner = map_option rcv_userId receivable;
            logUserId = (if falsy owner then map_option usr_id fallbackUser else owner) in
        bindT (if falsy logUserId then returning ()
               else awaiting (bindM (auditCreate (audit_entry ''pix.collection.paid'' (cw_receivableId dto) ''receivable''
                      (the logUserId)
                      ([(''collectionOrderId'', JStr (cw_collectionOrderId dto))]
                       @ jmember ''endToEndId'' (map_option JStr (cw_endToEndId dto))
                       @ [(''amount'', JNum (cw_amount dto))]))) (\<lambda>_. retM ()))) (\<lambda>_.
        bindT (settleInvoice_t (cw_receivableId dto)) (\<lambda>txHash.
        case collection of
          None \<Rightarrow> returning ()
        | Some c \<Rightarrow>
            if falsy txHash then returning ()
            else bindT (awaiting (col_update (col_id c) (col_setTxHash (the txHash)))) (\<lambda>_. returning ()))))))))"

definition processCollectionCallback_t :: "pix_collection_webhook_dto \<Rightarrow> unit thread" where
  "processCollectionCallback_t dto =
     bindT (admitEvent_t (cw_eventId dto) (storeCollectionEvent dto)) (\<lambda>new.
     if new then collectionEffects_t dto else returning ())"

lemma uninterrupted_callbacks [simp]:
  "uninterrupted (settleInvoice_t i) = settleInvoice i"
  "uninterrupted (admitEvent_t e m) = admitEvent e m"
  "uninterrupted (orderEffects_t d) = orderEffects d"
  "uninterrupted (processPixOrderCallback_t d) = processPixOrderCallback d"
proof -
  show admit: "uninterrupted (admitEvent_t e m) = admitEvent e m" for e m
    by (simp add: admitEvent_t_def admitEvent_def if_distrib [of uninterrupted] cong: if_cong)
  show effects: "uninterrupted (orderEffects_t d) = orderEffects d" for d
    by (simp add: orderEffects_t_def orderEffects_def handleDepositConfirmed_t_def handleDepositConfirmed_def
        handleWithdrawalConfirmed_t_def handleWithdrawalConfirmed_def handleOrderFailed_t_def handleOrderFailed_def
        handleOrderExpired_t_def handleOrderExpired_def Let_def if_distrib [of uninterrupted]
        option.case_distrib [of uninterrupted] bindM_assoc cong: if_cong option.case_cong)
  show "uninterrupted (processPixOrderCallback_t d) = processPixOrderCallback d"
    by (simp add: processPixOrderCallback_t_def processPixOrderCallback_def admit effects
        if_distrib [of uninterrupted] cong: if_cong)
  show "uninterrupted (settleInvoice_t i) = settleInvoice i"
    by (simp add: settleInvoice_t_def settleInvoice_def if_distrib [of uninterrupted] bindM_assoc cong: if_cong)
qed

lemma uninterrupted_collection [simp]:
  "uninterrupted (processCollectionCallback_t d) = processCollectionCallback d"
proof -
  have "uninterrupted (collectionEffects_t d) = collectionEffects d"
    by (simp add: collectionEffects_t_def collectionEffects_def Let_def if_distrib [of uninterrupted]
        option.case_distrib [of uninterrupted] cong: if_cong option.case_cong)
  then show ?thesis
    by (simp add: processCollectionCallback_t_def processCollectionCallback_def if_distrib [of uninterrupted]
        cong: if_cong)
qed

definition createWithdrawalOrder_t :: "pix_withdrawal_dto \<Rightarrow> string \<Rightarrow> (ptransaction \<times> pix_order) thread" where
  "createWithdrawalOrder_t dto requesterId =
     bindT (awaiting (findUniqueM users usr_id (pw_userId dto))) (\<lambda>found.
     bindT (present found (NotFoundException ''Usuario nao encontrado'')) (\<lambda>user.
     bindT (case burnHash (pw_metadata dto) of Inl e \<Rightarrow> failing e | Inr h \<Rightarrow> returning h) (\<lambda>h.
     bindT (awaiting (ptx_create (pw_userId dto) ''WITHDRAWAL'' (pw_amount dto) TProcessing
              (Some (pw_pixKey dto)) h)) (\<lambda>transaction.
     bindT (awaiting (auditCreate (audit_entry ''pix.withdrawal.created'' (ptx_id transaction) ''transaction''
              (if requesterId = ''system'' then pw_userId dto else requesterId)
              [(''amount'', JNum (pw_amount dto)), (''pixKey'', JStr (pw_pixKey dto))]))) (\<lambda>_.
     bindT (awaiting (createWithdrawal
       \<lparr>wd_externalId = ptx_id transaction, wd_ownerId = pw_userId dto,
        wd_ownerRole = (if usr_role user = Some ''pme'' then ''pme'' else ''investor''),
        wd_amount = pw_amount dto, wd_pixKey = pw_pixKey dto, wd_pixKeyType = pw_pixKeyType dto,
        wd_description = nullish (pw_description dto) (Some ''Saque CredBridge''),
        wd_metadata = pw_metadata dto\<rparr>)) (\<lambda>pixOrder.
     bindT (awaiting (ptx_update (ptx_id transaction) (ptx_setWithdrawalOrder pixOrder))) (\<lambda>_.
     returning (transaction, pixOrder))))))))"

definition submitWithdrawal_t :: "string \<Rightarrow> submit_withdrawal_dto \<Rightarrow> (string \<times> string \<times> string option) thread" where
  "submitWithdrawal_t userId dto =
     bindT (awaiting (userAddress userId)) (\<lambda>address.
     bindT (awaiting (submitSignedTx (sw_xdr dto) address (sw_signature dto))) (\<lambda>burnTxHash.
     bindT (createWithdrawalOrder_t
       \<lparr>pw_userId = userId, pw_amount = sw_amount dto, pw_pixKey = sw_pixKey dto,
        pw_pixKeyType = sw_pixKeyType dto, pw_description = Some ''Saque CredBridge via Pix'',
        pw_metadata = Some [(''burnTxHash'', JStr burnTxHash)]\<rparr> userId) (\<lambda>(_, pixOrder).
     returning (''PROCESSING'', burnTxHash, po_pixOrderId pixOrder))))"

text \<open>
  Purchase and deposit of an investor. The transaction of a reservation takes no lock when it reads (the
  database isolates committed reads only), so other requests may write between its reading and its writes, which
  become visible together when it commits.
\<close>

definition reserve_read :: "string \<Rightarrow> create_investment_dto \<Rightarrow> receivable api" where
  "reserve_read investorUserId dto =
     bindM (findReceivableForUpdate (ci_receivableId dto)) (\<lambda>found.
     bindM (someOr found (NotFoundException ''Recebivel nao encontrado'')) (\<lambda>(receivable, taken).
     bindM (throwIf (taken \<noteq> None) unavailable) (\<lambda>_.
     bindM (throwIf (rcv_status receivable \<notin> set ALLOWED_STATUSES) unavailable) (\<lambda>_.
     bindM (throwIf (rcv_userId receivable = investorUserId)
              (BadRequestException ''Voce nao pode comprar um recebivel que cadastrou'')) (\<lambda>_.
     retM receivable)))))"

definition reserve_write :: "string \<Rightarrow> create_investment_dto \<Rightarrow> receivable \<Rightarrow> (string \<times> string \<times> rat) api" where
  "reserve_write investorUserId dto receivable =
     (let faceValue = rcv_value receivable; amountPaid = amountPaid_of faceValue in
     bindM (createInvestment investorUserId (rcv_id receivable) faceValue amountPaid (ci_pixTxId dto)) (\<lambda>created.
     bindM (setReceivableActive (rcv_id receivable)) (\<lambda>_.
     bindM (recordAudit (inv_id created) investorUserId (rcv_id receivable) amountPaid faceValue) (\<lambda>_.
     retM (inv_id created, rcv_id receivable, amountPaid)))))"

definition reserve_t :: "string \<Rightarrow> create_investment_dto \<Rightarrow> (string \<times> string \<times> rat) thread" where
  "reserve_t investorUserId dto =
     bindT (awaiting (reserve_read investorUserId dto)) (\<lambda>receivable.
     catchT (awaiting (transactionM (reserve_write investorUserId dto receivable)))
       (\<lambda>e. if e = PrismaError ''P2002'' then failing unavailable else failing e))"

definition settlePurchase_t :: "string \<Rightarrow> create_investment_dto \<Rightarrow> string \<times> string \<times> rat \<Rightarrow> investment thread" where
  "settlePurchase_t investorUserId dto res = (case res of (investmentId, receivableId, amountPaid) \<Rightarrow>
     bindT (consume_t \<lparr>cs_authorizationId = ci_authorizationId dto, cs_userId = investorUserId,
              cs_operation = OpInvestmentPurchase, cs_resourceId = Some receivableId,
              cs_amount = Some (toFixed 2 amountPaid), cs_destination = None\<rparr>) (\<lambda>_.
     bindT (awaiting (chargeInvestor investorUserId amountPaid receivableId)) (\<lambda>paymentTxHash.
     bindT (awaiting (transferNftToInvestor receivableId investorUserId)) (\<lambda>nftTransferTxHash.
     awaiting (setBlockchainTxHashes investmentId paymentTxHash nftTransferTxHash)))))"

definition investments_create_t :: "string \<Rightarrow> create_investment_dto \<Rightarrow> investment thread" where
  "investments_create_t investorUserId dto =
     bindT (reserve_t investorUserId dto) (settlePurchase_t investorUserId dto)"

definition markAsPaid_t :: "string \<Rightarrow> string \<Rightarrow> ptransaction thread" where
  "markAsPaid_t transactionId u =
     bindT (awaiting (findMyTransaction transactionId u)) (\<lambda>transaction.
     bindT (unless (ptx_status transaction \<noteq> TPendingPayment)
              (BadRequestException ''Esta transacao nao esta pendente de pagamento'')) (\<lambda>_.
     awaiting (ptx_update transactionId (ptx_setStatus TPaymentSubmitted))))"

definition submitDepositStage_t :: "string \<Rightarrow> string \<Rightarrow> submit_stage_dto \<Rightarrow> (string \<times> transaction_status) thread" where
  "submitDepositStage_t transactionId u dto =
     bindT (awaiting (loadApprovedDeposit transactionId u)) (\<lambda>transaction.
     bindT (awaiting (resolveInvestorAddress u)) (\<lambda>address.
     bindT (awaiting (submitSignedTx (sd_xdr dto) address (sd_signature dto))) (\<lambda>hash.
     if sd_stage dto = StageApprove then returning (hash, ptx_status transaction)
     else
       bindT (awaiting (ptx_update transactionId (ptx_setCompleted hash))) (\<lambda>updated.
       bindT (awaiting (auditCreate (audit_entry_tx ''pool.deposit_completed'' transactionId ''transaction'' u hash
                [(''amount'', JNum (ptx_amount transaction))]))) (\<lambda>_.
       returning (hash, ptx_status updated))))))"

lemma reserve_split: "reserve_body u d = bindM (reserve_read u d) (reserve_write u d)"
  by (simp add: reserve_body_def reserve_read_def reserve_write_def bindM_assoc Let_def split_def)

lemma reserve_read_cases:
  "(\<exists>r. reserve_read u d E w = (Inr r, w) \<and> find_row rcv_id (ci_receivableId d) (receivables w) = Some r
      \<and> rcv_userId r \<noteq> u)
   \<or> (\<exists>e. reserve_read u d E w = (Inl e, w) \<and> e \<noteq> PrismaError ''P2002'')"
  by (auto simp: reserve_read_def findReceivableForUpdate_def unavailable_def split: option.splits)

lemma uninterrupted_reserve: "uninterrupted (reserve_t u d) = reserve u d"
proof (intro ext)
  fix E and w :: world
  show "uninterrupted (reserve_t u d) E w = reserve u d E w"
    using reserve_read_cases [of u d E w]
    by (auto simp: reserve_t_def reserve_def reserve_split bindM_def catchM_def transactionM_def throwM_def
        uninterrupted_if split: prod.split sum.split)
qed

lemma uninterrupted_payments [simp]:
  "uninterrupted (createWithdrawalOrder_t pw r) = createWithdrawalOrder pw r"
  "uninterrupted (submitWithdrawal_t u sw) = submitWithdrawal u sw"
  "uninterrupted (investments_create_t u ci) = investments_create u ci"
  "uninterrupted (markAsPaid_t i u) = markAsPaid i u"
  "uninterrupted (submitDepositStage_t i u sd) = submitDepositStage i u sd"
proof -
  show order: "uninterrupted (createWithdrawalOrder_t pw r) = createWithdrawalOrder pw r" for pw r
    by (simp add: createWithdrawalOrder_t_def createWithdrawalOrder_def sum.case_distrib [of uninterrupted]
        cong: sum.case_cong)
  show "uninterrupted (submitWithdrawal_t u sw) = submitWithdrawal u sw"
    by (simp add: submitWithdrawal_t_def submitWithdrawal_def order split_def)
  have "uninterrupted (settlePurchase_t u ci x) = settlePurchase u ci x" for x
    by (simp add: settlePurchase_t_def settlePurchase_def split_beta)
  then show "uninterrupted (investments_create_t u ci) = investments_create u ci"
    by (simp add: investments_create_t_def investments_create_def uninterrupted_reserve)
  show "uninterrupted (markAsPaid_t i u) = markAsPaid i u"
    by (simp add: markAsPaid_t_def markAsPaid_def)
  show "uninterrupted (submitDepositStage_t i u sd) = submitDepositStage i u sd"
    by (simp add: submitDepositStage_t_def submitDepositStage_def if_distrib [of uninterrupted] cong: if_cong)
qed

section \<open>Routes as threads\<close>

text \<open>The guards of the controllers; the result of a route leaves with the response.\<close>

definition answer :: "'a thread \<Rightarrow> unit thread" where
  "answer t = bindT t (\<lambda>_. returning ())"

definition only :: "string \<Rightarrow> string \<Rightarrow> auth_user \<Rightarrow> 'a thread \<Rightarrow> 'a thread" where
  "only role m req t = bindT (unless (au_role req \<noteq> Some role) (ForbiddenException m)) (\<lambda>_. t)"

definition only_operator :: "auth_user \<Rightarrow> 'a thread \<Rightarrow> 'a thread" where
  "only_operator = only ''operator'' ''Apenas operadores da plataforma podem acessar este recurso''"

definition only_investor :: "auth_user \<Rightarrow> 'a thread \<Rightarrow> 'a thread" where
  "only_investor = only ''investor'' ''Apenas investidores podem acessar este recurso''"

definition receivePixWebhook_t :: "webhook_body \<Rightarrow> unit thread" where
  "receivePixWebhook_t body =
     (case body of CollectionBody d \<Rightarrow> processCollectionCallback_t d | OrderBody d \<Rightarrow> processPixOrderCallback_t d)"

fun serve :: "request \<Rightarrow> unit thread" where
  "serve (AuthRegister d) = answer (register_t d)"
| "serve (AuthGoogle t) = answer (googleLogin_t t)"
| "serve (AuthPrivySession a i) = answer (authController_privySession_t a i)"
| "serve (AuthSetRole u r) = answer (setRole_t (au_userId u) r)"
| "serve (AuthChangePassword u p q) = answer (changePassword_t (au_userId u) p q)"
| "serve (FaChallenge u d) = answer (createChallenge_t (au_userId u) d)"
| "serve (FaVerify u d) = answer (verify_t (au_userId u) d)"
| "serve (RcvCreate u d) = answer (receivables_create_t (au_userId u) d)"
| "serve (RcvActivate i) = answer (tokenize_t i)"
| "serve (RcvTokenize i) = answer (tokenize_t i)"
| "serve (RcvRequestAssignment i) = answer (requestAssignment_t i)"
| "serve (RcvAssign i a) = answer (assign_t i a)"
| "serve (RcvSubmitAssignment i x s) = answer (submitAssignment_t i x s)"
| "serve (DocCreate i d) = answer (documents_create_t (d\<lparr>cd_receivableId := i\<rparr>))"
| "serve (InvCreate u d) = answer (only_investor u (investments_create_t (au_userId u) d))"
| "serve (InvMarkAsPaid u i) = answer (only_investor u (markAsPaid_t i (au_userId u)))"
| "serve (InvSubmitDeposit u i d) = answer (only_investor u (submitDepositStage_t i (au_userId u) d))"
| "serve (AdmCreateUser u d) = answer (only_operator u (admin_createUser_t d))"
| "serve (AdmApproveReceivable u i) = answer (only_operator u (approveReceivable_t i (au_userId u)))"
| "serve (AdmRejectReceivable u i) = answer (only_operator u (rejectReceivable_t i (au_userId u)))"
| "serve (AdmCreateDeposit u d) = answer (only_operator u (admin_createDeposit_t d (au_userId u)))"
| "serve (AdmApproveTransaction u i s) = answer (only_operator u (approveTransaction_t i (au_userId u) s))"
| "serve (PixDeposit d) = answer (createDepositOrder_t d ''system'')"
| "serve (PixWithdrawal d) = answer (createWithdrawalOrder_t d ''system'')"
| "serve (PixSubmitWithdrawal u d) = answer (submitWithdrawal_t (au_userId u) d)"
| "serve (PixRetryCollection u i) = answer (retryCollectionOrder_t i (au_userId u))"
| "serve (PixWebhook s t b) = answer (receivePixWebhook_t b)"
| "serve r = awaiting (dispatch r)"

lemma webhook_route:
  "receivePixWebhook (deployed_request s t) b = bindM (case b of CollectionBody d \<Rightarrow> processCollectionCallback d
     | OrderBody d \<Rightarrow> processPixOrderCallback d) (\<lambda>_. retM ''ok'')"
  by (simp add: receivePixWebhook_def deployed_request_def Let_def fun_eq_iff)

lemma uninterrupted_answer: "uninterrupted (answer t) = respond (uninterrupted t)"
  by (simp add: answer_def respond_def)

lemma uninterrupted_only:
  "uninterrupted (only_operator u t) = bindM (assertOperator u) (\<lambda>_. uninterrupted t)"
  "uninterrupted (only_investor u t) = bindM (assertInvestor u) (\<lambda>_. uninterrupted t)"
  by (simp_all add: only_operator_def only_investor_def only_def assertOperator_def assertInvestor_def)

lemma unit_tail: "bindM m (\<lambda>_ :: unit. retM ()) = m"
  using bindM_ret_right [of m] by (simp del: bindM_ret_right)

lemma uninterrupted_webhook:
  "uninterrupted (answer (receivePixWebhook_t b)) = respond (receivePixWebhook (deployed_request s t) b)"
proof -
  have "respond (receivePixWebhook (deployed_request s t) b) = (case b of
      CollectionBody d \<Rightarrow> processCollectionCallback d | OrderBody d \<Rightarrow> processPixOrderCallback d)"
    unfolding respond_def webhook_route bindM_assoc bindM_ret unit_tail ..
  moreover have "uninterrupted (answer (receivePixWebhook_t b)) = (case b of
      CollectionBody d \<Rightarrow> processCollectionCallback d | OrderBody d \<Rightarrow> processPixOrderCallback d)"
    unfolding uninterrupted_answer respond_def unit_tail by (cases b) (simp_all add: receivePixWebhook_t_def)
  ultimately show ?thesis by simp
qed

text \<open>A request that is not interrupted does what the sequential model says.\<close>

lemma served_alone: "uninterrupted (serve r) = dispatch r"
  by (cases r) (simp_all add: uninterrupted_webhook, simp_all add: uninterrupted_answer uninterrupted_only route_defs)

section \<open>Configurations\<close>

text \<open>The world and, in the order of their arrival, the requests with what is left of them.\<close>

record config =
  cf_world :: world
  cf_running :: "(request \<times> unit thread) list"

datatype event = Arrive request | Advance nat

fun happen :: "env \<Rightarrow> event \<Rightarrow> config \<Rightarrow> config" where
  "happen E (Arrive r) c = c\<lparr>cf_running := cf_running c @ [(r, serve r)]\<rparr>"
| "happen E (Advance k) c =
     (if k < length (cf_running c) then
        case cf_running c ! k of (r, t) \<Rightarrow>
          case take_step t E (cf_world c) of (u, v) \<Rightarrow>
            \<lparr>cf_world = v, cf_running = (cf_running c)[k := (r, u)]\<rparr>
      else c)"

fun play :: "env \<Rightarrow> event list \<Rightarrow> config \<Rightarrow> config" where
  "play E [] c = c"
| "play E (e # es) c = play E es (happen E e c)"

definition idle :: "world \<Rightarrow> config" where
  "idle w = \<lparr>cf_world = w, cf_running = []\<rparr>"

section \<open>Every step of every thread is sound\<close>

lemma safe_answer [safe]: "safeT R any t \<Longrightarrow> safeT R any (answer t)"
  unfolding answer_def by (intro safe) simp_all

lemma safe_only [safe]: "safeT R Q t \<Longrightarrow> safeT R Q (only_operator u t)" "safeT R Q t \<Longrightarrow> safeT R Q (only_investor u t)"
  unfolding only_operator_def only_investor_def only_def by (intro safe; simp)+

lemmas receivable_threads = consume_t_def findReceivable_t_def tokenize_t_def requestAssignment_t_def
  findAssignable_t_def assign_t_def createCollectionOrder_t_def submitAssignment_t_def

lemmas operator_threads = approveReceivable_t_def findPendingReceivable_t_def rejectReceivable_t_def
  approve_action_t_def approveTransaction_t_def tokenize_t_def findReceivable_t_def

lemmas callback_threads = settleInvoice_t_def admitEvent_t_def handleDepositConfirmed_t_def
  handleWithdrawalConfirmed_t_def handleOrderFailed_t_def handleOrderExpired_t_def orderEffects_t_def
  processPixOrderCallback_t_def collectionEffects_t_def processCollectionCallback_t_def receivePixWebhook_t_def storeOrderEvent_def
  storeCollectionEvent_def

lemmas payment_threads = createWithdrawalOrder_t_def submitWithdrawal_t_def settlePurchase_t_def
  investments_create_t_def markAsPaid_t_def submitDepositStage_t_def consume_t_def
  setBlockchainTxHashes_def findMyTransaction_def loadApprovedDeposit_def resolveInvestorAddress_def

lemmas account_threads = register_t_def googleLogin_t_def googleVerify_def findUserOrThrow_t_def setRole_t_def
  changePassword_t_def admin_createUser_t_def

lemmas order_threads = receivables_create_t_def documents_create_t_def document_insert_def
  admin_createDeposit_t_def createDepositOrder_t_def retryCollectionOrder_t_def

lemma consume_update_step [keeps]: "keepsR sound_step (consume_update inp a)"
  unfolding consume_update_def
  by (intro keeps) (simp add: finauth_evo_def fa_setConsumed_def consumable_def)

lemma receivable_threads_safe:
  "safeT sound_step any (tokenize_t i)" "safeT sound_step any (requestAssignment_t i)"
  "safeT sound_step any (assign_t i a)" "safeT sound_step any (submitAssignment_t i x s)"
  unfolding receivable_threads by (intro safe keeps col_evos; simp)+

lemma operator_threads_safe:
  "safeT sound_step any (approveReceivable_t i o')" "safeT sound_step any (rejectReceivable_t i o')"
  "safeT sound_step any (approveTransaction_t i o' st)"
  unfolding operator_threads Let_def by (intro safe keeps rcv_evos ptx_admin_evos; simp)+

lemma callback_threads_safe: "safeT sound_step any (receivePixWebhook_t b)"
  unfolding callback_threads Let_def
  by (cases b; simp only: webhook_body.case) (intro safe keeps setSettled_evo ptx_evos col_evos; simp)+

lemma payment_threads_safe:
  "safeT sound_step any (createWithdrawalOrder_t pw o')" "safeT sound_step any (submitWithdrawal_t u sw)"
  "safeT sound_step any (settlePurchase_t u ci x)" "safeT sound_step any (markAsPaid_t i u)"
  "safeT sound_step any (submitDepositStage_t i u sd)"
  unfolding payment_threads Let_def by (intro safe keeps ptx_evos inv_setHashes_evo ptx_setCompleted_evo; simp)+

lemma account_threads_safe:
  "safeT sound_step any (register_t rg)" "safeT sound_step any (googleLogin_t gt)" "safeT sound_step any (setRole_t u r)"
  "safeT sound_step any (changePassword_t u p q)" "safeT sound_step any (admin_createUser_t cu)"
  unfolding account_threads by (intro safe keeps; simp add: user_evo_def)+

lemma privy_thread_safe: "safeT sound_step any (authController_privySession_t h k)"
proof -
  have "safeT sound_step any (privySession_t a i)" for a i
    unfolding privySession_t_def
  proof (rule safe_bind_post [where P = "\<lambda>s. pv_wallet s \<noteq> []"])
    have "pv_wallet s \<noteq> []" if "verifySession a i E w = (Inr s, v)" for E w s v
      using verifySession_Inr [OF that] findStellarWalletAddress_nonempty by blast
    then show "safeT sound_step (\<lambda>s. pv_wallet s \<noteq> []) (awaiting (verifySession a i))"
      by (intro safe_awaiting_post keeps)
  qed (unfold privy_login_t_def, intro safe keeps setPrivy_evo; simp)
  then show ?thesis unfolding authController_privySession_t_def by (intro safe) simp_all
qed

lemma order_threads_safe:
  "safeT sound_step any (receivables_create_t u rd)" "safeT sound_step any (documents_create_t dd)"
  "safeT sound_step any (admin_createDeposit_t cd o')" "safeT sound_step any (createDepositOrder_t pd o')"
  "safeT sound_step any (retryCollectionOrder_t i u)"
  unfolding order_threads Let_def by (intro safe keeps ptx_evos col_evos setDocumentHash_evo; simp)+

lemma challenge_issue_step [keeps]: "keepsR sound_step (challenge_issue u d a)"
  unfolding challenge_issue_def Let_def by (intro keeps) simp_all

lemma challenge_thread_safe: "safeT sound_step any (createChallenge_t u d)"
  unfolding createChallenge_t_def createChallenge_for_t_def Let_def by (intro safe keeps; simp)

text \<open>
  Two threads write what is sound only because of what they have read: a verification needs that its owner has a
  Privy wallet, a purchase that the receivable is not the buyer's. Both stay true as the world evolves.
\<close>

lemma verify_check_keeps [keeps]: "keepsR sound_step (verify_check u d)"
  unfolding verify_check_def by (intro keeps)

lemma verify_check_Inr:
  assumes "verify_check u d E w = (Inr a, v)"
  shows "find_row fa_id (vf_authorizationId d) (finauths v) = Some a \<and> fa_id a = vf_authorizationId d
    \<and> fa_userId a = u \<and> has_privy (users v) u"
proof -
  have k: "bindM (verifyPrivyRawHashSignature p i s h) (\<lambda>_. retM b) E' x = (Inr a, v) \<Longrightarrow> a = b \<and> v = x \<and> \<not> falsy p"
    for p i s h b E' x
    using verifySig_pure [of p i s h E' x]
    by (auto elim!: bindM_InrE) (auto simp: verifyPrivyRawHashSignature_def split: if_splits)
  from assms have "find_row fa_id (vf_authorizationId d) (finauths w) = Some a" "fa_userId a = u" "v = tick E w"
    and p: "\<not> falsy (Option.bind (find_row usr_id u (users w)) usr_privyStellarWalletAddress)"
    by (auto simp: verify_check_def dest!: k split: option.splits if_splits)
  moreover from p have "has_privy (users w) u"
    by (fastforce simp: has_privy_def bind_eq_Some_conv elim!: not_falsyE dest!: find_row_SomeD)
  ultimately show ?thesis by (auto dest: find_row_SomeD)
qed

lemma has_privy_evolves: "evolves w v \<Longrightarrow> has_privy (users w) u \<Longrightarrow> has_privy (users v) u"
  by (rule has_privy_mono) (simp_all add: evolves_def)

lemma verify_mark_eq: "verify_mark a d E w = updateM finauths finauths_update fa_id no_chk (fa_id a)
    (fa_setVerified (JObj (vf_assertion d)) (w_now (tick E w))) E (tick E w)"
  by (simp add: verify_mark_def)

lemma verify_mark_step:
  assumes "find_row fa_id (fa_id a) (finauths w) = Some b" and "has_privy (users w) (fa_userId b)"
  shows "sound_step w (snd (verify_mark a d E w))"
proof -
  have "sound_step w (tick E w)"
    using keepsR_run [OF step.keepsR_now, of w E] by simp
  moreover have "sound_step (tick E w) (snd (verify_mark a d E w))"
    using assms step_verified [of "fa_setVerified (JObj (vf_assertion d)) (w_now (tick E w))" "fa_id a" "tick E w" b]
    by (simp add: verify_mark_eq updateM_def no_chk_def fa_setVerified_evo)
  ultimately show ?thesis by (rule step.kept_trans)
qed

lemma reserve_read_keeps [keeps]: "keepsR R (reserve_read u d)" if "\<And>w. R w w"
  using reserve_read_cases [of u d] that by (intro keepsRI) (metis snd_conv)

lemma sound_transaction:
  assumes "sound_step w (snd (m E w))"
  shows "sound_step w (snd (transactionM m E w))"
  using assms by (cases "m E w"; cases "fst (m E w)") (simp_all add: transactionM_def step.blind)

lemma reserve_write_step:
  assumes "find_row rcv_id i (receivables w) = Some x" and "rcv_id r = rcv_id x" and "rcv_value r = rcv_value x"
    and "rcv_userId x \<noteq> u"
  shows "sound_step w (snd (transactionM (reserve_write u d r) E w))"
proof -
  let ?rest = "\<lambda>created. bindM (setReceivableActive (rcv_id r)) (\<lambda>_.
     bindM (recordAudit (inv_id created) u (rcv_id r) (amountPaid_of (rcv_value r)) (rcv_value r)) (\<lambda>_.
     retM (inv_id created, rcv_id r, amountPaid_of (rcv_value r))))"
  have k: "keepsR sound_step (?rest c)" for c
    unfolding setReceivableActive_def recordAudit_def by (intro keeps rcv_evos)
  have c: "sound_step w (snd (createInvestment u (rcv_id r) (rcv_value r) a p E w))" for a p
    using createInvestment_step [OF assms(1,4)] by (simp add: assms(2,3))
  have "sound_step w (snd (reserve_write u d r E w))"
    unfolding reserve_write_def Let_def by (rule sound_bind, rule c, rule k)
  then show ?thesis by (rule sound_transaction)
qed

section \<open>Every step of every thread implements the ledger\<close>

definition ledger_step :: "(ledger_event \<Rightarrow> bool) \<Rightarrow> world \<Rightarrow> world \<Rightarrow> bool" where
  "ledger_step ok w v \<longleftrightarrow> implements ok (finauths w) (finauths v)"

lemma ledger_refl: "ledger_step ok w w"
  by (simp add: ledger_step_def implements_refl)

lemma ledger_same: "keepsR (same finauths) m \<Longrightarrow> keepsR (ledger_step ok) m"
  by (simp add: keepsR_def ledger_step_def same_def implements_refl)

lemma safe_ledger_same: "keepsR (same finauths) m \<Longrightarrow> safeT (ledger_step ok) any (awaiting m)"
  by (intro safe_awaiting ledger_same)

lemma ledger_dispatch: "keepsR (ledger_step (allowed r)) (dispatch r)"
  using fromToD [OF dispatch_implements refl] by (simp add: keepsR_def ledger_step_def)

lemma consume_update_ledger:
  assumes "ok (Use (fa_id a) (claim_of c))"
  shows "keepsR (ledger_step ok) (consume_update c a)"
proof (rule keepsRI)
  fix E and w :: world
  let ?t = "finauths w" and ?n = "w_now (tick E (tick E w))"
  let ?p = "consumable c (fa_id a) (w_now (tick E w))"
  have v: "finauths (snd (consume_update c a E w)) = map (\<lambda>r. if ?p r then fa_setConsumed ?n r else r) ?t"
    by (simp add: consume_update_def throwIf_def)
  have "implements ok ?t (map (\<lambda>r. if ?p r then fa_setConsumed ?n r else r) ?t)"
  proof (cases "distinct (map fa_id ?t) \<and> (\<exists>b \<in> set ?t. ?p b)")
    case True
    then obtain b where b: "b \<in> set ?t" "?p b" "distinct (map fa_id ?t)" by blast
    then have i: "fa_id b = fa_id a" by (simp add: consumable_def)
    with find_row_distinct [OF b(3,1)] have f: "find_row fa_id (fa_id a) ?t = Some b" by simp
    have "map (\<lambda>r. if ?p r then fa_setConsumed ?n r else r) ?t = upd_row fa_id (fa_id a) (fa_setConsumed ?n) ?t"
      using map_key_upd [OF b(3) f, of "\<lambda>x. authorizes c x \<and> fa_verifiedAt x \<noteq> None
        \<and> fa_consumedAt x = None \<and> w_now (tick E w) < fa_expiresAt x" "fa_setConsumed ?n"] b(2)
      by (simp add: consumable_iff [abs_def])
    moreover have "implements ok ?t (upd_row fa_id (fa_id a) (fa_setConsumed ?n) ?t)"
      using b(2) assms by (intro implements_use [OF f]) (simp_all add: consumable_iff claim_grant)
    ultimately show ?thesis by simp
  next
    case False
    then show ?thesis by (auto simp: implements_def intro!: arg_cong [where f = ledger_of] map_idI)
  qed
  with v show "ledger_step ok w (snd (consume_update c a E w))" by (simp add: ledger_step_def)
qed

lemma consume_t_ledger:
  assumes "ok (Use (cs_authorizationId c) (claim_of c))"
  shows "safeT (ledger_step ok) any (consume_t c)"
  unfolding consume_t_def
proof (rule safe_bind_post [where P = "\<lambda>a. fa_id a = cs_authorizationId c"])
  show "safeT (ledger_step ok) (\<lambda>a. fa_id a = cs_authorizationId c) (awaiting (consume_check c))"
  proof (rule safe_awaiting_post)
    show "keepsR (ledger_step ok) (consume_check c)"
      unfolding consume_check_def by (intro ledger_same keeps)
    show "fa_id a = cs_authorizationId c" if "consume_check c E w = (Inr a, v)" for E w a v
      using that by (auto simp: consume_check_iff dest: find_row_SomeD)
  qed
qed (intro safe consume_update_ledger ledger_same keeps; simp add: assms)

lemma assign_t_ledger: "safeT (ledger_step (allowed (RcvAssign i a))) any (assign_t i a)"
  unfolding assign_t_def
proof (rule safe_bind_post [where P = "\<lambda>r. rcv_id r = i"])
  show "safeT (ledger_step (allowed (RcvAssign i a))) (\<lambda>r. rcv_id r = i) (findAssignable_t i)"
    unfolding findAssignable_t_def findReceivable_t_def
    by (rule safe_bind_post [where P = "\<lambda>r. rcv_id r = i"])
      (rule safe_bind_post [where P = "\<lambda>f. \<forall>r. f = Some r \<longrightarrow> rcv_id r = i"],
        auto intro!: safe safe_awaiting_post ledger_same keeps simp: findUniqueM_def getsM_def keepsR_def same_def
          dest: find_row_SomeD)
qed (intro safe consume_t_ledger ledger_same keeps; simp add: allowed_def claim_of_def)

lemma reserve_t_ledger: "safeT (ledger_step ok) (\<lambda>(_, k, _). k = ci_receivableId d) (reserve_t u d)"
  unfolding reserve_t_def
proof (rule safe_bind_post [where P = "\<lambda>r. rcv_id r = ci_receivableId d"])
  have "rcv_id r = ci_receivableId d" if "reserve_read u d E w = (Inr r, v)" for E w r v
    using reserve_read_cases [of u d E w] that by (auto dest: find_row_SomeD)
  then show "safeT (ledger_step ok) (\<lambda>r. rcv_id r = ci_receivableId d) (awaiting (reserve_read u d))"
    by (intro safe_awaiting_post ledger_same keeps) (simp add: same_def)
  have f: "keepsR (same finauths) (transactionM (reserve_write u d r))" for r
    unfolding reserve_write_def createInvestment_def setReceivableActive_def recordAudit_def Let_def
    by (intro keeps keeps_db; simp add: same_def)
  have "k = ci_receivableId d"
    if "rcv_id r = ci_receivableId d" "transactionM (reserve_write u d r) E w = (Inr (j, k, n), v)" for r E w j k n v
    using that by (auto simp: transactionM_def reserve_write_def Let_def elim!: bindM_InrE split: prod.splits sum.splits)
  then have "safeT (ledger_step ok) (\<lambda>(_, k, _). k = ci_receivableId d) (awaiting (transactionM (reserve_write u d r)))"
    if "rcv_id r = ci_receivableId d" for r
    using that f by (intro safe_awaiting_post ledger_same) auto
  then show "safeT (ledger_step ok) (\<lambda>(_, k, _). k = ci_receivableId d)
      (catchT (awaiting (transactionM (reserve_write u d r)))
        (\<lambda>e. if e = PrismaError ''P2002'' then failing unavailable else failing e))"
    if "rcv_id r = ci_receivableId d" for r
    using that by (intro safe)
qed

lemma settlePurchase_t_ledger:
  assumes "case x of (_, k, _) \<Rightarrow> k = ci_receivableId d"
  shows "safeT (ledger_step (allowed (InvCreate u d))) any (settlePurchase_t (au_userId u) d x)"
proof -
  have h: "keepsR (same finauths) (setBlockchainTxHashes j p n)" for j p n
    unfolding setBlockchainTxHashes_def by (intro keeps keeps_db; simp add: same_def)
  show ?thesis
    using assms unfolding settlePurchase_t_def
    by (auto intro!: safe consume_t_ledger ledger_same keeps h simp: allowed_def claim_of_def split: prod.split)
qed

lemma purchase_t_ledger:
  "safeT (ledger_step (allowed (InvCreate u d))) any (investments_create_t (au_userId u) d)"
  unfolding investments_create_t_def by (rule safe_bind_post [OF reserve_t_ledger settlePurchase_t_ledger])

lemma receivable_threads_ledger:
  "safeT (ledger_step ok) any (tokenize_t i)" "safeT (ledger_step ok) any (requestAssignment_t i)"
  "safeT (ledger_step ok) any (submitAssignment_t i x s)"
  unfolding receivable_threads setTokenized_def setAssignmentPending_def by (intro safe ledger_same keeps; simp)+

lemma operator_threads_ledger:
  "safeT (ledger_step ok) any (approveReceivable_t i o')" "safeT (ledger_step ok) any (rejectReceivable_t i o')"
  "safeT (ledger_step ok) any (approveTransaction_t i o' st)"
  unfolding operator_threads setTokenized_def Let_def by (intro safe ledger_same keeps; simp)+

lemma callback_threads_ledger: "safeT (ledger_step ok) any (receivePixWebhook_t b)"
  unfolding callback_threads Let_def
  by (cases b; simp only: webhook_body.case) (intro safe ledger_same keeps keeps_db; simp add: same_def)+

lemma payment_threads_ledger:
  "safeT (ledger_step ok) any (createWithdrawalOrder_t pw o')" "safeT (ledger_step ok) any (submitWithdrawal_t u sw)"
  "safeT (ledger_step ok) any (markAsPaid_t i u)" "safeT (ledger_step ok) any (submitDepositStage_t i u sd)"
  unfolding payment_threads userAddress_def Let_def by (intro safe ledger_same keeps; simp)+

lemma account_threads_ledger:
  "safeT (ledger_step ok) any (register_t rg)" "safeT (ledger_step ok) any (googleLogin_t gt)"
  "safeT (ledger_step ok) any (setRole_t u r)" "safeT (ledger_step ok) any (changePassword_t u p q)"
  "safeT (ledger_step ok) any (admin_createUser_t cu)" "safeT (ledger_step ok) any (authController_privySession_t h k)"
  unfolding account_threads authController_privySession_t_def privySession_t_def privy_login_t_def verifySession_def
    fundQuietly_def bcryptHash_def bcryptCompare_def findByEmail_def tokenFor_def issueToken_def
  by (intro safe ledger_same keeps; simp)+

lemma order_threads_ledger:
  "safeT (ledger_step ok) any (receivables_create_t u rd)" "safeT (ledger_step ok) any (documents_create_t dd)"
  "safeT (ledger_step ok) any (admin_createDeposit_t cd o')" "safeT (ledger_step ok) any (createDepositOrder_t pd o')"
  "safeT (ledger_step ok) any (retryCollectionOrder_t i u)"
  unfolding order_threads receivablesRepo_create_def rcv_create_def Let_def
  by (intro safe ledger_same keeps keeps_db; simp add: same_def)+

lemma challenge_issue_ledger:
  assumes "\<And>i. ok (Issue i (grant_for u d))"
  shows "keepsR (ledger_step ok) (challenge_issue u d a)"
proof (rule keepsRI)
  fix E and w :: world
  have "fromTo finauths t (implements ok t) (challenge_issue u d a)" for t
    unfolding challenge_issue_def Let_def using assms
    by (intro implements_bind fromTo_then [OF fa_create_implements] keeps) (simp add: grant_for_def)
  from fromToD [OF this refl] show "ledger_step ok w (snd (challenge_issue u d a E w))"
    by (simp add: ledger_step_def)
qed

lemma challenge_thread_ledger: "safeT (ledger_step (allowed (FaChallenge u d))) any (createChallenge_t (au_userId u) d)"
  unfolding createChallenge_t_def createChallenge_for_t_def Let_def
  by (intro safe challenge_issue_ledger ledger_same keeps; simp add: allowed_def)

text \<open>Verification confirms the grant; of a grant that was used in the meantime it rewrites the signature only.\<close>

lemma implements_verified:
  assumes "find_row fa_id i t = Some a" and "ok (Confirm i (fa_userId a))"
  shows "implements ok t (upd_row fa_id i (fa_setVerified s n) t)"
proof (cases "fa_consumedAt a")
  case None
  then show ?thesis using assms by (intro implements_confirm)
next
  case (Some c)
  then have "ledger_of (upd_row fa_id i (fa_setVerified s n) t) = (ledger_of t)(i \<mapsto> (grant_of a, phase_of a))"
    using ledger_upd [OF assms(1), of "fa_setVerified s n"]
    by (simp add: fa_setVerified_def grant_of_def phase_of_def)
  also have "\<dots> = ledger_of t" using assms(1) by (simp add: ledger_of_def fun_eq_iff)
  finally show ?thesis by (simp add: implements_def)
qed

lemma verify_mark_ledger:
  assumes "find_row fa_id (fa_id a) (finauths w) = Some b" and "ok (Confirm (fa_id a) (fa_userId b))"
  shows "ledger_step ok w (snd (verify_mark a d E w))"
  using implements_verified [where ok = ok, OF assms] assms(1) by (simp add: verify_mark_eq updateM_def no_chk_def ledger_step_def)

section \<open>Invariants under interleaving\<close>

lemma play_append: "play E (es @ fs) c = play E fs (play E es c)"
  by (induction es arbitrary: c) simp_all

lemma happen_requests:
  "map fst (cf_running (happen E e c)) = map fst (cf_running c) @ (case e of Arrive r \<Rightarrow> [r] | Advance k \<Rightarrow> [])"
proof (cases e)
  case (Advance k)
  show ?thesis
  proof (cases "k < length (cf_running c)")
    case True
    obtain r t where rt: "cf_running c ! k = (r, t)" by fastforce
    have "map fst ((cf_running c)[k := (r, u)]) = map fst (cf_running c)" for u
      using list_update_id [of "map fst (cf_running c)" k] True rt by (simp add: map_update)
    with Advance True rt show ?thesis by (simp add: split_beta)
  qed (simp add: Advance)
qed simp

lemma happen_request_set:
  "fst ` set (cf_running (happen E e c)) = fst ` set (cf_running c) \<union> {r. e = Arrive r}"
  using arg_cong [OF happen_requests, of set E e c] by (cases e) auto

text \<open>What a request in progress promises to the others, and they to it: its steps are sound and make at most
  one step of the ledger, which its route allows.\<close>

definition guarantees :: "request \<Rightarrow> world \<Rightarrow> world \<Rightarrow> bool" where
  "guarantees r w v \<longleftrightarrow> sound_step w v \<and> ledger_step (allowed r) w v"

lemma guarantees_refl: "guarantees r w w"
  by (simp add: guarantees_def step.kept_refl ledger_refl)

lemma evolves_transp: "transp evolves"
  by (rule transpI) (rule evo.kept_trans)

lemma serve_verify_relying: "relying evolves (guarantees (FaVerify u d)) (answer (verify_t (au_userId u) d)) w"
  unfolding answer_def verify_t_def bindT_assoc
proof (rule relying_awaiting)
  fix E v
  have f: "keepsR (same finauths) (verify_check (au_userId u) d)"
    unfolding verify_check_def by (intro keeps)
  show "guarantees (FaVerify u d) v (snd (verify_check (au_userId u) d E v))"
    using keepsR_run [OF verify_check_keeps] keepsR_run [OF ledger_same [OF f]] by (simp add: guarantees_def)
next
  fix E v a x assume "verify_check (au_userId u) d E v = (Inr a, x)"
  note read = verify_check_Inr [OF this]
  show "relying evolves (guarantees (FaVerify u d)) (bindT (awaiting (verify_mark a d)) (\<lambda>updated.
      bindT (awaiting (auditLog (audit_entry ''financial_authorization.verified'' (fa_id updated)
        ''financial_authorization'' (au_userId u) (fa_metadata updated)))) (\<lambda>_.
      bindT (returning (fa_id updated, True)) (\<lambda>_. returning ())))) x"
  proof (rule relying_awaiting)
    fix E' y assume later: "evolves x y"
    from read obtain b where b: "find_row fa_id (fa_id a) (finauths y) = Some b" "finauth_evo a b"
      using evolves_finauth [OF later, of "vf_authorizationId d" a] by auto
    moreover have "has_privy (users y) (au_userId u)" using has_privy_evolves [OF later] read by simp
    ultimately show "guarantees (FaVerify u d) y (snd (verify_mark a d E' y))"
      using verify_mark_step [OF b(1)] verify_mark_ledger [OF b(1), of "allowed (FaVerify u d)"] read
      by (simp add: guarantees_def finauth_evo_def allowed_def)
  next
    fix updated y
    have "safeT (\<lambda>v z. sound_step v z \<and> ledger_step (allowed (FaVerify u d)) v z) any
        (bindT (awaiting (auditLog e)) (\<lambda>_. bindT (returning c) (\<lambda>_. returning ())))" for e and c :: "string \<times> bool"
      by (rule safe_both; intro safe ledger_same keeps; simp)
    then show "relying evolves (guarantees (FaVerify u d)) (bindT (awaiting (auditLog
        (audit_entry ''financial_authorization.verified'' (fa_id updated) ''financial_authorization''
          (au_userId u) (fa_metadata updated)))) (\<lambda>_. bindT (returning (fa_id updated, True)) (\<lambda>_. returning ()))) y"
      unfolding guarantees_def [abs_def] by (rule safe_relying)
  qed
qed

lemma reserve_relying: "relying evolves sound_step (reserve_t u d) w"
  unfolding reserve_t_def
proof (rule relying_awaiting)
  fix E v show "sound_step v (snd (reserve_read u d E v))"
    by (rule keepsR_run) (intro keeps step.kept_refl)
next
  fix E v r x assume "reserve_read u d E v = (Inr r, x)"
  with reserve_read_cases [of u d E v]
  have r: "find_row rcv_id (ci_receivableId d) (receivables x) = Some r" "rcv_userId r \<noteq> u" by auto
  show "relying evolves sound_step (catchT (awaiting (transactionM (reserve_write u d r)))
      (\<lambda>e. if e = PrismaError ''P2002'' then failing unavailable else failing e)) x"
  proof (rule relying_catch, rule relying_awaiting_only)
    fix E' y assume later: "evolves x y"
    obtain b where "find_row rcv_id (ci_receivableId d) (receivables y) = Some b" "receivable_evo r b"
      by (rule evolves_receivable [OF later r(1)])
    with r(2) show "sound_step y (snd (transactionM (reserve_write u d r) E' y))"
      by (intro reserve_write_step [of _ y b]) (auto simp: receivable_evo_def)
  qed simp
qed

lemma serve_purchase_relying:
  "relying evolves (guarantees (InvCreate u d)) (answer (only_investor u (investments_create_t (au_userId u) d))) w"
proof -
  have "safeT sound_step any (bindT (settlePurchase_t (au_userId u) d x) (\<lambda>_. returning ()))" for x
    by (intro safe payment_threads_safe; simp)
  then have "relying evolves sound_step (bindT (reserve_t (au_userId u) d)
      (\<lambda>x. bindT (settlePurchase_t (au_userId u) d x) (\<lambda>_. returning ()))) w"
    by (rule relying_bind [OF reserve_relying])
  then have "relying evolves sound_step (answer (only_investor u (investments_create_t (au_userId u) d))) w"
    unfolding answer_def only_investor_def only_def investments_create_t_def bindT_assoc bindT_unless
    by (simp add: bindT_pure bindT_assoc)
  then show ?thesis
    unfolding guarantees_def [abs_def] by (rule relying_both [where Q = any]) (intro safe purchase_t_ledger)
qed

lemmas threads_sound = account_threads_safe privy_thread_safe order_threads_safe challenge_thread_safe
  receivable_threads_safe operator_threads_safe callback_threads_safe payment_threads_safe dispatch_step

lemmas threads_ledger = account_threads_ledger order_threads_ledger challenge_thread_ledger assign_t_ledger
  receivable_threads_ledger operator_threads_ledger callback_threads_ledger payment_threads_ledger ledger_dispatch

fun relies :: "request \<Rightarrow> bool" where
  "relies (FaVerify u d) = True"
| "relies (InvCreate u d) = True"
| "relies r = False"

lemma serve_relying: "relying evolves (guarantees r) (serve r) w"
proof (cases "relies r")
  case True
  then show ?thesis using serve_verify_relying serve_purchase_relying by (cases r) auto
next
  case False
  then have "safeT sound_step any (serve r) \<and> safeT (ledger_step (allowed r)) any (serve r)"
    by (cases r; simp only: serve.simps relies.simps simp_thms; intro conjI safe threads_sound threads_ledger)
  then show ?thesis unfolding guarantees_def [abs_def] by (intro safe_relying [OF safe_both]) simp_all
qed

definition keeping :: "config \<Rightarrow> bool" where
  "keeping c \<longleftrightarrow> (\<forall>(r, t) \<in> set (cf_running c). relying evolves (guarantees r) t (cf_world c))"

lemma keeping_idle: "keeping (idle w)"
  by (simp add: keeping_def idle_def)

lemma happen_keeps:
  assumes "keeping c"
  shows "keeping (happen E e c)
     \<and> (cf_world (happen E e c) = cf_world c
        \<or> (\<exists>r \<in> fst ` set (cf_running c). guarantees r (cf_world c) (cf_world (happen E e c))))"
proof (cases e)
  case (Arrive r)
  then show ?thesis using assms serve_relying by (auto simp: keeping_def)
next
  case (Advance k)
  show ?thesis
  proof (cases "k < length (cf_running c)")
    case True
    let ?w = "cf_world c"
    obtain r t where rt: "cf_running c ! k = (r, t)" by fastforce
    with True have in_c: "(r, t) \<in> set (cf_running c)" by (metis nth_mem)
    then have s: "relying evolves (guarantees r) t ?w" using assms by (auto simp: keeping_def)
    obtain u v where uv: "take_step t E ?w = (u, v)" by fastforce
    from relying_take_step [where E = E, OF s evo.kept_refl guarantees_refl] uv
    have g: "guarantees r ?w v" and u: "relying evolves (guarantees r) u v" by simp_all
    then have "evolves ?w v" by (simp add: guarantees_def sound_step_def)
    then have others: "relying evolves (guarantees q) x v" if "(q, x) \<in> set (cf_running c)" for q x
      using relying_later [OF _ _ evolves_transp] assms that by (fastforce simp: keeping_def)
    have "happen E e c = \<lparr>cf_world = v, cf_running = (cf_running c)[k := (r, u)]\<rparr>"
      using Advance True rt uv by simp
    then show ?thesis
      using g u others in_c set_update_subset_insert [of "cf_running c" k "(r, u)"]
      by (fastforce simp: keeping_def)
  next
    case False
    then show ?thesis using Advance assms by simp
  qed
qed

lemma happen_sound:
  assumes "keeping c"
  shows "keeping (happen E e c) \<and> sound_step (cf_world c) (cf_world (happen E e c))"
  using happen_keeps [OF assms, of E e] by (auto simp: step.kept_refl guarantees_def)

lemma play_sound:
  assumes "keeping c"
  shows "sound_step (cf_world c) (cf_world (play E evs c))"
  using assms
proof (induction evs arbitrary: c)
  case (Cons e evs)
  then show ?case using happen_sound [OF Cons.prems, of E e] step.kept_trans by (metis play.simps(2))
qed (simp add: step.kept_refl)

text \<open>C7: However the steps of any requests are interleaved, the constraints of the schema and the rules of
  the business hold in every state, rows are never deleted, and what identifies them never changes.\<close>

theorem interleaved_invariants:
  assumes "reachable E w"
  shows "let v = cf_world (play E evs (idle w)) in
    keys_ok v \<and> unique_ok v \<and> refs_ok v \<and> biz_ok v \<and> evolves w v"
  using play_sound [OF keeping_idle, of w E evs] reachable_ok [OF assms]
  by (simp add: Let_def sound_step_def db_ok_def idle_def)

lemma play_ledger:
  assumes "keeping c" and "db_ok (cf_world c)"
  shows "\<exists>es. ledger_run es (ledger_of (finauths (cf_world c))) = Some (ledger_of (finauths (cf_world (play E evs c))))
    \<and> (\<forall>e \<in> set es. \<exists>r \<in> fst ` set (cf_running c) \<union> {r. Arrive r \<in> set evs}. allowed r e)"
  using assms
proof (induction evs arbitrary: c)
  case Nil
  then show ?case by (intro exI [of _ "[]"]) simp
next
  case (Cons e evs)
  let ?d = "happen E e c"
  let ?L = "ledger_of (finauths (cf_world c))" and ?M = "ledger_of (finauths (cf_world ?d))"
  let ?R = "fst ` set (cf_running c) \<union> {r. Arrive r \<in> set (e # evs)}"
  have d: "keeping ?d" "db_ok (cf_world ?d)"
    using happen_sound [OF Cons.prems(1), of E e] Cons.prems(2) by (simp_all add: sound_step_def)
  from Cons.IH [OF d] obtain es where es: "ledger_run es ?M = Some (ledger_of (finauths (cf_world (play E evs ?d))))"
    "\<forall>x \<in> set es. \<exists>r \<in> fst ` set (cf_running ?d) \<union> {r. Arrive r \<in> set evs}. allowed r x" by blast
  have sub: "\<forall>x \<in> set es. \<exists>r \<in> ?R. allowed r x" using es(2) by (fastforce simp: happen_request_set)
  have "distinct (map fa_id (finauths (cf_world c)))" using Cons.prems(2) by (simp add: db_ok_defs)
  then consider "?M = ?L"
    | x r where "ledger_apply x ?L = Some ?M" "allowed r x" "r \<in> fst ` set (cf_running c)"
    using happen_keeps [OF Cons.prems(1), of E e] by (auto simp: guarantees_def ledger_step_def implements_def)
  then show ?case
  proof cases
    case 1
    with es(1) sub show ?thesis by (intro exI [of _ es]) simp
  next
    case 2
    with es(1) sub show ?thesis by (intro exI [of _ "x # es"]) auto
  qed
qed

text \<open>C2: However the steps of any requests are interleaved, the authorizations make a run of the ledger, whose
  events are allowed by requests that arrived, and no authorization is used twice.\<close>

theorem interleaved_one_shot:
  assumes "db_ok w"
  shows "\<exists>es. ledger_run es (ledger_of (finauths w)) = Some (ledger_of (finauths (cf_world (play E evs (idle w)))))
    \<and> (\<forall>e \<in> set es. \<exists>r. Arrive r \<in> set evs \<and> allowed r e) \<and> (\<forall>i. length (filter (uses i) es) \<le> 1)"
  using play_ledger [OF keeping_idle, of w E evs] assms ledger_one_shot
  by (auto simp: idle_def)

section \<open>Requests that present the same authorization\<close>

definition used :: "string \<Rightarrow> world \<Rightarrow> bool" where
  "used a w \<longleftrightarrow> (\<exists>x. find_row fa_id a (finauths w) = Some x \<and> fa_consumedAt x \<noteq> None)"

text \<open>\<open>gated a t\<close>: the thread cannot end normally before a step that takes \<open>a\<close> from unused to used.\<close>

primrec gated :: "string \<Rightarrow> 'a thread \<Rightarrow> bool" where
  "gated a (Done r) \<longleftrightarrow> isl r"
| "gated a (Next f) \<longleftrightarrow> (\<forall>E w. (\<lambda>(g, v). distinct (map fa_id (finauths w)) \<longrightarrow> g \<or> \<not> used a w \<and> used a v)
     (map_prod (gated a) id (f E w)))"

lemma gated_Next: "gated a (Next f) \<longleftrightarrow> (\<forall>E w. distinct (map fa_id (finauths w)) \<longrightarrow>
    gated a (fst (f E w)) \<or> \<not> used a w \<and> used a (snd (f E w)))"
  by (simp add: split_beta)

declare gated.simps(2) [simp del]

lemma gated_failing: "gated a (failing e)"
  by (simp add: failing_def)

lemma gated_bind: "(\<And>x. gated a (k x)) \<Longrightarrow> gated a (bindT t k)"
proof (induction t rule: thread_induct)
  case (Done r)
  then show ?case by (cases r) (simp_all add: gated_failing)
next
  case (Next f)
  then show ?case by (simp add: bindT_Next gated_Next split_beta)
qed

lemma gated_awaiting:
  assumes "\<And>E w x v. distinct (map fa_id (finauths w)) \<Longrightarrow> m E w = (Inr x, v) \<Longrightarrow>
    gated a (k x) \<or> \<not> used a w \<and> used a v"
  shows "gated a (bindT (awaiting m) k)"
proof -
  have "gated a (fst (take_step (bindT (awaiting m) k) E w))
      \<or> \<not> used a w \<and> used a (snd (take_step (bindT (awaiting m) k) E w))"
    if "distinct (map fa_id (finauths w))" for E w
    using assms [OF that, of E] by (auto simp: gated_failing split: prod.split sum.split)
  then show ?thesis by (auto simp: awaiting_def bindT_Next gated_Next)
qed

lemma consume_update_uses:
  assumes "distinct (map fa_id (finauths w))" and "consume_update c x E w = (Inr (), v)"
  shows "\<not> used (fa_id x) w \<and> used (fa_id x) v"
proof -
  let ?t = "finauths w" and ?n = "w_now (tick E (tick E w))"
  let ?p = "consumable c (fa_id x) (w_now (tick E w))"
  from assms(2) have "length (filter ?p ?t) = 1"
    by (simp add: consume_update_def throwIf_def throwM_def split: if_splits)
  then obtain b where "filter ?p ?t = [b]" by (auto simp: length_Suc_conv)
  then have "b \<in> set (filter ?p ?t)" by simp
  then have b: "b \<in> set ?t" "?p b" by simp_all
  then have i: "fa_id b = fa_id x" "fa_consumedAt b = None" by (simp_all add: consumable_def)
  with find_row_distinct [OF assms(1) b(1)] have f: "find_row fa_id (fa_id x) ?t = Some b" by simp
  have "finauths v = map (\<lambda>r. if ?p r then fa_setConsumed ?n r else r) ?t"
    using assms(2) by (auto simp: consume_update_def throwIf_def throwM_def retM_def split: if_splits)
  also have "\<dots> = upd_row fa_id (fa_id x) (fa_setConsumed ?n) ?t"
    using map_key_upd [OF assms(1) f, of "\<lambda>y. authorizes c y \<and> fa_verifiedAt y \<noteq> None
      \<and> fa_consumedAt y = None \<and> w_now (tick E w) < fa_expiresAt y" "fa_setConsumed ?n"] b(2)
    by (simp add: consumable_iff [abs_def])
  finally show ?thesis using f i by (simp add: used_def find_row_upd_row fa_setConsumed_def)
qed

lemma gated_consume: "gated (cs_authorizationId c) (bindT (consume_t c) k)"
  unfolding consume_t_def bindT_assoc
proof (rule gated_awaiting)
  fix E w x v assume "consume_check c E w = (Inr x, v)"
  then have i: "fa_id x = cs_authorizationId c" by (auto simp: consume_check_iff dest: find_row_SomeD)
  show "gated (cs_authorizationId c) (bindT (awaiting (consume_update c x)) (\<lambda>xa.
        bindT (awaiting (auditLog (audit_entry ''financial_authorization.consumed'' (fa_id x)
          ''financial_authorization'' (cs_userId c) (fa_metadata x)))) k))
      \<or> \<not> used (cs_authorizationId c) w \<and> used (cs_authorizationId c) v"
    by (intro disjI1, rule gated_awaiting) (use consume_update_uses [of _ c x] i in auto)
qed

fun presents :: "request \<Rightarrow> string option" where
  "presents (RcvAssign i a) = Some a"
| "presents (InvCreate u d) = Some (ci_authorizationId d)"
| "presents _ = None"

lemma gated_serve:
  assumes "presents r = Some a"
  shows "gated a (serve r)"
proof -
  have c: "gated b (bindT (consume_t c) k)" if "cs_authorizationId c = b" for b c and k :: "unit \<Rightarrow> 'b thread"
    using gated_consume [of c k] that by simp
  have "gated b (serve (RcvAssign i b))" for i b
    unfolding serve.simps answer_def assign_t_def bindT_assoc by (rule gated_bind, rule c) simp
  moreover have "gated (ci_authorizationId d) (serve (InvCreate u d))" for u d
  proof -
    have "gated (ci_authorizationId d) (bindT (settlePurchase_t (au_userId u) d x) k)" for x and k :: "investment \<Rightarrow> unit thread"
      by (cases x) (simp add: settlePurchase_t_def bindT_assoc c)
    then have "gated (ci_authorizationId d) (bindT (reserve_t (au_userId u) d)
        (\<lambda>x. bindT (settlePurchase_t (au_userId u) d x) (\<lambda>_. returning ())))"
      by (rule gated_bind)
    then show ?thesis
      by (simp add: answer_def only_investor_def only_def investments_create_t_def thread_eqs gated_failing)
  qed
  ultimately show ?thesis using assms by (cases r) auto
qed

lemma gated_take_step:
  assumes "gated a t" and "distinct (map fa_id (finauths w))"
  shows "gated a (fst (take_step t E w)) \<or> \<not> used a w \<and> used a (snd (take_step t E w))"
  using assms by (cases t) (auto simp: gated_Next)

lemma used_evolves:
  assumes "used a w" and "evolves w v"
  shows "used a v"
proof -
  obtain x where x: "find_row fa_id a (finauths w) = Some x" "fa_consumedAt x \<noteq> None"
    using assms(1) by (auto simp: used_def)
  obtain y where "find_row fa_id a (finauths v) = Some y" "finauth_evo x y"
    by (rule evolves_finauth [OF assms(2) x(1)])
  with x(2) show ?thesis by (auto simp: used_def finauth_evo_def)
qed

text \<open>The requests that present \<open>a\<close> and may be past its use: at most one, and then \<open>a\<close> is used.\<close>

definition past :: "string \<Rightarrow> config \<Rightarrow> nat set" where
  "past a c = {k. k < length (cf_running c) \<and> presents (fst (cf_running c ! k)) = Some a
     \<and> \<not> gated a (snd (cf_running c ! k))}"

definition exclusive :: "string \<Rightarrow> config \<Rightarrow> bool" where
  "exclusive a c \<longleftrightarrow> (\<forall>j \<in> past a c. used a (cf_world c) \<and> past a c = {j})"

lemma exclusive_happen:
  assumes "exclusive a c" and "db_ok (cf_world c)" and "evolves (cf_world c) (cf_world (happen E e c))"
  shows "exclusive a (happen E e c)"
proof (cases e)
  case (Arrive r)
  then have "past a (happen E e c) = past a c"
    using gated_serve [of r a] by (auto simp: past_def nth_append less_Suc_eq)
  with Arrive assms(1) show ?thesis by (simp add: exclusive_def)
next
  case (Advance i)
  show ?thesis
  proof (cases "i < length (cf_running c)")
    case True
    obtain r t where rt: "cf_running c ! i = (r, t)" by fastforce
    obtain u v where uv: "take_step t E (cf_world c) = (u, v)" by fastforce
    have h: "happen E e c = \<lparr>cf_world = v, cf_running = (cf_running c)[i := (r, u)]\<rparr>"
      using Advance True rt uv by simp
    have "distinct (map fa_id (finauths (cf_world c)))" using assms(2) by (simp add: db_ok_defs)
    from gated_take_step [OF _ this, of a t E] uv
    have g: "i \<in> past a (happen E e c) \<Longrightarrow> i \<in> past a c \<or> \<not> used a (cf_world c) \<and> used a v"
      using True rt unfolding h past_def by auto
    have sub: "past a (happen E e c) \<subseteq> insert i (past a c)"
      unfolding h past_def by (auto simp: nth_list_update split: if_splits)
    have keep: "used a (cf_world c) \<Longrightarrow> used a v" using used_evolves assms(3) h by auto
    show ?thesis
    proof (cases "past a (happen E e c) \<subseteq> past a c")
      case True
      with assms(1) keep show ?thesis unfolding exclusive_def h by auto
    next
      case False
      with sub g have "\<not> used a (cf_world c)" "used a v" by auto
      moreover from this(1) assms(1) have "past a c = {}" by (auto simp: exclusive_def)
      ultimately show ?thesis using sub unfolding exclusive_def h by auto
    qed
  next
    case False
    then show ?thesis using Advance assms(1) by simp
  qed
qed

lemma play_exclusive:
  assumes "exclusive a c" and "keeping c" and "db_ok (cf_world c)"
  shows "exclusive a (play E evs c)"
  using assms
proof (induction evs arbitrary: c)
  case (Cons e evs)
  have s: "keeping (happen E e c)" "sound_step (cf_world c) (cf_world (happen E e c))"
    using happen_sound [OF Cons.prems(2), of E e] by simp_all
  then have "db_ok (cf_world (happen E e c))" "evolves (cf_world c) (cf_world (happen E e c))"
    using Cons.prems(3) by (simp_all add: sound_step_def)
  with Cons.IH [OF exclusive_happen [OF Cons.prems(1,3)] s(1)] show ?case by simp
qed simp

lemma ended_past:
  "k < length (cf_running c) \<Longrightarrow> presents (fst (cf_running c ! k)) = Some a \<Longrightarrow>
   outcome (snd (cf_running c ! k)) = Some (Inr x) \<Longrightarrow> k \<in> past a c"
  by (cases "snd (cf_running c ! k)") (auto simp: past_def)

text \<open>C1: However the steps of any requests are interleaved, of the assignments and purchases that present the
  same authorization at most one ends normally.\<close>

theorem interleaved_single_use:
  assumes "db_ok w" and "j < length rs" and "k < length rs" and "j \<noteq> k"
    and "rs = cf_running (play E evs (idle w))"
    and "presents (fst (rs ! j)) = Some a" and "presents (fst (rs ! k)) = Some a"
    and "outcome (snd (rs ! j)) = Some (Inr x)"
  shows "outcome (snd (rs ! k)) \<noteq> Some (Inr y)"
proof
  assume k: "outcome (snd (rs ! k)) = Some (Inr y)"
  have "exclusive a (play E evs (idle w))"
    by (rule play_exclusive) (simp_all add: assms(1) idle_def exclusive_def past_def keeping_def)
  moreover have "j \<in> past a (play E evs (idle w))" "k \<in> past a (play E evs (idle w))"
    using assms(2,3,6-8) k ended_past unfolding assms(5) by blast+
  ultimately show False using assms(4) by (auto simp: exclusive_def)
qed

end
