(* ===== verification/Races.thy ===== *)
theory Races
  imports Interleaving
begin

text \<open>
  What interleaving changes. A check and the write it guards are different statements, and except for the
  use of an authorization and the admission of a callback nothing repeats the check when it writes: the
  schedules of this theory reach states that no sequence of whole requests reaches.
\<close>

section \<open>Running a schedule\<close>

lemma play_replicate:
  assumes "k < length ts"
  shows "play E (replicate n (Advance k)) \<lparr>cf_world = w, cf_running = ts[k := (r, t)]\<rparr> =
    \<lparr>cf_world = snd (steps n t E w), cf_running = ts[k := (r, fst (steps n t E w))]\<rparr>"
  using assms by (induction n arbitrary: w t) (simp_all add: split_beta)

lemma play_first:
  "play E (replicate n (Advance 0)) \<lparr>cf_world = w, cf_running = [(q, s), (r, t)]\<rparr> =
   \<lparr>cf_world = snd (steps n s E w), cf_running = [(q, fst (steps n s E w)), (r, t)]\<rparr>"
  using play_replicate [of 0 "[(q, s), (r, t)]"] by simp

lemma play_second:
  "play E (replicate n (Advance (Suc 0))) \<lparr>cf_world = w, cf_running = [(q, s), (r, t)]\<rparr> =
   \<lparr>cf_world = snd (steps n t E w), cf_running = [(q, s), (r, fst (steps n t E w))]\<rparr>"
  using play_replicate [of 1 "[(q, s), (r, t)]"] by simp

text \<open>Two requests: the second one makes \<open>m\<close> steps, the first one runs to its end, the second one goes on.\<close>

definition overtaken :: "request \<Rightarrow> request \<Rightarrow> nat \<Rightarrow> nat \<Rightarrow> nat \<Rightarrow> event list" where
  "overtaken q r m n l = [Arrive q, Arrive r] @ replicate m (Advance 1) @ replicate n (Advance 0)
     @ replicate l (Advance 1)"

lemma play_overtaken:
  assumes "steps m (serve r) E w = (t, v)" and "uninterrupted (serve q) E v = (x, v')"
  shows "\<exists>n. play E (overtaken q r m n l) (idle w) =
    \<lparr>cf_world = snd (steps l t E v'), cf_running = [(q, Done x), (r, fst (steps l t E v'))]\<rparr>"
proof -
  obtain n where "steps n (serve q) E v = (Done x, v')"
    using steps_uninterrupted [of "serve q" E v] assms(2) by auto
  then have "play E (overtaken q r m n l) (idle w) =
      \<lparr>cf_world = snd (steps l t E v'), cf_running = [(q, Done x), (r, fst (steps l t E v'))]\<rparr>"
    using assms(1) by (simp add: overtaken_def play_append idle_def play_first play_second)
  then show ?thesis ..
qed

section \<open>Two approvals of a deposit\<close>

lemma second_approval_steps:
  assumes "find_row ptx_id i (ptransactions w) = Some t" and "ptx_type t = ''DEPOSIT''"
    and "ptx_status t \<in> {TPending, TPaymentSubmitted}"
    and "find_row usr_id (ptx_userId t) (users w) = Some u"
    and "orElse (usr_privyStellarWalletAddress u) (usr_stellarWalletId u) = Some a" and "a \<noteq> []"
    and "au_role op = Some ''operator''"
  shows "steps 2 (serve (AdmApproveTransaction op i ApproveIt)) E w =
    (bindT (awaiting (mintBrlt a (ptx_amount t))) (\<lambda>h.
     bindT (awaiting (ptx_update i (ptx_setApproved (au_userId op) h))) (\<lambda>_.
     bindT (awaiting (auditCreate (audit_entry_tx (''pool.'' @ toLowerCase (ptx_type t)) i ''transaction''
       (ptx_userId t) h [(''amount'', JNum (ptx_amount t)), (''approvedBy'', JStr (au_userId op))]))) (\<lambda>_.
     returning ()))), w)"
  using assms by (auto simp: numeral_2_eq_2 answer_def only_operator_def only_def approveTransaction_t_def
      approve_action_t_def Let_def findUniqueM_def getsM_def thread_eqs)

lemma approveTransaction_stores:
  assumes "approveTransaction i op ApproveIt E w = (Inr t, v)"
  shows "\<exists>t0 h v1. find_row ptx_id i (ptransactions w) = Some t0 \<and> ptx_status t0 \<in> {TPending, TPaymentSubmitted}
    \<and> approve_action t0 E w = (Inr h, v1) \<and> t = ptx_setApproved op h t0
    \<and> find_row ptx_id i (ptransactions v) = Some t \<and> w_trace v = w_trace v1"
proof -
  from assms obtain t0 h v1 v2 l x where
    t0: "find_row ptx_id i (ptransactions w) = Some t0" "ptx_status t0 \<in> {TPending, TPaymentSubmitted}"
    and action: "approve_action t0 E w = (Inr h, v1)" and upd: "ptx_update i (ptx_setApproved op h) E v1 = (Inr t, v2)"
    and audit: "auditCreate l E v2 = (Inr x, v)"
    by (auto simp: approveTransaction_def elim!: bindM_InrE split: option.splits if_splits)
  have rows: "ptransactions v1 = ptransactions w" "ptransactions v = ptransactions v2"
    using sameD' [OF approve_action_frames(1), OF action] sameD' [OF auditCreate_frames(7), OF audit] by simp_all
  have t: "t = ptx_setApproved op h t0" "ptransactions v2 = upd_row ptx_id i (ptx_setApproved op h) (ptransactions w)"
    using ptx_update_Inr [OF upd] t0(1) rows(1) by auto
  have "w_trace v = w_trace v1"
    using sameD' [OF auditCreate_frames(10), OF audit] sameD' [OF ptx_update_trace, OF upd] by simp
  moreover have "find_row ptx_id i (ptransactions v) = Some t"
    using t0(1) t rows(2) by (simp add: find_row_upd_row ptx_setApproved_def)
  ultimately show ?thesis using t0 action t(1) by blast
qed

text \<open>C10: An approval that looked at a deposit before another approval was served mints a second time: both
  mints of the amount to the wallet of the investor are carried out, and the row keeps the hash of the
  second. One after the other, the second approval would be refused.\<close>

theorem approvals_mint_twice:
  assumes "db_ok w" and "approveTransaction i (au_userId o1) ApproveIt E w = (Inr t, v)" and "ptx_type t = ''DEPOSIT''"
    and "au_role o1 = Some ''operator''" and "au_role o2 = Some ''operator''"
    and "find_row usr_id (ptx_userId t) (users w) = Some u"
    and "orElse (usr_privyStellarWalletAddress u) (usr_stellarWalletId u) = Some a"
    and "mintBrlt a (ptx_amount t) E v = (Inr h, v')"
  shows "\<exists>n x h' v1. let c = play E (overtaken (AdmApproveTransaction o1 i ApproveIt)
        (AdmApproveTransaction o2 i ApproveIt) 2 n 2) (idle w) in
      outcome (snd (cf_running c ! 0)) = Some (Inr ())
      \<and> mintBrlt a (ptx_amount t) E w = (Inr h', v1) \<and> w_trace v = w_trace v1
      \<and> w_trace (cf_world c) = w_trace v'
      \<and> find_row ptx_id i (ptransactions (cf_world c)) = Some x
      \<and> ptx_status x = TApproved \<and> ptx_txHash x = Some h \<and> ptx_approvedBy x = Some (au_userId o2)
      \<and> fst (approveTransaction i (au_userId o2) ApproveIt E v) =
         Inl (BadRequestException ''Esta transacao nao esta pendente de aprovacao'')"
proof -
  let ?A = "AdmApproveTransaction o1 i ApproveIt" and ?B = "AdmApproveTransaction o2 i ApproveIt"
  from approveTransaction_stores [OF assms(2)] obtain t0 h' v1 where
    t0: "find_row ptx_id i (ptransactions w) = Some t0" "ptx_status t0 \<in> {TPending, TPaymentSubmitted}"
    and action: "approve_action t0 E w = (Inr h', v1)" and t: "t = ptx_setApproved (au_userId o1) h' t0"
    and in_v: "find_row ptx_id i (ptransactions v) = Some t" and tr: "w_trace v = w_trace v1" by blast
  have same: "ptx_type t0 = ''DEPOSIT''" "ptx_userId t = ptx_userId t0" "ptx_amount t = ptx_amount t0"
    using assms(3) t by (simp_all add: ptx_setApproved_def)
  with approve_action_Inr [OF action] assms(6,7) have mint: "a \<noteq> []" "mintBrlt a (ptx_amount t) E w = (Inr h', v1)"
    by auto
  have alone: "uninterrupted (serve ?A) E w = (Inr (), v)"
    using assms(2,4) by (simp add: uninterrupted_answer uninterrupted_only respond_def bindM_def assertOperator_def throwIf_def)
  let ?f = "ptx_setApproved (au_userId o2) h"
  have "find_row ptx_id i (ptransactions v') = Some t"
    using sameD' [OF mintBrlt.call_frames(7), OF assms(8)] in_v by simp
  moreover have "db_ok v'"
    using keepsR_run [OF approveTransaction_step, of w i "au_userId o1" ApproveIt E]
      keepsR_run [OF mintBrlt.call_step, of v a "ptx_amount t" E] assms(1,2,8)
    by (simp add: sound_step_def)
  ultimately obtain u' where upd': "ptx_update i ?f E v' = (Inr (?f t), u')"
    using ptx_update_ok [of v' i t ?f] by (simp add: ptx_setApproved_def)
  have u': "w_trace u' = w_trace v'" "find_row ptx_id i (ptransactions u') = Some (?f t)"
    using sameD' [OF ptx_update_trace, OF upd'] ptx_update_Inr [OF upd'] in_v
    by (auto simp: find_row_upd_row ptx_setApproved_def)
  from play_overtaken [OF second_approval_steps [OF t0(1) same(1) t0(2) assms(6) [unfolded same] assms(7) mint(1) assms(5)] alone, of 2]
  obtain n s where n: "play E (overtaken ?A ?B 2 n 2) (idle w) =
      \<lparr>cf_world = u', cf_running = [(?A, Done (Inr ())), (?B, s)]\<rparr>"
    using assms(8) same(3) upd' by (auto simp: numeral_2_eq_2)
  have "fst (approveTransaction i (au_userId o2) ApproveIt E v) =
      Inl (BadRequestException ''Esta transacao nao esta pendente de aprovacao'')"
    using in_v t by (simp add: approveTransaction_def ptx_setApproved_def)
  with n u' mint(2) tr show ?thesis
    by (intro exI [of _ n] exI [of _ "?f t"] exI [of _ h'] exI [of _ v1]) (simp add: ptx_setApproved_def)
qed

section \<open>A rejection overtaken by an approval\<close>

lemma findPendingReceivable_Inr:
  "findPendingReceivable i E w = (Inr r, v) \<longleftrightarrow>
   find_row rcv_id i (receivables w) = Some r \<and> rcv_status r = RPending \<and> v = w"
  by (auto simp: findPendingReceivable_def findUniqueM_def getsM_def bindM_def someOr_def throwIf_def split: option.splits)

lemma approveReceivable_stores:
  assumes "approveReceivable i o' E w = (Inr res, w')"
  shows "\<exists>r s h. find_row rcv_id i (receivables w) = Some r \<and> rcv_status r = RPending
    \<and> find_row rcv_id i (receivables w') = Some s \<and> rcv_status s = RTokenized \<and> rcv_txHash s = Some h
    \<and> rr_status res = RTokenized \<and> rr_txHash res = Some h"
proof -
  from assms obtain r t v1 l x v2 where
    r: "find_row rcv_id i (receivables w) = Some r" "rcv_status r = RPending"
    and u: "rcv_update i (rcv_setStatus RValidated) E w = (Inr t, v1)"
    and a: "auditCreate l E v1 = (Inr x, v2)" and t: "tokenize i E v2 = (Inr res, w')"
    unfolding approveReceivable_def by (auto elim!: bindM_InrE simp: findPendingReceivable_Inr)
  from tokenize_stores [OF t] obtain h where
    h: "receivables w' = upd_row rcv_id i (rcv_setTokenized h) (receivables v2)"
      "rr_status res = RTokenized" "rr_txHash res = Some h" by blast
  have "receivables v2 = upd_row rcv_id i (rcv_setStatus RValidated) (receivables w)"
    using sameD' [OF auditCreate_frames(2), OF a] rcv_update_Inr [OF u] by auto
  with h(1) r(1) have "find_row rcv_id i (receivables w') = Some (rcv_setTokenized h (rcv_setStatus RValidated r))"
    by (simp add: find_row_upd_row rcv_setTokenized_def rcv_setStatus_def)
  with r h(2,3) show ?thesis by (simp add: rcv_setTokenized_def)
qed

lemma life_from_tokenized: "life_step\<^sup>*\<^sup>* RTokenized s \<Longrightarrow> s \<in> {RTokenized, RAssignmentPending, RActive, RSettled}"
  by (induction rule: rtranclp_induct) (auto elim: life_step.cases)

lemma rejection_steps:
  assumes "find_row rcv_id i (receivables w) = Some r" and "rcv_status r = RPending" and "au_role op = Some ''operator''"
  shows "steps 1 (serve (AdmRejectReceivable op i)) E w =
    (bindT (awaiting (rcv_update i (rcv_setStatus RRejected))) (\<lambda>_.
     bindT (awaiting (auditCreate (audit_entry ''receivable.rejected'' i ''receivable'' (au_userId op)
       [(''rejectedByOperator'', JBool True)]))) (\<lambda>_. returning ())), w)"
  using assms by (simp add: answer_def only_operator_def only_def rejectReceivable_t_def findPendingReceivable_t_def
      findUniqueM_def getsM_def thread_eqs)

text \<open>C13: A rejection that looked at a pending receivable before an approval was served rejects a receivable
  whose token exists: the approval reports it as tokenized, then the row is rejected and keeps the hash
  of the token. No sequence of whole requests leads from tokenized to rejected.\<close>

theorem rejected_after_tokenization:
  assumes "approveReceivable i (au_userId o1) E w = (Inr res, v)"
    and "au_role o1 = Some ''operator''" and "au_role o2 = Some ''operator''"
  shows "\<exists>n r h. let c = play E (overtaken (AdmApproveReceivable o1 i) (AdmRejectReceivable o2 i) 1 n 1) (idle w) in
      outcome (snd (cf_running c ! 0)) = Some (Inr ())
      \<and> rr_status res = RTokenized \<and> rr_txHash res = Some h
      \<and> find_row rcv_id i (receivables (cf_world c)) = Some r \<and> rcv_status r = RRejected \<and> rcv_txHash r = Some h
      \<and> \<not> life_step\<^sup>*\<^sup>* RTokenized RRejected"
proof -
  let ?A = "AdmApproveReceivable o1 i" and ?B = "AdmRejectReceivable o2 i"
  from approveReceivable_stores [OF assms(1)] obtain r s h where
    r: "find_row rcv_id i (receivables w) = Some r" "rcv_status r = RPending"
    and s: "find_row rcv_id i (receivables v) = Some s" "rcv_txHash s = Some h"
    and res: "rr_status res = RTokenized" "rr_txHash res = Some h" by blast
  have alone: "uninterrupted (serve ?A) E w = (Inr (), v)"
    using assms(1,2) by (simp add: uninterrupted_answer uninterrupted_only respond_def bindM_def assertOperator_def throwIf_def)
  let ?f = "rcv_setStatus RRejected"
  obtain u where u: "rcv_update i ?f E v = (Inr (?f s), u)" "receivables u = upd_row rcv_id i ?f (receivables v)"
    using s by (simp add: rcv_update_def updateM_def no_chk_def)
  from play_overtaken [OF rejection_steps [OF r assms(3)] alone, of 1] obtain n t where
    n: "play E (overtaken ?A ?B 1 n 1) (idle w) = \<lparr>cf_world = u, cf_running = [(?A, Done (Inr ())), (?B, t)]\<rparr>"
    using u(1) by auto
  have "find_row rcv_id i (receivables u) = Some (?f s)"
    using s(1) u(2) by (simp add: find_row_upd_row rcv_setStatus_def)
  moreover have "\<not> life_step\<^sup>*\<^sup>* RTokenized RRejected"
    using life_from_tokenized by blast
  ultimately show ?thesis
    using n s(2) res by (intro exI [of _ n] exI [of _ "?f s"] exI [of _ h]) (simp add: rcv_setStatus_def)
qed

section \<open>Two callbacks for one event\<close>

lemma event_create_refused:
  assumes "find_row evt_eventId i (pixEvents w) \<noteq> None"
  shows "event_create i o' x n ty st a p E w = (Inl (PrismaError ''P2002''), w\<lparr>w_ids := Suc (w_ids w)\<rparr>)"
proof -
  obtain e where e: "e \<in> set (pixEvents w)" "evt_eventId e = i"
    using assms by (auto simp: find_row_None_iff)
  let ?r = "\<lparr>evt_id = e_uuid E (w_ids w), evt_eventId = i, evt_pixOrderId = o', evt_externalId = x,
      evt_identifier = n, evt_type = ty, evt_status = st, evt_amount = a, evt_payload = p, evt_processedAt = w_now w\<rparr>"
  have refused: "evt_id r \<in> evt_id ` set (pixEvents w) \<or> clash evt_id (\<lambda>e. Some (evt_eventId e)) (pixEvents w) r"
    if "evt_eventId r = i" for r
  proof (cases "evt_id e = evt_id r")
    case True
    with e(1) show ?thesis by (metis image_eqI)
  next
    case False
    with e that show ?thesis by (auto simp: clash_def list_ex_iff)
  qed
  show ?thesis
    using refused [of ?r] by (auto simp: event_create_def createM_def Let_def chk_pixEvent_def bindM_def uuidM_def)
qed

lemma take_step_catch:
  "take_step (bindT (catchT (bindT (awaiting m) f) h) k) E w = (case m E w of
     (Inl e, v) \<Rightarrow> (bindT (h e) k, v) | (Inr a, v) \<Rightarrow> (bindT (catchT (f a) h) k, v))"
  by (auto simp: awaiting_def bindT_Next catchT_Next failing_def split: prod.splits sum.splits)

text \<open>C14: The unique column of the events decides between callbacks that arrive together: a callback that found
  no event before another callback for the same event was processed ends normally without any effect.\<close>

theorem callback_overtaken:
  assumes "find_row evt_eventId (wh_eventId d) (pixEvents w) = None"
    and "e_uuid E (w_ids w) \<notin> evt_id ` set (pixEvents w)" and "wh_eventId d' = wh_eventId d"
  shows "\<exists>n. let c = play E (overtaken (PixWebhook s t (OrderBody d)) (PixWebhook s' t' (OrderBody d')) 1 n 1) (idle w);
      v = snd (processPixOrderCallback d E w) in
    outcome (snd (cf_running c ! 1)) = Some (Inr ()) \<and> cf_world c = v\<lparr>w_ids := Suc (w_ids v)\<rparr>"
proof -
  let ?A = "PixWebhook s t (OrderBody d)" and ?B = "PixWebhook s' t' (OrderBody d')"
  let ?effects = "\<lambda>new. bindT (if new then orderEffects_t d' else returning ()) (\<lambda>_. returning ())"
  let ?v = "snd (processPixOrderCallback d E w)"
  have look: "steps 1 (serve ?B) E w = (bindT (catchT (bindT (awaiting (storeOrderEvent d')) (\<lambda>_. returning True))
      (\<lambda>e. if e = PrismaError ''P2002'' then returning False else failing e)) ?effects, w)"
    using assms(1,3) by (simp add: answer_def receivePixWebhook_t_def processPixOrderCallback_t_def admitEvent_t_def
        findUniqueM_def getsM_def thread_eqs)
  have alone: "uninterrupted (serve ?A) E w = (fst (processPixOrderCallback d E w), ?v)"
    by (simp add: uninterrupted_answer respond_def unit_tail receivePixWebhook_t_def)
  have "storeOrderEvent d' E ?v = (Inl (PrismaError ''P2002''), ?v\<lparr>w_ids := Suc (w_ids ?v)\<rparr>)"
    using event_create_refused [OF callback_stores [OF assms(2)]] assms(3) by (simp add: storeOrderEvent_def)
  with play_overtaken [OF look alone, of 1] obtain n where
    "play E (overtaken ?A ?B 1 n 1) (idle w) = \<lparr>cf_world = ?v\<lparr>w_ids := Suc (w_ids ?v)\<rparr>,
       cf_running = [(?A, Done (fst (processPixOrderCallback d E w))), (?B, Done (Inr ()))]\<rparr>"
    by (auto simp: take_step_catch thread_eqs returning_def)
  then show ?thesis by (intro exI [of _ n]) simp
qed

section \<open>Two choices of a role\<close>

lemma user_update_ok:
  assumes "db_ok w" and "find_row usr_id i (users w) = Some u"
  shows "user_update i (\<lambda>x. x\<lparr>usr_role := r\<rparr>) E w =
    (Inr (u\<lparr>usr_role := r\<rparr>), users_update (upd_row usr_id i (\<lambda>x. x\<lparr>usr_role := r\<rparr>)) w)"
proof -
  have u: "u \<in> set (users w)" using assms(2) by (auto dest: find_row_SomeD)
  have "uniq usr_id g (users w) \<Longrightarrow> g (u\<lparr>usr_role := r\<rparr>) = g u \<Longrightarrow> \<not> clash usr_id g (users w) (u\<lparr>usr_role := r\<rparr>)" for g
    by (rule uniq_no_clash [OF _ u]) simp_all
  then have "chk_user w (u\<lparr>usr_role := r\<rparr>) = None"
    using assms(1) by (simp add: chk_user_def db_ok_defs)
  then show ?thesis using assms(2) by (simp add: user_update_def updateM_def)
qed

lemma setRole_runs:
  assumes "db_ok w" and "find_row usr_id i (users w) = Some x" and "falsy (usr_role x)"
  shows "setRole i r E w = (Inr \<lparr>tr_accessToken = e_jwtSign E (usr_id x) (usr_email x) (Some r), tr_id = usr_id x,
      tr_email = usr_email x, tr_role = Some r\<rparr>, users_update (upd_row usr_id i (\<lambda>y. y\<lparr>usr_role := Some r\<rparr>)) w)"
  using assms user_update_ok [OF assms(1,2), of "Some r" E]
  by (simp add: setRole_def findUserOrThrow_def bindM_assoc bindM_def [of "user_update _ _"] tokenFor_def issueToken_def asksM_def)

text \<open>C11: A choice of a role that looked at the user before another choice was served replaces the role that
  was given: both requests end normally, and the user has the second role while the token of the first answer
  names the first one. One after the other, the second choice would be refused.\<close>

theorem role_chosen_twice:
  assumes "db_ok w" and "find_row usr_id (au_userId u) (users w) = Some x" and "falsy (usr_role x)" and "r \<noteq> []"
  shows "\<exists>n tok v. setRole (au_userId u) r E w = (Inr tok, v) \<and> tr_role tok = Some r
    \<and> fst (setRole (au_userId u) r' E v) = Inl (ConflictException ''Role already set'')
    \<and> (let c = play E (overtaken (AuthSetRole u r) (AuthSetRole u r') 1 n 2) (idle w) in
        map (outcome \<circ> snd) (cf_running c) = [Some (Inr ()), Some (Inr ())]
        \<and> map_option usr_role (find_row usr_id (au_userId u) (users (cf_world c))) = Some (Some r'))"
proof -
  let ?i = "au_userId u" and ?A = "AuthSetRole u r" and ?B = "AuthSetRole u r'"
  let ?f = "\<lambda>q y. y\<lparr>usr_role := Some q\<rparr>"
  let ?v = "users_update (upd_row usr_id ?i (?f r)) w" and ?x = "x\<lparr>usr_role := Some r\<rparr>"
  obtain tok where first: "setRole ?i r E w = (Inr tok, ?v)" "tr_role tok = Some r"
    using setRole_runs [OF assms(1-3), of r E] by simp
  then have ok: "db_ok ?v"
    using keepsR_run [OF profile_steps(1) [of ?i r], of w E] assms(1) by (simp add: sound_step_def)
  have row: "find_row usr_id ?i (users ?v) = Some ?x"
    using assms(2) by (simp add: find_row_upd_row)
  have refused: "fst (setRole ?i r' E ?v) = Inl (ConflictException ''Role already set'')"
    using row assms(4) by (simp add: setRole_def findUserOrThrow_def bindM_assoc falsy_def)
  have look: "steps 1 (serve ?B) E w = (bindT (awaiting (user_update ?i (?f r'))) (\<lambda>y.
      bindT (awaiting (tokenFor y)) (\<lambda>_. returning ())), w)"
    using assms(2,3) by (simp add: answer_def setRole_t_def findUserOrThrow_t_def findUniqueM_def getsM_def thread_eqs)
  have alone: "uninterrupted (serve ?A) E w = (Inr (), ?v)"
    using first(1) by (simp add: uninterrupted_answer respond_def bindM_def)
  from play_overtaken [OF look alone, of 2] user_update_ok [OF ok row, of "Some r'" E] obtain n where
    "play E (overtaken ?A ?B 1 n 2) (idle w) = \<lparr>cf_world = users_update (upd_row usr_id ?i (?f r')) ?v,
       cf_running = [(?A, Done (Inr ())), (?B, Done (Inr ()))]\<rparr>"
    by (auto simp: numeral_2_eq_2 tokenFor_def issueToken_def asksM_def returning_def)
  then show ?thesis
    using first refused assms(2)
    by (intro exI [of _ n] exI [of _ tok] exI [of _ ?v]) (auto simp: find_row_upd_row)
qed

section \<open>A verification overtaken by the use of its authorization\<close>

text \<open>C12: A verification that looked at an authorization before another request used it still ends normally: it
  replaces the signature and sets the time of verification after the use, and leaves the authorization used. One
  after the other, the verification would be refused.\<close>

theorem verified_after_use:
  assumes "verify_check (au_userId u) d E w = (Inr a, w1)" and "dispatch q E w1 = (x, v)"
    and "find_row fa_id (fa_id a) (finauths v) = Some b" and "fa_consumedAt b = Some t"
    and "e_uuid E (w_ids v) \<notin> aud_id ` set (auditLogs v)"
  shows "\<exists>n y. let c = play E (overtaken q (FaVerify u d) 1 n 2) (idle w) in
      outcome (snd (cf_running c ! 1)) = Some (Inr ())
      \<and> find_row fa_id (fa_id a) (finauths (cf_world c)) = Some y \<and> fa_consumedAt y = Some t
      \<and> fa_signature y = Some (JObj (vf_assertion d)) \<and> fa_verifiedAt y = Some (w_now (tick E v))
      \<and> fst (verify (au_userId u) d E v) =
          Inl (fa_error authorization_already_used ''Authorization was already consumed'')"
proof -
  let ?B = "FaVerify u d" and ?f = "fa_setVerified (JObj (vf_assertion d)) (w_now (tick E v))"
  let ?z = "finauths_update (upd_row fa_id (fa_id a) ?f) (tick E v)"
  let ?e = "audit_entry ''financial_authorization.verified'' (fa_id (?f b)) ''financial_authorization'' (au_userId u) (fa_metadata (?f b))"
  note read = verify_check_Inr [OF assms(1)]
  have look: "steps 1 (serve ?B) E w = (bindT (awaiting (verify_mark a d)) (\<lambda>updated.
      bindT (awaiting (auditLog (audit_entry ''financial_authorization.verified'' (fa_id updated)
        ''financial_authorization'' (au_userId u) (fa_metadata updated)))) (\<lambda>_. returning ())), w1)"
    using assms(1) by (simp add: answer_def verify_t_def thread_eqs)
  have mark: "verify_mark a d E v = (Inr (?f b), ?z)"
    using assms(3) by (simp add: verify_mark_eq updateM_def no_chk_def)
  have later: "evolves w1 v"
    using keepsR_run [OF dispatch_step, of w1 q E] assms(2) by (simp add: sound_step_def)
  then have "has_privy (users v) (au_userId u)" using has_privy_evolves read by simp
  then have "has_user v (au_userId u)" unfolding has_privy_def has_user_iff by force
  then obtain z where log: "auditLog ?e E ?z = (Inr (), z)"
    using auditLog_run [of ?z ?e E] assms(5) by (auto simp: audit_entry_def has_user_def)
  have z: "find_row fa_id (fa_id a) (finauths z) = Some (?f b)"
    using sameD' [OF auditLog_frames(5), OF log] assms(3) by (simp add: find_row_upd_row fa_setVerified_def)
  obtain n where n: "play E (overtaken q ?B 1 n 2) (idle w) = \<lparr>cf_world = z, cf_running = [(q, Done x), (?B, Done (Inr ()))]\<rparr>"
    using play_overtaken [OF look, of q x v 2] assms(2) mark log
    by (auto simp: served_alone numeral_2_eq_2 returning_def)
  have "fa_userId b = au_userId u"
    using evolves_finauth [OF later, of "fa_id a" a] read assms(3) by (auto simp: finauth_evo_def)
  then have "fst (verify (au_userId u) d E v) =
      Inl (fa_error authorization_already_used ''Authorization was already consumed'')"
    using assms(3,4) read by (simp add: verify_def)
  with n z assms(4) show ?thesis
    by (intro exI [of _ n] exI [of _ "?f b"]) (simp add: fa_setVerified_def)
qed

end
