(* ===== verification/RaceScenarios.thy ===== *)
theory RaceScenarios
  imports Races Scenarios
begin

text \<open>Interleaved requests on the data of the theory \<open>Examples\<close>.\<close>

theorem interleaved_invariants_witness:
  "let v = cf_world (play ex_env [Arrive (RcvRequestAssignment ''n1''), Arrive (RcvTokenize ''n1''), Advance 0, Advance 1,
       Advance 0] (idle ex_state)) in keys_ok v \<and> unique_ok v \<and> refs_ok v \<and> biz_ok v \<and> evolves ex_state v"
  by (rule interleaved_invariants [OF ex_state_reachable])

definition ex_double_use :: "event list" where
  "ex_double_use = [Arrive (RcvAssign ''r1'' ''a1''), Arrive (RcvAssign ''r1'' ''a1''), Advance 0, Advance 1,
     Advance 0, Advance 1, Advance 0, Advance 1] @ replicate 4 (Advance 0)"

theorem interleaved_one_shot_witness:
  "\<exists>es. ledger_run es (ledger_of (finauths ex_world))
      = Some (ledger_of (finauths (cf_world (play ex_env ex_double_use (idle ex_world)))))
    \<and> (\<forall>i. length (filter (uses i) es) \<le> 1)"
  using interleaved_one_shot [OF ex_world_ok, of ex_env ex_double_use] by blast

text \<open>Both requests find the authorization unused; the first one ends normally, the second one is refused when it
  writes.\<close>

lemma ex_double_use_end:
  "let rs = cf_running (play ex_env ex_double_use (idle ex_world)) in
   length rs = 2 \<and> map (presents \<circ> fst) rs = [Some ''a1'', Some ''a1'']
   \<and> map (outcome \<circ> snd) rs = [Some (Inr ()),
       Some (Inl (fa_error authorization_already_used ''Authorization was already consumed''))]"
  by code_simp

theorem interleaved_single_use_witness:
  "outcome (snd (cf_running (play ex_env ex_double_use (idle ex_world)) ! 1)) \<noteq> Some (Inr ())"
proof -
  let ?rs = "cf_running (play ex_env ex_double_use (idle ex_world))"
  obtain q r where rs: "?rs = [q, r]"
    using ex_double_use_end by (auto simp: Let_def numeral_2_eq_2 length_Suc_conv)
  have p: "presents (fst (?rs ! 0)) = Some ''a1''" "presents (fst (?rs ! 1)) = Some ''a1''"
    and o: "outcome (snd (?rs ! 0)) = Some (Inr ())" and l: "0 < length ?rs" "1 < length ?rs"
    using ex_double_use_end unfolding rs by (simp_all add: Let_def)
  show ?thesis by (rule interleaved_single_use [OF ex_world_ok l _ refl p o]) simp
qed

definition ex_operator :: auth_user where
  "ex_operator = ex_caller ''operator''"

lemma ex_operator_approves:
  "fst (approveTransaction ''t1'' (au_userId ex_operator) ApproveIt ex_env ex_world) = Inr (ptx_setApproved ''pme'' ''tx'' ex_deposit)"
  by code_simp

lemma ex_second_mint:
  "fst (mintBrlt ''GU'' (ptx_amount (ptx_setApproved ''pme'' ''tx'' ex_deposit)) ex_env
     (snd (approveTransaction ''t1'' (au_userId ex_operator) ApproveIt ex_env ex_world))) = Inr ''tx''"
  by code_simp

lemma ex_operator_role: "au_role ex_operator = Some ''operator''"
  by (simp add: ex_operator_def ex_caller_def)

theorem approvals_mint_twice_witness:
  "\<exists>n x. let c = play ex_env (overtaken (AdmApproveTransaction ex_operator ''t1'' ApproveIt)
        (AdmApproveTransaction ex_operator ''t1'' ApproveIt) 2 n 2) (idle ex_world) in
      outcome (snd (cf_running c ! 0)) = Some (Inr ()) \<and> find_row ptx_id ''t1'' (ptransactions (cf_world c)) = Some x
      \<and> ptx_status x = TApproved"
proof -
  have t: "ptx_type (ptx_setApproved ''pme'' ''tx'' ex_deposit) = ''DEPOSIT''"
    and u: "find_row usr_id (ptx_userId (ptx_setApproved ''pme'' ''tx'' ex_deposit)) (users ex_world) = Some ex_pme"
    and a: "orElse (usr_privyStellarWalletAddress ex_pme) (usr_stellarWalletId ex_pme) = Some ''GU''"
    by code_simp+
  show ?thesis
    using approvals_mint_twice [OF ex_world_ok runI [OF ex_operator_approves] t ex_operator_role ex_operator_role
        u a runI [OF ex_second_mint]]
    by (simp only: Let_def) blast
qed

definition ex_pending_world :: world where
  "ex_pending_world = ex_world\<lparr>receivables := [ex_rcv ''r4'' RPending None]\<rparr>"

lemma ex_receivable_approved:
  "map_sum id rr_status (fst (approveReceivable ''r4'' (au_userId ex_operator) ex_env ex_pending_world)) = Inr RTokenized"
  by code_simp

theorem rejected_after_tokenization_witness:
  "\<exists>n r h. let c = play ex_env (overtaken (AdmApproveReceivable ex_operator ''r4'') (AdmRejectReceivable ex_operator ''r4'')
        1 n 1) (idle ex_pending_world) in
      find_row rcv_id ''r4'' (receivables (cf_world c)) = Some r \<and> rcv_status r = RRejected \<and> rcv_txHash r = Some h"
proof -
  obtain x v where "approveReceivable ''r4'' (au_userId ex_operator) ex_env ex_pending_world = (Inr x, v)"
    using ex_receivable_approved by (cases "approveReceivable ''r4'' (au_userId ex_operator) ex_env ex_pending_world")
      (auto simp: map_sum_def split: sum.splits)
  from rejected_after_tokenization [OF this ex_operator_role ex_operator_role] show ?thesis
    by (simp only: Let_def) blast
qed

theorem callback_overtaken_witness:
  "\<exists>n. let c = play ex_env (overtaken (PixWebhook None None (OrderBody ex_callback))
        (PixWebhook None None (OrderBody ex_callback)) 1 n 1) (idle ex_world);
      v = snd (processPixOrderCallback ex_callback ex_env ex_world) in
    outcome (snd (cf_running c ! 1)) = Some (Inr ()) \<and> cf_world c = v\<lparr>w_ids := Suc (w_ids v)\<rparr>"
proof (rule callback_overtaken)
  show "find_row evt_eventId (wh_eventId ex_callback) (pixEvents ex_world) = None" by code_simp
  show "e_uuid ex_env (w_ids ex_world) \<notin> evt_id ` set (pixEvents ex_world)" by code_simp
qed simp

lemma ex_newcomer_row: "find_row usr_id (au_userId (jwt_validate ''new'' ''New@x.br'' None)) (users ex_world) = Some ex_newcomer"
  by code_simp

theorem role_chosen_twice_witness:
  "\<exists>n. map_option usr_role (find_row usr_id ''new'' (users (cf_world (play ex_env
      (overtaken (AuthSetRole (jwt_validate ''new'' ''New@x.br'' None) ''pme'')
        (AuthSetRole (jwt_validate ''new'' ''New@x.br'' None) ''investor'') 1 n 2) (idle ex_world))))) = Some (Some ''investor'')"
proof -
  have "falsy (usr_role ex_newcomer)" by code_simp
  from role_chosen_twice [OF ex_world_ok ex_newcomer_row this, of "''pme''" ex_env "''investor''"] show ?thesis
    by (auto simp: Let_def jwt_validate_def)
qed

definition ex_reverify :: verify_dto where
  "ex_reverify = \<lparr>vf_authorizationId = ''a1'', vf_payloadHash = ex_hash, vf_assertion = ex_assertion\<rparr>"

text \<open>The authorization was verified before; its user signs once more while it is used.\<close>

definition ex_signed_twice :: world where
  "ex_signed_twice = ex_world\<lparr>finauths := [ex_auth ''a1'' ex_hash (Some 1)]\<rparr>"

theorem verified_after_use_witness:
  "\<exists>n y. find_row fa_id ''a1'' (finauths (cf_world (play ex_env (overtaken (RcvAssign ''r1'' ''a1'')
      (FaVerify (ex_caller ''pme'') ex_reverify) 1 n 2) (idle ex_signed_twice)))) = Some y
    \<and> fa_consumedAt y \<noteq> None \<and> fa_signature y = Some (JObj ex_assertion)"
proof -
  let ?a = "ex_auth ''a1'' ex_hash (Some 1)" and ?w = "snd (verify_check ''pme'' ex_reverify ex_env ex_signed_twice)"
  let ?v = "snd (dispatch (RcvAssign ''r1'' ''a1'') ex_env ?w)"
  have check: "fst (verify_check (au_userId (ex_caller ''pme'')) ex_reverify ex_env ex_signed_twice) = Inr ?a"
    by code_simp
  have "case find_row fa_id (fa_id ?a) (finauths ?v) of None \<Rightarrow> False | Some b \<Rightarrow> fa_consumedAt b \<noteq> None"
    by code_simp
  then obtain b t where b: "find_row fa_id (fa_id ?a) (finauths ?v) = Some b" "fa_consumedAt b = Some t"
    by (auto split: option.splits)
  have ids: "e_uuid ex_env (w_ids ?v) \<notin> aud_id ` set (auditLogs ?v)" by code_simp
  have "au_userId (ex_caller ''pme'') = ''pme''" "fa_id ?a = ''a1''" by code_simp+
  with verified_after_use [OF runI [OF check], of "RcvAssign ''r1'' ''a1''", OF surjective_pairing, of b t] b ids show ?thesis
    by (auto simp: Let_def ex_reverify_def)
qed

end
