(* ===== verification/Bootstrap.thy ===== *)
theory Bootstrap
  imports World
begin

text \<open>
  What \<open>main.ts\<close> computes before the application listens, the origins that CORS admits, with \<open>health.controller.ts\<close>
  and the services of \<open>shared/kyc\<close>, \<open>shared/payments\<close> and \<open>shared/storage\<close>, which give constant answers until a provider
  is integrated. Connections to the database and log output are omitted.
\<close>

section \<open>Allowed origins\<close>

text \<open>\<open>String.prototype.split\<close> with a separator of one character.\<close>

fun js_split :: "char \<Rightarrow> string \<Rightarrow> string list" where
  "js_split c [] = [[]]"
| "js_split c (x # xs) = (if x = c then [] # js_split c xs
     else (case js_split c xs of p # ps \<Rightarrow> (x # p) # ps | [] \<Rightarrow> [[x]]))"

definition allowedOrigins :: "env \<Rightarrow> string list" where
  "allowedOrigins E = filter (\<lambda>origin. origin \<noteq> []) (map trim
     (js_split (CHR '','') (the (nullish (e_conf E ''WEB_URL'') (Some ''http://localhost:3000'')))))"

fun joined :: "char \<Rightarrow> string list \<Rightarrow> string" where
  "joined c [] = []"
| "joined c [x] = x"
| "joined c (x # y # ys) = x @ c # joined c (y # ys)"

lemma js_split_not_Nil: "js_split c s \<noteq> []"
  by (induction s) (auto split: list.splits)

lemma js_split_prefix: "c \<notin> set x \<Longrightarrow> js_split c (x @ c # s) = x # js_split c s"
  by (induction x) auto

lemma js_split_single: "c \<notin> set x \<Longrightarrow> js_split c x = [x]"
  by (induction x) auto

lemma js_split_joined: "xs \<noteq> [] \<Longrightarrow> \<forall>x \<in> set xs. c \<notin> set x \<Longrightarrow> js_split c (joined c xs) = xs"
  by (induction c xs rule: joined.induct) (auto simp: js_split_single js_split_prefix)

text \<open>Listing origins with commas admits exactly these origins; a stray comma or blank around one does no harm.\<close>

lemma allowedOrigins_listed:
  assumes "e_conf E ''WEB_URL'' = Some (joined (CHR '','') xs)" and "xs \<noteq> []" and "\<forall>x \<in> set xs. CHR '','' \<notin> set x"
  shows "allowedOrigins E = filter (\<lambda>x. x \<noteq> []) (map trim xs)"
  using assms by (simp add: allowedOrigins_def js_split_joined nullish_def)

section \<open>Constant answers\<close>

record kyc_result =
  ky_status :: string
  ky_verifiedAt :: string

definition verifyCpf :: "string \<Rightarrow> string \<Rightarrow> kyc_result api" where
  "verifyCpf cpf name = bindM nowM (\<lambda>t. retM \<lparr>ky_status = ''approved'', ky_verifiedAt = toISOString t\<rparr>)"

definition verifyCnpj :: "string \<Rightarrow> string \<Rightarrow> kyc_result api" where
  "verifyCnpj cnpj companyName = bindM nowM (\<lambda>t. retM \<lparr>ky_status = ''approved'', ky_verifiedAt = toISOString t\<rparr>)"

record payment_result =
  py_txId :: string
  py_status :: string
  py_processedAt :: string

definition pix_send :: "payment_result api" where
  "pix_send = bindM nowM (\<lambda>t. bindM nowM (\<lambda>t'.
     retM \<lparr>py_txId = ''pix-'' @ show_int t, py_status = ''completed'', py_processedAt = toISOString t'\<rparr>))"

definition pix_getStatus :: "string \<Rightarrow> string api" where
  "pix_getStatus txId = retM ''completed''"

definition s3_upload :: "string \<Rightarrow> string api" where
  "s3_upload key = retM (''https://s3.example.com/'' @ key)"

definition s3_getSignedUrl :: "string \<Rightarrow> int \<Rightarrow> string api" where
  "s3_getSignedUrl key expiresInSeconds =
     retM (''https://s3.example.com/'' @ key @ ''?signed=true&expires='' @ show_int expiresInSeconds)"

record ping_response =
  pg_status :: string
  pg_message :: string
  pg_timestamp :: string

definition ping :: "ping_response api" where
  "ping = bindM nowM (\<lambda>t. retM \<lparr>pg_status = ''ok'', pg_message = ''API is alive'', pg_timestamp = toISOString t\<rparr>)"

lemma stub_frames:
  "keepsR (same users) (verifyCpf c n)" "keepsR (same users) (verifyCnpj c n)" "keepsR (same users) pix_send"
  "keepsR (same users) ping"
  unfolding verifyCpf_def verifyCnpj_def pix_send_def ping_def by (intro keeps)+

end
