(* ===== verification/Access.thy ===== *)
theory Access
  imports Frames Bootstrap
begin

text \<open>
  Who may do what. The routes of all controllers, with the guard \<open>JwtAuthGuard\<close>, the \<open>ValidationPipe\<close> and the checks
  of roles in the order in which a request meets them, and a client who may present every token the API ever
  issued. A token is seen through its claims; that a header verifies only for claims the API signed is what
  passport-jwt promises. The limits of the throttler are omitted.
\<close>

section \<open>Requests\<close>

text \<open>The claims of a token: user, e-mail and role at the time it was issued.\<close>

type_synonym claims = "string \<times> string \<times> string option"

text \<open>What the packages decide: the claims of the bearer token of a header that verifies and has not expired at
  a time, and the forms of e-mails, UUIDs and URLs.\<close>

record gate =
  gt_verify :: "int \<Rightarrow> string option \<Rightarrow> claims option"
  gt_isEmail :: "string \<Rightarrow> bool"
  gt_isUuid :: "string \<Rightarrow> bool"
  gt_isUrl :: "string \<Rightarrow> bool"

text \<open>The routes of each controller, without the caller.\<close>

datatype auth_call =
    PostAuthRegister register_dto
  | PostAuthLogin string string
  | PostAuthGoogle string
  | PostAuthPrivySession "string option"
  | PostStellarChallenge string
  | PostStellarVerify string
  | PatchMeRole string
  | GetMe
  | PatchMe profile_dto
  | PatchMePassword string string

datatype authorization_call =
    PostChallenge challenge_dto
  | PostVerify verify_dto

datatype receivable_call =
    PostReceivable create_receivable_dto
  | GetReceivables
  | GetPoolStats
  | GetPool
  | GetReceivable string
  | PatchActivate string
  | PatchTokenize string
  | PatchRequestAssignment string
  | PatchAssign string string
  | PostPrepareAssignment string
  | PostSubmitAssignment string string string

datatype document_call =
    PostDocument string create_document_dto
  | GetDocuments string

datatype settlement_call =
    PostSettlement create_settlement_dto
  | GetSettlements
  | GetSettlementsOf string

datatype investment_call =
    PostInvestment create_investment_dto
  | GetMyInvestments
  | GetMyStats
  | GetMyTransactions
  | PatchDepositPay string
  | PostDepositBuild string deposit_stage
  | PostDepositSubmit string submit_stage_dto

datatype admin_call =
    PostUser create_user_dto
  | GetUsers
  | GetPendingReceivables
  | PatchApprove string
  | PatchReject string
  | GetPendingTransactions
  | PostOperatorDeposit create_deposit_dto
  | PostApproveTransaction string approve_status
  | GetPoolStatus
  | GetPoolShares "string option"

datatype pix_call =
    PostPixDeposit pix_deposit_dto
  | PostPixWithdrawal pix_withdrawal_dto
  | PostWithdrawalBuild rat
  | PostWithdrawalSubmit submit_withdrawal_dto
  | GetActiveCollections
  | PostCollectionRetry string
  | GetOrders "string option"
  | GetOrder string "string option"
  | PostOrderRefresh string "string option"
  | PostPixWebhook "string option" "string option" webhook_body

datatype wallet_call =
    PostWallet string string string
  | GetWallet
  | GetWalletBalance

datatype call =
    ToAuth auth_call
  | ToFinAuth authorization_call
  | ToRec receivable_call
  | ToDoc document_call
  | ToSettle settlement_call
  | ToInvest investment_call
  | ToAdm admin_call
  | ToPixRt pix_call
  | ToWal wallet_call
  | ToAudit "string option"
  | ToPing

text \<open>The routes without \<open>JwtAuthGuard\<close>.\<close>

fun auth_public :: "auth_call \<Rightarrow> bool" where
  "auth_public (PostAuthRegister d) = True"
| "auth_public (PostAuthLogin e p) = True"
| "auth_public (PostAuthGoogle t) = True"
| "auth_public (PostAuthPrivySession i) = True"
| "auth_public (PostStellarChallenge a) = True"
| "auth_public (PostStellarVerify t) = True"
| "auth_public _ = False"

fun pix_public :: "pix_call \<Rightarrow> bool" where
  "pix_public (PostPixDeposit d) = True"
| "pix_public (PostPixWithdrawal d) = True"
| "pix_public (GetOrders u) = True"
| "pix_public (GetOrder i u) = True"
| "pix_public (PostOrderRefresh i u) = True"
| "pix_public (PostPixWebhook s t b) = True"
| "pix_public _ = False"

fun public :: "call \<Rightarrow> bool" where
  "public (ToAuth c) = auth_public c"
| "public (ToPixRt c) = pix_public c"
| "public ToPing = True"
| "public _ = False"

text \<open>The decorators of the bodies. Bodies that are declared as interfaces pass unchecked.\<close>

definition valid_create_user :: "(string \<Rightarrow> bool) \<Rightarrow> create_user_dto \<Rightarrow> bool" where
  "valid_create_user isEmail d \<longleftrightarrow> isEmail (cu_email d) \<and> cu_role d \<in> {''pme'', ''investor''} \<and> cu_name d \<noteq> []"

definition valid_operator_deposit :: "create_deposit_dto \<Rightarrow> bool" where
  "valid_operator_deposit d \<longleftrightarrow> cdp_userId d \<noteq> [] \<and> 1 \<le> cdp_amount d"

definition valid_investment_dto :: "(string \<Rightarrow> bool) \<Rightarrow> create_investment_dto \<Rightarrow> bool" where
  "valid_investment_dto isUuid d \<longleftrightarrow> isUuid (ci_receivableId d) \<and> isUuid (ci_authorizationId d) \<and> maxLength 64 (ci_pixTxId d)"

definition valid_submit_stage :: "submit_stage_dto \<Rightarrow> bool" where
  "valid_submit_stage d \<longleftrightarrow> sd_xdr d \<noteq> [] \<and> sd_signature d \<noteq> []"

definition valid_login_dto :: "(string \<Rightarrow> bool) \<Rightarrow> string \<Rightarrow> string \<Rightarrow> bool" where
  "valid_login_dto isEmail email password \<longleftrightarrow> isEmail email \<and> 1 \<le> length password"

definition valid_google_dto :: "string \<Rightarrow> bool" where
  "valid_google_dto idToken \<longleftrightarrow> idToken \<noteq> []"

definition valid_role_dto :: "string \<Rightarrow> bool" where
  "valid_role_dto role \<longleftrightarrow> role \<in> {''pme'', ''investor''}"

definition valid_password_dto :: "string \<Rightarrow> string \<Rightarrow> bool" where
  "valid_password_dto current new \<longleftrightarrow> 1 \<le> length current \<and> 8 \<le> length new"

text \<open>\<open>/^C[A-Z0-9]+$/\<close>\<close>

definition contract_id :: "string \<Rightarrow> bool" where
  "contract_id s = (case s of [] \<Rightarrow> False | c # cs \<Rightarrow> c = CHR ''C'' \<and> cs \<noteq> []
     \<and> list_all (\<lambda>c. let n = of_char c :: int in 65 \<le> n \<and> n \<le> 90 \<or> 48 \<le> n \<and> n \<le> 57) cs)"

definition valid_wallet_dto :: "string \<Rightarrow> string \<Rightarrow> string \<Rightarrow> bool" where
  "valid_wallet_dto contractId keyId publicKey \<longleftrightarrow> contract_id contractId \<and> keyId \<noteq> [] \<and> publicKey \<noteq> []"

text \<open>A body by the route; a route without a checked body passes.\<close>

fun valid_auth_call :: "gate \<Rightarrow> auth_call \<Rightarrow> bool" where
  "valid_auth_call G (PostAuthRegister d) = valid_register_dto (gt_isEmail G) d"
| "valid_auth_call G (PostAuthLogin e p) = valid_login_dto (gt_isEmail G) e p"
| "valid_auth_call G (PostAuthGoogle t) = valid_google_dto t"
| "valid_auth_call G (PatchMeRole r) = valid_role_dto r"
| "valid_auth_call G (PatchMe d) = valid_profile_dto d"
| "valid_auth_call G (PatchMePassword p q) = valid_password_dto p q"
| "valid_auth_call G _ = True"

fun valid_authorization_call :: "gate \<Rightarrow> authorization_call \<Rightarrow> bool" where
  "valid_authorization_call G (PostChallenge d) = valid_challenge_dto d"
| "valid_authorization_call G (PostVerify d) = gt_isUuid G (vf_authorizationId d)"

fun valid_receivable_call :: "gate \<Rightarrow> receivable_call \<Rightarrow> bool" where
  "valid_receivable_call G (PostReceivable d) = valid_receivable_dto d"
| "valid_receivable_call G _ = True"

fun valid_document_call :: "gate \<Rightarrow> document_call \<Rightarrow> bool" where
  "valid_document_call G (PostDocument i d) = valid_document_dto (gt_isUrl G) d"
| "valid_document_call G _ = True"

fun valid_settlement_call :: "gate \<Rightarrow> settlement_call \<Rightarrow> bool" where
  "valid_settlement_call G (PostSettlement d) = valid_settlement_dto d"
| "valid_settlement_call G _ = True"

fun valid_investment_call :: "gate \<Rightarrow> investment_call \<Rightarrow> bool" where
  "valid_investment_call G (PostInvestment d) = valid_investment_dto (gt_isUuid G) d"
| "valid_investment_call G (PostDepositSubmit i d) = valid_submit_stage d"
| "valid_investment_call G _ = True"

fun valid_admin_call :: "gate \<Rightarrow> admin_call \<Rightarrow> bool" where
  "valid_admin_call G (PostUser d) = valid_create_user (gt_isEmail G) d"
| "valid_admin_call G (PostOperatorDeposit d) = valid_operator_deposit d"
| "valid_admin_call G _ = True"

fun valid_pix_call :: "gate \<Rightarrow> pix_call \<Rightarrow> bool" where
  "valid_pix_call G (PostPixDeposit d) = valid_pix_deposit d"
| "valid_pix_call G (PostPixWithdrawal d) = valid_pix_withdrawal d"
| "valid_pix_call G _ = True"

fun valid_wallet_call :: "gate \<Rightarrow> wallet_call \<Rightarrow> bool" where
  "valid_wallet_call G (PostWallet c k p) = valid_wallet_dto c k p"
| "valid_wallet_call G _ = True"

fun valid_body :: "gate \<Rightarrow> call \<Rightarrow> bool" where
  "valid_body G (ToAuth c) = valid_auth_call G c"
| "valid_body G (ToFinAuth c) = valid_authorization_call G c"
| "valid_body G (ToRec c) = valid_receivable_call G c"
| "valid_body G (ToDoc c) = valid_document_call G c"
| "valid_body G (ToSettle c) = valid_settlement_call G c"
| "valid_body G (ToInvest c) = valid_investment_call G c"
| "valid_body G (ToAdm c) = valid_admin_call G c"
| "valid_body G (ToPixRt c) = valid_pix_call G c"
| "valid_body G (ToWal c) = valid_wallet_call G c"
| "valid_body G _ = True"

section \<open>Controllers\<close>

text \<open>What an answer grants: the claims of the token in it, if it has one.\<close>

definition silent :: "'a api \<Rightarrow> claims option api" where
  "silent m = bindM m (\<lambda>_. retM None)"

definition claims_of :: "token_result \<Rightarrow> claims" where
  "claims_of t = (tr_id t, tr_email t, tr_role t)"

definition token_answer :: "token_result api \<Rightarrow> claims option api" where
  "token_answer m = bindM m (\<lambda>t. retM (Some (claims_of t)))"

definition session_answer :: "session_result api \<Rightarrow> claims option api" where
  "session_answer m = bindM m (\<lambda>s. retM (Some (claims_of (sr_token s))))"

definition for_operator :: "auth_user \<Rightarrow> 'a api \<Rightarrow> claims option api" where
  "for_operator u m = silent (bindM (assertOperator u) (\<lambda>_. m))"

definition for_investor :: "auth_user \<Rightarrow> 'a api \<Rightarrow> claims option api" where
  "for_investor u m = silent (bindM (assertInvestor u) (\<lambda>_. m))"

fun authController :: "string option \<Rightarrow> auth_user \<Rightarrow> auth_call \<Rightarrow> claims option api" where
  "authController h u (PostAuthRegister d) = token_answer (register d)"
| "authController h u (PostAuthLogin e p) = token_answer (login e p)"
| "authController h u (PostAuthGoogle t) = session_answer (googleLogin t)"
| "authController h u (PostAuthPrivySession i) = session_answer (authController_privySession h i)"
| "authController h u (PostStellarChallenge a) = silent (getStellarChallenge a)"
| "authController h u (PostStellarVerify t) = silent (verifyStellarChallenge t)"
| "authController h u (PatchMeRole r) = token_answer (setRole (au_userId u) r)"
| "authController h u GetMe = silent (findMe (au_userId u))"
| "authController h u (PatchMe d) = silent (updateProfile (au_userId u) d)"
| "authController h u (PatchMePassword p q) = silent (changePassword (au_userId u) p q)"

fun financialAuthorizationsController :: "auth_user \<Rightarrow> authorization_call \<Rightarrow> claims option api" where
  "financialAuthorizationsController u (PostChallenge d) = silent (fa_controller_createChallenge (au_userId u) d)"
| "financialAuthorizationsController u (PostVerify d) = silent (fa_controller_verify (au_userId u) d)"

fun receivablesController :: "auth_user \<Rightarrow> receivable_call \<Rightarrow> claims option api" where
  "receivablesController u (PostReceivable d) = silent (receivables_create (au_userId u) d)"
| "receivablesController u GetReceivables = silent (receivables_findAll (au_userId u))"
| "receivablesController u GetPoolStats = silent receivablesRepo_getPoolStats"
| "receivablesController u GetPool = silent receivables_findPool"
| "receivablesController u (GetReceivable i) = silent (receivables_findOne i)"
| "receivablesController u (PatchActivate i) = silent (activate i)"
| "receivablesController u (PatchTokenize i) = silent (tokenize i)"
| "receivablesController u (PatchRequestAssignment i) = silent (requestAssignment i)"
| "receivablesController u (PatchAssign i a) = silent (assign i a)"
| "receivablesController u (PostPrepareAssignment i) = silent (receivables_prepareAssignment i)"
| "receivablesController u (PostSubmitAssignment i x s) = silent (submitAssignment i x s)"

fun documentsController :: "document_call \<Rightarrow> claims option api" where
  "documentsController (PostDocument i d) = silent (documentsController_create i d)"
| "documentsController (GetDocuments i) = silent (documents_findByReceivable i)"

fun settlementsController :: "settlement_call \<Rightarrow> claims option api" where
  "settlementsController (PostSettlement d) = silent (settlements_create d)"
| "settlementsController GetSettlements = silent settlements_findAll"
| "settlementsController (GetSettlementsOf i) = silent (settlements_findByReceivable i)"

fun investmentsController :: "auth_user \<Rightarrow> investment_call \<Rightarrow> claims option api" where
  "investmentsController u (PostInvestment d) = silent (investmentsController_create u d)"
| "investmentsController u GetMyInvestments = for_investor u (findManyByInvestor (au_userId u))"
| "investmentsController u GetMyStats = for_investor u (getStatsByInvestor (au_userId u))"
| "investmentsController u GetMyTransactions = for_investor u (findMyTransactions (au_userId u))"
| "investmentsController u (PatchDepositPay i) = silent (investmentsController_markAsPaid u i)"
| "investmentsController u (PostDepositBuild i s) = silent (investmentsController_buildOnchainDeposit u i s)"
| "investmentsController u (PostDepositSubmit i d) = silent (investmentsController_submitOnchainDeposit u i d)"

fun adminController :: "auth_user \<Rightarrow> admin_call \<Rightarrow> claims option api" where
  "adminController u (PostUser d) = silent (adminController_createUser u d)"
| "adminController u GetUsers = for_operator u admin_listUsers"
| "adminController u GetPendingReceivables = for_operator u admin_listPendingReceivables"
| "adminController u (PatchApprove i) = silent (adminController_approveReceivable u i)"
| "adminController u (PatchReject i) = silent (adminController_rejectReceivable u i)"
| "adminController u GetPendingTransactions = for_operator u listPendingTransactions"
| "adminController u (PostOperatorDeposit d) = silent (adminController_createDeposit u d)"
| "adminController u (PostApproveTransaction i s) = silent (adminController_approveTransaction u i s)"
| "adminController u GetPoolStatus = silent (adminController_getPoolStatus u)"
| "adminController u (GetPoolShares a) = silent (adminController_getInvestorShares u a)"

fun pixController :: "auth_user \<Rightarrow> pix_call \<Rightarrow> claims option api" where
  "pixController u (PostPixDeposit d) = silent (pixController_createDeposit d)"
| "pixController u (PostPixWithdrawal d) = silent (pixController_createWithdrawal d)"
| "pixController u (PostWithdrawalBuild a) = silent (buildWithdrawalTx (au_userId u) a)"
| "pixController u (PostWithdrawalSubmit d) = silent (submitWithdrawal (au_userId u) d)"
| "pixController u GetActiveCollections = silent (listActiveCollections (au_userId u) (au_role u))"
| "pixController u (PostCollectionRetry i) = silent (retryCollectionOrder i (au_userId u))"
| "pixController u (GetOrders x) = silent (pixController_listOrders x)"
| "pixController u (GetOrder i x) = silent (pixController_getOrder i x)"
| "pixController u (PostOrderRefresh i x) = silent (pixController_refreshOrder i x)"
| "pixController u (PostPixWebhook s t b) = silent (receivePixWebhook (deployed_request s t) b)"

fun stellarWalletController :: "auth_user \<Rightarrow> wallet_call \<Rightarrow> claims option api" where
  "stellarWalletController u (PostWallet c k p) = silent (createWallet (au_userId u))"
| "stellarWalletController u GetWallet = silent (getWallet (au_userId u))"
| "stellarWalletController u GetWalletBalance = silent (getBalance (au_userId u))"

fun handler :: "string option \<Rightarrow> auth_user \<Rightarrow> call \<Rightarrow> claims option api" where
  "handler h u (ToAuth c) = authController h u c"
| "handler h u (ToFinAuth c) = financialAuthorizationsController u c"
| "handler h u (ToRec c) = receivablesController u c"
| "handler h u (ToDoc c) = documentsController c"
| "handler h u (ToSettle c) = settlementsController c"
| "handler h u (ToInvest c) = investmentsController u c"
| "handler h u (ToAdm c) = adminController u c"
| "handler h u (ToPixRt c) = pixController u c"
| "handler h u (ToWal c) = stellarWalletController u c"
| "handler h u (ToAudit e) = silent (audit_find (au_userId u) e)"
| "handler h u ToPing = silent ping"

text \<open>The guard comes before the pipe, and the pipe before the method.\<close>

definition anonymous :: auth_user where
  "anonymous = jwt_validate [] [] None"

definition guard :: "gate \<Rightarrow> string option \<Rightarrow> call \<Rightarrow> auth_user api" where
  "guard G h c = (if public c then retM anonymous
     else bindM (getsM (\<lambda>w. gt_verify G (w_now w) h)) (\<lambda>found.
       case found of None \<Rightarrow> throwM (UnauthorizedException ''Unauthorized'')
       | Some (sub, email, role) \<Rightarrow> retM (jwt_validate sub email role)))"

definition http :: "gate \<Rightarrow> string option \<Rightarrow> call \<Rightarrow> claims option api" where
  "http G h c =
     bindM (guard G h c) (\<lambda>u.
     bindM (throwIf (\<not> valid_body G c) (BadRequestException ''Bad Request'')) (\<lambda>_.
     handler h u c))"

section \<open>Roles\<close>

text \<open>No role but those of the forms is given, and a role that was given stays.\<close>

definition roles_kept :: "world \<Rightarrow> world \<Rightarrow> bool" where
  "roles_kept w v \<longleftrightarrow>
     (\<forall>x \<in> set (roster v). x \<in> set (roster w) \<or> snd x \<in> {Some ''pme'', Some ''investor'', Some ''partner''})
     \<and> (distinct (map fst (roster w)) \<longrightarrow> distinct (map fst (roster v))
        \<and> (\<forall>i r. (i, Some r) \<in> set (roster w) \<and> r \<noteq> [] \<longrightarrow> (i, Some r) \<in> set (roster v)))"

lemma same_roster_roles: "keepsR (same roster) m \<Longrightarrow> keepsR roles_kept m"
  by (erule keepsR_mono) (simp add: same_def roles_kept_def)

interpretation roles: world_relation roles_kept
proof
  show "roles_kept u w" if "roles_kept u v" "roles_kept v w" for u v w
    using that unfolding roles_kept_def by blast
qed (simp_all add: roles_kept_def roster_def)

lemma roles_kept_new:
  assumes "usr_id r \<notin> usr_id ` set (users w)" and "usr_role r \<in> {Some ''pme'', Some ''investor'', Some ''partner''}"
  shows "roles_kept w (users_update (\<lambda>x. x @ [r]) w)"
  using assms by (auto simp: roles_kept_def roster_def comp_def)

lemma roles_kept_set:
  assumes "find_row usr_id i (users w) = Some u" and "falsy (usr_role u)" and "role \<in> {''pme'', ''investor'', ''partner''}"
    and "users v = upd_row usr_id i (\<lambda>x. x\<lparr>usr_role := Some role\<rparr>) (users w)"
  shows "roles_kept w v"
proof -
  have r: "roster v = map (\<lambda>(k, r). if k = i then (k, Some role) else (k, r)) (roster w)"
    using assms(4) by (auto simp: roster_def upd_row_def)
  have m: "(i, usr_role u) \<in> set (roster w)"
    using find_row_SomeD [OF assms(1)] by (auto simp: roster_def)
  have "map fst (roster v) = map fst (roster w)" by (auto simp: r)
  moreover have "(k, Some x) \<in> set (roster v)"
    if "distinct (map fst (roster w))" "(k, Some x) \<in> set (roster w)" "x \<noteq> []" for k x
  proof (cases "k = i")
    case True
    then have "usr_role u = Some x" using eq_key_imp_eq_value [OF that(1) m] that(2) by auto
    then show ?thesis using assms(2) that(3) by (simp add: falsy_def)
  next
    case False
    then show ?thesis using that(2) by (force simp: r)
  qed
  moreover have "x \<in> set (roster w) \<or> snd x \<in> {Some ''pme'', Some ''investor'', Some ''partner''}"
    if "x \<in> set (roster v)" for x
    using that assms(3) by (auto simp: r split: if_splits)
  ultimately show ?thesis by (simp add: roles_kept_def)
qed

lemma register_roles: "optIn (rg_role d) [''pme'', ''investor'', ''partner''] \<Longrightarrow> keepsR roles_kept (register d)"
  unfolding register_def findByEmail_def user_create_def bcryptHash_def tokenFor_def issueToken_def
  by (intro keeps roles.keepsR_create_made roles_kept_new)
    (auto simp: blank_user_def nullish_def optIn_def split: option.splits)

lemma admin_createUser_roles: "cu_role d \<in> {''pme'', ''investor''} \<Longrightarrow> keepsR roles_kept (admin_createUser d)"
  unfolding admin_createUser_def findByEmail_def user_create_def
  by (intro keeps roles.keepsR_create_made roles_kept_new) (auto simp: blank_user_def)

lemma setRole_users:
  "users (snd (setRole i role E w)) = users w \<or> (\<exists>u. find_row usr_id i (users w) = Some u \<and> falsy (usr_role u)
     \<and> users (snd (setRole i role E w)) = upd_row usr_id i (\<lambda>x. x\<lparr>usr_role := Some role\<rparr>) (users w))"
  by (auto simp: setRole_def findUserOrThrow_def bindM_assoc user_update_def updateM_def tokenFor_def issueToken_def
      asksM_def bindM_def findUniqueM_def getsM_def someOr_def throwIf_def throwM_def retM_def
      split: option.splits)

lemma setRole_roles: "role \<in> {''pme'', ''investor''} \<Longrightarrow> keepsR roles_kept (setRole i role)"
proof (rule keepsRI)
  fix E w
  assume r: "role \<in> {''pme'', ''investor''}"
  from setRole_users [of i role E w] show "roles_kept w (snd (setRole i role E w))"
  proof
    assume "users (snd (setRole i role E w)) = users w"
    then show ?thesis by (simp add: roles_kept_def roster_def)
  next
    assume "\<exists>u. find_row usr_id i (users w) = Some u \<and> falsy (usr_role u)
     \<and> users (snd (setRole i role E w)) = upd_row usr_id i (\<lambda>x. x\<lparr>usr_role := Some role\<rparr>) (users w)"
    then show ?thesis using r roles_kept_set by blast
  qed
qed

text \<open>The remaining methods of the controllers leave the roster alone.\<close>

lemmas read_defs = getStellarChallenge_def verifyStellarChallenge_def audit_find_def audit_findByUser_def audit_findByEntity_def
  findManyByInvestor_def getStatsByInvestor_def findMyTransactions_def admin_listUsers_def
  admin_listPendingReceivables_def listPendingTransactions_def listActiveCollections_def pixController_listOrders_def
  listUserTransactionsWithPixStatus_def pixController_getOrder_def getPixOrderForTransaction_def getWallet_def Let_def

lemmas controller_defs = authController_privySession_def activate_def documentsController_create_def fa_controller_createChallenge_def
  fa_controller_verify_def investmentsController_create_def investmentsController_markAsPaid_def
  investmentsController_buildOnchainDeposit_def investmentsController_submitOnchainDeposit_def
  adminController_approveReceivable_def adminController_rejectReceivable_def adminController_createDeposit_def
  adminController_approveTransaction_def adminController_getPoolStatus_def adminController_getInvestorShares_def
  pixController_createDeposit_def pixController_createWithdrawal_def pixController_refreshOrder_def
  assertInvestor_def assertOperator_def

lemma query_roster [keeps]:
  "keepsR (same roster) (getStellarChallenge a)" "keepsR (same roster) (verifyStellarChallenge t)"
  "keepsR (same roster) (audit_find u e)" "keepsR (same roster) (findManyByInvestor u)"
  "keepsR (same roster) (getStatsByInvestor u)" "keepsR (same roster) (findMyTransactions u)"
  "keepsR (same roster) admin_listUsers" "keepsR (same roster) admin_listPendingReceivables"
  "keepsR (same roster) listPendingTransactions" "keepsR (same roster) (listActiveCollections u r)"
  "keepsR (same roster) (pixController_listOrders x)" "keepsR (same roster) (pixController_getOrder i x)"
  "keepsR (same roster) (getWallet u)"
  unfolding read_defs
  by (intro keeps)+

lemma controller_roster [keeps]:
  "keepsR (same roster) (authController_privySession h i)" "keepsR (same roster) (activate j)"
  "keepsR (same roster) (documentsController_create j dd)" "keepsR (same roster) (fa_controller_createChallenge u cd)"
  "keepsR (same roster) (fa_controller_verify u vd)" "keepsR (same roster) (investmentsController_create a ci)"
  "keepsR (same roster) (investmentsController_markAsPaid a j)"
  "keepsR (same roster) (investmentsController_buildOnchainDeposit a j s)"
  "keepsR (same roster) (investmentsController_submitOnchainDeposit a j sd)"
  "keepsR (same roster) (adminController_approveReceivable a j)" "keepsR (same roster) (adminController_rejectReceivable a j)"
  "keepsR (same roster) (adminController_createDeposit a cdp)" "keepsR (same roster) (adminController_approveTransaction a j st)"
  "keepsR (same roster) (adminController_getPoolStatus a)" "keepsR (same roster) (adminController_getInvestorShares a x)"
  "keepsR (same roster) (pixController_createDeposit pd)" "keepsR (same roster) (pixController_createWithdrawal pw)"
  "keepsR (same roster) (pixController_refreshOrder j x)"
  unfolding controller_defs
  by (intro keeps)+

lemmas answer_defs = silent_def token_answer_def session_answer_def for_operator_def for_investor_def
  assertOperator_def assertInvestor_def

text \<open>The routes that give a role.\<close>

fun gives_role :: "call \<Rightarrow> bool" where
  "gives_role (ToAuth (PostAuthRegister d)) = True"
| "gives_role (ToAuth (PatchMeRole r)) = True"
| "gives_role (ToAdm (PostUser d)) = True"
| "gives_role _ = False"

lemma authorization_roster [keeps]: "keepsR (same roster) (financialAuthorizationsController u c)"
  by (cases c) (simp_all add: answer_defs, (intro keeps)+)

lemma receivables_roster [keeps]: "keepsR (same roster) (receivablesController u c)"
  by (cases c) (simp_all add: answer_defs, (intro keeps)+)

lemma documents_roster [keeps]: "keepsR (same roster) (documentsController c)"
  by (cases c) (simp_all add: answer_defs, (intro keeps)+)

lemma settlements_roster [keeps]: "keepsR (same roster) (settlementsController c)"
  by (cases c) (simp_all add: answer_defs, (intro keeps)+)

lemma investments_roster [keeps]: "keepsR (same roster) (investmentsController u c)"
  by (cases c) (simp_all add: answer_defs, (intro keeps)+)

lemma pix_roster [keeps]: "keepsR (same roster) (pixController u c)"
  by (cases c) (simp_all add: answer_defs, (intro keeps)+)

lemma wallet_roster [keeps]: "keepsR (same roster) (stellarWalletController u c)"
  by (cases c) (simp_all add: answer_defs, (intro keeps)+)

lemma auth_roster: "\<not> gives_role (ToAuth c) \<Longrightarrow> keepsR (same roster) (authController h u c)"
  by (cases c) (simp_all add: answer_defs, (intro keeps)+)

lemma admin_roster: "\<not> gives_role (ToAdm c) \<Longrightarrow> keepsR (same roster) (adminController u c)"
  by (cases c) (simp_all add: answer_defs, (intro keeps)+)

lemma handler_roster: "\<not> gives_role c \<Longrightarrow> keepsR (same roster) (handler h u c)"
  by (cases c) (simp_all add: auth_roster admin_roster silent_def ping_def, (intro keeps)+)

lemma giving_roles: "gives_role c \<Longrightarrow> valid_body G c \<Longrightarrow> keepsR roles_kept (handler h u c)"
  by (erule gives_role.elims(2)) (auto simp: register_roles admin_createUser_roles setRole_roles answer_defs adminController_createUser_def valid_register_dto_def
      valid_create_user_def valid_role_dto_def intro!: keeps)

lemma http_roles: "keepsR roles_kept (http G h c)"
proof -
  have "keepsR roles_kept (handler h u c)" if v: "valid_body G c" for u
  proof (cases "gives_role c")
    case True
    then show ?thesis using v by (rule giving_roles)
  next
    case False
    then show ?thesis by (intro same_roster_roles handler_roster)
  qed
  then have b: "keepsR roles_kept (bindM (throwIf (\<not> valid_body G c) e) (\<lambda>_. handler h u c))" for u e
    by (cases "valid_body G c") (simp_all add: throwIf_def roles.keepsR_throw)
  have g: "keepsR roles_kept (guard G h c)" unfolding guard_def by (intro keeps)
  show ?thesis unfolding http_def by (rule roles.keepsR_bind [OF g b])
qed

section \<open>Every call is a sound step\<close>

lemma read_steps [keeps]:
  "keepsR sound_step (getStellarChallenge a)" "keepsR sound_step (verifyStellarChallenge t)"
  "keepsR sound_step (audit_find u e)" "keepsR sound_step (findManyByInvestor u)"
  "keepsR sound_step (getStatsByInvestor u)" "keepsR sound_step (findMyTransactions u)"
  "keepsR sound_step admin_listUsers" "keepsR sound_step admin_listPendingReceivables"
  "keepsR sound_step listPendingTransactions" "keepsR sound_step (listActiveCollections u r)"
  "keepsR sound_step (pixController_listOrders x)" "keepsR sound_step (pixController_getOrder i x)"
  "keepsR sound_step (getWallet u)"
  unfolding read_defs
  by (intro keeps)+

lemma controller_steps [keeps]:
  "keepsR sound_step (authController_privySession h i)" "keepsR sound_step (activate j)"
  "keepsR sound_step (documentsController_create j dd)" "keepsR sound_step (fa_controller_createChallenge u cd)"
  "keepsR sound_step (fa_controller_verify u vd)" "keepsR sound_step (investmentsController_create a ci)"
  "keepsR sound_step (investmentsController_markAsPaid a j)"
  "keepsR sound_step (investmentsController_buildOnchainDeposit a j s)"
  "keepsR sound_step (investmentsController_submitOnchainDeposit a j sd)"
  "keepsR sound_step (adminController_approveReceivable a j)" "keepsR sound_step (adminController_rejectReceivable a j)"
  "keepsR sound_step (adminController_createDeposit a cdp)" "keepsR sound_step (adminController_approveTransaction a j st)"
  "keepsR sound_step (adminController_getPoolStatus a)" "keepsR sound_step (adminController_getInvestorShares a x)"
  "keepsR sound_step (pixController_createDeposit pd)" "keepsR sound_step (pixController_createWithdrawal pw)"
  "keepsR sound_step (pixController_refreshOrder j x)"
  unfolding controller_defs
  by (intro keeps)+

lemma authorization_calls [keeps]: "keepsR sound_step (financialAuthorizationsController u c)"
  by (cases c) (simp_all add: answer_defs, (intro keeps)+)

lemma receivables_calls [keeps]: "keepsR sound_step (receivablesController u c)"
  by (cases c) (simp_all add: answer_defs, (intro keeps)+)

lemma documents_calls [keeps]: "keepsR sound_step (documentsController c)"
  by (cases c) (simp_all add: answer_defs, (intro keeps)+)

lemma settlements_calls [keeps]: "keepsR sound_step (settlementsController c)"
  by (cases c) (simp_all add: answer_defs, (intro keeps)+)

lemma investments_calls [keeps]: "keepsR sound_step (investmentsController u c)"
  by (cases c) (simp_all add: answer_defs, (intro keeps)+)

lemma pix_calls [keeps]: "keepsR sound_step (pixController u c)"
  by (cases c) (simp_all add: answer_defs, (intro keeps)+)

lemma wallet_calls [keeps]: "keepsR sound_step (stellarWalletController u c)"
  by (cases c) (simp_all add: answer_defs, (intro keeps)+)

lemma auth_calls [keeps]: "keepsR sound_step (authController h u c)"
  by (cases c) (simp_all add: answer_defs, (intro keeps)+)

lemma admin_calls [keeps]: "keepsR sound_step (adminController u c)"
  by (cases c) (simp_all add: answer_defs, (intro keeps)+)

lemma http_step: "keepsR sound_step (http G h c)"
proof -
  have "keepsR sound_step (handler h u c)" for u
    by (cases c) (simp_all add: silent_def ping_def, (intro keeps)+)
  then show ?thesis unfolding http_def guard_def by (intro keeps)
qed

section \<open>Tokens\<close>

definition granted :: "(exn + claims option) \<times> world \<Rightarrow> claims set" where
  "granted x = (case fst x of Inr (Some k) \<Rightarrow> {k} | _ \<Rightarrow> {})"

definition operators :: "world \<Rightarrow> string set" where
  "operators w = {i. (i, Some ''operator'') \<in> set (roster w)}"

text \<open>A token names the e-mail and the role that its user has when it is issued.\<close>

definition accounts_of :: "world \<Rightarrow> claims set" where
  "accounts_of w = (\<lambda>u. (usr_id u, usr_email u, usr_role u)) ` set (users w)"

lemma accounts_roster: "(s, e, r) \<in> accounts_of w \<Longrightarrow> (s, r) \<in> set (roster w)"
  by (auto simp: accounts_of_def roster_def)

definition names_user :: "world \<Rightarrow> token_result \<Rightarrow> bool" where
  "names_user w t \<longleftrightarrow> claims_of t \<in> accounts_of w"

lemma tokenFor_names:
  assumes "tokenFor u E w = (Inr t, v)" and "u \<in> set (users w)"
  shows "names_user v t"
  using assms by (auto simp: tokenFor_def issueToken_def asksM_def names_user_def claims_of_def accounts_of_def)

lemma updated_user:
  assumes "user_update i f E w = (Inr u, v)" and "\<And>x. usr_id (f x) = usr_id x"
  shows "u \<in> set (users v)"
  using user_update_Inr [OF assms(1)] by (auto simp: upd_row_def dest!: find_row_SomeD)

lemma register_names: "register d E w = (Inr t, v) \<Longrightarrow> names_user v t"
  unfolding register_def findByEmail_def
  by (elim bindM_InrE tokenFor_names) (auto simp: user_create_def tusers.tab_create_Inr(1))

lemma login_names: "login e p E w = (Inr t, v) \<Longrightarrow> names_user v t"
  unfolding login_def findByEmail_def
  by (elim bindM_InrE tokenFor_names)
    (auto simp: findUniqueM_def getsM_def bcryptCompare_def callM_def callW_def bind_eq_Some_conv
      dest!: throwIf_InrD someOr_InrD dest: find_row_SomeD split: if_splits sum.splits)

lemma setRole_names: "setRole i r E w = (Inr t, v) \<Longrightarrow> names_user v t"
  unfolding setRole_def by (elim bindM_InrE tokenFor_names updated_user) simp

lemma googleLogin_names:
  assumes "googleLogin t E w = (Inr s, v)"
  shows "names_user v (sr_token s)"
proof -
  have "z \<in> set (users b)" if "(case u of Some u \<Rightarrow> retM u
        | None \<Rightarrow> bindM (findByEmail e) (\<lambda>byEmail. case byEmail of None \<Rightarrow> throwM not_whitelisted
            | Some u \<Rightarrow> if falsy (usr_googleId u) then user_update (usr_id u) (\<lambda>x. x\<lparr>usr_googleId := g\<rparr>) else retM u))
        E a = (Inr z, b)" and "findUniqueM users usr_googleId g E c = (Inr u, a)" for u e g a b c z
  proof (cases u)
    case None
    with that(1) obtain x where x: "x \<in> set (users a)" and
      "(if falsy (usr_googleId x) then user_update (usr_id x) (\<lambda>y. y\<lparr>usr_googleId := g\<rparr>) else retM x) E a = (Inr z, b)"
      by (auto elim!: bindM_InrE simp: findByEmail_def findUniqueM_def getsM_def throwM_def
          dest!: find_row_SomeD split: option.splits)
    then show ?thesis by (auto elim: updated_user simp: retM_def split: if_splits)
  next
    case (Some x)
    with that show ?thesis by (auto simp: findUniqueM_def getsM_def dest: find_row_SomeD)
  qed
  with assms show ?thesis
    unfolding googleLogin_def by (elim bindM_InrE) (auto dest: tokenFor_names)
qed

lemma privySession_names:
  assumes "privySession a i E w = (Inr s, v)"
  shows "names_user v (sr_token s)"
proof -
  have "u \<in> set (users y)" if "privy_login p E x = (Inr u, y)" for p u x y
    using that by (auto simp: privy_login_def findByEmail_def throwM_def setPrivy_def dest: updated_user
        split: option.splits)
  moreover have "users z = users y" if "(if b then fundQuietly x else retM ()) E y = (r, z)" for b x y r z
    using that sameD' [OF fund_users] by (auto split: if_splits)
  moreover from assms obtain p x u y b n z where "privy_login p E x = (Inr u, y)"
    "(if b then fundQuietly n else retM ()) E y = (Inr (), z)" "tokenFor u E z = (Inr (sr_token s), v)"
    unfolding privySession_def by (auto elim!: bindM_InrE simp: asksM_def)
  ultimately show ?thesis using tokenFor_names by metis
qed

lemma session_names: "authController_privySession h i E w = (Inr s, v) \<Longrightarrow> names_user v (sr_token s)"
  unfolding authController_privySession_def by (elim bindM_InrE privySession_names)

lemma auth_claims:
  assumes "authController h u c E w = (Inr (Some k), v)"
  shows "k \<in> accounts_of v"
  using assms by (cases c) (auto simp: answer_defs retM_def names_user_def [symmetric]
      elim!: bindM_InrE dest: register_names login_names googleLogin_names session_names setRole_names)

lemma silent_quiet: "silent m E w \<noteq> (Inr (Some k), v)"
  by (auto simp: silent_def bindM_def retM_def split: prod.splits sum.splits)

lemma handler_claims:
  assumes "handler h u c E w = (Inr (Some k), v)"
  shows "k \<in> accounts_of v"
proof (cases c)
  case (ToAuth x)
  with assms show ?thesis by (auto dest: auth_claims)
next
  case (ToFinAuth x)
  with assms show ?thesis by (cases x) (simp_all add: silent_quiet)
next
  case (ToRec x)
  with assms show ?thesis by (cases x) (simp_all add: silent_quiet)
next
  case (ToDoc x)
  with assms show ?thesis by (cases x) (simp_all add: silent_quiet)
next
  case (ToSettle x)
  with assms show ?thesis by (cases x) (simp_all add: silent_quiet)
next
  case (ToInvest x)
  with assms show ?thesis by (cases x) (simp_all add: silent_quiet for_investor_def)
next
  case (ToAdm x)
  with assms show ?thesis by (cases x) (simp_all add: silent_quiet for_operator_def)
next
  case (ToPixRt x)
  with assms show ?thesis by (cases x) (simp_all add: silent_quiet)
next
  case (ToWal x)
  with assms show ?thesis by (cases x) (simp_all add: silent_quiet)
qed (use assms in \<open>simp_all add: silent_quiet\<close>)

lemma http_InrD:
  assumes "http G h c E w = (Inr a, v)"
  obtains u where "guard G h c E w = (Inr u, w)" and "valid_body G c" and "handler h u c E w = (Inr a, v)"
proof -
  have same: "x = w" if "guard G h c E w = (Inr u, x)" for u x
    using that by (auto simp: guard_def throwM_def split: if_splits option.splits)
  from assms obtain u x where "guard G h c E w = (Inr u, x)" "valid_body G c" "handler h u c E x = (Inr a, v)"
    unfolding http_def by (auto elim!: bindM_InrE dest!: throwIf_InrD)
  with same that show thesis by blast
qed

lemma http_claims: "http G h c E w = (Inr (Some k), v) \<Longrightarrow> k \<in> accounts_of v"
  by (erule http_InrD) (rule handler_claims)

section \<open>Histories\<close>

text \<open>Requests with their headers, served one after the other.\<close>

fun http_run :: "gate \<Rightarrow> env \<Rightarrow> (string option \<times> call) list \<Rightarrow> world \<Rightarrow> world" where
  "http_run G E [] w = w"
| "http_run G E ((h, c) # cs) w = http_run G E cs (snd (http G h c E w))"

lemma http_run_roles: "roles_kept w (http_run G E cs w)"
proof (induction cs arbitrary: w)
  case Nil
  show ?case by (simp add: roles.kept_refl)
next
  case (Cons x cs)
  show ?case by (cases x) (simp add: roles.kept_trans [OF keepsR_run [OF http_roles] Cons.IH])
qed

lemma operators_new: "roles_kept w v \<Longrightarrow> operators v \<subseteq> operators w"
  by (force simp: roles_kept_def operators_def)

lemma roster_find:
  assumes "distinct (map fst (roster w))" and "(i, r) \<in> set (roster w)"
  obtains u where "find_row usr_id i (users w) = Some u" and "usr_role u = r"
proof -
  from assms(2) obtain u where u: "u \<in> set (users w)" "usr_id u = i" "usr_role u = r" by (auto simp: roster_def)
  have "distinct (map usr_id (users w))" using assms(1) by (simp add: roster_def comp_def)
  from find_row_distinct [OF this u(1)] u that show thesis by simp
qed

text \<open>C8: Whatever requests are served, each running to its end before the next: no user becomes an operator and none
  stops being one, and the role a user has been given stays his. Two choices that are served at the same
  time are another matter, see theory \<open>Races\<close>.\<close>

theorem roles_final:
  assumes "distinct (map usr_id (users w))" and "find_row usr_id i (users w) = Some u"
    and "usr_role u = Some r" and "r \<noteq> []"
  shows "operators (http_run G E cs w) = operators w
    \<and> (\<exists>v. find_row usr_id i (users (http_run G E cs w)) = Some v \<and> usr_role v = Some r)"
proof -
  have d: "distinct (map fst (roster w))" using assms(1) by (simp add: roster_def comp_def)
  have k: "roles_kept w (http_run G E cs w)" by (rule http_run_roles)
  with d have d': "distinct (map fst (roster (http_run G E cs w)))" by (simp add: roles_kept_def)
  have "operators w \<subseteq> operators (http_run G E cs w)" using k d by (auto simp: roles_kept_def operators_def)
  moreover have "(i, Some r) \<in> set (roster w)"
    using find_row_SomeD [OF assms(2)] assms(3) by (force simp: roster_def)
  then have "(i, Some r) \<in> set (roster (http_run G E cs w))" using k d assms(4) by (simp add: roles_kept_def)
  ultimately show ?thesis using operators_new [OF k] roster_find [OF d'] by (metis subset_antisym)
qed

text \<open>What can happen to the database and to the tokens the API issued: \<open>T\<close> are their claims, and \<open>P\<close> the users
  that were operators after some script of an administrator. A client signs nothing: a header verifies only
  for claims that were issued.\<close>

inductive served :: "gate \<Rightarrow> env \<Rightarrow> world \<Rightarrow> claims set \<Rightarrow> string set \<Rightarrow> bool" for G E where
  start: "served G E (empty_world t) {} {}"
| call: "served G E w T P \<Longrightarrow> set_option (gt_verify G (w_now w) h) \<subseteq> T
    \<Longrightarrow> served G E (snd (http G h c E w)) (T \<union> granted (http G h c E w)) P"
| script: "served G E w T P \<Longrightarrow> served G E (snd (run_script s E w)) T (P \<union> operators (snd (run_script s E w)))"

lemma granted_accounts: "granted (http G h c E w) \<subseteq> accounts_of (snd (http G h c E w))"
  using http_claims by (cases "http G h c E w") (auto simp: granted_def split: sum.splits option.splits)

lemma served_operators:
  assumes "served G E w T P"
  shows "operators w \<subseteq> P \<and> (\<forall>s e. (s, e, Some ''operator'') \<in> T \<longrightarrow> s \<in> P)"
  using assms
proof induction
  case (start t)
  show ?case by (simp add: operators_def roster_def empty_world_def)
next
  case (call w T P h c)
  have n: "operators (snd (http G h c E w)) \<subseteq> P"
    using operators_new [OF keepsR_run [OF http_roles]] call.IH by (meson order_trans)
  have "s \<in> P" if "(s, e, Some ''operator'') \<in> granted (http G h c E w)" for s e
    using subsetD [OF granted_accounts that] n by (auto simp: operators_def dest: accounts_roster)
  with n call.IH show ?case by blast
next
  case (script w T P s)
  then show ?case by blast
qed

definition holders :: "world \<Rightarrow> (string \<times> string) set" where
  "holders w = (\<lambda>u. (usr_id u, usr_email u)) ` set (users w)"

lemma holders_evolve:
  assumes "evolves w v"
  shows "holders w \<subseteq> holders v"
proof -
  have g: "grows user_evo (users w) (users v)" using assms by (simp add: evolves_def)
  have "(usr_id u, usr_email u) \<in> holders v" if u: "u \<in> set (users w)" for u
  proof -
    obtain x where "x \<in> set (users v)" "user_evo u x" using grows_member [OF g u] .
    then show ?thesis by (auto simp: holders_def user_evo_def intro!: image_eqI [of _ _ x])
  qed
  then show ?thesis by (auto simp: holders_def)
qed

lemma served_sound:
  assumes "served G E w T P"
  shows "db_ok w \<and> biz_ok w \<and> (\<lambda>(s, e, r). (s, e)) ` T \<subseteq> holders w"
  using assms
proof induction
  case (start t)
  show ?case by (simp add: empty_ok)
next
  case (call w T P h c)
  have s: "sound_step w (snd (http G h c E w))" by (rule keepsR_run [OF http_step])
  have "(\<lambda>(s, e, r). (s, e)) ` granted (http G h c E w) \<subseteq> holders (snd (http G h c E w))"
    using granted_accounts by (fastforce simp: accounts_of_def holders_def)
  moreover have "holders w \<subseteq> holders (snd (http G h c E w))" using s by (simp add: sound_step_def holders_evolve)
  ultimately show ?case using s call.IH by (auto simp: sound_step_def image_Un dest: subsetD)
next
  case (script w T P s)
  have s: "sound_step w (snd (run_script s E w))" by (rule keepsR_run [OF run_script_step])
  then have "holders w \<subseteq> holders (snd (run_script s E w))" by (simp add: sound_step_def holders_evolve)
  with s script.IH show ?case by (simp add: sound_step_def) (meson order_trans)
qed

lemma adminController_role:
  assumes "adminController u c E w = (Inr a, v)"
  shows "au_role u = Some ''operator''"
  using assms
  by (cases c) (auto simp: answer_defs adminController_createUser_def adminController_approveReceivable_def
      adminController_rejectReceivable_def adminController_createDeposit_def adminController_approveTransaction_def
      adminController_getPoolStatus_def adminController_getInvestorShares_def
      elim!: bindM_InrE dest!: throwIf_InrD)

text \<open>C6: Only operators that an administrator appointed are served by the routes of the operator: whatever was
  served before, with tokens in any order and after any scripts, an answer of such a route goes to a token of
  a user who was an operator after one of the scripts. No request makes its sender an operator.\<close>

theorem operators_appointed:
  assumes "served G E w T P" and "set_option (gt_verify G (w_now w) h) \<subseteq> T"
    and "http G h (ToAdm c) E w = (Inr a, v)"
  shows "\<exists>s e. gt_verify G (w_now w) h = Some (s, e, Some ''operator'') \<and> s \<in> P"
proof -
  from assms(3) obtain u where g: "guard G h (ToAdm c) E w = (Inr u, w)" and "adminController u c E w = (Inr a, v)"
    by (auto elim!: http_InrD)
  then have r: "au_role u = Some ''operator''" using adminController_role by blast
  from g obtain s e r where v: "gt_verify G (w_now w) h = Some (s, e, r)" and "u = jwt_validate s e r"
    by (auto simp: guard_def throwM_def split: option.splits)
  with r have "r = Some ''operator''" by (simp add: jwt_validate_def)
  with v assms(2) served_operators [OF assms(1)] show ?thesis by auto
qed

text \<open>What the routes of receivables, documents and settlements do for one user they do for every other: they do not ask
  whose receivable it is.\<close>

lemma owner_blind:
  assumes "gt_verify G (w_now w) h = Some x" and "gt_verify G (w_now w) h' = Some y"
    and "c \<in> {ToRec (GetReceivable i), ToRec (PatchTokenize i), ToRec (PatchRequestAssignment i), ToRec (PatchAssign i a),
      ToRec (PostPrepareAssignment i), ToRec (PostSubmitAssignment i t s), ToDoc d, ToSettle q}"
  shows "http G h c E w = http G h' c E w"
  using assms by (cases x; cases y) (auto simp: http_def guard_def bindM_assoc)

text \<open>C9: Whoever is served by a guarded route is a user: after any requests and scripts the caller of a guarded method
  is an account that exists, with the e-mail of its token; every account has its own identifier and e-mail, and
  the constraints of the schema and the rules of the business hold.\<close>

theorem callers_exist:
  assumes "served G E w T P" and "set_option (gt_verify G (w_now w) h) \<subseteq> T" and "\<not> public c"
    and "guard G h c E w = (Inr u, v)"
  shows "v = w \<and> (\<exists>x. find_row usr_id (au_userId u) (users w) = Some x \<and> usr_email x = au_email u)
    \<and> db_ok w \<and> biz_ok w"
proof -
  from assms(3,4) obtain s e r where g: "gt_verify G (w_now w) h = Some (s, e, r)" "u = jwt_validate s e r" "v = w"
    by (auto simp: guard_def throwM_def split: option.splits)
  note ok = served_sound [OF assms(1)]
  with g(1) assms(2) have "(s, e) \<in> holders w" by auto
  then obtain x where x: "x \<in> set (users w)" "usr_id x = s" "usr_email x = e" by (auto simp: holders_def)
  have "distinct (map usr_id (users w))" using ok by (simp add: db_ok_defs)
  from find_row_distinct [OF this x(1)] x(2,3) g(2,3) ok show ?thesis by (simp add: jwt_validate_def)
qed

end
