(* ===== verification/HttpRequests.thy ===== *)
theory HttpRequests
  imports Access
begin

text \<open>
  The two views of the routes agree: the controllers of theory \<open>Access\<close>, with headers, guard and pipe, and the requests
  of theory \<open>System\<close>, on which the invariants of the reachable states rest.
\<close>

text \<open>The request of theory \<open>System\<close> that a call is, for its caller; the remaining calls only read.\<close>

fun auth_request :: "string option \<Rightarrow> auth_user \<Rightarrow> auth_call \<Rightarrow> request option" where
  "auth_request h u (PostAuthRegister d) = Some (AuthRegister d)"
| "auth_request h u (PostAuthLogin e p) = Some (AuthLogin e p)"
| "auth_request h u (PostAuthGoogle t) = Some (AuthGoogle t)"
| "auth_request h u (PostAuthPrivySession i) = Some (AuthPrivySession h i)"
| "auth_request h u (PatchMeRole r) = Some (AuthSetRole u r)"
| "auth_request h u GetMe = Some (AuthMe u)"
| "auth_request h u (PatchMe d) = Some (AuthUpdateMe u d)"
| "auth_request h u (PatchMePassword p q) = Some (AuthChangePassword u p q)"
| "auth_request h u _ = None"

fun authorization_request :: "auth_user \<Rightarrow> authorization_call \<Rightarrow> request option" where
  "authorization_request u (PostChallenge d) = Some (FaChallenge u d)"
| "authorization_request u (PostVerify d) = Some (FaVerify u d)"

fun receivable_request :: "auth_user \<Rightarrow> receivable_call \<Rightarrow> request option" where
  "receivable_request u (PostReceivable d) = Some (RcvCreate u d)"
| "receivable_request u GetReceivables = Some (RcvFindAll u)"
| "receivable_request u GetPoolStats = Some RcvPoolStats"
| "receivable_request u GetPool = Some RcvPool"
| "receivable_request u (GetReceivable i) = Some (RcvFindOne i)"
| "receivable_request u (PatchActivate i) = Some (RcvActivate i)"
| "receivable_request u (PatchTokenize i) = Some (RcvTokenize i)"
| "receivable_request u (PatchRequestAssignment i) = Some (RcvRequestAssignment i)"
| "receivable_request u (PatchAssign i a) = Some (RcvAssign i a)"
| "receivable_request u (PostPrepareAssignment i) = Some (RcvPrepareAssignment i)"
| "receivable_request u (PostSubmitAssignment i x s) = Some (RcvSubmitAssignment i x s)"

fun investment_request :: "auth_user \<Rightarrow> investment_call \<Rightarrow> request option" where
  "investment_request u (PostInvestment d) = Some (InvCreate u d)"
| "investment_request u (PatchDepositPay i) = Some (InvMarkAsPaid u i)"
| "investment_request u (PostDepositBuild i s) = Some (InvBuildDeposit u i s)"
| "investment_request u (PostDepositSubmit i d) = Some (InvSubmitDeposit u i d)"
| "investment_request u _ = None"

fun admin_request :: "auth_user \<Rightarrow> admin_call \<Rightarrow> request option" where
  "admin_request u (PostUser d) = Some (AdmCreateUser u d)"
| "admin_request u (PatchApprove i) = Some (AdmApproveReceivable u i)"
| "admin_request u (PatchReject i) = Some (AdmRejectReceivable u i)"
| "admin_request u (PostOperatorDeposit d) = Some (AdmCreateDeposit u d)"
| "admin_request u (PostApproveTransaction i s) = Some (AdmApproveTransaction u i s)"
| "admin_request u _ = None"

fun pix_request :: "auth_user \<Rightarrow> pix_call \<Rightarrow> request option" where
  "pix_request u (PostPixDeposit d) = Some (PixDeposit d)"
| "pix_request u (PostPixWithdrawal d) = Some (PixWithdrawal d)"
| "pix_request u (PostWithdrawalBuild a) = Some (PixBuildWithdrawal u a)"
| "pix_request u (PostWithdrawalSubmit d) = Some (PixSubmitWithdrawal u d)"
| "pix_request u (PostCollectionRetry i) = Some (PixRetryCollection u i)"
| "pix_request u (PostOrderRefresh i x) = Some (PixRefresh i x)"
| "pix_request u (PostPixWebhook s t b) = Some (PixWebhook s t b)"
| "pix_request u _ = None"

fun request_of :: "string option \<Rightarrow> auth_user \<Rightarrow> call \<Rightarrow> request option" where
  "request_of h u (ToAuth c) = auth_request h u c"
| "request_of h u (ToFinAuth c) = authorization_request u c"
| "request_of h u (ToRec c) = receivable_request u c"
| "request_of h u (ToDoc (PostDocument i d)) = Some (DocCreate i d)"
| "request_of h u (ToDoc (GetDocuments i)) = Some (DocFind i)"
| "request_of h u (ToSettle (PostSettlement d)) = Some (StlCreate d)"
| "request_of h u (ToSettle GetSettlements) = Some StlFindAll"
| "request_of h u (ToSettle (GetSettlementsOf i)) = Some (StlFind i)"
| "request_of h u (ToInvest c) = investment_request u c"
| "request_of h u (ToAdm c) = admin_request u c"
| "request_of h u (ToPixRt c) = pix_request u c"
| "request_of h u (ToWal (PostWallet c k p)) = Some (WalletCreate u)"
| "request_of h u (ToWal GetWalletBalance) = Some (WalletBalance u)"
| "request_of h u _ = None"

definition stored :: "world \<Rightarrow> _" where
  "stored w = (users w, receivables w, documents w, settlements w, finauths w, auditLogs w, investments w,
     ptransactions w, pixEvents w, collections w)"

interpretation stored: world_relation "same stored"
  by unfold_locales (simp_all add: same_def stored_def)

lemma respond_answers:
  "respond (silent m) = respond m" "respond (token_answer t) = respond t" "respond (session_answer s) = respond s"
  by (simp_all only: respond_def silent_def token_answer_def session_answer_def bindM_assoc bindM_ret)

lemma auth_dispatched: "auth_request h u c = Some r \<Longrightarrow> respond (authController h u c) = dispatch r"
  by (cases c) (auto simp: respond_answers)

lemma authorization_dispatched: "authorization_request u c = Some r \<Longrightarrow> respond (financialAuthorizationsController u c) = dispatch r"
  by (cases c) (auto simp: respond_answers)

lemma receivable_dispatched: "receivable_request u c = Some r \<Longrightarrow> respond (receivablesController u c) = dispatch r"
  by (cases c) (auto simp: respond_answers)

lemma investment_dispatched: "investment_request u c = Some r \<Longrightarrow> respond (investmentsController u c) = dispatch r"
  by (cases c) (auto simp: respond_answers)

lemma admin_dispatched: "admin_request u c = Some r \<Longrightarrow> respond (adminController u c) = dispatch r"
  by (cases c) (auto simp: respond_answers)

lemma pix_dispatched: "pix_request u c = Some r \<Longrightarrow> respond (pixController u c) = dispatch r"
  by (cases c) (auto simp: respond_answers)

lemma handler_dispatched: "request_of h u c = Some r \<Longrightarrow> respond (handler h u c) = dispatch r"
  by (induction h u c rule: request_of.induct)
    (auto simp: respond_answers auth_dispatched authorization_dispatched receivable_dispatched investment_dispatched
      admin_dispatched pix_dispatched)

text \<open>The other calls write to no table.\<close>

lemma reads_stored [keeps]:
  "keepsR (same stored) (getStellarChallenge a)" "keepsR (same stored) (verifyStellarChallenge t)"
  "keepsR (same stored) (audit_find u e)" "keepsR (same stored) (findManyByInvestor u)"
  "keepsR (same stored) (getStatsByInvestor u)" "keepsR (same stored) (findMyTransactions u)"
  "keepsR (same stored) admin_listUsers" "keepsR (same stored) admin_listPendingReceivables"
  "keepsR (same stored) listPendingTransactions" "keepsR (same stored) (listActiveCollections u r)"
  "keepsR (same stored) (pixController_listOrders x)" "keepsR (same stored) (pixController_getOrder i x)"
  "keepsR (same stored) (getWallet u)"
  unfolding read_defs getOrderById_def pixGet_def
  by (intro keeps)+

lemma native_stored [keeps]:
  "keepsR (same stored) (native_int v)" "keepsR (same stored) (native_str v)"
  "keepsR (same stored) (native_bool v)" "keepsR (same stored) (native_field v k)"
  unfolding native_int_def native_str_def native_bool_def native_field_def
  by (cases v; simp; intro keeps)+

lemma simulateRead_stored [keeps]: "keepsR (same stored) (simulateRead i m as)"
  unfolding simulateRead_def requireContractConfig_def requireConf_def sdk_defs by (intro keeps)

lemma pool_stored [keeps]:
  "keepsR (same stored) (adminController_getPoolStatus v)" "keepsR (same stored) (adminController_getInvestorShares v x)"
  unfolding adminController_getPoolStatus_def adminController_getInvestorShares_def getPoolStatus_def getInvestorShares_def
    assertOperator_def requireConf_def readInt_def readField_def Let_def
  by (intro keeps)+

lemma handler_reads:
  assumes "request_of h u c = None"
  shows "keepsR (same stored) (handler h u c)"
proof (cases c)
  case (ToAuth x)
  with assms show ?thesis by (cases x) (simp_all add: answer_defs, (intro keeps)+)
next
  case (ToFinAuth x)
  with assms show ?thesis by (cases x) simp_all
next
  case (ToRec x)
  with assms show ?thesis by (cases x) simp_all
next
  case (ToDoc x)
  with assms show ?thesis by (cases x) simp_all
next
  case (ToSettle x)
  with assms show ?thesis by (cases x) simp_all
next
  case (ToInvest x)
  with assms show ?thesis by (cases x) (simp_all add: answer_defs, (intro keeps)+)
next
  case (ToAdm x)
  with assms show ?thesis by (cases x) (simp_all add: answer_defs, (intro keeps)+)
next
  case (ToPixRt x)
  with assms show ?thesis by (cases x) (simp_all add: answer_defs, (intro keeps)+)
next
  case (ToWal x)
  with assms show ?thesis by (cases x) (simp_all add: answer_defs, (intro keeps)+)
qed (simp_all add: answer_defs ping_def, (intro keeps)+)

text \<open>Over HTTP the API is the model of theory \<open>System\<close>: a call without a valid token or body ends with this error and
  changes nothing; a call that is admitted is the request of its route with the user of the token as the caller,
  and the calls that are no request write to no table.\<close>

theorem http_dispatch:
  "case fst (guard G h c E w) of
     Inl e \<Rightarrow> http G h c E w = (Inl e, w)
   | Inr u \<Rightarrow> if \<not> valid_body G c then http G h c E w = (Inl (BadRequestException ''Bad Request''), w)
       else (case request_of h u c of
           Some r \<Rightarrow> respond (http G h c) E w = dispatch r E w
         | None \<Rightarrow> stored (snd (http G h c E w)) = stored w)"
proof -
  have s: "snd (guard G h c E w) = w"
    by (auto simp: guard_def throwM_def split: option.splits)
  show ?thesis
  proof (cases "guard G h c E w")
    case (Pair x v)
    with s have v: "guard G h c E w = (x, w)" by simp
    show ?thesis
    proof (cases x)
      case (Inl e)
      with v show ?thesis by (simp add: http_def bindM_run_Inl)
    next
      case (Inr u)
      have h: "http G h c E w = bindM (throwIf (\<not> valid_body G c) (BadRequestException ''Bad Request'')) (\<lambda>_. handler h u c) E w"
        unfolding http_def by (rule bindM_run_Inr) (simp add: v Inr)
      show ?thesis
      proof (cases "request_of h u c")
        case None
        with v Inr h sameD [OF handler_reads [OF None]] show ?thesis by simp
      next
        case (Some r)
        have "respond (http G h c) E w = dispatch r E w" if "valid_body G c"
        proof -
          have "http G h c E w = handler h u c E w" using h that by simp
          then have "respond (http G h c) E w = respond (handler h u c) E w" by (simp add: respond_def bindM_def)
          then show ?thesis by (simp add: handler_dispatched [OF Some])
        qed
        with v Inr h Some show ?thesis by simp
      qed
    qed
  qed
qed

end
