(* ===== verification/AccessScenarios.thy ===== *)
theory AccessScenarios
  imports HttpRequests Scenarios
begin

text \<open>
  The theorems on access at concrete inputs: an operator the script admits, who signs in with Privy and lists the
  users, and roles after a registration.
\<close>

definition ex_env_op :: env where
  "ex_env_op = ex_env\<lparr>e_conf := map_of [(''DATABASE_URL'', ''db'')]\<rparr>"

definition ex_gate :: gate where
  "ex_gate = \<lparr>gt_verify = (\<lambda>t h. if h = Some ''Bearer jwt'' then Some (''n0'', ''pme@x.br'', Some ''operator'') else None),
     gt_isEmail = (\<lambda>_. True), gt_isUuid = (\<lambda>_. True), gt_isUrl = (\<lambda>_. True)\<rparr>"

definition ex_appointed :: world where
  "ex_appointed = snd (run_script (AddUser [''Pme@X.br '', ''operator'']) ex_env_op (empty_world 0))"

lemma ex_appointed_users: "map (\<lambda>u. (usr_id u, usr_role u)) (users ex_appointed) = [(''n0'', Some ''operator'')]"
  by code_simp

abbreviation ex_sign_in :: call where
  "ex_sign_in \<equiv> ToAuth (PostAuthPrivySession (Some ''i''))"

lemma ex_signed_in: "fst (http ex_gate (Some ''Bearer t'') ex_sign_in ex_env_op ex_appointed)
    = Inr (Some (''n0'', ''pme@x.br'', Some ''operator''))"
  by code_simp

theorem roles_final_witness:
  "operators (http_run ex_gate ex_env_op [(None, ToAuth (PostAuthRegister \<lparr>rg_email = ''a'', rg_password = ''12345678'',
     rg_role = Some ''operator''\<rparr>))] ex_appointed) = operators ex_appointed"
proof -
  from ex_appointed_users obtain u where u: "users ex_appointed = [u]" "usr_id u = ''n0''" "usr_role u = Some ''operator''"
    by (auto simp: map_eq_Cons_conv)
  then have "find_row usr_id ''n0'' (users ex_appointed) = Some u" "distinct (map usr_id (users ex_appointed))"
    by (simp_all add: find_row_Cons)
  from roles_final [OF this(2,1) u(3)] show ?thesis by (rule conjunct1) simp
qed

lemma ex_operators: "operators ex_appointed = {''n0''}"
  using ex_appointed_users by (simp add: operators_def roster_def)

text \<open>After the sign-in.\<close>

definition ex_session_world :: world where
  "ex_session_world = snd (http ex_gate (Some ''Bearer t'') ex_sign_in ex_env_op ex_appointed)"

lemma ex_served: "served ex_gate ex_env_op ex_session_world {(''n0'', ''pme@x.br'', Some ''operator'')} {''n0''}"
proof -
  from served.script [OF served.start, of ex_gate ex_env_op "AddUser [''Pme@X.br '', ''operator'']" 0]
  have "served ex_gate ex_env_op ex_appointed {} {''n0''}"
    unfolding ex_appointed_def [symmetric] ex_operators by simp
  from served.call [OF this, of "Some ''Bearer t''" ex_sign_in] show ?thesis
    using ex_signed_in by (simp add: ex_session_world_def granted_def ex_gate_def)
qed

lemma ex_header: "set_option (gt_verify ex_gate t (Some ''Bearer jwt'')) \<subseteq> {(''n0'', ''pme@x.br'', Some ''operator'')}"
  by (simp add: ex_gate_def)

theorem operators_appointed_witness:
  "\<exists>a v. http ex_gate (Some ''Bearer jwt'') (ToAdm GetUsers) ex_env_op ex_session_world = (Inr a, v)
    \<and> (\<exists>s e. gt_verify ex_gate (w_now ex_session_world) (Some ''Bearer jwt'') = Some (s, e, Some ''operator'') \<and> s \<in> {''n0''})"
proof -
  obtain a v where r: "http ex_gate (Some ''Bearer jwt'') (ToAdm GetUsers) ex_env_op ex_session_world = (Inr a, v)"
    by (simp add: http_def guard_def ex_gate_def throwIf_def for_operator_def assertOperator_def jwt_validate_def
        silent_def admin_listUsers_def bindM_def getsM_def retM_def findManyM_def)
  then show ?thesis using operators_appointed [OF ex_served ex_header r] by blast
qed

theorem callers_exist_witness:
  "\<exists>x. find_row usr_id ''n0'' (users ex_session_world) = Some x \<and> usr_email x = ''pme@x.br''"
proof -
  have "guard ex_gate (Some ''Bearer jwt'') (ToWal GetWallet) ex_env_op ex_session_world
      = (Inr (jwt_validate ''n0'' ''pme@x.br'' (Some ''operator'')), ex_session_world)"
    by (simp add: guard_def ex_gate_def bindM_def getsM_def retM_def)
  from callers_exist [OF ex_served ex_header _ this] show ?thesis by (simp add: jwt_validate_def)
qed

end
