(* ===== verification/Spec2Isabelle.thy ===== *)
theory Spec2Isabelle
  imports Scenarios ViewScenarios RaceScenarios AccessScenarios
begin

text \<open>
  \<^bold>\<open>CredBridge\<close>: a verification development of the API (\<open>src/apps/api\<close>) and of the web client (\<open>src/apps/web\<close>) of
  CredBridge, a platform that tokenizes receivables of small companies on Stellar and sells them to investors.

  \<^bold>\<open>The program.\<close> The API is a NestJS application over a PostgreSQL database (Prisma). A company registers a
  receivable, an operator validates it, the Stellar service mints a token for it, the company assigns it to
  the platform with a signature of its Privy wallet, the pool pays for it, the debtor pays by Pix and the
  receivable is settled. Investors deposit by Pix, receive BRLT tokens and buy receivables. Operations that
  move money consume a \<^emph>\<open>financial authorization\<close>: a payload that the server issues, the user signs and the
  server verifies. The web client keeps the session, asks the wallet for the signatures and runs each financial
  action as a sequence of requests to the API.

  \<^bold>\<open>The model of the API.\<close> A method of a service is a program of type \<open>'a api\<close> (theories \<open>Prelude\<close>, \<open>World\<close>): a
  function of an environment and a world to a result, which is an exception or a value, and the new world. The
  world is the database (one list of records per model of \<open>schema.prisma\<close>), the clock, the supply of identifiers
  and the trace of calls to the outside. The environment holds what is not in the repository: configuration, clock
  delays, the random identifiers, SHA-256 and HMAC, the Stellar SDK with Horizon and the RPC server, the Pix
  service, bcrypt, JWT, Google and Privy. An answer of a service may depend on everything that was called before.

  \<^bold>\<open>The model of the web client.\<close> A handler is a program over the environment \<open>browser\<close> and the state \<open>site\<close>, which
  holds the stored session, the requests made, the hashes given to the wallet and the world of the API. A request
  runs the guard, the validation and the method of its route; the network may lose it before or after the API has
  served it, and the filter for exceptions turns an exception into the response the client sees. A component is a
  record of its React state, a handler returns the state it ends with.

  \<^item> \<open>Prelude\<close>, \<open>JsNumber\<close>, \<open>JsText\<close>: programs with exceptions, the calculus \<open>keepsR\<close> of relations that a method
    respects however it ends, tables; JavaScript numbers (doubles as rationals with a rounding function
    \<open>fl\<close>, \<open>toFixed\<close>, \<open>Number(...)\<close>), strings, hexadecimal, JSON text, ISO dates.
  \<^item> \<open>Schema\<close>, \<open>World\<close>: the models of the database, the operations of the Prisma client with unique columns,
    references and transactions; the locales \<open>clock_relation\<close>, \<open>world_relation\<close> and \<open>db_table\<close>.
  \<^item> \<open>Evolution\<close>: what every method keeps: rows are never deleted, identifying columns never change
    (\<open>evolves\<close>), the constraints of the schema (\<open>db_ok\<close>) and the rules of the business (\<open>biz_ok\<close>).
  \<^item> \<open>AuditTrail\<close>, \<open>FinancialAuthorizations\<close>, \<open>Stellar\<close>, \<open>Settlements\<close>, \<open>PixClient\<close>, \<open>Pix\<close>, \<open>Documents\<close>, \<open>Receivables\<close>,
    \<open>Investments\<close>, \<open>Admin\<close>, \<open>Auth\<close>: the modules of the same names under \<open>src/apps/api/src/modules\<close> and
    \<open>shared/blockchain/stellar.service.ts\<close>, one definition per method in the order of the code. The
    locales \<open>chain_call\<close> and \<open>outside_call\<close> state what the modules rely on when they call the Stellar service
    and the Pix client, and are interpreted for every such operation.
  \<^item> \<open>Lifecycle\<close>: the states of a receivable and that each operation moves along their edges.
  \<^item> \<open>System\<close>: all routes as one datatype of requests, the step relation and the reachable states.
  \<^item> \<open>Frames\<close>: which methods leave the authorizations, and the roles of the users, alone; proved once in the locales
    \<open>quiet_table\<close>, \<open>quiet_accounts\<close> and \<open>quiet_grants\<close>.
  \<^item> \<open>Access\<close>: the controllers with \<open>JwtAuthGuard\<close>, \<open>ValidationPipe\<close> and the checks of roles, from the header of a request to
    the token in its answer. \<open>served\<close> follows the database together with the tokens that were issued: a client may
    send any of them, in any order, and an administrator may run scripts in between. \<open>HttpRequests\<close> shows that these routes
    are the requests of \<open>System\<close>.
  \<^item> \<open>Bootstrap\<close>: the origins that \<open>main.ts\<close> admits, the health route and the services with constant answers.
  \<^item> \<open>AuthorizationLedger\<close>: the abstract specification of the financial authorizations, a ledger of grants that are
    issued, confirmed and used, and the proof that every request of the API implements at most one step of it.
  \<^item> \<open>Threads\<close>, \<open>AccountThreads\<close>, \<open>Interleaving\<close>, \<open>Races\<close>: requests served at the same time. An operation is a thread, one
    step per call of the database, of Stellar and of the Pix service; a scheduler runs the steps of any number of requests
    in any order. \<open>serve\<close> gives the thread of every route, alone it does what \<open>dispatch\<close> does. What a thread writes
    because of what it has read is proved by relying on what the others keep (\<open>relying\<close>); the races that the checks
    of the code do not exclude are stated as they happen.
  \<^item> \<open>Scripts\<close>: \<open>apps/api/prisma/seed.ts\<close> and \<open>scripts/add-user.ts\<close>, which an administrator runs against the database.
  \<^item> \<open>WebClient\<close>: \<open>common/filters/http-exception.filter.ts\<close> on the side of the API; \<open>lib/api/client.ts\<close>,
    \<open>auth-storage.ts\<close>, \<open>privy-session.ts\<close>, the hooks and \<open>PrivyLoginPanel\<close> on the side of the browser.
  \<^item> \<open>WebFlows\<close>, \<open>WebSafety\<close>: \<open>useFinancialAuthorization\<close>, \<open>sign-deposit.ts\<close> and the drawers and modals for
    purchase, deposit, assignment and withdrawal; what they guarantee together with the API.
  \<^item> \<open>WebForms\<close>, \<open>WebPages\<close>: \<open>UploadZone\<close> with \<open>lib/format.ts\<close>; onboarding, \<open>KycFlow\<close>, \<open>AccountSettings\<close>, the desk
    of the operator, collections and the values of the dashboards.
  \<^item> \<open>WebViews\<close>, \<open>WebPanels\<close>: what the histories, tables, menus and the public audit page show and do, and the provider
    of messages with its timers.
  \<^item> \<open>Examples\<close>, \<open>Scenarios\<close>, \<open>RaceScenarios\<close>, \<open>WebScenarios\<close>, \<open>ViewScenarios\<close>,
    \<open>AccessScenarios\<close>: concrete data on which each property
    is applied.

  \<^bold>\<open>What is shown.\<close>
  \<^item> Invariants of every reachable state: schema, types of transactions, business rules, append-only tables, and the
    life cycle of receivables on every route.
  \<^item> The authorizations refine the ledger: any sequence of requests is a run of it, whose events the requests allow and
    in which no grant is used twice; however the steps of requests are interleaved, this and the constraints of
    the database still hold.
  \<^item> Access: the routes of the operator serve only users whom a script made operators, and the caller of a guarded route
    exists; of whole requests, none makes an operator or changes a role that was given.
  \<^item> The functional behaviour of the operations on success and on their error paths; exactly-once processing of
    Pix callbacks; that waiting for a confirmation ends; exactness of amounts.
  \<^item> End to end: a flow of the web client that reports success did what it says on the API, with one signature of what
    was asked for; and \<open>authorize\<close> succeeds when its services do.
  \<^item> What an administrator's scripts enter, that a user they admit can sign in, that the history of a receivable only
    grows, and that messages are shown for their four seconds.
  \<^item> Where the code does not do what it means to, the theorem states what it does: the purchase that never
    completes, the webhook signature that is never checked, approvals that mint twice, a role that is chosen twice, a
    signature replaced after its use, a rejected receivable with a token, UUIDs as hashes, a submission sent twice, failed deposits that are shown as released, due dates shown a day early, receivables of
    others that anybody may read and tokenize.

  \<^bold>\<open>Abstractions.\<close> Log output is omitted. Null and undefined are one value, except in the body that updates a profile. Texts
  of messages are ASCII; data is Latin-1. The column \<open>updatedAt\<close> is omitted. A query with an ORDER BY returns rows of
  equal keys in the order in which they were created, where PostgreSQL promises no order (\<open>order_desc\<close>). In \<open>System\<close>
  a request runs to its end before the next one starts. In \<open>Interleaving\<close> the steps of different requests mix; one
  step are a call of Prisma, the commit of a transaction, a call of the Stellar service with all it asks Horizon and the
  RPC server, and a route that only reads or makes one write without a check before it (\<open>login\<close>, \<open>updateProfile\<close>,
  \<open>settlements_create\<close>, the queries, the routes that only build a transaction). Reads and writes that the code starts in parallel
  run one after the other. Work that the code starts without waiting for it runs inline. An error of the SDK while it builds
  a transaction is a value of the environment. The pagination, projection and includes of a query are
  part of its result. The body of a webhook has the type of its DTO. The polling loop is total: its measure is
  the time left to the deadline, and each round sleeps for two seconds. Bodies and answers between the client and
  the API are the values their JSON texts denote. A handler runs to its end before the next event; only the
  requests to the API change its world meanwhile. The decoding of a token, \<open>DOMParser\<close>, \<open>toLocaleString\<close> and
  the hooks of Privy are parameters. \<open>parseFloat\<close> is modelled on finite numbers.

  \<^bold>\<open>Not modelled.\<close> Markup, styles, navigation, the texts of the translation tables, cached queries, timers that close a
  dialog and throttling in the web client; the smart contracts (Rust) and the Pix microservice (Python), which are
  other programs; module wiring, the connection to the database and the scripts that only print.
\<close>

section \<open>Properties that span components\<close>

text \<open>C19: No purchase of a receivable ever completes. A purchase needs a verified authorization, a verified
  authorization needs a Privy wallet, and the charge is refused for a user with a Privy wallet: in every
  reachable state the route ends in an exception.\<close>

theorem purchase_never_completes:
  assumes "reachable E w"
  shows "\<exists>e v. investments_create u d E w = (Inl e, v)"
  using reachable_ok [OF assms] by (intro purchase_Inl) simp_all

text \<open>C20: The failed purchase is not undone: once its reservation is committed, whatever fails afterwards, the
  investment stays, without payment and transfer, and after any further requests every purchase of the same
  receivable by anybody is refused as unavailable.\<close>

theorem purchase_blocks_receivable:
  assumes "db_ok w" and "reserve u d E w = (Inr x, v)" and "ci_receivableId d' = ci_receivableId d"
    and "(api_step E)\<^sup>*\<^sup>* (snd (investments_create u d E w)) w'"
  shows "find_row inv_receivableId (ci_receivableId d) (investments w') \<noteq> None
    \<and> investments_create u' d' E w' = (Inl unavailable, w')"
proof -
  obtain i k a where x: "x = (i, k, a)" by (cases x)
  from reserve_body_Inr [OF assms(2) [unfolded reserve_Inr x] assms(1)] obtain r j where
    r: "find_row rcv_id (ci_receivableId d) (receivables w) = Some r" "receivables v = receivables w"
    and j: "investments v = investments w @ [j]" "inv_receivableId j = rcv_id r" by auto
  have "rcv_id r = ci_receivableId d" using r(1) by (auto dest: find_row_SomeD)
  with j have n: "find_row inv_receivableId (ci_receivableId d) (investments v) \<noteq> None"
    by (auto simp: find_row_append find_row_Cons split: option.split)
  have "evolves v (snd (investments_create u d E w))"
    using keepsR_run [OF settlePurchase_step, of v u d x E]
    by (simp add: investments_create_def bindM_def assms(2) sound_step_def)
  with api_steps_sound [OF assms(4)] have e: "evolves v w'"
    using evo.kept_trans by (auto simp: sound_step_def)
  from evolves_receivable [OF e] r obtain r' where "find_row rcv_id (ci_receivableId d) (receivables w') = Some r'"
    by metis
  moreover note taken = evolves_investment [OF e n]
  ultimately have "reserve u' d' E w' = (Inl unavailable, w')"
    by (intro reserve_taken_Inl) (simp_all add: assms(3))
  with taken show ?thesis by (simp add: investments_create_def bindM_def)
qed

text \<open>C4: An authorization is consumed at most once in the life of the system: when an operation consumed it, no
  operation after any sequence of requests consumes it again.\<close>

theorem authorization_single_use:
  assumes "db_ok w" and "consume inp E w = (Inr (), v)" and "(api_step E)\<^sup>*\<^sup>* v w'"
    and "cs_authorizationId inp' = cs_authorizationId inp"
  shows "\<exists>e. fst (consume inp' E w') = Inl e"
proof -
  have "evolves v w'" using api_steps_sound [OF assms(3)] by (simp add: sound_step_def)
  from consumed_refused [OF assms(2,1) this assms(4)] show ?thesis .
qed

section \<open>Witnesses\<close>

theorem purchase_never_completes_witness:
  "\<exists>e v. investments_create ''n0'' ex_purchase ex_env ex_state = (Inl e, v)"
  by (rule purchase_never_completes [OF ex_state_reachable])

theorem purchase_blocks_receivable_witness:
  "let w' = snd (investments_create ''new'' ex_purchase ex_env ex_world) in
   find_row inv_receivableId (ci_receivableId ex_purchase) (investments w') \<noteq> None
   \<and> investments_create ''pme'' ex_purchase ex_env w' = (Inl unavailable, w')"
  unfolding Let_def
  by (rule purchase_blocks_receivable [OF ex_world_ok runI, OF ex_reserved refl rtranclp.rtrancl_refl])

theorem authorization_single_use_witness:
  "\<exists>e. fst (consume ex_consumption ex_env (snd (consume ex_consumption ex_env ex_world))) = Inl e"
  by (rule authorization_single_use [OF ex_world_ok runI, OF ex_consume rtranclp.rtrancl_refl refl])

end
